(* ===== verification/Prelude.thy ===== *)
theory Prelude
  imports Main "HOL-Library.State_Monad"
begin

text \<open>
  Shared base of the development: results of fallible Go calls, the state monad that threads the
  server through a handler, and a small calculus of triples for it.

  A Go function that returns \<open>(T, error)\<close> is a value of \<open>'e + 'a\<close>, \<open>Inl\<close> being the error. Code that
  reads or writes server state is a \<open>('s, 'a) state\<close> of \<open>HOL-Library.State_Monad\<close>; its calls are
  sequenced in the order the source makes them. \<open>valid P m Q\<close> says that \<open>m\<close>, started where \<open>P\<close> holds,
  returns a value and a state that satisfy \<open>Q\<close>; \<open>keeps I m\<close> is the special case of an invariant.
  The rules are collected in \<open>triples\<close> and the frame facts of the single operations in \<open>frames\<close>.
\<close>

named_theorems triples \<open>rules of the triple calculus, one per way of building a program\<close>

named_theorems frames \<open>what an operation leaves unchanged\<close>

subsection \<open>Results\<close>

abbreviation ok :: "'a \<Rightarrow> 'e + 'a" where
  "ok \<equiv> Inr"

abbreviation fail :: "'e \<Rightarrow> 'e + 'a" where
  "fail \<equiv> Inl"

text \<open>\<open>x, err := f(); if err != nil { return err }; g(x)\<close> for pure code.\<close>

fun and_then :: "'e + 'a \<Rightarrow> ('a \<Rightarrow> 'e + 'b) \<Rightarrow> 'e + 'b" where
  "and_then (Inl e) g = Inl e"
| "and_then (Inr x) g = g x"

lemma and_then_Inr [simp]: "and_then r g = Inr y \<longleftrightarrow> (\<exists>x. r = Inr x \<and> g x = Inr y)"
  by (cases r) auto

lemma and_then_Inl: "and_then r g = Inl e \<longleftrightarrow> r = Inl e \<or> (\<exists>x. r = Inr x \<and> g x = Inl e)"
  by (cases r) auto

text \<open>The same for code with effects.\<close>

definition attempt :: "('s, 'e + 'a) state \<Rightarrow> ('a \<Rightarrow> ('s, 'e + 'b) state) \<Rightarrow> ('s, 'e + 'b) state" where
  "attempt m f = do {
     r \<leftarrow> m;
     (case r of Inl e \<Rightarrow> State_Monad.return (Inl e) | Inr x \<Rightarrow> f x)
   }"

abbreviation ret :: "'a \<Rightarrow> ('s, 'a) state" where
  "ret \<equiv> State_Monad.return"

definition gets :: "('s \<Rightarrow> 'a) \<Rightarrow> ('s, 'a) state" where
  "gets f = State (\<lambda>s. (f s, s))"

definition modify :: "('s \<Rightarrow> 's) \<Rightarrow> ('s, unit) state" where
  "modify f = State (\<lambda>s. ((), f s))"

definition skip :: "('s, unit) state" where
  "skip = State (\<lambda>s. ((), s))"

lemma run_gets [simp]: "run_state (gets f) s = (f s, s)"
  by (simp add: gets_def)

lemma run_modify [simp]: "run_state (modify f) s = ((), f s)"
  by (simp add: modify_def)

lemma run_skip [simp]: "run_state skip s = ((), s)"
  by (simp add: skip_def)

lemma run_attempt [simp]:
  "run_state (attempt m f) s =
     (case run_state m s of (Inl e, t) \<Rightarrow> (Inl e, t) | (Inr x, t) \<Rightarrow> run_state (f x) t)"
  by (auto simp: attempt_def split: prod.splits sum.splits)

text \<open>The state after a run.\<close>

definition exec :: "('s, 'a) state \<Rightarrow> 's \<Rightarrow> 's" where
  "exec m s = snd (run_state m s)"

lemma exec_simps [simp]:
  "exec (ret x) s = s"
  "exec (gets f) s = s"
  "exec (modify g) s = g s"
  "exec skip s = s"
  by (simp_all add: exec_def)

subsection \<open>Triples\<close>

definition valid :: "('s \<Rightarrow> bool) \<Rightarrow> ('s, 'a) state \<Rightarrow> ('a \<Rightarrow> 's \<Rightarrow> bool) \<Rightarrow> bool" where
  "valid P m Q \<longleftrightarrow> (\<forall>s. P s \<longrightarrow> (case run_state m s of (x, t) \<Rightarrow> Q x t))"

lemma validI: "(\<And>s x t. P s \<Longrightarrow> run_state m s = (x, t) \<Longrightarrow> Q x t) \<Longrightarrow> valid P m Q"
  by (auto simp: valid_def)

lemma validD: "valid P m Q \<Longrightarrow> P s \<Longrightarrow> run_state m s = (x, t) \<Longrightarrow> Q x t"
  by (auto simp: valid_def)

lemma valid_return [triples]: "valid (Q x) (ret x) Q"
  by (simp add: valid_def)

lemma valid_gets [triples]: "valid (\<lambda>s. Q (f s) s) (gets f) Q"
  by (simp add: valid_def)

lemma valid_modify [triples]: "valid (\<lambda>s. Q () (f s)) (modify f) Q"
  by (simp add: valid_def)

lemma valid_skip [triples]: "valid (Q ()) skip Q"
  by (simp add: valid_def)

lemma valid_bind:
  "valid P m R \<Longrightarrow> (\<And>x. valid (R x) (f x) Q) \<Longrightarrow> valid P (State_Monad.bind m f) Q"
  by (fastforce simp: valid_def split: prod.splits)

lemma valid_weaken:
  "valid P' m Q' \<Longrightarrow> (\<And>s. P s \<Longrightarrow> P' s) \<Longrightarrow> (\<And>x s. Q' x s \<Longrightarrow> Q x s) \<Longrightarrow> valid P m Q"
  by (fastforce simp: valid_def split: prod.splits)

subsection \<open>Invariants of programs\<close>

definition keeps :: "('s \<Rightarrow> bool) \<Rightarrow> ('s, 'a) state \<Rightarrow> bool" where
  "keeps I m \<longleftrightarrow> (\<forall>s. I s \<longrightarrow> I (exec m s))"

lemma keepsI: "(\<And>s. I s \<Longrightarrow> I (exec m s)) \<Longrightarrow> keeps I m"
  by (simp add: keeps_def)

lemma keepsD: "keeps I m \<Longrightarrow> I s \<Longrightarrow> I (exec m s)"
  by (simp add: keeps_def)

lemma keeps_run: "keeps I m \<Longrightarrow> I s \<Longrightarrow> run_state m s = (x, t) \<Longrightarrow> I t"
  by (auto simp: keeps_def exec_def)

lemma keeps_valid: "keeps I m \<longleftrightarrow> valid I m (\<lambda>_. I)"
  by (auto simp: keeps_def valid_def exec_def split_def)

lemma keeps_return [triples]: "keeps I (ret x)"
  by (simp add: keeps_def)

lemma keeps_gets [triples]: "keeps I (gets f)"
  by (simp add: keeps_def)

lemma keeps_skip [triples]: "keeps I skip"
  by (simp add: keeps_def)

lemma keeps_bind [triples]:
  "keeps I m \<Longrightarrow> (\<And>x. keeps I (f x)) \<Longrightarrow> keeps I (State_Monad.bind m f)"
  by (auto simp: keeps_def exec_def split_def)

text \<open>With what is known of every result of the first program.\<close>

lemma keeps_bind_result:
  assumes "keeps I m" and "\<And>s x t. run_state m s = (x, t) \<Longrightarrow> P x" and "\<And>x. P x \<Longrightarrow> keeps I (f x)"
  shows "keeps I (State_Monad.bind m f)"
  unfolding keeps_def
proof (intro allI impI)
  fix s
  assume "I s"
  then show "I (exec (State_Monad.bind m f) s)"
    using keeps_run [OF assms(1)] keepsD [OF assms(3)] assms(2)
    by (cases "run_state m s") (simp add: exec_def)
qed

lemma keeps_attempt [triples]:
  "keeps I m \<Longrightarrow> (\<And>x. keeps I (f x)) \<Longrightarrow> keeps I (attempt m f)"
  by (auto simp: attempt_def intro!: keeps_bind keeps_return split: sum.splits)

lemma keeps_if [triples]: "keeps I m \<Longrightarrow> keeps I n \<Longrightarrow> keeps I (if b then m else n)"
  by simp

lemma keeps_case_sum [triples]:
  "(\<And>e. r = Inl e \<Longrightarrow> keeps I (f e)) \<Longrightarrow> (\<And>x. r = Inr x \<Longrightarrow> keeps I (g x)) \<Longrightarrow>
   keeps I (case r of Inl e \<Rightarrow> f e | Inr x \<Rightarrow> g x)"
  by (cases r) auto

lemma keeps_case_option [triples]:
  "(r = None \<Longrightarrow> keeps I m) \<Longrightarrow> (\<And>x. r = Some x \<Longrightarrow> keeps I (g x)) \<Longrightarrow>
   keeps I (case r of None \<Rightarrow> m | Some x \<Rightarrow> g x)"
  by (cases r) auto

lemma keeps_case_prod [triples]:
  "(\<And>x y. keeps I (g x y)) \<Longrightarrow> keeps I (case r of (x, y) \<Rightarrow> g x y)"
  by (cases r) auto

lemma keeps_case_list [triples]:
  "keeps I m \<Longrightarrow> (\<And>x xs. keeps I (g x xs)) \<Longrightarrow> keeps I (case r of [] \<Rightarrow> m | x # xs \<Rightarrow> g x xs)"
  by (cases r) auto

lemma keeps_let [triples]: "keeps I (f x) \<Longrightarrow> keeps I (let y = x in f y)"
  by simp

lemma keeps_conj: "keeps I m \<Longrightarrow> keeps J m \<Longrightarrow> keeps (\<lambda>s. I s \<and> J s) m"
  by (auto simp: keeps_def)

subsection \<open>Frames: a component of the state that a program does not touch\<close>

definition same :: "('s \<Rightarrow> 'b) \<Rightarrow> ('s, 'a) state \<Rightarrow> bool" where
  "same f m \<longleftrightarrow> (\<forall>s. f (exec m s) = f s)"

lemma sameI: "(\<And>s. f (exec m s) = f s) \<Longrightarrow> same f m"
  by (simp add: same_def)

lemma sameD: "same f m \<Longrightarrow> f (exec m s) = f s"
  by (simp add: same_def)

lemma same_run: "same f m \<Longrightarrow> run_state m s = (x, t) \<Longrightarrow> f t = f s"
  by (metis exec_def same_def snd_conv)

lemma same_keeps: "same f m \<longleftrightarrow> (\<forall>v. keeps (\<lambda>s. f s = v) m)"
  by (auto simp: same_def keeps_def)

lemma same_return [triples]: "same f (ret x)"
  by (simp add: same_def)

lemma same_gets [triples]: "same f (gets g)"
  by (simp add: same_def)

lemma same_skip [triples]: "same f skip"
  by (simp add: same_def)

lemma same_modify [triples]: "(\<And>s. f (g s) = f s) \<Longrightarrow> same f (modify g)"
  by (simp add: same_def)

lemma same_bind [triples]:
  "same f m \<Longrightarrow> (\<And>x. same f (g x)) \<Longrightarrow> same f (State_Monad.bind m g)"
  by (simp add: same_keeps keeps_bind)

lemma same_attempt [triples]: "same f m \<Longrightarrow> (\<And>x. same f (g x)) \<Longrightarrow> same f (attempt m g)"
  by (simp add: same_keeps keeps_attempt)

lemma same_if [triples]: "same f m \<Longrightarrow> same f n \<Longrightarrow> same f (if b then m else n)"
  by simp

lemma same_case_sum [triples]:
  "(\<And>e. same f (g e)) \<Longrightarrow> (\<And>x. same f (h x)) \<Longrightarrow> same f (case r of Inl e \<Rightarrow> g e | Inr x \<Rightarrow> h x)"
  by (cases r) auto

lemma same_case_option [triples]:
  "same f m \<Longrightarrow> (\<And>x. same f (g x)) \<Longrightarrow> same f (case r of None \<Rightarrow> m | Some x \<Rightarrow> g x)"
  by (cases r) auto

lemma same_case_prod [triples]:
  "(\<And>x y. same f (g x y)) \<Longrightarrow> same f (case r of (x, y) \<Rightarrow> g x y)"
  by (cases r) auto

lemma same_case_list [triples]:
  "same f m \<Longrightarrow> (\<And>x xs. same f (g x xs)) \<Longrightarrow> same f (case r of [] \<Rightarrow> m | x # xs \<Rightarrow> g x xs)"
  by (cases r) auto

lemma same_let [triples]: "same f (g x) \<Longrightarrow> same f (let y = x in g y)"
  by simp

subsection \<open>Lists\<close>

text \<open>\<open>slices.Contains\<close> is membership; a loop that returns at the first hit is \<open>find\<close>.\<close>

lemma find_None_iff_all: "List.find P xs = None \<longleftrightarrow> (\<forall>x \<in> set xs. \<not> P x)"
  by (auto simp: find_None_iff)

lemma find_SomeD: "List.find P xs = Some x \<Longrightarrow> x \<in> set xs \<and> P x"
  by (auto simp: find_Some_iff)

end
