(* ===== verification/GoStrings.thy ===== *)
theory GoStrings
  imports Prelude "HOL-Library.Sublist" "HOL-Library.Char_ord" "HOL-Library.List_Lexorder"
begin

text \<open>
  The functions of Go's package \<open>strings\<close> (and the trimming and splitting built on it) that the program
  calls. A Go string is a list of bytes, a HOL \<open>string\<close> a list of 8-bit characters, so lengths, slices
  and comparisons agree byte for byte. Case mapping and white space follow the ASCII part of the
  library: the letters A to Z and the six characters of \<open>unicode.IsSpace\<close> below 0x80. Go also maps
  letters and spaces beyond ASCII, which the inputs of this program (header schemes, provider names
  and types, scopes, client identifiers) do not use.
\<close>

subsection \<open>Characters\<close>

definition is_space :: "char \<Rightarrow> bool" where
  "is_space c \<longleftrightarrow> c \<in> set [CHR 0x09, CHR 0x0A, CHR 0x0B, CHR 0x0C, CHR 0x0D, CHR 0x20]"

definition lower_char :: "char \<Rightarrow> char" where
  "lower_char c = (let n = (of_char c :: nat) in
     if 65 \<le> n \<and> n \<le> 90 then char_of (n + 32) else c)"

definition to_lower :: "string \<Rightarrow> string" where
  "to_lower s = map lower_char s"

lemma lower_char_idem [simp]: "lower_char (lower_char c) = lower_char c"
  by (simp add: lower_char_def Let_def)

lemma to_lower_idem [simp]: "to_lower (to_lower s) = to_lower s"
  by (simp add: to_lower_def)

lemma to_lower_simps [simp]:
  "to_lower [] = []"
  "to_lower (c # s) = lower_char c # to_lower s"
  "length (to_lower s) = length s"
  by (simp_all add: to_lower_def)

lemma to_lower_append [simp]: "to_lower (s @ t) = to_lower s @ to_lower t"
  by (simp add: to_lower_def)

lemma to_lower_take: "take n (to_lower s) = to_lower (take n s)"
  by (simp add: to_lower_def take_map)

text \<open>\<open>strings.EqualFold\<close> is equality up to case.\<close>

definition equal_fold :: "string \<Rightarrow> string \<Rightarrow> bool" where
  "equal_fold s t \<longleftrightarrow> to_lower s = to_lower t"

lemma equal_fold_refl [simp]: "equal_fold s s"
  by (simp add: equal_fold_def)

subsection \<open>Prefixes, suffixes, substrings\<close>

definition has_prefix :: "string \<Rightarrow> string \<Rightarrow> bool" where
  "has_prefix s p \<longleftrightarrow> take (length p) s = p"

definition has_suffix :: "string \<Rightarrow> string \<Rightarrow> bool" where
  "has_suffix s p \<longleftrightarrow> drop (length s - length p) s = p"

definition trim_suffix :: "string \<Rightarrow> string \<Rightarrow> string" where
  "trim_suffix s p = (if has_suffix s p then take (length s - length p) s else s)"

fun contains :: "string \<Rightarrow> string \<Rightarrow> bool" where
  "contains [] p \<longleftrightarrow> p = []"
| "contains (c # s) p \<longleftrightarrow> has_prefix (c # s) p \<or> contains s p"

lemma has_prefix_iff: "has_prefix s p \<longleftrightarrow> (\<exists>t. s = p @ t)"
  by (metis append_eq_conv_conj append_take_drop_id has_prefix_def)

lemma has_prefix_append [simp]: "has_prefix (p @ t) p"
  by (simp add: has_prefix_def)

lemma has_suffix_iff: "has_suffix s p \<longleftrightarrow> (\<exists>t. s = t @ p)"
proof
  assume "has_suffix s p"
  then have "s = take (length s - length p) s @ p"
    by (metis append_take_drop_id has_suffix_def)
  then show "\<exists>t. s = t @ p" ..
qed (auto simp: has_suffix_def)

lemma has_suffix_append [simp]: "has_suffix (t @ p) p"
  by (auto simp: has_suffix_iff)

lemma trim_suffix_append [simp]: "trim_suffix (t @ p) p = t"
  by (simp add: trim_suffix_def)

lemma contains_iff: "contains s p \<longleftrightarrow> (\<exists>a b. s = a @ p @ b)"
proof (induction s)
  case (Cons c s)
  have "contains (c # s) p \<longleftrightarrow> (\<exists>b. c # s = p @ b) \<or> (\<exists>a b. s = a @ p @ b)"
    using Cons by (simp add: has_prefix_iff)
  also have "\<dots> \<longleftrightarrow> (\<exists>a b. c # s = a @ p @ b)"
    by (metis append_Cons append_self_conv2 list.exhaust_sel list.sel(3))
  finally show ?case .
qed auto

lemma contains_self [simp]: "contains s s"
  using contains_iff by (metis append.right_neutral append_self_conv2)

subsection \<open>Trimming and splitting\<close>

definition trim_left_func :: "(char \<Rightarrow> bool) \<Rightarrow> string \<Rightarrow> string" where
  "trim_left_func f s = dropWhile f s"

definition trim_right_func :: "(char \<Rightarrow> bool) \<Rightarrow> string \<Rightarrow> string" where
  "trim_right_func f s = rev (dropWhile f (rev s))"

definition trim_space :: "string \<Rightarrow> string" where
  "trim_space s = trim_right_func is_space (trim_left_func is_space s)"

definition trim_right :: "string \<Rightarrow> char \<Rightarrow> string" where
  "trim_right s c = trim_right_func (\<lambda>x. x = c) s"

text \<open>\<open>strings.Cut\<close> at a one-byte separator: what is before it, what is after it, whether it occurs.\<close>

fun cut :: "char \<Rightarrow> string \<Rightarrow> string \<times> string \<times> bool" where
  "cut c [] = ([], [], False)"
| "cut c (x # s) = (if x = c then ([], s, True) else (let (b, a, f) = cut c s in (x # b, a, f)))"

text \<open>\<open>strings.Split(s, sep)\<close> and \<open>strings.SplitN(s, sep, 2)\<close> for a one-byte separator.\<close>

fun split_on :: "char \<Rightarrow> string \<Rightarrow> string list" where
  "split_on c [] = [[]]"
| "split_on c (x # s) =
     (if x = c then [] # split_on c s
      else (case split_on c s of [] \<Rightarrow> [[x]] | f # fs \<Rightarrow> (x # f) # fs))"

definition split_n2 :: "char \<Rightarrow> string \<Rightarrow> string list" where
  "split_n2 c s = (case cut c s of (b, a, f) \<Rightarrow> if f then [b, a] else [s])"

text \<open>\<open>strings.Fields\<close>.\<close>

function str_fields :: "string \<Rightarrow> string list" where
  "str_fields s = (case dropWhile is_space s of
       [] \<Rightarrow> []
     | c # t \<Rightarrow> takeWhile (\<lambda>x. \<not> is_space x) (c # t) #
               str_fields (dropWhile (\<lambda>x. \<not> is_space x) t))"
  by pat_completeness auto
termination
proof (relation "measure length", goal_cases)
  case (2 s c t)
  have "length (dropWhile (\<lambda>x. \<not> is_space x) t) \<le> length t"
    by (rule length_dropWhile_le)
  moreover have "length (dropWhile is_space s) \<le> length s"
    by (rule length_dropWhile_le)
  ultimately show ?case
    using 2 by simp
qed simp

declare str_fields.simps [simp del]

lemma dropWhile_hd: "\<not> f (hd s) \<Longrightarrow> dropWhile f s = s"
  by (cases s) auto

lemma trim_space_fixed:
  assumes "s = [] \<or> \<not> is_space (hd s) \<and> \<not> is_space (last s)"
  shows "trim_space s = s"
proof (cases "s = []")
  case False
  with assms have "dropWhile is_space (rev s) = rev s"
    by (intro dropWhile_hd) (simp add: hd_rev)
  with assms False show ?thesis
    by (simp add: trim_space_def trim_left_func_def trim_right_func_def dropWhile_hd)
qed (simp add: trim_space_def trim_left_func_def trim_right_func_def)

lemma trim_space_strip_left [simp]: "is_space c \<Longrightarrow> trim_space (c # s) = trim_space s"
  by (simp add: trim_space_def trim_left_func_def)

lemma trim_space_set: "set (trim_space s) \<subseteq> set s"
  by (auto simp: trim_space_def trim_left_func_def trim_right_func_def
           dest!: set_dropWhileD)

lemma cut_notin: "c \<notin> set b \<Longrightarrow> cut c (b @ c # a) = (b, a, True)"
  by (induction b) auto

lemma cut_absent: "c \<notin> set s \<Longrightarrow> cut c s = (s, [], False)"
  by (induction s) auto

lemma cut_found: "cut c s = (b, a, True) \<Longrightarrow> s = b @ c # a \<and> c \<notin> set b"
  by (induction s arbitrary: b) (auto split: if_splits prod.splits)

lemma cut_not_found: "cut c s = (b, a, False) \<Longrightarrow> b = s \<and> c \<notin> set s"
  by (induction s arbitrary: b) (auto split: if_splits prod.splits)

lemma split_n2_pair: "c \<notin> set b \<Longrightarrow> split_n2 c (b @ c # a) = [b, a]"
  by (simp add: split_n2_def cut_notin)

lemma length_split_n2: "length (split_n2 c s) = 2 \<longleftrightarrow> c \<in> set s"
  by (auto simp: split_n2_def split: prod.splits dest: cut_not_found cut_found)

lemma split_on_nonempty [simp]: "split_on c s \<noteq> []"
  by (induction s) (auto split: list.splits)

lemma split_on_absent: "c \<notin> set s \<Longrightarrow> split_on c s = [s]"
  by (induction s) auto

lemma split_on_append: "split_on c (a @ c # b) = split_on c a @ split_on c b"
  by (induction a) (auto split: list.splits)

lemma split_on_last: "c \<notin> set b \<Longrightarrow> last (split_on c (a @ c # b)) = b"
  by (simp add: split_on_append split_on_absent)

lemma str_fields_no_space: "f \<in> set (str_fields s) \<Longrightarrow> f \<noteq> [] \<and> (\<forall>c \<in> set f. \<not> is_space c)"
proof (induction s rule: str_fields.induct)
  case (1 s)
  show ?case
  proof (cases "dropWhile is_space s")
    case Nil
    then have "str_fields s = []" by (subst str_fields.simps) (simp only: list.case)
    with "1.prems" show ?thesis by simp
  next
    case (Cons c t)
    then have "\<not> is_space c"
      by (metis hd_dropWhile list.distinct(1) list.sel(1))
    have "f = takeWhile (\<lambda>x. \<not> is_space x) (c # t) \<or>
          f \<in> set (str_fields (dropWhile (\<lambda>x. \<not> is_space x) t))"
      using "1.prems" Cons by (subst (asm) str_fields.simps) (auto simp del: takeWhile.simps)
    then show ?thesis
    proof
      assume f: "f = takeWhile (\<lambda>x. \<not> is_space x) (c # t)"
      with \<open>\<not> is_space c\<close> show ?thesis
        by (auto dest: set_takeWhileD)
    next
      assume "f \<in> set (str_fields (dropWhile (\<lambda>x. \<not> is_space x) t))"
      then show ?thesis
        by (rule "1.IH" [OF Cons])
    qed
  qed
qed

lemma str_fields_empty [simp]: "str_fields [] = []"
  by (subst str_fields.simps) simp

end
