(* ===== verification/GoEncoding.thy ===== *)
theory GoEncoding
  imports GoStrings "HOL-Library.Word"
begin

unbundle bit_operations_syntax

text \<open>
  \<open>encoding/base64\<close> (the padded standard alphabet), \<open>encoding/hex\<close> and \<open>crypto/sha512\<close>, as far as the
  token validators and the client store call them. The main facts are that decoding inverts encoding
  and that a hashed secret is always 128 lower-case hexadecimal digits.
\<close>

subsection \<open>Base64\<close>

definition b64_char :: "nat \<Rightarrow> char" where
  "b64_char n = char_of (if n < 26 then n + 65 else if n < 52 then n + 71
     else if n < 62 then n - 4 else if n = 62 then 43 else (47 :: nat))"

definition b64_val :: "char \<Rightarrow> nat option" where
  "b64_val c = (let n = (of_char c :: nat) in
     if 65 \<le> n \<and> n \<le> 90 then Some (n - 65)
     else if 97 \<le> n \<and> n \<le> 122 then Some (n - 71)
     else if 48 \<le> n \<and> n \<le> 57 then Some (n + 4)
     else if n = 43 then Some 62
     else if n = 47 then Some 63 else None)"

fun encode64 :: "string \<Rightarrow> string" where
  "encode64 [] = []"
| "encode64 [a] = (let x = (of_char a :: nat) in
     [b64_char (x div 4), b64_char (x mod 4 * 16), CHR ''='', CHR ''=''])"
| "encode64 [a, b] = (let x = (of_char a :: nat); y = (of_char b :: nat) in
     [b64_char (x div 4), b64_char (x mod 4 * 16 + y div 16), b64_char (y mod 16 * 4), CHR ''=''])"
| "encode64 (a # b # c # r) =
     (let x = (of_char a :: nat); y = (of_char b :: nat); z = (of_char c :: nat) in
      b64_char (x div 4) # b64_char (x mod 4 * 16 + y div 16) #
      b64_char (y mod 16 * 4 + z div 64) # b64_char (z mod 64) # encode64 r)"

text \<open>
  \<open>DecodeString\<close> skips carriage returns and line feeds anywhere, wants groups of four with the last
  one padded, refuses anything after the padding, and ignores left-over bits (the encoding is not
  strict). None stands for \<open>CorruptInputError\<close>.
\<close>

fun decode_quads :: "string \<Rightarrow> string option" where
  "decode_quads [] = Some []"
| "decode_quads (a # b # c # d # r) =
     (case (b64_val a, b64_val b) of
        (Some x, Some y) \<Rightarrow>
          if c = CHR ''='' then
            (if d = CHR ''='' \<and> r = [] then Some [char_of (x * 4 + y div 16)] else None)
          else (case b64_val c of
              None \<Rightarrow> None
            | Some z \<Rightarrow>
                if d = CHR ''='' then
                  (if r = [] then Some [char_of (x * 4 + y div 16), char_of (y mod 16 * 16 + z div 4)]
                   else None)
                else (case b64_val d of
                    None \<Rightarrow> None
                  | Some w \<Rightarrow> map_option
                      (\<lambda>t. char_of (x * 4 + y div 16) # char_of (y mod 16 * 16 + z div 4) #
                           char_of (z mod 4 * 64 + w) # t)
                      (decode_quads r)))
      | _ \<Rightarrow> None)"
| "decode_quads _ = None"

definition decode64 :: "string \<Rightarrow> string option" where
  "decode64 s = decode_quads (filter (\<lambda>c. c \<noteq> CHR 0x0A \<and> c \<noteq> CHR 0x0D) s)"

lemma of_char_lt [simp]: "(of_char c :: nat) < 256"
  using nat_of_char_less_256 .

lemma b64_char_val [simp]: "n < 64 \<Longrightarrow> b64_val (b64_char n) = Some n"
  by (auto simp: b64_val_def b64_char_def Let_def)

lemma b64_val_printable: "b64_val c = Some n \<Longrightarrow> c \<noteq> CHR ''='' \<and> \<not> is_space c"
  by (auto simp: b64_val_def is_space_def)

lemma b64_char_clean [simp]:
  "n < 64 \<Longrightarrow> b64_char n \<noteq> CHR ''=''" "n < 64 \<Longrightarrow> \<not> is_space (b64_char n)"
  using b64_val_printable [OF b64_char_val] by blast+

lemma equals_no_space [simp]: "\<not> is_space (CHR ''='')"
  by (simp add: is_space_def)

lemma sextets [simp]:
  "of_char a div 4 < (64 :: nat)" "of_char a mod 4 * 16 < (64 :: nat)"
  "of_char a mod 4 * 16 + of_char b div 16 < (64 :: nat)" "of_char b mod 16 * 4 < (64 :: nat)"
  "of_char b mod 16 * 4 + of_char d div 64 < (64 :: nat)"
  using of_char_lt [of a] of_char_lt [of b] of_char_lt [of d] by linarith+

lemma encode64_no_space: "\<forall>c \<in> set (encode64 s). \<not> is_space c"
  by (induction s rule: encode64.induct) (simp_all add: Let_def)

lemma b64_reassemble [simp]:
  shows "of_char a div 16 div 16 = (0 :: nat)" "of_char a div 64 div 4 = (0 :: nat)"
    and "of_char a div 16 mod 16 = (of_char a div 16 :: nat)"
    and "of_char a div 64 mod 4 = (of_char a div 64 :: nat)"
  by (simp_all add: less_mult_imp_div_less)

lemma decode_quads_encode: "decode_quads (encode64 s) = Some s"
  by (induction s rule: encode64.induct) (simp_all add: Let_def)

theorem decode64_encode64: "decode64 (encode64 s) = Some s"
proof -
  have "filter (\<lambda>c. c \<noteq> CHR 0x0A \<and> c \<noteq> CHR 0x0D) (encode64 s) = encode64 s"
    using encode64_no_space by (auto simp: filter_id_conv is_space_def)
  then show ?thesis
    by (simp add: decode64_def decode_quads_encode)
qed

text \<open>Encoded text survives the trimming that header values undergo.\<close>

lemma trim_space_encode64 [simp]: "trim_space (encode64 s) = encode64 s"
  by (rule trim_space_fixed) (meson encode64_no_space hd_in_set last_in_set)

subsection \<open>Hexadecimal digits\<close>

definition hex_digit :: "nat \<Rightarrow> char" where
  "hex_digit n = char_of (if n < 10 then n + 48 else n + (87 :: nat))"

definition hex_encode :: "string \<Rightarrow> string" where
  "hex_encode s = concat (map (\<lambda>c. let n = (of_char c :: nat) in
     [hex_digit (n div 16), hex_digit (n mod 16)]) s)"

lemma length_hex_encode [simp]: "length (hex_encode s) = 2 * length s"
  by (induction s) (auto simp: hex_encode_def Let_def)

subsection \<open>SHA-512\<close>

text \<open>FIPS 180-4: the round constants, the initial hash value, the message schedule and the rounds.\<close>

definition sha512_K :: "64 word list" where
  "sha512_K = [
   0x428A2F98D728AE22, 0x7137449123EF65CD, 0xB5C0FBCFEC4D3B2F, 0xE9B5DBA58189DBBC,
   0x3956C25BF348B538, 0x59F111F1B605D019, 0x923F82A4AF194F9B, 0xAB1C5ED5DA6D8118,
   0xD807AA98A3030242, 0x12835B0145706FBE, 0x243185BE4EE4B28C, 0x550C7DC3D5FFB4E2,
   0x72BE5D74F27B896F, 0x80DEB1FE3B1696B1, 0x9BDC06A725C71235, 0xC19BF174CF692694,
   0xE49B69C19EF14AD2, 0xEFBE4786384F25E3, 0x0FC19DC68B8CD5B5, 0x240CA1CC77AC9C65,
   0x2DE92C6F592B0275, 0x4A7484AA6EA6E483, 0x5CB0A9DCBD41FBD4, 0x76F988DA831153B5,
   0x983E5152EE66DFAB, 0xA831C66D2DB43210, 0xB00327C898FB213F, 0xBF597FC7BEEF0EE4,
   0xC6E00BF33DA88FC2, 0xD5A79147930AA725, 0x06CA6351E003826F, 0x142929670A0E6E70,
   0x27B70A8546D22FFC, 0x2E1B21385C26C926, 0x4D2C6DFC5AC42AED, 0x53380D139D95B3DF,
   0x650A73548BAF63DE, 0x766A0ABB3C77B2A8, 0x81C2C92E47EDAEE6, 0x92722C851482353B,
   0xA2BFE8A14CF10364, 0xA81A664BBC423001, 0xC24B8B70D0F89791, 0xC76C51A30654BE30,
   0xD192E819D6EF5218, 0xD69906245565A910, 0xF40E35855771202A, 0x106AA07032BBD1B8,
   0x19A4C116B8D2D0C8, 0x1E376C085141AB53, 0x2748774CDF8EEB99, 0x34B0BCB5E19B48A8,
   0x391C0CB3C5C95A63, 0x4ED8AA4AE3418ACB, 0x5B9CCA4F7763E373, 0x682E6FF3D6B2B8A3,
   0x748F82EE5DEFB2FC, 0x78A5636F43172F60, 0x84C87814A1F0AB72, 0x8CC702081A6439EC,
   0x90BEFFFA23631E28, 0xA4506CEBDE82BDE9, 0xBEF9A3F7B2C67915, 0xC67178F2E372532B,
   0xCA273ECEEA26619C, 0xD186B8C721C0C207, 0xEADA7DD6CDE0EB1E, 0xF57D4F7FEE6ED178,
   0x06F067AA72176FBA, 0x0A637DC5A2C898A6, 0x113F9804BEF90DAE, 0x1B710B35131C471B,
   0x28DB77F523047D84, 0x32CAAB7B40C72493, 0x3C9EBE0A15C9BEBC, 0x431D67C49C100D4C,
   0x4CC5D4BECB3E42B6, 0x597F299CFC657E2A, 0x5FCB6FAB3AD6FAEC, 0x6C44198C4A475817]"

definition sha512_H0 :: "64 word list" where
  "sha512_H0 = [
   0x6A09E667F3BCC908, 0xBB67AE8584CAA73B, 0x3C6EF372FE94F82B, 0xA54FF53A5F1D36F1,
   0x510E527FADE682D1, 0x9B05688C2B3E6C1F, 0x1F83D9ABFB41BD6B, 0x5BE0CD19137E2179]"

definition rotr64 :: "nat \<Rightarrow> 64 word \<Rightarrow> 64 word" where
  "rotr64 n x = drop_bit n x OR push_bit (64 - n) x"

definition be_word :: "string \<Rightarrow> 64 word" where
  "be_word bs = fold (\<lambda>b w. push_bit 8 w OR of_nat (of_char b)) bs 0"

definition be_bytes :: "64 word \<Rightarrow> string" where
  "be_bytes w = map (\<lambda>i. char_of (unat (drop_bit (8 * i) w AND 255))) (rev [0..<8])"

definition sha512_pad :: "string \<Rightarrow> string" where
  "sha512_pad s = (let n = length s in
     s @ CHR 0x80 # replicate ((239 - n mod 128) mod 128) CHR 0x00 @
     replicate 8 CHR 0x00 @ be_bytes (of_nat (8 * n)))"

fun sha512_schedule :: "nat \<Rightarrow> 64 word list \<Rightarrow> 64 word list" where
  "sha512_schedule 0 ws = ws"
| "sha512_schedule (Suc k) ws = sha512_schedule k (ws @ [let t = length ws;
     a = ws ! (t - 2); b = ws ! (t - 15) in
     (rotr64 19 a XOR rotr64 61 a XOR drop_bit 6 a) + ws ! (t - 7) +
     (rotr64 1 b XOR rotr64 8 b XOR drop_bit 7 b) + ws ! (t - 16)])"

fun sha512_round :: "64 word \<times> 64 word \<Rightarrow> 64 word list \<Rightarrow> 64 word list" where
  "sha512_round (k, w) [a, b, c, d, e, f, g, h] =
     (let t1 = h + (rotr64 14 e XOR rotr64 18 e XOR rotr64 41 e) +
               ((e AND f) XOR (NOT e AND g)) + k + w;
          t2 = (rotr64 28 a XOR rotr64 34 a XOR rotr64 39 a) +
               ((a AND b) XOR (a AND c) XOR (b AND c))
      in [t1 + t2, a, b, c, d + t1, e, f, g])"
| "sha512_round _ hs = hs"

fun chunks :: "nat \<Rightarrow> 'a list \<Rightarrow> 'a list list" where
  "chunks 0 xs = []"
| "chunks (Suc k) xs = (let n = length xs div Suc k in take n xs # chunks k (drop n xs))"

definition sha512_block :: "64 word list \<Rightarrow> string \<Rightarrow> 64 word list" where
  "sha512_block hs bs = (let ws = sha512_schedule 64 (map be_word (chunks 16 bs)) in
     map2 (+) hs (fold sha512_round (zip sha512_K ws) hs))"

definition sha512 :: "string \<Rightarrow> string" where
  "sha512 s = (let p = sha512_pad s in
     concat (map be_bytes (foldl sha512_block sha512_H0 (chunks (length p div 128) p))))"

text \<open>
  \<open>hash := sha512.New(); hash.Write([]byte(s)); hex.EncodeToString(hash.Sum(nil))\<close>, the hashing of
  the token validator and of the file source.
\<close>

definition sha512_hex :: "string \<Rightarrow> string" where
  "sha512_hex s = hex_encode (sha512 s)"

lemma length_be_bytes [simp]: "length (be_bytes w) = 8"
  by (simp add: be_bytes_def)

lemma length_sha512_round [simp]: "length (sha512_round kw hs) = length hs"
  by (induction kw hs rule: sha512_round.induct) (auto simp: Let_def)

lemma length_sha512_rounds [simp]: "length (fold sha512_round kws hs) = length hs"
  by (induction kws arbitrary: hs) auto

lemma length_sha512_block: "length (sha512_block hs bs) = length hs"
  by (simp add: sha512_block_def Let_def)

lemma length_sha512_blocks: "length (foldl sha512_block hs bss) = length hs"
  by (induction bss arbitrary: hs) (auto simp: length_sha512_block)

lemma length_sha512: "length (sha512 s) = 64"
  by (simp add: sha512_def Let_def length_concat sum_list_triv comp_def length_sha512_blocks
      sha512_H0_def)

lemma length_sha512_hex [simp]: "length (sha512_hex s) = 128"
  by (simp add: sha512_hex_def length_sha512)

lemma sha512_hex_nonempty [simp]: "sha512_hex s \<noteq> []"
  using length_sha512_hex [of s] by (metis list.size(3) zero_neq_numeral)

end
