(* ===== verification/Errors.thy ===== *)
theory Errors
  imports GoEncoding
begin

text \<open>
  \<open>core/auth/error.go\<close>: the error codes, \<open>ErrorMap\<close>, \<open>AuthorizeError\<close> and its HTTP status, and the type
  of all errors the program handles. \<open>errors.As(err, &authErr)\<close> is a case distinction on that type.
\<close>

type_synonym auth_err_code = string

abbreviation AuthErrInvalidCallback :: auth_err_code where
  "AuthErrInvalidCallback \<equiv> ''invalid_callback''"
abbreviation AuthErrCanceled :: auth_err_code where
  "AuthErrCanceled \<equiv> ''canceled''"
abbreviation AuthErrInvalidToken :: auth_err_code where
  "AuthErrInvalidToken \<equiv> ''invalid_token''"
abbreviation AuthErrInvalidScope :: auth_err_code where
  "AuthErrInvalidScope \<equiv> ''invalid_scope''"
abbreviation AuthErrTermsNotAccepted :: auth_err_code where
  "AuthErrTermsNotAccepted \<equiv> ''terms_not_accepted''"
abbreviation AuthErrServer :: auth_err_code where
  "AuthErrServer \<equiv> ''server_error''"
abbreviation AuthErrInvalidClient :: auth_err_code where
  "AuthErrInvalidClient \<equiv> ''invalid_client''"
abbreviation AuthErrNoSession :: auth_err_code where
  "AuthErrNoSession \<equiv> ''no_session''"
abbreviation AuthErrNoRights :: auth_err_code where
  "AuthErrNoRights \<equiv> ''invalid_rights''"
abbreviation AuthErrBlocked :: auth_err_code where
  "AuthErrBlocked \<equiv> ''blocked''"
abbreviation AuthErrAnnulled :: auth_err_code where
  "AuthErrAnnulled \<equiv> ''annulled''"
abbreviation AuthErrUserNotExists :: auth_err_code where
  "AuthErrUserNotExists \<equiv> ''user_not_exists''"
abbreviation AuthErrMultipleUsers :: auth_err_code where
  "AuthErrMultipleUsers \<equiv> ''multiple_users''"
abbreviation AuthErrInvalidRequest :: auth_err_code where
  "AuthErrInvalidRequest \<equiv> ''invalid_request''"
abbreviation AuthErrNoToken :: auth_err_code where
  "AuthErrNoToken \<equiv> ''no_token''"

definition ErrorMap :: "string \<Rightarrow> auth_err_code option" where
  "ErrorMap = map_of [
     (''err:user:few_users'', AuthErrMultipleUsers),
     (''err:user:not_exists'', AuthErrUserNotExists),
     (''err:user:blocked'', AuthErrBlocked),
     (''err:user:deleted'', AuthErrAnnulled)]"

record authorize_error =
  ae_Code :: auth_err_code
  ae_Message :: string
  ae_State :: "string option"

definition auth_error :: "auth_err_code \<Rightarrow> string \<Rightarrow> authorize_error" where
  "auth_error c m = \<lparr>ae_Code = c, ae_Message = m, ae_State = None\<rparr>"

lemma auth_error_sel [simp]:
  "ae_Code (auth_error c m) = c" "ae_Message (auth_error c m) = m"
  by (simp_all add: auth_error_def)

definition AuthorizeError_Error :: "authorize_error \<Rightarrow> string" where
  "AuthorizeError_Error e = ae_Code e @ '': '' @ ae_Message e"

definition AuthorizeError_StatusCode :: "authorize_error \<Rightarrow> nat" where
  "AuthorizeError_StatusCode e =
     (if ae_Code e = [] then 500
      else if ae_Code e = AuthErrInvalidToken \<or> ae_Code e = AuthErrInvalidScope \<or>
              ae_Code e = AuthErrNoRights \<or> ae_Code e = AuthErrBlocked \<or>
              ae_Code e = AuthErrAnnulled \<or> ae_Code e = AuthErrUserNotExists \<or>
              ae_Code e = AuthErrNoSession \<or> ae_Code e = AuthErrNoToken \<or>
              ae_Code e = AuthErrInvalidClient \<or> ae_Code e = AuthErrTermsNotAccepted
           then 401
      else if ae_Code e = AuthErrServer then 500
      else 400)"

text \<open>
  Every error the program returns: the two error types of its own that callers test for, the errors
  it makes from a text with \<open>errors.New\<close> or \<open>fmt.Errorf\<close>, and those that come out of a library or a
  service, known by a text only.
\<close>

datatype go_error =
    AuthorizeError authorize_error
  | ErrSessionNotFound string
  | ErrText string
  | ExtError string

abbreviation auth_fail :: "auth_err_code \<Rightarrow> string \<Rightarrow> go_error" where
  "auth_fail c m \<equiv> AuthorizeError (auth_error c m)"

text \<open>
  The code a failed step leaves on the correlation: the error's own code for an \<open>AuthorizeError\<close>, a
  default for any other.
\<close>

definition error_code_or :: "auth_err_code \<Rightarrow> go_error \<Rightarrow> auth_err_code" where
  "error_code_or d e = (case e of AuthorizeError ae \<Rightarrow> ae_Code ae | _ \<Rightarrow> d)"

lemma status_is_client_or_server_error: "AuthorizeError_StatusCode e \<in> {400, 401, 500}"
  by (simp add: AuthorizeError_StatusCode_def)

lemma ErrorMap_codes:
  "ErrorMap k = Some c \<Longrightarrow> c \<noteq> AuthErrServer \<and> AuthorizeError_StatusCode (auth_error c m) \<in> {400, 401}"
  by (auto simp: ErrorMap_def AuthorizeError_StatusCode_def split: if_splits)

end
