(* ===== verification/Types.thy ===== *)
theory Types
  imports Errors
begin

text \<open>
  The data of package \<open>core\<close> (\<open>session.go\<close>, \<open>authorizer.go\<close>, \<open>correlation.go\<close>, \<open>client.go\<close>, \<open>auth.go\<close>), field by
  field. A pointer is an option; lists of pointers are lists (no element is nil). Times are nanoseconds
  of the epoch and \<open>time.Duration\<close> is an integer of nanoseconds in the range of \<open>int64\<close>.
\<close>

type_synonym time = int
type_synonym duration = int

text \<open>Values of type \<open>any\<close> that come from JSON; numbers keep their text.\<close>

datatype json = JNull | JBool bool | JNum string | JStr string | JArr "json list"
  | JObj "(string \<times> json) list"

subsection \<open>\<open>core/authorizer.go\<close>\<close>

record organization_entity =
  oe_ID :: string
  oe_Code :: string
  oe_Name :: string
  oe_TypeID :: string
  oe_Blocked :: bool
  oe_UserOrganizationID :: string

record data_scopes =
  ds_ID :: int
  ds_Code :: string
  ds_Name :: string

record role_entity =
  re_ID :: string
  re_UserRoleID :: string
  re_Organization :: "organization_entity option"
  re_Code :: string
  re_Name :: string
  re_ShortName :: string
  re_Description :: string
  re_Blocked :: bool
  re_DataScopes :: "data_scopes list"

record granted_right =
  gr_UserRoleID :: string
  gr_RoleID :: string
  gr_RoleCode :: string
  gr_RoleName :: string
  gr_RoleDescription :: string
  gr_RightID :: string
  gr_RightCode :: string
  gr_RightName :: string
  gr_RightDescription :: string
  gr_LevelID :: string
  gr_LevelCode :: string
  gr_Description :: string

record user_data =
  ud_UserID :: string
  ud_ClientID :: string
  ud_IsServiceClient :: bool
  ud_PersonCode :: string
  ud_FirstName :: string
  ud_LastName :: string
  ud_Email :: string
  ud_PhoneNumber :: string
  ud_IsTOSAccepted :: bool
  ud_Roles :: "role_entity list"
  ud_Rights :: "granted_right list"

subsection \<open>\<open>core/auth.go\<close>\<close>

record auth_user_organization =
  auo_OrganizationCode :: string
  auo_RoleCodes :: "string list"

record auth_request =
  ar_PersonCode :: string
  ar_FirstName :: string
  ar_LastName :: string
  ar_Email :: string
  ar_IPAddress :: string
  ar_Nonce :: "string option"
  ar_Rights :: "string list"
  ar_SessionID :: string
  ar_Token :: string
  ar_ClientID :: string
  ar_ProviderID :: string
  ar_TOS :: bool
  ar_Organizations :: "auth_user_organization list"
  ar_RawClaims :: "(string \<times> json) list"

record get_user_data_request =
  gu_Code :: string
  gu_FirstName :: string
  gu_LastName :: string
  gu_Email :: string
  gu_ProviderID :: string
  gu_ClientID :: "string option"
  gu_ClientSecret :: "string option"
  gu_IsTOSAccepted :: bool
  gu_Organizations :: "auth_user_organization list"
  gu_RawClaims :: "(string \<times> json) list"

subsection \<open>\<open>core/session.go\<close>\<close>

record device_entity =
  de_IPAddress :: "string option"
  de_UserAgent :: "string option"

abbreviation SessionMetaProviderID :: string where
  "SessionMetaProviderID \<equiv> ''provider_id''"
abbreviation SessionMetaIDToken :: string where
  "SessionMetaIDToken \<equiv> ''id_token''"

abbreviation SessionStateNone :: string where
  "SessionStateNone \<equiv> ''none''"
abbreviation SessionStateRequireAgreement :: string where
  "SessionStateRequireAgreement \<equiv> ''req_agreement''"
abbreviation SessionStateRequireRole :: string where
  "SessionStateRequireRole \<equiv> ''req_role''"
abbreviation SessionStateAuthorized :: string where
  "SessionStateAuthorized \<equiv> ''authorized''"

record session =
  s_ID :: string
  s_State :: string
  s_Code :: string
  s_Subject :: string
  s_FirstName :: string
  s_LastName :: string
  s_Email :: string
  s_PhoneNumber :: string
  s_Role :: "role_entity option"
  s_Specialty :: string
  s_ValidDateTill :: "time option"
  s_Scope :: "string list"
  s_LastAccessed :: "time option"
  s_Roles :: "role_entity list"
  s_Rights :: "granted_right list"
  s_IsServiceClient :: bool
  s_Device :: "device_entity option"
  s_Metadata :: "(string \<Rightarrow> string option) option"
  s_IsTOSAccepted :: bool

text \<open>\<open>&Session{}\<close>\<close>

definition zero_session :: session where
  "zero_session = \<lparr>s_ID = [], s_State = [], s_Code = [], s_Subject = [], s_FirstName = [],
     s_LastName = [], s_Email = [], s_PhoneNumber = [], s_Role = None, s_Specialty = [],
     s_ValidDateTill = None, s_Scope = [], s_LastAccessed = None, s_Roles = [], s_Rights = [],
     s_IsServiceClient = False, s_Device = None, s_Metadata = None, s_IsTOSAccepted = False\<rparr>"

record user_organization =
  uo_ID :: string
  uo_Code :: string
  uo_Name :: string
  uo_TypeID :: string
  uo_UserOrganizationID :: string

record role_basic =
  rb_ID :: string
  rb_UserRoleID :: string
  rb_Code :: string
  rb_AppCode :: string
  rb_Name :: string
  rb_Description :: "string option"
  rb_System :: bool
  rb_AppURL :: string
  rb_DataScopes :: "data_scopes list"

record session_response =
  sr_ID :: string
  sr_Active :: bool
  sr_State :: string
  sr_Subject :: string
  sr_Code :: string
  sr_FirstName :: string
  sr_LastName :: string
  sr_GivenName :: string
  sr_FamilyName :: string
  sr_Institution :: "user_organization option"
  sr_Role :: "role_basic option"
  sr_Scope :: "string list"
  sr_SecondsToLive :: int
  sr_SecondsToCountdown :: int
  sr_Email :: "string option"
  sr_Phone :: "string option"
  sr_PhoneNumber :: string
  sr_IsServiceClient :: bool
  sr_IsTOSAccepted :: "bool option"

definition inactive_response :: session_response where
  "inactive_response = \<lparr>sr_ID = [], sr_Active = False, sr_State = [], sr_Subject = [], sr_Code = [],
     sr_FirstName = [], sr_LastName = [], sr_GivenName = [], sr_FamilyName = [],
     sr_Institution = None, sr_Role = None, sr_Scope = [], sr_SecondsToLive = 0,
     sr_SecondsToCountdown = 0, sr_Email = None, sr_Phone = None, sr_PhoneNumber = [],
     sr_IsServiceClient = False, sr_IsTOSAccepted = None\<rparr>"

record sessions_response =
  ss_List :: "session list"
  ss_Count :: int

record access_token_response =
  at_AccessToken :: string
  at_TokenType :: string
  at_ExpiresIn :: int

subsection \<open>\<open>core/correlation.go\<close>\<close>

record correlation =
  c_ID :: string
  c_ClientID :: string
  c_RedirectURI :: string
  c_Nonce :: "string option"
  c_State :: "string option"
  c_CodeChallenge :: "string option"
  c_CodeChallengeMethod :: "string option"
  c_ErrorCode :: string
  c_ManagedByProvider :: bool
  c_SessionCreated :: "time option"
  c_TOSTargetURI :: "string option"

record one_time_token =
  o_ID :: string
  o_RedirectURI :: string
  o_RedirectURIs :: "string list"
  o_SessionToken :: string
  o_SessionCreated :: "time option"

subsection \<open>\<open>core/client.go\<close>\<close>

record client =
  cl_ID :: string
  cl_RedirectURI :: "string list"
  cl_GrantTypes :: "string list"
  cl_Scopes :: "string list"
  cl_Metadata :: "(string \<times> string) list"
  cl_Secrets :: "string list"
  cl_Certificates :: "string list"
  cl_Claims :: "(string \<times> json) list"
  cl_isServiceClient :: bool

record client_credentials =
  cc_ClientID :: string
  cc_ClientSecret :: "string option"
  cc_Scope :: "string option"
  cc_GrantType :: string

subsection \<open>\<open>core/util/util.go\<close>\<close>

definition PtrString :: "string \<Rightarrow> string option" where
  "PtrString v = (if v = [] then None else Some v)"

definition DerefString :: "string option \<Rightarrow> string" where
  "DerefString v = (case v of None \<Rightarrow> [] | Some s \<Rightarrow> s)"

text \<open>Cloning gives a value equal to the original, which is all a value can show.\<close>

definition CloneStrPtr :: "string option \<Rightarrow> string option" where
  "CloneStrPtr s = s"

definition CloneTimePtr :: "time option \<Rightarrow> time option" where
  "CloneTimePtr t = t"

lemma Deref_Ptr [simp]: "DerefString (PtrString v) = v"
  by (simp add: DerefString_def PtrString_def)

lemma clones [simp]: "CloneStrPtr s = s" "CloneTimePtr t = t"
  by (simp_all add: CloneStrPtr_def CloneTimePtr_def)

subsection \<open>Operations on sessions\<close>

text \<open>
  \<open>Duration\<close> is an \<open>int64\<close>: \<open>Time.Sub\<close> saturates and the subtraction of durations wraps around.
\<close>

definition wrap64 :: "int \<Rightarrow> int" where
  "wrap64 x = (x + 2 ^ 63) mod 2 ^ 64 - 2 ^ 63"

definition time_sub :: "time \<Rightarrow> time \<Rightarrow> duration" where
  "time_sub t u = max (- (2 ^ 63)) (min (2 ^ 63 - 1) (t - u))"

text \<open>
  \<open>int(d.Seconds())\<close>: truncation towards zero. Go goes through \<open>float64\<close>, which gives the same integer
  for all durations of less than \<open>2 ^ 23\<close> seconds (97 days).
\<close>

definition whole_seconds :: "duration \<Rightarrow> int" where
  "whole_seconds d = (if d < 0 then - (- d div 10 ^ 9) else d div 10 ^ 9)"

definition GetSecondsToLive :: "time \<Rightarrow> duration \<Rightarrow> time option \<Rightarrow> int" where
  "GetSecondsToLive now sessionTimeout lastAccessed =
     (case lastAccessed of
        None \<Rightarrow> -1
      | Some la \<Rightarrow> whole_seconds (wrap64 (sessionTimeout - time_sub now la)))"

text \<open>The methods take a possibly nil receiver.\<close>

definition IsActive :: "session option \<Rightarrow> bool" where
  "IsActive s = (case s of None \<Rightarrow> False | Some x \<Rightarrow> s_State x \<noteq> SessionStateNone)"

definition IsAuthorized :: "session option \<Rightarrow> bool" where
  "IsAuthorized s \<longleftrightarrow> IsActive s \<and> (\<exists>x \<in> set_option s. s_State x = SessionStateAuthorized)"

definition IsTOSRequired :: "session option \<Rightarrow> bool \<Rightarrow> bool" where
  "IsTOSRequired s requireTOS \<longleftrightarrow>
     requireTOS \<and> IsActive s \<and> \<not> (\<exists>x \<in> set_option s. s_IsTOSAccepted x)"

definition IsRoleRequired :: "session option \<Rightarrow> bool" where
  "IsRoleRequired s \<longleftrightarrow> IsActive s \<and> (\<exists>x \<in> set_option s. s_State x = SessionStateRequireRole)"

text \<open>\<open>Scopes\<close> fills a slice made with the full length; a repeated scope leaves its slot empty.\<close>

fun scopes_from :: "string list \<Rightarrow> string list \<Rightarrow> string list" where
  "scopes_from seen [] = []"
| "scopes_from seen (v # vs) =
     (if v \<in> set seen then [] # scopes_from seen vs else v # scopes_from (v # seen) vs)"

definition Scopes :: "session \<Rightarrow> string list" where
  "Scopes s = scopes_from [] (s_Scope s)"

text \<open>A scope that occurs again leaves an empty string in its place: the length stays.\<close>

lemma scopes_from_nth:
  "i < length vs \<Longrightarrow> scopes_from seen vs ! i = (if vs ! i \<in> set seen \<union> set (take i vs) then [] else vs ! i)"
proof (induction vs arbitrary: seen i)
  case (Cons v vs)
  then show ?case by (cases i) auto
qed simp

lemma length_scopes_from: "length (scopes_from seen vs) = length vs"
  by (induction vs arbitrary: seen) auto

lemma Scopes_blank_repeated:
  "length (Scopes s) = length (s_Scope s)"
  "i < length (s_Scope s) \<Longrightarrow>
     Scopes s ! i = (if s_Scope s ! i \<in> set (take i (s_Scope s)) then [] else s_Scope s ! i)"
  by (simp_all add: Scopes_def length_scopes_from scopes_from_nth)

definition format_bool :: "bool \<Rightarrow> string" where
  "format_bool b = (if b then ''true'' else ''false'')"

type_synonym claims = "string \<Rightarrow> string list option"

definition ToClaims :: "session \<Rightarrow> claims" where
  "ToClaims s = (let m = map_of [
       (''sid'', [s_ID s]), (''sub'', [s_Subject s]), (''code'', [s_Code s]),
       (''given_name'', [s_FirstName s]), (''family_name'', [s_LastName s]),
       (''scope'', s_Scope s), (''is_service_client'', [format_bool (s_IsServiceClient s)]),
       (''is_tos_accepted'', [format_bool (s_IsTOSAccepted s)])] in
     (case s_Role s of
        None \<Rightarrow> m
      | Some r \<Rightarrow> (case re_Organization r of
            None \<Rightarrow> m
          | Some org \<Rightarrow> m(''org_id'' \<mapsto> [oe_ID org], ''org_code'' \<mapsto> [oe_Code org],
                            ''org_name'' \<mapsto> [oe_Name org]))))"

lemma IsActive_simps [simp]:
  "\<not> IsActive None" "IsActive (Some x) \<longleftrightarrow> s_State x \<noteq> SessionStateNone"
  by (simp_all add: IsActive_def)

lemma IsAuthorized_simps [simp]:
  "\<not> IsAuthorized None" "IsAuthorized (Some x) \<longleftrightarrow> s_State x = SessionStateAuthorized"
  by (auto simp: IsAuthorized_def)

lemma IsRoleRequired_simps [simp]:
  "\<not> IsRoleRequired None" "IsRoleRequired (Some x) \<longleftrightarrow> s_State x = SessionStateRequireRole"
  by (auto simp: IsRoleRequired_def)

end
