(* ===== verification/Context.thy ===== *)
theory Context
  imports Types
begin

text \<open>
  The request, the response and the server's state, with the primitives all components use.

  The web framework is known here by the calls the program makes on it. What a handler reads from
  \<open>azugo.Context\<close> is a field of \<open>request\<close>; what it writes (\<open>StatusCode\<close>, \<open>JSON\<close>, \<open>Error\<close>, redirects, headers,
  cookies) is appended to the trace \<open>w_resp\<close> in call order, so that nothing is assumed about how
  the framework merges these calls into one response. A nil dereference writes the trace entry
  \<open>Panic\<close>; a function that can panic returns an option, and its callers stop at \<open>None\<close>.

  The caches (\<open>cache.Instance\<close>) are maps that store and return values. Each cache call may fail: the
  schedule \<open>w_faults\<close> decides by the number of the call. Expiry of entries is a step of the
  environment, not of the operations. ULIDs come from the generator \<open>w_ulids\<close>, one per call.
\<close>

subsection \<open>Requests\<close>

text \<open>\<open>sessionRequestFilter\<close> of \<open>session.go\<close>\<close>

record session_filter =
  sf_ID :: "string option"
  sf_Code :: "string option"
  sf_FirstName :: "string option"
  sf_LastName :: "string option"
  sf_Email :: "string option"
  sf_IsServiceClient :: "bool option"
  sf_Subject :: "string option"
  sf_Role :: "string option"
  sf_Organization :: "string option"
  sf_Page :: "int option"
  sf_PerPage :: "int option"

record request =
  rq_Method :: string
  rq_Route :: string
  rq_Header :: "string \<Rightarrow> string"
  rq_Form :: "string \<Rightarrow> go_error + string"
  rq_FormOptional :: "string \<Rightarrow> string option"
  rq_Query :: "string \<Rightarrow> go_error + string"
  rq_QueryOptional :: "string \<Rightarrow> string option"
  rq_QueryInt :: "string \<Rightarrow> go_error + int option"
  rq_Param :: "string \<Rightarrow> string"
  rq_BodyRole :: "go_error + string"
  rq_BodyFilter :: "go_error + session_filter"
  rq_Cookie :: "(go_error + string) option"
  rq_IP :: string
  rq_UserAgent :: string
  rq_BaseURL :: string
  rq_BasePath :: string
  rq_RequestURI :: string
  rq_IsTLS :: bool
  rq_TraceID :: "string option"
  rq_ContextID :: string
  rq_IsSignoutResponse :: bool
  rq_Now :: time

subsection \<open>Responses\<close>

record cookie =
  ck_Key :: string
  ck_Value :: string
  ck_Secure :: bool
  ck_HTTPOnly :: bool
  ck_SameSiteNone :: bool
  ck_Path :: string
  ck_Expired :: bool

record oauth_configuration =
  oc_Issuer :: string
  oc_GrantTypesSupported :: "string list"
  oc_ResponseTypesSupported :: "string list"
  oc_TokenEndpoint :: string
  oc_UserInfoEndpoint :: string
  oc_TokenEndpointAuthMethodsSupported :: "string list"

record config_response =
  cr_SessionTimeout :: int
  cr_SessionCountdown :: int

record healthz_response =
  hz_Status :: string
  hz_Description :: string

datatype body =
    BAuthError authorize_error
  | BToken access_token_response
  | BSession session_response
  | BRoles "role_entity list"
  | BOAuth oauth_configuration
  | BConfig config_response
  | BSessions "sessions_response option"
  | BSessionList "session list"
  | BHealthz healthz_response

datatype resp_op =
    StatusCode nat
  | JSON body
  | Error go_error
  | Redirect string
  | Text string
  | SetHeader string string
  | SetCookie cookie
  | Panic string

subsection \<open>Audit events\<close>

record person_audit_data =
  pa_FullName :: "string option"
  pa_PersonCode :: "string option"

text \<open>The fields of \<open>SaveAuditEventJSONBody\<close> in \<open>audit/audit.gen.go\<close>.\<close>

record audit_item =
  ae_EventCode :: "string option"
  ae_EventDescription :: "string option"
  ae_EventSuccessful :: "bool option"
  ae_EventTimestamp :: "time option"
  ae_EventType :: "string option"
  ae_IsApiUser :: "bool option"
  ae_Justification :: "string option"
  ae_PersonAuditData :: "person_audit_data list option"
  ae_RequestContent :: "string option"
  ae_RequestUrl :: "string option"
  ae_ResponseContent :: "string option"
  ae_ServerIdentifier :: "string option"
  ae_TransactionId :: "string option"
  ae_UserCode :: "string option"
  ae_UserFullName :: "string option"
  ae_UserId :: "string option"
  ae_UserIp :: "string option"
  ae_UserOrganizationCode :: "string option"
  ae_UserOrganizationId :: "string option"
  ae_UserOrganizationName :: "string option"
  ae_UserRight :: "string option"
  ae_UserRightsLevel :: "int option"
  ae_UserRoleId :: "string option"
  ae_UserRoleName :: "string option"
  ae_UserSessionId :: "string option"

definition empty_audit_item :: audit_item where
  "empty_audit_item = \<lparr>ae_EventCode = None, ae_EventDescription = None, ae_EventSuccessful = None,
     ae_EventTimestamp = None, ae_EventType = None, ae_IsApiUser = None, ae_Justification = None,
     ae_PersonAuditData = None, ae_RequestContent = None, ae_RequestUrl = None,
     ae_ResponseContent = None, ae_ServerIdentifier = None, ae_TransactionId = None,
     ae_UserCode = None, ae_UserFullName = None, ae_UserId = None, ae_UserIp = None,
     ae_UserOrganizationCode = None, ae_UserOrganizationId = None, ae_UserOrganizationName = None,
     ae_UserRight = None, ae_UserRightsLevel = None, ae_UserRoleId = None, ae_UserRoleName = None,
     ae_UserSessionId = None\<rparr>"

record audit_event =
  av_Session :: "session option"
  av_Events :: "audit_item list"

subsection \<open>The server\<close>

text \<open>
  \<open>w_audit\<close> lists the bodies sent to the audit service. \<open>w_session\<close> is the value the bearer middleware leaves on the context under \<open>SessionUserValueKey\<close>: a
  pointer, so what one function writes to it a later one of the same request reads. \<open>'db\<close> is the
  state of the Postgres database.
\<close>

record 'db world =
  w_clients :: "string \<Rightarrow> client option"
  w_cor :: "string \<Rightarrow> correlation option"
  w_ott :: "string \<Rightarrow> one_time_token option"
  w_ses :: "string \<Rightarrow> session option"
  w_signout :: "string \<Rightarrow> string"
  w_db :: 'db
  w_ulids :: "nat \<Rightarrow> string"
  w_ulid :: nat
  w_faults :: "nat \<Rightarrow> go_error option"
  w_tick :: nat
  w_audit :: "audit_item list list"
  w_session :: "session option"
  w_user :: "claims option"
  w_resp :: "resp_op list"

type_synonym ('db, 'a) action = "('db world, 'a) state"

subsection \<open>Primitives\<close>

definition respond :: "resp_op \<Rightarrow> ('db, unit) action" where
  "respond op = modify (\<lambda>w. w\<lparr>w_resp := w_resp w @ [op]\<rparr>)"

definition new_ulid :: "('db, string) action" where
  "new_ulid = do {
     n \<leftarrow> gets w_ulid;
     modify (\<lambda>w. w\<lparr>w_ulid := Suc n\<rparr>);
     gets (\<lambda>w. w_ulids w n)
   }"

definition fault :: "('db, go_error option) action" where
  "fault = do {
     n \<leftarrow> gets w_tick;
     modify (\<lambda>w. w\<lparr>w_tick := Suc n\<rparr>);
     gets (\<lambda>w. w_faults w n)
   }"

definition cache_get ::
  "('db world \<Rightarrow> string \<Rightarrow> 'v option) \<Rightarrow> string \<Rightarrow> ('db, go_error + 'v option) action" where
  "cache_get read k = do {
     f \<leftarrow> fault;
     (case f of Some e \<Rightarrow> ret (Inl e) | None \<Rightarrow> gets (\<lambda>w. Inr (read w k)))
   }"

definition cache_set ::
  "(('k \<Rightarrow> 'v option) \<Rightarrow> 'db world \<Rightarrow> 'db world) \<Rightarrow> ('db world \<Rightarrow> 'k \<Rightarrow> 'v option) \<Rightarrow>
   'k \<Rightarrow> 'v \<Rightarrow> ('db, go_error + unit) action" where
  "cache_set upd read k v = do {
     f \<leftarrow> fault;
     (case f of Some e \<Rightarrow> ret (Inl e)
      | None \<Rightarrow> do { modify (\<lambda>w. upd ((read w)(k \<mapsto> v)) w); ret (Inr ()) })
   }"

definition cache_delete ::
  "(('k \<Rightarrow> 'v option) \<Rightarrow> 'db world \<Rightarrow> 'db world) \<Rightarrow> ('db world \<Rightarrow> 'k \<Rightarrow> 'v option) \<Rightarrow>
   'k \<Rightarrow> ('db, go_error + unit) action" where
  "cache_delete upd read k = do {
     f \<leftarrow> fault;
     (case f of Some e \<Rightarrow> ret (Inl e)
      | None \<Rightarrow> do { modify (\<lambda>w. upd ((read w)(k := None)) w); ret (Inr ()) })
   }"

lemma run_respond [simp]:
  "run_state (respond op) w = ((), w\<lparr>w_resp := w_resp w @ [op]\<rparr>)"
  by (simp add: respond_def)

lemma run_new_ulid [simp]:
  "run_state new_ulid w = (w_ulids w (w_ulid w), w\<lparr>w_ulid := Suc (w_ulid w)\<rparr>)"
  by (simp add: new_ulid_def)

lemma run_fault [simp]:
  "run_state fault w = (w_faults w (w_tick w), w\<lparr>w_tick := Suc (w_tick w)\<rparr>)"
  by (simp add: fault_def)

lemma run_cache_set:
  "run_state (cache_set upd read k v) w =
     (let w' = w\<lparr>w_tick := Suc (w_tick w)\<rparr> in
      case w_faults w (w_tick w) of
        Some e \<Rightarrow> (Inl e, w') | None \<Rightarrow> (Inr (), upd ((read w')(k \<mapsto> v)) w'))"
  by (simp add: cache_set_def Let_def split: option.splits)

lemma run_cache_delete:
  "run_state (cache_delete upd read k) w =
     (let w' = w\<lparr>w_tick := Suc (w_tick w)\<rparr> in
      case w_faults w (w_tick w) of
        Some e \<Rightarrow> (Inl e, w') | None \<Rightarrow> (Inr (), upd ((read w')(k := None)) w'))"
  by (simp add: cache_delete_def Let_def split: option.splits)

lemma run_cache_get:
  "run_state (cache_get read k) w =
     (case w_faults w (w_tick w) of
        Some e \<Rightarrow> (Inl e, w\<lparr>w_tick := Suc (w_tick w)\<rparr>)
      | None \<Rightarrow> (Inr (read (w\<lparr>w_tick := Suc (w_tick w)\<rparr>) k), w\<lparr>w_tick := Suc (w_tick w)\<rparr>))"
  by (simp add: cache_get_def split: option.splits)

subsection \<open>The three caches\<close>

abbreviation cor_get :: "string \<Rightarrow> ('db, go_error + correlation option) action" where
  "cor_get \<equiv> cache_get w_cor"
abbreviation cor_set :: "string \<Rightarrow> correlation \<Rightarrow> ('db, go_error + unit) action" where
  "cor_set \<equiv> cache_set (\<lambda>m. w_cor_update (\<lambda>_. m)) w_cor"
abbreviation cor_delete :: "string \<Rightarrow> ('db, go_error + unit) action" where
  "cor_delete \<equiv> cache_delete (\<lambda>m. w_cor_update (\<lambda>_. m)) w_cor"

abbreviation ott_get :: "string \<Rightarrow> ('db, go_error + one_time_token option) action" where
  "ott_get \<equiv> cache_get w_ott"
abbreviation ott_set :: "string \<Rightarrow> one_time_token \<Rightarrow> ('db, go_error + unit) action" where
  "ott_set \<equiv> cache_set (\<lambda>m. w_ott_update (\<lambda>_. m)) w_ott"
abbreviation ott_delete :: "string \<Rightarrow> ('db, go_error + unit) action" where
  "ott_delete \<equiv> cache_delete (\<lambda>m. w_ott_update (\<lambda>_. m)) w_ott"

abbreviation ses_get :: "string \<Rightarrow> ('db, go_error + session option) action" where
  "ses_get \<equiv> cache_get w_ses"
abbreviation ses_set :: "string \<Rightarrow> session \<Rightarrow> ('db, go_error + unit) action" where
  "ses_set \<equiv> cache_set (\<lambda>m. w_ses_update (\<lambda>_. m)) w_ses"
abbreviation ses_delete :: "string \<Rightarrow> ('db, go_error + unit) action" where
  "ses_delete \<equiv> cache_delete (\<lambda>m. w_ses_update (\<lambda>_. m)) w_ses"

subsection \<open>Frames\<close>

lemma keeps_fault:
  "(\<And>w. I w \<Longrightarrow> I (w\<lparr>w_tick := Suc (w_tick w)\<rparr>)) \<Longrightarrow> keeps I fault"
  by (simp add: keeps_def exec_def)

lemma same_respond [triples]:
  "(\<And>w r. f (w\<lparr>w_resp := r\<rparr>) = f w) \<Longrightarrow> same f (respond op)"
  by (simp add: same_def exec_def)

lemma same_fault [triples]: "(\<And>w n. f (w\<lparr>w_tick := n\<rparr>) = f w) \<Longrightarrow> same f fault"
  by (simp add: same_def exec_def)

lemma same_new_ulid [triples]: "(\<And>w n. f (w\<lparr>w_ulid := n\<rparr>) = f w) \<Longrightarrow> same f new_ulid"
  by (simp add: same_def exec_def)

lemma same_cache_get [triples]: "(\<And>w n. f (w\<lparr>w_tick := n\<rparr>) = f w) \<Longrightarrow> same f (cache_get read k)"
  unfolding cache_get_def by (intro triples) auto

lemma same_cache_set [triples]:
  "(\<And>w n. f (w\<lparr>w_tick := n\<rparr>) = f w) \<Longrightarrow> (\<And>m w. f (upd m w) = f w) \<Longrightarrow>
   same f (cache_set upd read k v)"
  unfolding cache_set_def by (intro triples) auto

lemma same_cache_delete [triples]:
  "(\<And>w n. f (w\<lparr>w_tick := n\<rparr>) = f w) \<Longrightarrow> (\<And>m w. f (upd m w) = f w) \<Longrightarrow>
   same f (cache_delete upd read k)"
  unfolding cache_delete_def by (intro triples) auto

end
