(* ===== verification/ClientStore.thy ===== *)
theory ClientStore
  imports Context
begin

text \<open>
  \<open>core/client_composite.go\<close>: the composite client store. Its state is \<open>w_clients\<close>, replaced as a whole
  by \<open>loadClients\<close>. Reading a file, parsing YAML or JSON, the HTTP exchange and the struct validator are
  the parameter \<open>client_env\<close>. The lemmas give the contract of the store: a reload that fails changes
  nothing, one that succeeds keeps the first client of every identifier in the order of the sources,
  and \<open>ValidateCredentials\<close> accepts exactly the credentials that \<open>credentials_ok\<close> describes.
\<close>

abbreviation GRANT_TYPE_BASIC :: string where
  "GRANT_TYPE_BASIC \<equiv> ''basic''"
abbreviation GRANT_TYPE_CLIENT_CREDENTIALS :: string where
  "GRANT_TYPE_CLIENT_CREDENTIALS \<equiv> ''client_credentials''"
abbreviation GRANT_TYPE_IAM :: string where
  "GRANT_TYPE_IAM \<equiv> ''iam''"
abbreviation GRANT_TYPE_PFAS :: string where
  "GRANT_TYPE_PFAS \<equiv> ''pfas''"

subsection \<open>HTTP exchanges with other services\<close>

record http_request =
  hr_Method :: string
  hr_BaseURL :: string
  hr_Path :: string
  hr_Headers :: "(string \<times> string) list"
  hr_Body :: string

record http_response =
  hp_StatusCode :: nat
  hp_Body :: string

type_synonym http_do = "http_request \<Rightarrow> go_error + http_response"

subsection \<open>Sources\<close>

datatype client_source =
    FileSource string bool
  | ApiSource string string bool

record client_env =
  ce_ReadFile :: "string \<Rightarrow> go_error + string"
  ce_YAML :: "string \<Rightarrow> go_error + client list"
  ce_NewRequest :: "string \<Rightarrow> go_error option"
  ce_HTTP :: http_do
  ce_JSON :: "string \<Rightarrow> go_error + client list"
  ce_Validate :: "client \<Rightarrow> go_error option"

definition file_client :: "client \<Rightarrow> client" where
  "file_client c = c\<lparr>cl_isServiceClient := cl_RedirectURI c = [],
                     cl_Secrets := map sha512_hex (cl_Secrets c)\<rparr>"

definition fileSource_LoadClients :: "client_env \<Rightarrow> string \<Rightarrow> go_error + client list" where
  "fileSource_LoadClients env path =
     and_then (ce_ReadFile env path) (\<lambda>data.
     and_then (ce_YAML env data) (\<lambda>clients. ok (map file_client clients)))"

definition apiSource_LoadClients ::
  "client_env \<Rightarrow> string \<Rightarrow> string \<Rightarrow> bool \<Rightarrow> go_error + client list" where
  "apiSource_LoadClients env url apiKey serviceClients =
     (case ce_NewRequest env url of
        Some e \<Rightarrow> fail e
      | None \<Rightarrow>
          and_then (ce_HTTP env \<lparr>hr_Method = ''GET'', hr_BaseURL = url, hr_Path = [],
              hr_Headers = (if apiKey \<noteq> [] then [(''X-API-KEY'', apiKey)] else []), hr_Body = []\<rparr>)
            (\<lambda>resp. if hp_StatusCode resp \<noteq> 200 then fail (ErrText ''failed to fetch clients from API'')
               else and_then (ce_JSON env (hp_Body resp)) (\<lambda>clients.
                 ok (map (\<lambda>c. c\<lparr>cl_isServiceClient := serviceClients\<rparr>) clients))))"

fun LoadClients :: "client_env \<Rightarrow> client_source \<Rightarrow> go_error + client list" where
  "LoadClients env (FileSource path svc) = fileSource_LoadClients env path"
| "LoadClients env (ApiSource url key svc) = apiSource_LoadClients env url key svc"

record client_store_config =
  cs_ClientPath :: string
  cs_APIUrl :: string
  cs_APIKey :: string

definition client_sources :: "client_store_config \<Rightarrow> go_error + client_source list" where
  "client_sources cfg =
     (if cs_ClientPath cfg = [] then fail (ErrText ''client file store path is required'')
      else ok (FileSource (cs_ClientPath cfg) False #
        (if cs_APIUrl cfg \<noteq> [] then [ApiSource (cs_APIUrl cfg) (cs_APIKey cfg) True] else [])))"

subsection \<open>Loading\<close>

type_synonym clients = "string \<Rightarrow> client option"

fun add_clients :: "client_env \<Rightarrow> clients \<Rightarrow> client list \<Rightarrow> go_error + clients" where
  "add_clients env m [] = ok m"
| "add_clients env m (c # cs) =
     (case ce_Validate env c of
        Some e \<Rightarrow> fail e
      | None \<Rightarrow> if m (cl_ID c) \<noteq> None then add_clients env m cs
                else add_clients env (m(cl_ID c \<mapsto> c)) cs)"

fun load_sources :: "client_env \<Rightarrow> clients \<Rightarrow> client_source list \<Rightarrow> go_error + clients" where
  "load_sources env m [] = ok m"
| "load_sources env m (s # ss) =
     and_then (LoadClients env s) (\<lambda>cs.
     and_then (add_clients env m cs) (\<lambda>m'. load_sources env m' ss))"

definition loadClients :: "client_env \<Rightarrow> client_source list \<Rightarrow> ('db, go_error + unit) action" where
  "loadClients env sources =
     (case load_sources env Map.empty sources of
        Inl e \<Rightarrow> ret (Inl e)
      | Inr m \<Rightarrow> do { modify (\<lambda>w. w\<lparr>w_clients := m\<rparr>); ret (Inr ()) })"

definition RefetchClients :: "client_env \<Rightarrow> client_source list \<Rightarrow> ('db, go_error + unit) action" where
  "RefetchClients env sources = loadClients env sources"

definition NewCompositeClientStore ::
  "client_env \<Rightarrow> client_store_config \<Rightarrow> ('db, go_error + client_source list) action" where
  "NewCompositeClientStore env cfg =
     (case client_sources cfg of
        Inl e \<Rightarrow> ret (Inl e)
      | Inr sources \<Rightarrow> attempt (loadClients env sources) (\<lambda>_. ret (Inr sources)))"

subsection \<open>Queries\<close>

definition GetClient :: "clients \<Rightarrow> string \<Rightarrow> go_error + client" where
  "GetClient m clientID = (case m clientID of
       None \<Rightarrow> fail (auth_fail AuthErrInvalidClient ''Client not found'')
     | Some c \<Rightarrow> ok c)"

text \<open>The order of the list \<open>GetClients\<close> returns is that of a map: left open.\<close>

definition GetClients :: "clients \<Rightarrow> client set" where
  "GetClients m = ran m"

definition grantTypeSkipsClientSecret :: "string \<Rightarrow> bool" where
  "grantTypeSkipsClientSecret g \<longleftrightarrow> g = GRANT_TYPE_PFAS \<or> g = GRANT_TYPE_IAM"

definition grant_types_with_fallback :: "client \<Rightarrow> string list" where
  "grant_types_with_fallback c =
     (if GRANT_TYPE_BASIC \<in> set (cl_GrantTypes c) \<and>
         GRANT_TYPE_CLIENT_CREDENTIALS \<notin> set (cl_GrantTypes c)
      then cl_GrantTypes c @ [GRANT_TYPE_CLIENT_CREDENTIALS] else cl_GrantTypes c)"

definition missing_scope :: "string option \<Rightarrow> string list \<Rightarrow> string option" where
  "missing_scope scope available = (case scope of
       None \<Rightarrow> None
     | Some s \<Rightarrow> List.find (\<lambda>r. r \<notin> set available) (str_fields s))"

definition ValidateCredentials :: "clients \<Rightarrow> client_credentials \<Rightarrow> go_error + unit" where
  "ValidateCredentials m cred =
     and_then (GetClient m (cc_ClientID cred)) (\<lambda>c.
       if \<not> cl_isServiceClient c then fail (auth_fail AuthErrInvalidClient ''Client not allowed'')
       else if cc_GrantType cred \<notin> set (grant_types_with_fallback c)
         then fail (auth_fail AuthErrInvalidRequest ''Invalid grant type'')
       else (case missing_scope (cc_Scope cred) (cl_Scopes c) of
           Some r \<Rightarrow> fail (auth_fail AuthErrInvalidRequest (''Invalid scope: '' @ r))
         | None \<Rightarrow>
             if grantTypeSkipsClientSecret (cc_GrantType cred) then ok ()
             else (case cc_ClientSecret cred of
                 None \<Rightarrow> fail (auth_fail AuthErrInvalidClient ''Invalid client secret'')
               | Some secret \<Rightarrow>
                   if secret \<in> set (cl_Secrets c) then ok ()
                   else fail (auth_fail AuthErrInvalidClient ''Invalid client secret''))))"

text \<open>
  \<open>ConstantTimeCompare\<close> returns 1 exactly for equal byte strings, so the loop over the secrets is
  membership.
\<close>

subsection \<open>The contract\<close>

text \<open>What the credentials of a service client have to satisfy, independent of the order of the checks.\<close>

definition credentials_ok :: "client \<Rightarrow> client_credentials \<Rightarrow> bool" where
  "credentials_ok c cred \<longleftrightarrow>
     cl_isServiceClient c \<and>
     (cc_GrantType cred \<in> set (cl_GrantTypes c) \<or>
      cc_GrantType cred = GRANT_TYPE_CLIENT_CREDENTIALS \<and> GRANT_TYPE_BASIC \<in> set (cl_GrantTypes c)) \<and>
     (\<forall>s \<in> set_option (cc_Scope cred). set (str_fields s) \<subseteq> set (cl_Scopes c)) \<and>
     (cc_GrantType cred = GRANT_TYPE_PFAS \<or> cc_GrantType cred = GRANT_TYPE_IAM \<or>
      (\<exists>s \<in> set_option (cc_ClientSecret cred). s \<in> set (cl_Secrets c)))"

lemma missing_scope_None:
  "missing_scope scope available = None \<longleftrightarrow>
     (\<forall>s \<in> set_option scope. set (str_fields s) \<subseteq> set available)"
  by (auto simp: missing_scope_def find_None_iff_all split: option.splits)

lemma grant_types_with_fallback_iff:
  "g \<in> set (grant_types_with_fallback c) \<longleftrightarrow>
     g \<in> set (cl_GrantTypes c) \<or>
     g = GRANT_TYPE_CLIENT_CREDENTIALS \<and> GRANT_TYPE_BASIC \<in> set (cl_GrantTypes c)"
  by (auto simp: grant_types_with_fallback_def)

lemma GetClient_ok [simp]: "GetClient m k = Inr c \<longleftrightarrow> m k = Some c"
  by (simp add: GetClient_def split: option.splits)

lemma ValidateCredentials_ok:
  "ValidateCredentials m cred = Inr () \<longleftrightarrow>
     (\<exists>c. m (cc_ClientID cred) = Some c \<and> credentials_ok c cred)"
  by (auto simp: ValidateCredentials_def credentials_ok_def grant_types_with_fallback_iff
      grantTypeSkipsClientSecret_def missing_scope_None [symmetric] split: if_splits option.splits)

lemma ValidateCredentials_errors:
  assumes "ValidateCredentials m cred = Inl e"
  shows "\<exists>msg. e = auth_fail AuthErrInvalidClient msg \<or> e = auth_fail AuthErrInvalidRequest msg"
  using assms
  by (auto simp: ValidateCredentials_def GetClient_def and_then_Inl split: if_splits option.splits)

lemma add_clients_spec:
  "add_clients env m cs = Inr m' \<Longrightarrow> m' = map_of (map (\<lambda>c. (cl_ID c, c)) cs) ++ m"
  by (induction env m cs rule: add_clients.induct)
     (auto simp: fun_eq_iff map_add_def split: option.splits if_splits)

fun all_clients :: "client_env \<Rightarrow> client_source list \<Rightarrow> client list" where
  "all_clients env [] = []"
| "all_clients env (s # ss) = (case LoadClients env s of Inl _ \<Rightarrow> [] | Inr cs \<Rightarrow> cs) @ all_clients env ss"

lemma load_sources_spec:
  "load_sources env m ss = Inr m' \<Longrightarrow> m' = map_of (map (\<lambda>c. (cl_ID c, c)) (all_clients env ss)) ++ m"
proof (induction ss arbitrary: m)
  case (Cons s ss)
  then obtain cs m1 where cs: "LoadClients env s = Inr cs" and m1: "add_clients env m cs = Inr m1"
    and "load_sources env m1 ss = Inr m'"
    by auto
  with Cons.IH have "m' = map_of (map (\<lambda>c. (cl_ID c, c)) (all_clients env ss)) ++ m1"
    by blast
  with add_clients_spec [OF m1] cs show ?case
    by (simp add: fun_eq_iff map_add_def split: option.splits)
qed simp

lemma loadClients_fails:
  "run_state (loadClients env ss) w = (Inl e, w') \<Longrightarrow> w' = w"
  by (auto simp: loadClients_def split: sum.splits)

lemma loadClients_same:
  "(\<And>w m. f (w\<lparr>w_clients := m\<rparr>) = f w) \<Longrightarrow> same f (loadClients env ss)"
  by (auto simp: same_def exec_def loadClients_def split: sum.splits)

lemma file_client_secret:
  "sha512_hex s \<in> set (cl_Secrets (file_client c)) \<longleftrightarrow> (\<exists>t \<in> set (cl_Secrets c). sha512_hex t = sha512_hex s)"
  by (simp add: file_client_def image_iff) metis

subsection \<open>The interface \<open>ClientStore\<close>\<close>

text \<open>
  What the token validators rely on: an accepted credential belongs to a registered client, and that
  client may use the grant and the scopes that were asked for.
\<close>

locale client_store =
  fixes lookup :: "'s \<Rightarrow> string \<Rightarrow> client option"
    and validate :: "'s \<Rightarrow> client_credentials \<Rightarrow> go_error + unit"
  assumes validate_sound:
      "validate s cred = Inr () \<Longrightarrow>
       \<exists>c. lookup s (cc_ClientID cred) = Some c \<and> credentials_ok c cred"
    and validate_complete:
      "lookup s (cc_ClientID cred) = Some c \<Longrightarrow> credentials_ok c cred \<Longrightarrow>
       validate s cred = Inr ()"
begin

lemma validate_iff:
  "validate s cred = Inr () \<longleftrightarrow> (\<exists>c. lookup s (cc_ClientID cred) = Some c \<and> credentials_ok c cred)"
  using validate_sound validate_complete by blast

lemma unknown_client_rejected:
  "lookup s (cc_ClientID cred) = None \<Longrightarrow> validate s cred \<noteq> Inr ()"
  using validate_sound by fastforce

lemma secret_needed:
  assumes "validate s cred = Inr ()"
    and "cc_GrantType cred \<noteq> GRANT_TYPE_PFAS" and "cc_GrantType cred \<noteq> GRANT_TYPE_IAM"
  shows "\<exists>c secret. lookup s (cc_ClientID cred) = Some c \<and> cc_ClientSecret cred = Some secret \<and>
           secret \<in> set (cl_Secrets c)"
  using assms unfolding validate_iff credentials_ok_def by (auto simp: Option.elem_set)

lemma secret_ignored:
  assumes "grantTypeSkipsClientSecret (cc_GrantType cred)"
  shows "validate s (cred\<lparr>cc_ClientSecret := x\<rparr>) = Inr () \<longleftrightarrow> validate s cred = Inr ()"
  using assms by (auto simp: validate_iff credentials_ok_def grantTypeSkipsClientSecret_def)

end

interpretation composite: client_store "\<lambda>m :: clients. m" ValidateCredentials
  by unfold_locales (auto simp: ValidateCredentials_ok)

end
