(* ===== verification/GoUrl.thy ===== *)
theory GoUrl
  imports GoEncoding
begin

text \<open>
  The part of \<open>net/url\<close> the handlers use: escaping by component, \<open>Values\<close> with \<open>Set\<close>, \<open>ParseQuery\<close> and
  \<open>Encode\<close>, \<open>Parse\<close>, \<open>URL.String\<close> and \<open>JoinPath\<close>. \<open>Values\<close> is a map whose keys \<open>Encode\<close> sorts; it is kept
  here as an association list in that order. Bracketed IP literals are accepted without the check of
  the address itself and without zone identifiers. The main results are that unescaping inverts
  escaping, that \<open>ParseQuery\<close> inverts \<open>Encode\<close>, and that the order of \<open>Set\<close> calls on different keys
  does not matter.
\<close>

subsection \<open>Escaping\<close>

datatype encoding = EncPath | EncUserPassword | EncQuery | EncFragment | EncHost

definition alnum :: "char \<Rightarrow> bool" where
  "alnum c = (let n = (of_char c :: nat) in
     48 \<le> n \<and> n \<le> 57 \<or> 65 \<le> n \<and> n \<le> 90 \<or> 97 \<le> n \<and> n \<le> 122)"

definition should_escape :: "char \<Rightarrow> encoding \<Rightarrow> bool" where
  "should_escape c m =
     (if alnum c then False
      else if m = EncHost \<and> c \<in> set ''!$&'()*+,;=:[]<>\"'' then False
      else if c \<in> set ''-_.~'' then False
      else if c \<in> set ''$&+,/:;=?@'' then
        (case m of EncPath \<Rightarrow> c = CHR ''?''
         | EncUserPassword \<Rightarrow> c \<in> set ''@/?:''
         | EncQuery \<Rightarrow> True
         | EncFragment \<Rightarrow> False
         | EncHost \<Rightarrow> True)
      else if m = EncFragment \<and> c \<in> set ''!()*'' then False
      else True)"

definition upper_hex :: "nat \<Rightarrow> char" where
  "upper_hex n = char_of (if n < 10 then n + 48 else n + (55 :: nat))"

definition unhex :: "char \<Rightarrow> nat option" where
  "unhex c = (let n = (of_char c :: nat) in
     if 48 \<le> n \<and> n \<le> 57 then Some (n - 48)
     else if 97 \<le> n \<and> n \<le> 102 then Some (n - 87)
     else if 65 \<le> n \<and> n \<le> 70 then Some (n - 55) else None)"

definition escape_char :: "encoding \<Rightarrow> char \<Rightarrow> string" where
  "escape_char m c =
     (if should_escape c m then
        (if c = CHR '' '' \<and> m = EncQuery then [CHR ''+'']
         else let n = (of_char c :: nat) in [CHR ''%'', upper_hex (n div 16), upper_hex (n mod 16)])
      else [c])"

definition escape :: "encoding \<Rightarrow> string \<Rightarrow> string" where
  "escape m s = concat (map (escape_char m) s)"

text \<open>None is an \<open>EscapeError\<close> or an \<open>InvalidHostError\<close>.\<close>

fun unescape :: "encoding \<Rightarrow> string \<Rightarrow> string option" where
  "unescape m [] = Some []"
| "unescape m (c # s) =
     (if c = CHR ''%'' then
        (case s of
           a # b # t \<Rightarrow> (case (unhex a, unhex b) of
               (Some x, Some y) \<Rightarrow>
                 if m = EncHost \<and> x < 8 \<and> \<not> (x = 2 \<and> y = 5) then None
                 else map_option ((#) (char_of (16 * x + y))) (unescape m t)
             | _ \<Rightarrow> None)
         | _ \<Rightarrow> None)
      else if c = CHR ''+'' \<and> m = EncQuery then map_option ((#) (CHR '' '')) (unescape m s)
      else if m = EncHost \<and> (of_char c :: nat) < 128 \<and> should_escape c m then None
      else map_option ((#) c) (unescape m s))"

lemma escape_Nil [simp]: "escape m [] = []"
  by (simp add: escape_def)

lemma escape_Cons: "escape m (c # s) = escape_char m c @ escape m s"
  by (simp add: escape_def)

lemma unhex_upper_hex [simp]: "n < 16 \<Longrightarrow> unhex (upper_hex n) = Some n"
  by (auto simp: unhex_def upper_hex_def Let_def)

lemma hex_halves [simp]: "of_char c div 16 < (16 :: nat)"
  by (simp add: less_mult_imp_div_less)

lemma should_escape_percent [simp]: "should_escape (CHR ''%'') m"
  by (simp add: should_escape_def alnum_def Let_def)

lemma should_escape_query_plus [simp]: "should_escape (CHR ''+'') EncQuery"
  by (simp add: should_escape_def alnum_def Let_def)

lemma unescape_escape_char:
  assumes "m \<noteq> EncHost"
  shows "unescape m (escape_char m c @ t) = map_option ((#) c) (unescape m t)"
proof (cases "should_escape c m")
  case True
  then show ?thesis
    using assms by (cases "c = CHR '' '' \<and> m = EncQuery") (auto simp: escape_char_def Let_def)
next
  case False
  then have "c \<noteq> CHR ''%''" and "\<not> (c = CHR ''+'' \<and> m = EncQuery)"
    by auto
  with False assms show ?thesis
    by (auto simp: escape_char_def)
qed

theorem unescape_escape:
  "m \<noteq> EncHost \<Longrightarrow> unescape m (escape m s) = Some s"
  by (induction s) (simp_all add: escape_Cons unescape_escape_char)

text \<open>An escaped query component holds none of the separators of a query.\<close>

lemma alnum_upper_hex [simp]: "n < 16 \<Longrightarrow> alnum (upper_hex n)"
  by (auto simp: alnum_def upper_hex_def Let_def)

lemma plain_query_char: "\<not> should_escape c EncQuery \<Longrightarrow> alnum c \<or> c \<in> set ''-_.~''"
  by (simp only: should_escape_def encoding.case split: if_splits) auto

lemma escape_query_char: "c \<in> set (escape_char EncQuery d) \<Longrightarrow> alnum c \<or> c \<in> set ''%+-_.~''"
proof (cases "should_escape d EncQuery")
  case False
  assume "c \<in> set (escape_char EncQuery d)"
  with False have "c = d" by (simp add: escape_char_def)
  with False plain_query_char show ?thesis by fastforce
next
  case True
  assume "c \<in> set (escape_char EncQuery d)"
  with True show ?thesis
    by (cases "d = CHR '' ''") (auto simp: escape_char_def Let_def)
qed

lemma alnum_separators [simp]:
  "\<not> alnum (CHR ''&'')" "\<not> alnum (CHR '';'')" "\<not> alnum (CHR ''='')" "\<not> alnum (CHR ''#'')"
  "\<not> alnum (CHR ''?'')"
  by (simp_all add: alnum_def)

lemma escape_query_chars [simp]:
  "c \<notin> set ''%+-_.~'' \<Longrightarrow> \<not> alnum c \<Longrightarrow> c \<notin> set (escape EncQuery s)"
  using escape_query_char by (fastforce simp: escape_def)

subsection \<open>Values\<close>

type_synonym url_values = "(string \<times> string list) list"

fun value_add :: "string \<Rightarrow> string \<Rightarrow> url_values \<Rightarrow> url_values" where
  "value_add k x [] = [(k, [x])]"
| "value_add k x ((k', xs) # v) =
     (if k = k' then (k', xs @ [x]) # v
      else if k < k' then (k, [x]) # (k', xs) # v
      else (k', xs) # value_add k x v)"

fun value_set :: "string \<Rightarrow> string \<Rightarrow> url_values \<Rightarrow> url_values" where
  "value_set k x [] = [(k, [x])]"
| "value_set k x ((k', xs) # v) =
     (if k = k' then (k', [x]) # v
      else if k < k' then (k, [x]) # (k', xs) # v
      else (k', xs) # value_set k x v)"

definition values_wf :: "url_values \<Rightarrow> bool" where
  "values_wf v \<longleftrightarrow> sorted_wrt (<) (map fst v) \<and> (\<forall>kx \<in> set v. snd kx \<noteq> [])"

text \<open>\<open>Values.Get\<close>: the first value of a key, empty when there is none.\<close>

definition value_get :: "string \<Rightarrow> url_values \<Rightarrow> string" where
  "value_get k v = (case map_of v k of Some (x # _) \<Rightarrow> x | _ \<Rightarrow> [])"

fun join_amp :: "string list \<Rightarrow> string" where
  "join_amp [] = []"
| "join_amp [p] = p"
| "join_amp (p # q # ps) = p @ CHR ''&'' # join_amp (q # ps)"

definition query_piece :: "string \<Rightarrow> string \<Rightarrow> string" where
  "query_piece k x = escape EncQuery k @ CHR ''='' # escape EncQuery x"

definition query_encode :: "url_values \<Rightarrow> string" where
  "query_encode v = join_amp (concat (map (\<lambda>(k, xs). map (query_piece k) xs) v))"

definition query_parse_piece :: "url_values \<Rightarrow> string \<Rightarrow> url_values" where
  "query_parse_piece v p =
     (if CHR '';'' \<in> set p \<or> p = [] then v
      else (case cut (CHR ''='') p of (k, x, _) \<Rightarrow>
        (case (unescape EncQuery k, unescape EncQuery x) of
           (Some k', Some x') \<Rightarrow> value_add k' x' v
         | _ \<Rightarrow> v)))"

definition query_parse :: "string \<Rightarrow> url_values" where
  "query_parse q = foldl query_parse_piece [] (split_on (CHR ''&'') q)"

lemma values_wf_Nil [simp]: "values_wf []"
  by (simp add: values_wf_def)

lemma value_set_keys: "set (map fst (value_set k x v)) = insert k (set (map fst v))"
  by (induction k x v rule: value_set.induct) auto

lemma value_add_keys: "set (map fst (value_add k x v)) = insert k (set (map fst v))"
  by (induction k x v rule: value_add.induct) auto

lemma values_wf_Cons:
  "values_wf ((k, xs) # v) \<longleftrightarrow> xs \<noteq> [] \<and> (\<forall>k' \<in> set (map fst v). k < k') \<and> values_wf v"
  by (auto simp: values_wf_def)

lemma values_wf_set: "values_wf v \<Longrightarrow> values_wf (value_set k x v)"
proof (induction k x v rule: value_set.induct)
  case (2 k x k' xs v)
  then show ?case
    using value_set_keys [of k x v] by (auto simp: values_wf_Cons)
qed (simp add: values_wf_def)

lemma values_wf_add: "values_wf v \<Longrightarrow> values_wf (value_add k x v)"
proof (induction k x v rule: value_add.induct)
  case (2 k x k' xs v)
  then show ?case
    using value_add_keys [of k x v] by (auto simp: values_wf_Cons)
qed (simp add: values_wf_def)

lemma map_of_value_set:
  "values_wf v \<Longrightarrow> map_of (value_set k x v) = (map_of v)(k \<mapsto> [x])"
  by (induction k x v rule: value_set.induct) (auto simp: values_wf_Cons fun_upd_twist)

lemma value_get_set [simp]:
  "values_wf v \<Longrightarrow> value_get k (value_set k' x v) = (if k = k' then x else value_get k v)"
  by (simp add: value_get_def map_of_value_set)

theorem value_set_commute:
  assumes "k \<noteq> k'"
  shows "value_set k x (value_set k' y v) = value_set k' y (value_set k x v)"
  using assms by (induction v) (auto split: prod.splits)

lemma query_parse_wf [simp]: "values_wf (query_parse q)"
proof -
  have "values_wf v \<Longrightarrow> values_wf (foldl query_parse_piece v ps)" for v ps
    by (induction ps arbitrary: v)
       (auto simp: query_parse_piece_def values_wf_add split: prod.splits option.splits)
  then show ?thesis by (simp add: query_parse_def)
qed

subsection \<open>Parsing inverts encoding\<close>

lemma query_piece_chars [simp]:
  "CHR ''&'' \<notin> set (query_piece k x)" "CHR '';'' \<notin> set (query_piece k x)"
  "query_piece k x \<noteq> []"
  by (simp_all add: query_piece_def)

lemma cut_query_piece:
  "cut (CHR ''='') (query_piece k x) = (escape EncQuery k, escape EncQuery x, True)"
  by (simp add: query_piece_def cut_notin)

lemma query_parse_piece_piece: "query_parse_piece v (query_piece k x) = value_add k x v"
  by (simp add: query_parse_piece_def cut_query_piece unescape_escape)

lemma split_join_amp:
  "ps \<noteq> [] \<Longrightarrow> \<forall>p \<in> set ps. CHR ''&'' \<notin> set p \<Longrightarrow> split_on (CHR ''&'') (join_amp ps) = ps"
  by (induction ps rule: join_amp.induct) (auto simp: split_on_absent split_on_append)

lemma value_add_last:
  "\<forall>k' \<in> set (map fst v). k' < k \<Longrightarrow>
   value_add k x (v @ (k, xs) # []) = v @ [(k, xs @ [x])]"
  by (induction v) auto

lemma value_add_new: "\<forall>k' \<in> set (map fst v). k' < k \<Longrightarrow> value_add k x v = v @ [(k, [x])]"
  by (induction v) auto

lemma add_same_key:
  "\<forall>k' \<in> set (map fst v). k' < k \<Longrightarrow>
   foldl (\<lambda>v x. value_add k x v) (v @ [(k, ys)]) xs = v @ [(k, ys @ xs)]"
  by (induction xs arbitrary: ys) (auto simp: value_add_last)

lemma add_all:
  assumes "values_wf w" and "\<forall>k \<in> set (map fst v). \<forall>k' \<in> set (map fst w). k < k'"
  shows "foldl query_parse_piece v (concat (map (\<lambda>(k, xs). map (query_piece k) xs) w)) = v @ w"
  using assms
proof (induction w arbitrary: v)
  case (Cons kxs w)
  obtain k x xs where kxs: "kxs = (k, x # xs)"
    using Cons.prems(1) by (cases kxs; cases "snd kxs") (auto simp: values_wf_Cons)
  have less: "\<forall>k' \<in> set (map fst v). k' < k"
    using Cons.prems(2) kxs by auto
  have "foldl query_parse_piece v (map (query_piece k) (x # xs)) =
        foldl (\<lambda>v x. value_add k x v) v (x # xs)"
    by (simp add: foldl_map query_parse_piece_piece)
  also have "\<dots> = v @ [(k, x # xs)]"
    using add_same_key [OF less, of "[x]" xs] by (simp add: value_add_new [OF less])
  finally have step: "foldl query_parse_piece v (map (query_piece k) (x # xs)) = v @ [(k, x # xs)]" .
  have "foldl query_parse_piece (v @ [(k, x # xs)])
          (concat (map (\<lambda>(k, xs). map (query_piece k) xs) w)) = (v @ [(k, x # xs)]) @ w"
    using Cons.prems kxs by (intro Cons.IH) (auto simp: values_wf_Cons)
  with step show ?case by (simp add: kxs)
qed simp

theorem query_parse_encode:
  assumes "values_wf v"
  shows "query_parse (query_encode v) = v"
proof -
  let ?ps = "concat (map (\<lambda>(k, xs). map (query_piece k) xs) v)"
  have all: "foldl query_parse_piece [] ?ps = v"
    using add_all [OF assms, of "[]"] by simp
  have clean: "\<forall>p \<in> set ?ps. CHR ''&'' \<notin> set p"
    by auto
  show ?thesis
  proof (cases "?ps = []")
    case True
    with all show ?thesis
      by (simp add: query_parse_def query_encode_def query_parse_piece_def)
  next
    case False
    then show ?thesis
      unfolding query_parse_def query_encode_def using all by (subst split_join_amp [OF _ clean]) auto
  qed
qed

end
