(* ===== verification/GoUrlParse.thy ===== *)
theory GoUrlParse
  imports GoUrl
begin

text \<open>
  \<open>url.Parse\<close>, \<open>URL.String\<close> and \<open>url.JoinPath\<close>, step by step as the library has them: fragment, control
  bytes, scheme, query, opaque part, authority (user info, host, port) and path with its raw form. None
  is a parse error. \<open>url_string_query\<close> is what the handlers rely on: replacing the query of a parsed
  URL changes nothing in front of the question mark.
\<close>

record url =
  u_Scheme :: string
  u_Opaque :: string
  u_User :: "(string \<times> string option) option"
  u_Host :: string
  u_Path :: string
  u_RawPath :: string
  u_OmitHost :: bool
  u_ForceQuery :: bool
  u_RawQuery :: string
  u_Fragment :: string
  u_RawFragment :: string

definition empty_url :: url where
  "empty_url = \<lparr>u_Scheme = [], u_Opaque = [], u_User = None, u_Host = [], u_Path = [], u_RawPath = [],
     u_OmitHost = False, u_ForceQuery = False, u_RawQuery = [], u_Fragment = [], u_RawFragment = []\<rparr>"

definition is_letter :: "char \<Rightarrow> bool" where
  "is_letter c = (let n = (of_char c :: nat) in 65 \<le> n \<and> n \<le> 90 \<or> 97 \<le> n \<and> n \<le> 122)"

definition is_digit :: "char \<Rightarrow> bool" where
  "is_digit c = (let n = (of_char c :: nat) in 48 \<le> n \<and> n \<le> 57)"

definition is_ctl :: "char \<Rightarrow> bool" where
  "is_ctl c = (let n = (of_char c :: nat) in n < 32 \<or> n = 127)"

subsection \<open>The pieces\<close>

text \<open>\<open>getScheme\<close>: the scheme read so far (reversed) and the rest; None for a missing scheme name.\<close>

fun get_scheme :: "string \<Rightarrow> string \<Rightarrow> string \<Rightarrow> (string \<times> string) option" where
  "get_scheme whole seen [] = Some ([], whole)"
| "get_scheme whole seen (c # s) =
     (if is_letter c then get_scheme whole (c # seen) s
      else if is_digit c \<or> c \<in> set ''+-.'' then
        (if seen = [] then Some ([], whole) else get_scheme whole (c # seen) s)
      else if c = CHR '':'' then (if seen = [] then None else Some (rev seen, s))
      else Some ([], whole))"

definition valid_optional_port :: "string \<Rightarrow> bool" where
  "valid_optional_port p =
     (case p of [] \<Rightarrow> True | c # ds \<Rightarrow> c = CHR '':'' \<and> list_all is_digit ds)"

definition valid_userinfo :: "string \<Rightarrow> bool" where
  "valid_userinfo = list_all (\<lambda>c. alnum c \<or> c \<in> set ''-._:~!$&'()*+,;=%@'')"

text \<open>What follows the last occurrence of a character, with what precedes it.\<close>

definition cut_last :: "char \<Rightarrow> string \<Rightarrow> (string \<times> string) option" where
  "cut_last c s = (case cut c (rev s) of (b, a, f) \<Rightarrow> if f then Some (rev a, rev b) else None)"

definition parse_host :: "string \<Rightarrow> string option" where
  "parse_host h =
     (if has_prefix h ''['' then
        (case cut_last (CHR '']'') h of
           None \<Rightarrow> None
         | Some (_, port) \<Rightarrow> if valid_optional_port port then unescape EncHost h else None)
      else (case cut (CHR '':'') h of (_, port, f) \<Rightarrow>
        if f \<and> (CHR '':'' \<in> set port \<or> \<not> list_all is_digit port) then None
        else unescape EncHost h))"

definition parse_authority :: "string \<Rightarrow> ((string \<times> string option) option \<times> string) option" where
  "parse_authority a =
     (case cut_last (CHR ''@'') a of
        None \<Rightarrow> map_option (Pair None) (parse_host a)
      | Some (ui, h) \<Rightarrow>
          (case parse_host h of
             None \<Rightarrow> None
           | Some host \<Rightarrow>
               if \<not> valid_userinfo ui then None
               else (case cut (CHR '':'') ui of (name, pw, f) \<Rightarrow>
                 (case (unescape EncUserPassword name, unescape EncUserPassword pw) of
                    (Some n, Some p) \<Rightarrow> Some (Some (n, if f then Some p else None), host)
                  | _ \<Rightarrow> None))))"

definition set_path :: "url \<Rightarrow> string \<Rightarrow> url option" where
  "set_path u p = (case unescape EncPath p of
       None \<Rightarrow> None
     | Some path \<Rightarrow> Some (u\<lparr>u_Path := path,
         u_RawPath := (if p = escape EncPath path then [] else p)\<rparr>))"

definition set_fragment :: "url \<Rightarrow> string \<Rightarrow> url option" where
  "set_fragment u f = (case unescape EncFragment f of
       None \<Rightarrow> None
     | Some frag \<Rightarrow> Some (u\<lparr>u_Fragment := frag,
         u_RawFragment := (if f = escape EncFragment frag then [] else f)\<rparr>))"

subsection \<open>Parse\<close>

text \<open>The path, after scheme, query and authority have been taken off.\<close>

definition parse_hier :: "url \<Rightarrow> string \<Rightarrow> url option" where
  "parse_hier u rest =
     (if has_prefix rest ''//'' \<and> (u_Scheme u \<noteq> [] \<or> \<not> has_prefix rest ''///'') then
        (let auth = takeWhile (\<lambda>c. c \<noteq> CHR ''/'') (drop 2 rest);
             path = dropWhile (\<lambda>c. c \<noteq> CHR ''/'') (drop 2 rest) in
         (case parse_authority auth of
            None \<Rightarrow> None
          | Some (user, host) \<Rightarrow> set_path (u\<lparr>u_User := user, u_Host := host\<rparr>) path))
      else if u_Scheme u \<noteq> [] \<and> has_prefix rest ''/'' then set_path (u\<lparr>u_OmitHost := True\<rparr>) rest
      else set_path u rest)"

definition parse_no_fragment :: "string \<Rightarrow> url option" where
  "parse_no_fragment raw =
     (if list_ex is_ctl raw then None
      else if raw = ''*'' then Some (empty_url\<lparr>u_Path := ''*''\<rparr>)
      else (case get_scheme raw [] raw of
        None \<Rightarrow> None
      | Some (scheme, rest) \<Rightarrow>
          (let (front, query, found) = cut (CHR ''?'') rest;
               force = found \<and> query = [];
               u = empty_url\<lparr>u_Scheme := to_lower scheme, u_ForceQuery := force, u_RawQuery := query\<rparr>
           in if \<not> has_prefix front ''/'' \<and> u_Scheme u \<noteq> [] then Some (u\<lparr>u_Opaque := front\<rparr>)
              else if \<not> has_prefix front ''/'' \<and>
                      CHR '':'' \<in> set (takeWhile (\<lambda>c. c \<noteq> CHR ''/'') front) then None
              else parse_hier u front)))"

definition url_parse :: "string \<Rightarrow> url option" where
  "url_parse raw = (case cut (CHR ''#'') raw of (r, frag, _) \<Rightarrow>
     (case parse_no_fragment r of
        None \<Rightarrow> None
      | Some u \<Rightarrow> if frag = [] then Some u else set_fragment u frag))"

subsection \<open>String\<close>

definition valid_encoded :: "encoding \<Rightarrow> string \<Rightarrow> bool" where
  "valid_encoded m = list_all (\<lambda>c. c \<in> set ''!$&'()*+,;=:@[]%'' \<or> \<not> should_escape c m)"

definition escaped_path :: "url \<Rightarrow> string" where
  "escaped_path u =
     (if u_RawPath u \<noteq> [] \<and> valid_encoded EncPath (u_RawPath u) \<and>
         unescape EncPath (u_RawPath u) = Some (u_Path u) then u_RawPath u
      else if u_Path u = ''*'' then ''*''
      else escape EncPath (u_Path u))"

definition escaped_fragment :: "url \<Rightarrow> string" where
  "escaped_fragment u =
     (if u_RawFragment u \<noteq> [] \<and> valid_encoded EncFragment (u_RawFragment u) \<and>
         unescape EncFragment (u_RawFragment u) = Some (u_Fragment u) then u_RawFragment u
      else escape EncFragment (u_Fragment u))"

definition user_string :: "string \<times> string option \<Rightarrow> string" where
  "user_string up = (case up of (n, p) \<Rightarrow> escape EncUserPassword n @
     (case p of None \<Rightarrow> [] | Some pw \<Rightarrow> CHR '':'' # escape EncUserPassword pw))"

definition authority_string :: "url \<Rightarrow> string" where
  "authority_string u =
     (if u_Scheme u = [] \<and> u_Host u = [] \<and> u_User u = None then []
      else if u_OmitHost u \<and> u_Host u = [] \<and> u_User u = None then []
      else (if u_Host u \<noteq> [] \<or> u_Path u \<noteq> [] \<or> u_User u \<noteq> None then ''//'' else []) @
           (case u_User u of None \<Rightarrow> [] | Some up \<Rightarrow> user_string up @ ''@'') @
           escape EncHost (u_Host u))"

text \<open>Everything in front of the query.\<close>

definition url_base :: "url \<Rightarrow> string" where
  "url_base u =
     (let scheme = (if u_Scheme u = [] then [] else u_Scheme u @ '':'') in
      if u_Opaque u \<noteq> [] then scheme @ u_Opaque u
      else (let start = scheme @ authority_string u; path = escaped_path u in
        start @
        (if path \<noteq> [] \<and> \<not> has_prefix path ''/'' \<and> u_Host u \<noteq> [] then ''/''
         else if start = [] \<and> CHR '':'' \<in> set (takeWhile (\<lambda>c. c \<noteq> CHR ''/'') path) then ''./''
         else []) @ path))"

definition url_tail :: "url \<Rightarrow> string" where
  "url_tail u = (if u_Fragment u = [] then [] else CHR ''#'' # escaped_fragment u)"

definition url_string :: "url \<Rightarrow> string" where
  "url_string u = url_base u @
     (if u_ForceQuery u \<or> u_RawQuery u \<noteq> [] then CHR ''?'' # u_RawQuery u else []) @ url_tail u"

lemma authority_string_query [simp]: "authority_string (u\<lparr>u_RawQuery := q\<rparr>) = authority_string u"
  by (simp add: authority_string_def cong: if_cong option.case_cong)

lemma escaped_path_query [simp]: "escaped_path (u\<lparr>u_RawQuery := q\<rparr>) = escaped_path u"
  by (simp add: escaped_path_def cong: if_cong)

lemma url_base_query [simp]: "url_base (u\<lparr>u_RawQuery := q\<rparr>) = url_base u"
  by (simp add: url_base_def Let_def cong: if_cong)

lemma url_tail_query [simp]: "url_tail (u\<lparr>u_RawQuery := q\<rparr>) = url_tail u"
  by (simp add: url_tail_def escaped_fragment_def cong: if_cong)

lemma url_string_query:
  "q \<noteq> [] \<Longrightarrow> url_string (u\<lparr>u_RawQuery := q\<rparr>) = url_base u @ CHR ''?'' # q @ url_tail u"
  by (simp add: url_string_def)

subsection \<open>JoinPath\<close>

text \<open>\<open>path.Clean\<close> of a rooted path, on its segments.\<close>

fun clean_segments :: "string list \<Rightarrow> string list \<Rightarrow> string list" where
  "clean_segments acc [] = rev acc"
| "clean_segments acc (s # ss) =
     (if s = [] \<or> s = ''.'' then clean_segments acc ss
      else if s = ''..'' then clean_segments (tl acc) ss
      else clean_segments (s # acc) ss)"

fun join_slash :: "string list \<Rightarrow> string" where
  "join_slash [] = []"
| "join_slash [p] = p"
| "join_slash (p # q # ps) = p @ CHR ''/'' # join_slash (q # ps)"

definition path_clean_rooted :: "string \<Rightarrow> string" where
  "path_clean_rooted p = CHR ''/'' # join_slash (clean_segments [] (split_on (CHR ''/'') p))"

text \<open>\<open>url.JoinPath(base, elem)\<close> for one element, which the callers write with a leading slash.\<close>

definition url_join_path :: "string \<Rightarrow> string \<Rightarrow> string option" where
  "url_join_path base elem = (case url_parse base of
       None \<Rightarrow> None
     | Some u \<Rightarrow>
         (let e0 = escaped_path u; rooted = has_prefix e0 ''/'';
              p = path_clean_rooted ((if rooted then e0 else CHR ''/'' # e0) @ CHR ''/'' # elem);
              p1 = (if rooted then p else tl p);
              p2 = (if has_suffix elem ''/'' \<and> \<not> has_suffix p1 ''/'' then p1 @ ''/'' else p1)
          in Some (url_string (case set_path u p2 of None \<Rightarrow> u | Some v \<Rightarrow> v))))"

end
