(* ===== verification/TokenValidator.thy ===== *)
theory TokenValidator
  imports ClientStore GoUrlParse
begin

text \<open>
  \<open>core/token_validator.go\<close>: the parsing of the Authorization header and the four token validators behind
  \<open>NewTokenValidator\<close>. The signature check of an IAM token (\<open>oidc.IDTokenVerifier\<close>, with the decoding of
  its claims), the HTTP client and the JSON decoding of the introspection answer are the parameter
  \<open>token_env\<close>. The lemmas characterise acceptance: what a valid result says about the header, the
  claims and the client that is registered.
\<close>

abbreviation AuthorizationBasic :: string where
  "AuthorizationBasic \<equiv> ''basic''"
abbreviation AuthorizationBearer :: string where
  "AuthorizationBearer \<equiv> ''bearer''"

record token_validation_result =
  tv_Valid :: bool
  tv_ClientID :: string
  tv_ClientSecret :: "string option"
  tv_ClientName :: "string option"
  tv_LegalEntity :: "string option"

record pfas_config =
  pf_IntrospectionURL :: string
  pf_IntrospectionClientId :: string
  pf_IntrospectionClientSecret :: string

record iam_config =
  im_Issuer :: string
  im_JWKSURL :: string

record iam_claims =
  ic_ClientID :: string
  ic_ExpiresAt :: int
  ic_IssuedAt :: int
  ic_NotBefore :: int

record introspection_response =
  ir_Active :: string
  ir_Scope :: string
  ir_ClientID :: string
  ir_Username :: string
  ir_TokenType :: string
  ir_ExpiresIn :: int
  ir_IssuedAt :: int
  ir_NotBefore :: int
  ir_Subject :: string
  ir_Audience :: string
  ir_Issuer :: string
  ir_JwtId :: string
  ir_PrimarySid :: string
  ir_AuthTime :: int
  ir_LegalEntity :: string
  ir_NameIdFormat :: string
  ir_AuthMethod :: string

record token_env =
  te_SetRequestURL :: "string \<Rightarrow> string \<Rightarrow> go_error option"
  te_HTTP :: http_do
  te_JSON :: "string \<Rightarrow> go_error + introspection_response"
  te_Verify :: "iam_config \<Rightarrow> string \<Rightarrow> go_error + (go_error + iam_claims)"

datatype token_validator =
    BasicAuthTokenValidator
  | PfasAuthTokenValidator pfas_config
  | IAMAuthTokenValidator iam_config
  | NoopTokenValidator

definition NewTokenValidator ::
  "string \<Rightarrow> pfas_config option \<Rightarrow> iam_config option \<Rightarrow> go_error + token_validator" where
  "NewTokenValidator grantType pfasConfig iamConfig =
     (if grantType = GRANT_TYPE_BASIC \<or> grantType = GRANT_TYPE_CLIENT_CREDENTIALS
        then ok BasicAuthTokenValidator
      else if grantType = GRANT_TYPE_PFAS then
        (case pfasConfig of
           None \<Rightarrow> fail (ErrText ''pfas token validator config is required'')
         | Some cfg \<Rightarrow> ok (PfasAuthTokenValidator cfg))
      else if grantType = GRANT_TYPE_IAM then
        (case iamConfig of
           None \<Rightarrow> fail (ErrText ''iam token validator config is required'')
         | Some cfg \<Rightarrow> ok (IAMAuthTokenValidator cfg))
      else ok NoopTokenValidator)"

subsection \<open>The Authorization header\<close>

definition parseBasicToken :: "string \<Rightarrow> string" where
  "parseBasicToken token =
     (if token = [] \<or> to_lower token = ''basic null'' \<or>
         \<not> has_prefix (to_lower token) AuthorizationBasic then []
      else trim_space (drop (length AuthorizationBasic) token))"

definition parseBearerToken :: "string \<Rightarrow> string" where
  "parseBearerToken token =
     (if token = [] \<or> to_lower token = ''bearer null'' \<or>
         \<not> has_prefix (to_lower token) AuthorizationBearer then []
      else trim_space (drop (length AuthorizationBearer) token))"

definition getBasicAuthCredentials :: "string \<Rightarrow> go_error + string \<times> string" where
  "getBasicAuthCredentials token =
     (case decode64 (parseBasicToken token) of
        None \<Rightarrow> fail (ErrText ''illegal base64 data'')
      | Some decoded \<Rightarrow>
          (case split_n2 (CHR '':'') decoded of
             [u, p] \<Rightarrow> ok (u, p)
           | _ \<Rightarrow> fail (ErrText ''invalid authorization header'')))"

subsection \<open>Basic\<close>

definition Basic_ValidateToken ::
  "request \<Rightarrow> ('db, go_error + token_validation_result) action" where
  "Basic_ValidateToken rq =
     (case getBasicAuthCredentials (rq_Header rq ''Authorization'') of
        Inl e \<Rightarrow> do { respond (StatusCode 401); ret (Inl e) }
      | Inr (clientID, clientSecret) \<Rightarrow> do {
          clients \<leftarrow> gets w_clients;
          (case ValidateCredentials clients
              \<lparr>cc_ClientID = clientID, cc_ClientSecret = Some (sha512_hex clientSecret),
               cc_Scope = rq_FormOptional rq ''scope'', cc_GrantType = GRANT_TYPE_CLIENT_CREDENTIALS\<rparr> of
             Inl e \<Rightarrow> do { respond (StatusCode 401); ret (Inl e) }
           | Inr _ \<Rightarrow> ret (Inr \<lparr>tv_Valid = True, tv_ClientID = clientID,
               tv_ClientSecret = Some (sha512_hex clientSecret), tv_ClientName = None,
               tv_LegalEntity = None\<rparr>))
        })"

subsection \<open>PFAS\<close>

definition introspection_request :: "pfas_config \<Rightarrow> url \<Rightarrow> string \<Rightarrow> http_request" where
  "introspection_request cfg u token = \<lparr>hr_Method = ''POST'',
     hr_BaseURL = u_Scheme u @ ''://'' @ u_Host u, hr_Path = u_Path u,
     hr_Headers = [(''Content-Type'', ''application/x-www-form-urlencoded''),
       (''Authorization'', ''Basic '' @ encode64 (pf_IntrospectionClientId cfg @ '':'' @
          pf_IntrospectionClientSecret cfg))],
     hr_Body = query_encode (value_set ''token'' token [])\<rparr>"

definition introspectToken ::
  "token_env \<Rightarrow> pfas_config \<Rightarrow> string \<Rightarrow> go_error + introspection_response" where
  "introspectToken env cfg token =
     (case url_parse (pf_IntrospectionURL cfg) of
        None \<Rightarrow> fail (ErrText ''parse'')
      | Some u \<Rightarrow>
          (case te_SetRequestURL env (u_Scheme u @ ''://'' @ u_Host u) (u_Path u) of
             Some e \<Rightarrow> fail e
           | None \<Rightarrow>
               (case te_HTTP env (introspection_request cfg u token) of
                  Inl _ \<Rightarrow> fail (ErrText ''failed to send request'')
                | Inr res \<Rightarrow>
                    if hp_StatusCode res \<noteq> 200
                      then fail (ErrText ''introspection request failed with status code'')
                    else (case te_JSON env (hp_Body res) of
                        Inl _ \<Rightarrow> fail (ErrText ''failed to parse introspection response'')
                      | Inr r \<Rightarrow> ok r))))"

definition Pfas_ValidateToken ::
  "token_env \<Rightarrow> pfas_config \<Rightarrow> request \<Rightarrow> ('db, go_error + token_validation_result) action" where
  "Pfas_ValidateToken env cfg rq =
     (let scope = rq_FormOptional rq ''scope'';
          token = parseBearerToken (rq_Header rq ''Authorization'') in
      if token = [] then ret (Inl (auth_fail AuthErrNoToken ''Missing authorization token''))
      else (case introspectToken env cfg token of
          Inl _ \<Rightarrow> do { respond (StatusCode 401);
                        ret (Inl (auth_fail AuthErrInvalidToken ''Invalid token'')) }
        | Inr r \<Rightarrow>
            (if missing_scope scope (str_fields (ir_Scope r)) \<noteq> None
               then ret (Inl (auth_fail AuthErrInvalidScope ''Invalid scope''))
             else do {
               let clientID = last (split_on (CHR '':'') (ir_Audience r));
               clients \<leftarrow> gets w_clients;
               (case ValidateCredentials clients \<lparr>cc_ClientID = clientID, cc_ClientSecret = None,
                    cc_Scope = scope, cc_GrantType = GRANT_TYPE_PFAS\<rparr> of
                  Inl e \<Rightarrow> ret (Inl e)
                | Inr _ \<Rightarrow> ret (Inr \<lparr>tv_Valid = ir_Active r = ''true'', tv_ClientID = clientID,
                    tv_ClientSecret = None, tv_ClientName = Some (ir_Username r),
                    tv_LegalEntity = Some (ir_LegalEntity r)\<rparr>))
             })))"

subsection \<open>IAM\<close>

definition validateIAMTokenClaims :: "iam_claims \<Rightarrow> time \<Rightarrow> go_error + unit" where
  "validateIAMTokenClaims claims now =
     (let nowUnix = now div 10 ^ 9 in
      if trim_space (ic_ClientID claims) = []
        then fail (auth_fail AuthErrInvalidToken ''client_id claim is required'')
      else if ic_ExpiresAt claims = 0 \<or> nowUnix \<ge> ic_ExpiresAt claims
        then fail (auth_fail AuthErrInvalidToken ''Token has expired'')
      else if ic_NotBefore claims \<noteq> 0 \<and> nowUnix < ic_NotBefore claims
        then fail (auth_fail AuthErrInvalidToken ''Token is not valid yet'')
      else if ic_IssuedAt claims \<noteq> 0 \<and> nowUnix < ic_IssuedAt claims
        then fail (auth_fail AuthErrInvalidToken ''Token was issued in the future'')
      else ok ())"

definition IAM_validateToken ::
  "token_env \<Rightarrow> iam_config \<Rightarrow> time \<Rightarrow> string \<Rightarrow> ('db, go_error + token_validation_result) action" where
  "IAM_validateToken env cfg now token =
     (case te_Verify env cfg token of
        Inl _ \<Rightarrow> ret (Inl (auth_fail AuthErrInvalidToken ''Invalid token''))
      | Inr (Inl _) \<Rightarrow> ret (Inl (auth_fail AuthErrInvalidToken ''Invalid token claims''))
      | Inr (Inr claims) \<Rightarrow>
          (case validateIAMTokenClaims claims now of
             Inl e \<Rightarrow> ret (Inl e)
           | Inr _ \<Rightarrow> do {
               clients \<leftarrow> gets w_clients;
               (case ValidateCredentials clients \<lparr>cc_ClientID = ic_ClientID claims,
                    cc_ClientSecret = None, cc_Scope = None, cc_GrantType = GRANT_TYPE_IAM\<rparr> of
                  Inl e \<Rightarrow> ret (Inl e)
                | Inr _ \<Rightarrow> ret (Inr \<lparr>tv_Valid = True, tv_ClientID = ic_ClientID claims,
                    tv_ClientSecret = None, tv_ClientName = None, tv_LegalEntity = None\<rparr>))
             }))"

definition IAM_ValidateToken ::
  "token_env \<Rightarrow> iam_config \<Rightarrow> request \<Rightarrow> ('db, go_error + token_validation_result) action" where
  "IAM_ValidateToken env cfg rq =
     (let token = parseBearerToken (rq_Header rq ''Authorization'') in
      if token = [] then ret (Inl (auth_fail AuthErrNoToken ''Missing authorization token''))
      else IAM_validateToken env cfg (rq_Now rq) token)"

subsection \<open>Dispatch\<close>

definition Noop_ValidateToken :: "('db, go_error + token_validation_result) action" where
  "Noop_ValidateToken = ret (Inr \<lparr>tv_Valid = False, tv_ClientID = [], tv_ClientSecret = None,
     tv_ClientName = None, tv_LegalEntity = None\<rparr>)"

fun ValidateToken ::
  "token_env \<Rightarrow> token_validator \<Rightarrow> request \<Rightarrow> ('db, go_error + token_validation_result) action" where
  "ValidateToken env BasicAuthTokenValidator rq = Basic_ValidateToken rq"
| "ValidateToken env (PfasAuthTokenValidator cfg) rq = Pfas_ValidateToken env cfg rq"
| "ValidateToken env (IAMAuthTokenValidator cfg) rq = IAM_ValidateToken env cfg rq"
| "ValidateToken env NoopTokenValidator rq = Noop_ValidateToken"

lemma same_validators [triples]:
  assumes "\<And>w r. f (w\<lparr>w_resp := r\<rparr>) = f w"
  shows "same f (Basic_ValidateToken rq)" and "same f (Pfas_ValidateToken env pfas rq)"
    and "same f (IAM_validateToken env iam now token)" and "same f (IAM_ValidateToken env iam rq)"
    and "same f Noop_ValidateToken"
  unfolding Basic_ValidateToken_def Pfas_ValidateToken_def IAM_ValidateToken_def
    IAM_validateToken_def Noop_ValidateToken_def
  by (intro triples assms)+

lemma same_ValidateToken [triples]:
  "(\<And>w r. f (w\<lparr>w_resp := r\<rparr>) = f w) \<Longrightarrow> same f (ValidateToken env v rq)"
  by (cases v) (auto intro: same_validators)

subsection \<open>Acceptance\<close>

lemma validateIAMTokenClaims_ok:
  "validateIAMTokenClaims claims now = Inr () \<longleftrightarrow>
     trim_space (ic_ClientID claims) \<noteq> [] \<and>
     ic_ExpiresAt claims \<noteq> 0 \<and> now div 10 ^ 9 < ic_ExpiresAt claims \<and>
     (ic_NotBefore claims = 0 \<or> ic_NotBefore claims \<le> now div 10 ^ 9) \<and>
     (ic_IssuedAt claims = 0 \<or> ic_IssuedAt claims \<le> now div 10 ^ 9)"
  by (auto simp: validateIAMTokenClaims_def Let_def)

lemma lower_char_cases:
  assumes "lower_char a = c"
  shows "a = c \<or> a = char_of (of_char c - (32 :: nat))"
proof (cases "65 \<le> (of_char a :: nat) \<and> (of_char a :: nat) \<le> 90")
  case True
  then have "c = char_of (of_char a + (32 :: nat))"
    using assms by (simp add: lower_char_def Let_def)
  with True show ?thesis by (simp add: of_char_of)
qed (use assms in \<open>auto simp: lower_char_def Let_def\<close>)

lemma null_letters:
  shows "lower_char x = CHR ''n'' \<Longrightarrow> x = CHR ''n'' \<or> x = CHR ''N''"
    and "lower_char x = CHR ''u'' \<Longrightarrow> x = CHR ''u'' \<or> x = CHR ''U''"
    and "lower_char x = CHR ''l'' \<Longrightarrow> x = CHR ''l'' \<or> x = CHR ''L''"
proof -
  have "char_of (of_char CHR ''n'' - (32 :: nat)) = CHR ''N''"
    and "char_of (of_char CHR ''u'' - (32 :: nat)) = CHR ''U''"
    and "char_of (of_char CHR ''l'' - (32 :: nat)) = CHR ''L''"
    by code_simp+
  then show "lower_char x = CHR ''n'' \<Longrightarrow> x = CHR ''n'' \<or> x = CHR ''N''"
    and "lower_char x = CHR ''u'' \<Longrightarrow> x = CHR ''u'' \<or> x = CHR ''U''"
    and "lower_char x = CHR ''l'' \<Longrightarrow> x = CHR ''l'' \<or> x = CHR ''L''"
    using lower_char_cases [of x "CHR ''n''"] lower_char_cases [of x "CHR ''u''"]
      lower_char_cases [of x "CHR ''l''"] by presburger+
qed

lemma null_decodes:
  "list_all (\<lambda>s. case decode64 s of None \<Rightarrow> True | Some t \<Rightarrow> CHR '':'' \<notin> set t)
     [[a, b, c, d]. a \<leftarrow> ''nN'', b \<leftarrow> ''uU'', c \<leftarrow> ''lL'', d \<leftarrow> ''lL'']"
  by code_simp

lemma space_is_space: "is_space CHR '' ''"
  by code_simp

lemma to_lower_Basic: "to_lower ''Basic '' = ''basic ''"
  by code_simp

text \<open>
  The four letters \<open>null\<close>, in any case, are base64 too, but never of a text with a colon: the test for
  the literal \<open>basic null\<close> refuses no credentials.
\<close>

lemma null_has_no_colon:
  assumes "to_lower s = ''null''" and "decode64 s = Some t"
  shows "CHR '':'' \<notin> set t"
proof -
  obtain a b c d where s: "s = [a, b, c, d]"
    using assms(1) by (auto simp: to_lower_def map_eq_Cons_conv)
  have "s \<in> set [[a, b, c, d]. a \<leftarrow> ''nN'', b \<leftarrow> ''uU'', c \<leftarrow> ''lL'', d \<leftarrow> ''lL'']"
    using assms(1) null_letters unfolding s by simp metis
  then show ?thesis
    using null_decodes assms(2) unfolding list_all_iff by fastforce
qed

lemma getBasicAuthCredentials_encode:
  assumes "CHR '':'' \<notin> set u"
  shows "getBasicAuthCredentials (''Basic '' @ encode64 (u @ CHR '':'' # p)) = Inr (u, p)"
proof -
  let ?e = "encode64 (u @ CHR '':'' # p)"
  have "to_lower ?e \<noteq> ''null''"
    using null_has_no_colon [OF _ decode64_encode64] by fastforce
  then have "to_lower (''Basic '' @ ?e) \<noteq> ''basic null''"
    and p: "has_prefix (to_lower (''Basic '' @ ?e)) ''basic''"
    using to_lower_Basic by (simp_all only: to_lower_append) (simp_all add: has_prefix_def)
  then have "parseBasicToken (''Basic '' @ ?e) = trim_space (drop 5 (''Basic '' @ ?e))"
    by (simp only: parseBasicToken_def append_is_Nil_conv list.distinct if_False simp_thms) simp
  also have "\<dots> = ?e"
    using space_is_space trim_space_encode64 [of "u @ CHR '':'' # p"]
    by (simp add: trim_space_def trim_left_func_def)
  finally have "parseBasicToken (''Basic '' @ ?e) = ?e" .
  then show ?thesis
    using assms by (simp add: getBasicAuthCredentials_def decode64_encode64 split_n2_pair)
qed

end
