(* ===== verification/Correlation.thy ===== *)
theory Correlation
  imports Context
begin

text \<open>
  \<open>app/correlation.go\<close>: the correlation of one authorization request, kept in a cache under the value
  of the cookie \<open>idauth-correlation\<close>. \<open>Set\<close> starts a correlation, restarts the one of the same client, or
  updates a running one. The lemmas say which fields of the stored value come from where: nothing of
  an abandoned flow survives a restart, and an update stores the session and the error code only.
\<close>

definition DefaultCookieName :: string where
  "DefaultCookieName = ''idauth-correlation''"

definition correlation_cookie :: "request \<Rightarrow> string \<Rightarrow> bool \<Rightarrow> cookie" where
  "correlation_cookie rq key expired = \<lparr>ck_Key = DefaultCookieName, ck_Value = key,
     ck_Secure = rq_IsTLS rq, ck_HTTPOnly = True, ck_SameSiteNone = True,
     ck_Path = rq_BasePath rq, ck_Expired = expired\<rparr>"

definition getFromCookie :: "request \<Rightarrow> ('db, go_error + (correlation \<times> string) option) action" where
  "getFromCookie rq =
     (case rq_Cookie rq of
        None \<Rightarrow> ret (Inr None)
      | Some (Inl e) \<Rightarrow> ret (Inl e)
      | Some (Inr key) \<Rightarrow> attempt (cor_get key) (\<lambda>cor. ret (Inr (map_option (\<lambda>c. (c, key)) cor))))"

definition setToCookie :: "request \<Rightarrow> string \<Rightarrow> correlation \<Rightarrow> ('db, go_error + unit) action" where
  "setToCookie rq key cor = attempt (cor_set key cor) (\<lambda>_. do {
     respond (SetCookie (correlation_cookie rq key False));
     ret (Inr ())
   })"

definition deleteFromCookie :: "request \<Rightarrow> ('db, go_error + unit) action" where
  "deleteFromCookie rq =
     (case rq_Cookie rq of
        None \<Rightarrow> ret (Inr ())
      | Some (Inl e) \<Rightarrow> ret (Inl e)
      | Some (Inr key) \<Rightarrow> attempt (cor_delete key) (\<lambda>_. do {
          respond (SetCookie (correlation_cookie rq key True));
          ret (Inr ())
        }))"

definition new_correlation :: "correlation \<Rightarrow> correlation" where
  "new_correlation c = \<lparr>c_ID = [], c_ClientID = c_ClientID c, c_RedirectURI = c_RedirectURI c,
     c_Nonce = c_Nonce c, c_State = c_State c, c_CodeChallenge = c_CodeChallenge c,
     c_CodeChallengeMethod = c_CodeChallengeMethod c, c_ErrorCode = [],
     c_ManagedByProvider = False, c_SessionCreated = None, c_TOSTargetURI = None\<rparr>"

definition restart_correlation :: "correlation \<Rightarrow> correlation \<Rightarrow> correlation" where
  "restart_correlation cor c = cor\<lparr>c_RedirectURI := c_RedirectURI c, c_Nonce := c_Nonce c,
     c_State := c_State c, c_CodeChallenge := c_CodeChallenge c,
     c_CodeChallengeMethod := c_CodeChallengeMethod c, c_ID := [], c_ErrorCode := [],
     c_ManagedByProvider := False, c_SessionCreated := None, c_TOSTargetURI := None\<rparr>"

definition update_correlation :: "correlation \<Rightarrow> correlation \<Rightarrow> correlation" where
  "update_correlation cor c = cor\<lparr>c_ID := c_ID c, c_ErrorCode := c_ErrorCode c\<rparr>"

definition merge_correlation :: "correlation \<Rightarrow> correlation \<Rightarrow> correlation" where
  "merge_correlation cor c =
     (if c_ID c = [] then restart_correlation cor c else update_correlation cor c)"

definition Correlation_Set ::
  "request \<Rightarrow> correlation option \<Rightarrow> ('db, go_error + correlation) action" where
  "Correlation_Set rq correlation =
     (case correlation of
        None \<Rightarrow> ret (Inl (ErrText ''correlation is nil''))
      | Some c \<Rightarrow> attempt (getFromCookie rq) (\<lambda>found.
          (case (case found of
                   None \<Rightarrow> None
                 | Some (cor, key) \<Rightarrow> if c_ClientID c \<noteq> c_ClientID cor then None else Some (cor, key)) of
             None \<Rightarrow> do {
               key \<leftarrow> new_ulid;
               attempt (setToCookie rq key (new_correlation c)) (\<lambda>_. ret (Inr (new_correlation c)))
             }
           | Some (cor, key) \<Rightarrow>
               attempt (setToCookie rq key (merge_correlation cor c))
                 (\<lambda>_. ret (Inr (merge_correlation cor c))))))"

definition Correlation_Get :: "request \<Rightarrow> ('db, go_error + correlation option) action" where
  "Correlation_Get rq = attempt (getFromCookie rq) (\<lambda>found. ret (Inr (map_option fst found)))"

definition Correlation_Delete :: "request \<Rightarrow> ('db, go_error + unit) action" where
  "Correlation_Delete rq = deleteFromCookie rq"

subsection \<open>What is stored\<close>

lemma restart_is_new: "c_ClientID cor = c_ClientID c \<Longrightarrow> restart_correlation cor c = new_correlation c"
  by (simp add: restart_correlation_def new_correlation_def)

lemma new_correlation_sel [simp]:
  "c_ID (new_correlation c) = []" "c_ErrorCode (new_correlation c) = []"
  "c_ManagedByProvider (new_correlation c) = False" "c_SessionCreated (new_correlation c) = None"
  "c_TOSTargetURI (new_correlation c) = None" "c_ClientID (new_correlation c) = c_ClientID c"
  "c_RedirectURI (new_correlation c) = c_RedirectURI c" "c_State (new_correlation c) = c_State c"
  "c_Nonce (new_correlation c) = c_Nonce c"
  by (simp_all add: new_correlation_def)

lemma update_correlation_sel [simp]:
  "c_ID (update_correlation cor c) = c_ID c" "c_ErrorCode (update_correlation cor c) = c_ErrorCode c"
  "c_ClientID (update_correlation cor c) = c_ClientID cor"
  "c_RedirectURI (update_correlation cor c) = c_RedirectURI cor"
  "c_State (update_correlation cor c) = c_State cor" "c_Nonce (update_correlation cor c) = c_Nonce cor"
  "c_SessionCreated (update_correlation cor c) = c_SessionCreated cor"
  "c_TOSTargetURI (update_correlation cor c) = c_TOSTargetURI cor"
  "c_ManagedByProvider (update_correlation cor c) = c_ManagedByProvider cor"
  by (simp_all add: update_correlation_def)

lemma run_getFromCookie:
  "run_state (getFromCookie rq) w = (r, w') \<Longrightarrow>
     w_cor w' = w_cor w \<and> w_resp w' = w_resp w \<and> w_ulids w' = w_ulids w \<and> w_ulid w' = w_ulid w \<and>
     (\<forall>cor key. r = Inr (Some (cor, key)) \<longrightarrow> rq_Cookie rq = Some (Inr key) \<and> w_cor w key = Some cor)"
  by (auto simp: getFromCookie_def run_cache_get split: option.splits sum.splits)

lemma run_setToCookie:
  "run_state (setToCookie rq key cor) w = (Inr u, w') \<Longrightarrow>
     w_cor w' = (w_cor w)(key \<mapsto> cor) \<and> w_ulid w' = w_ulid w \<and>
     w_resp w' = w_resp w @ [SetCookie (correlation_cookie rq key False)]"
  by (auto simp: setToCookie_def run_cache_set Let_def split: option.splits)

text \<open>
  The outcome of a successful \<open>Set\<close>: where the value is stored, that the cookie points there, and
  which of the three values it is.
\<close>

lemma Correlation_Set_ok:
  assumes "run_state (Correlation_Set rq (Some c)) w = (Inr cor, w')"
  obtains key where "w_cor w' = (w_cor w)(key \<mapsto> cor)"
    and "w_resp w' = w_resp w @ [SetCookie (correlation_cookie rq key False)]"
    and "cor = new_correlation c \<and> key = w_ulids w (w_ulid w) \<or>
         (\<exists>old. rq_Cookie rq = Some (Inr key) \<and> w_cor w key = Some old \<and>
            c_ClientID old = c_ClientID c \<and> cor = merge_correlation old c)"
proof -
  obtain found w1 where get: "run_state (getFromCookie rq) w = (found, w1)"
    by (cases "run_state (getFromCookie rq) w")
  note facts = run_getFromCookie [OF get]
  show ?thesis
    using assms facts get that
    by (auto simp: Correlation_Set_def dest!: run_setToCookie
        split: sum.splits option.splits prod.splits if_splits)
qed

lemma Correlation_Set_restart:
  assumes "run_state (Correlation_Set rq (Some c)) w = (Inr cor, w')" and "c_ID c = []"
  shows "cor = new_correlation c"
  using Correlation_Set_ok [OF assms(1)]
  by (metis assms(2) merge_correlation_def restart_is_new)

lemma Correlation_Get_ok:
  assumes "run_state (Correlation_Get rq) w = (Inr r, w')"
  shows "w_cor w' = w_cor w"
    and "r = Some cor \<Longrightarrow> \<exists>key. rq_Cookie rq = Some (Inr key) \<and> w_cor w key = Some cor"
  using assms
  by (auto simp: Correlation_Get_def dest: run_getFromCookie split: sum.splits prod.splits)

lemma Correlation_Get_stored:
  assumes "rq_Cookie rq = Some (Inr key)" and "w_faults w (w_tick w) = None"
  shows "fst (run_state (Correlation_Get rq) w) = Inr (w_cor w key)"
  using assms
  by (simp add: Correlation_Get_def getFromCookie_def run_cache_get option.map_comp o_def
      option.map_ident)

lemma Correlation_Delete_ok:
  assumes "run_state (Correlation_Delete rq) w = (Inr u, w')" and "rq_Cookie rq = Some (Inr key)"
  shows "w_cor w' = (w_cor w)(key := None)"
  using assms
  by (auto simp: Correlation_Delete_def deleteFromCookie_def run_cache_delete Let_def
      split: option.splits)

subsection \<open>Frames\<close>

lemma same_getFromCookie [triples]:
  "(\<And>w n. f (w\<lparr>w_tick := n\<rparr>) = f w) \<Longrightarrow> same f (getFromCookie rq)"
  unfolding getFromCookie_def by (intro triples) auto

lemma same_setToCookie [triples]:
  "(\<And>w n. f (w\<lparr>w_tick := n\<rparr>) = f w) \<Longrightarrow> (\<And>w m. f (w\<lparr>w_cor := m\<rparr>) = f w) \<Longrightarrow>
   (\<And>w r. f (w\<lparr>w_resp := r\<rparr>) = f w) \<Longrightarrow> same f (setToCookie rq key cor)"
  unfolding setToCookie_def by (intro triples) auto

lemma same_Correlation_Set [triples]:
  "(\<And>w n. f (w\<lparr>w_tick := n\<rparr>) = f w) \<Longrightarrow> (\<And>w m. f (w\<lparr>w_cor := m\<rparr>) = f w) \<Longrightarrow>
   (\<And>w r. f (w\<lparr>w_resp := r\<rparr>) = f w) \<Longrightarrow> (\<And>w n. f (w\<lparr>w_ulid := n\<rparr>) = f w) \<Longrightarrow>
   same f (Correlation_Set rq c)"
  unfolding Correlation_Set_def by (intro triples) auto

lemma same_Correlation_Get [triples]:
  "(\<And>w n. f (w\<lparr>w_tick := n\<rparr>) = f w) \<Longrightarrow> same f (Correlation_Get rq)"
  unfolding Correlation_Get_def by (intro triples) auto

lemma same_Correlation_Delete [triples]:
  "(\<And>w n. f (w\<lparr>w_tick := n\<rparr>) = f w) \<Longrightarrow> (\<And>w m. f (w\<lparr>w_cor := m\<rparr>) = f w) \<Longrightarrow>
   (\<And>w r. f (w\<lparr>w_resp := r\<rparr>) = f w) \<Longrightarrow> same f (Correlation_Delete rq)"
  unfolding Correlation_Delete_def deleteFromCookie_def by (intro triples) auto

end
