(* ===== verification/OneTimeToken.thy ===== *)
theory OneTimeToken
  imports Context
begin

text \<open>
  \<open>app/oot.go\<close>: the store of one-time tokens, the codes of the authorization-code grant. The interface
  \<open>OTTStore\<close> is the locale \<open>one_time_store\<close>: a token is issued under a key that was never issued before,
  and redeeming takes the value out. Inside the locale every run of operations redeems a key at most
  once. The interpretation is on the code's \<open>GenerateToken\<close> and \<open>RedeemToken\<close>, for a cache whose
  operations succeed and an identifier generator that does not repeat; \<open>RedeemToken\<close> ignores a failed
  deletion, so without the first of these the contract is false.
\<close>

definition fresh_token :: "string \<Rightarrow> correlation \<Rightarrow> one_time_token" where
  "fresh_token ott c = \<lparr>o_ID = ott, o_RedirectURI = c_RedirectURI c,
     o_RedirectURIs = [c_RedirectURI c], o_SessionToken = c_ID c,
     o_SessionCreated = CloneTimePtr (c_SessionCreated c)\<rparr>"

definition GenerateToken :: "correlation \<Rightarrow> ('db, go_error + one_time_token) action" where
  "GenerateToken c = do {
     ott \<leftarrow> new_ulid;
     attempt (ott_set ott (fresh_token ott c)) (\<lambda>_. ret (Inr (fresh_token ott c)))
   }"

definition GetToken :: "string \<Rightarrow> ('db, go_error + one_time_token option) action" where
  "GetToken token = ott_get token"

definition RedeemToken :: "string \<Rightarrow> ('db, go_error + one_time_token option) action" where
  "RedeemToken token = attempt (GetToken token) (\<lambda>v. do {
     _ \<leftarrow> ott_delete token;
     ret (Inr v)
   })"

lemma run_GenerateToken:
  "run_state (GenerateToken c) w =
     (let k = w_ulids w (w_ulid w);
          w' = w\<lparr>w_ulid := Suc (w_ulid w), w_tick := Suc (w_tick w)\<rparr> in
      case w_faults w (w_tick w) of
        Some e \<Rightarrow> (Inl e, w')
      | None \<Rightarrow> (Inr (fresh_token k c), w'\<lparr>w_ott := (w_ott w)(k \<mapsto> fresh_token k c)\<rparr>))"
  by (simp add: GenerateToken_def run_cache_set Let_def split: option.splits)

lemma run_RedeemToken:
  "run_state (RedeemToken k) w =
     (let w1 = w\<lparr>w_tick := Suc (w_tick w)\<rparr>; w2 = w\<lparr>w_tick := Suc (Suc (w_tick w))\<rparr> in
      case w_faults w (w_tick w) of
        Some e \<Rightarrow> (Inl e, w1)
      | None \<Rightarrow> (Inr (w_ott w k),
          (case w_faults w (Suc (w_tick w)) of
             Some e \<Rightarrow> w2 | None \<Rightarrow> w2\<lparr>w_ott := (w_ott w)(k := None)\<rparr>)))"
  by (simp add: RedeemToken_def GetToken_def run_cache_get run_cache_delete Let_def
      split: option.splits)

lemma fresh_token_sel [simp]:
  "o_ID (fresh_token k c) = k" "o_RedirectURI (fresh_token k c) = c_RedirectURI c"
  "o_RedirectURIs (fresh_token k c) = [c_RedirectURI c]" "o_SessionToken (fresh_token k c) = c_ID c"
  "o_SessionCreated (fresh_token k c) = c_SessionCreated c"
  by (simp_all add: fresh_token_def)

lemma same_GenerateToken [triples]:
  "(\<And>w n. f (w\<lparr>w_tick := n\<rparr>) = f w) \<Longrightarrow> (\<And>w n. f (w\<lparr>w_ulid := n\<rparr>) = f w) \<Longrightarrow>
   (\<And>w m. f (w\<lparr>w_ott := m\<rparr>) = f w) \<Longrightarrow> same f (GenerateToken c)"
  unfolding GenerateToken_def by (intro triples) auto

lemma same_RedeemToken [triples]:
  "(\<And>w n. f (w\<lparr>w_tick := n\<rparr>) = f w) \<Longrightarrow> (\<And>w m. f (w\<lparr>w_ott := m\<rparr>) = f w) \<Longrightarrow>
   same f (RedeemToken k)"
  unfolding RedeemToken_def GetToken_def by (intro triples) auto

subsection \<open>The interface \<open>OTTStore\<close>\<close>

datatype 'c ott_op = Generate 'c | Redeem string

locale one_time_store =
  fixes inv :: "'s \<Rightarrow> bool"
    and lookup :: "'s \<Rightarrow> string \<Rightarrow> 'v option"
    and issued :: "'s \<Rightarrow> string set"
    and generate :: "'c \<Rightarrow> 's \<Rightarrow> 'v \<times> 's"
    and redeem :: "string \<Rightarrow> 's \<Rightarrow> 'v option \<times> 's"
    and key_of :: "'v \<Rightarrow> string"
  assumes stored_are_issued: "inv s \<Longrightarrow> dom (lookup s) \<subseteq> issued s"
    and generate_inv: "inv s \<Longrightarrow> inv (snd (generate c s))"
    and generate_fresh: "inv s \<Longrightarrow> key_of (fst (generate c s)) \<notin> issued s"
    and generate_issued: "inv s \<Longrightarrow>
       issued (snd (generate c s)) = insert (key_of (fst (generate c s))) (issued s)"
    and generate_lookup: "inv s \<Longrightarrow> lookup (snd (generate c s)) =
       (lookup s)(key_of (fst (generate c s)) \<mapsto> fst (generate c s))"
    and redeem_inv: "inv s \<Longrightarrow> inv (snd (redeem k s))"
    and redeem_issued: "inv s \<Longrightarrow> issued (snd (redeem k s)) = issued s"
    and redeem_value: "inv s \<Longrightarrow> fst (redeem k s) = lookup s k"
    and redeem_lookup: "inv s \<Longrightarrow> lookup (snd (redeem k s)) = (lookup s)(k := None)"
begin

lemma redeem_generated:
  assumes "inv s" and "generate c s = (v, s')"
  shows "fst (redeem (key_of v) s') = Some v"
  using assms generate_inv [of s c] generate_lookup [of s c] redeem_value [of s' "key_of v"] by simp

lemma redeem_twice:
  assumes "inv s" and "redeem k s = (r, s')"
  shows "fst (redeem k s') = None"
  using assms redeem_inv [of s k] redeem_lookup [of s k] redeem_value [of s' k] by simp

fun step_op :: "'c ott_op \<Rightarrow> 's \<Rightarrow> 's" where
  "step_op (Generate c) s = snd (generate c s)"
| "step_op (Redeem k) s = snd (redeem k s)"

lemma step_inv: "inv s \<Longrightarrow> inv (step_op p s)"
  by (cases p) (auto intro: generate_inv redeem_inv)

text \<open>How often a run hands out the value of a key.\<close>

fun redemptions :: "string \<Rightarrow> 'c ott_op list \<Rightarrow> 's \<Rightarrow> nat" where
  "redemptions k [] s = 0"
| "redemptions k (Generate c # ps) s = redemptions k ps (snd (generate c s))"
| "redemptions k (Redeem j # ps) s =
     (if j = k \<and> fst (redeem j s) \<noteq> None then 1 else 0) + redemptions k ps (snd (redeem j s))"

lemma spent_stays_spent:
  "inv s \<Longrightarrow> k \<in> issued s \<Longrightarrow> lookup s k = None \<Longrightarrow> redemptions k ps s = 0"
proof (induction ps arbitrary: s)
  case (Cons p ps)
  show ?case
  proof (cases p)
    case (Generate c)
    let ?g = "generate c s"
    have "key_of (fst ?g) \<noteq> k" using generate_fresh [of s c] Cons.prems by blast
    then have "lookup (snd ?g) k = None" and "k \<in> issued (snd ?g)"
      using Cons.prems by (simp_all add: generate_lookup generate_issued)
    with Generate Cons.IH [of "snd ?g"] Cons.prems show ?thesis by (simp add: generate_inv)
  next
    case (Redeem j)
    then show ?thesis
      using Cons.IH [of "snd (redeem j s)"] Cons.prems
      by (auto simp: redeem_inv redeem_issued redeem_lookup redeem_value)
  qed
qed simp

lemma redeemed_at_most_once: "inv s \<Longrightarrow> redemptions k ps s \<le> 1"
proof (induction ps arbitrary: s)
  case (Cons p ps)
  show ?case
  proof (cases p)
    case (Redeem j)
    have "redemptions k ps (snd (redeem j s)) = 0" if "j = k" "lookup s j \<noteq> None"
      using that Cons.prems stored_are_issued [of s]
      by (intro spent_stays_spent) (auto simp: redeem_inv redeem_issued redeem_lookup)
    with Redeem Cons show ?thesis by (auto simp: redeem_value redeem_inv)
  next
    case (Generate c)
    with Cons show ?thesis by (simp only: redemptions.simps generate_inv)
  qed
qed simp

end

definition value_or :: "'a \<Rightarrow> 'e + 'a \<Rightarrow> 'a" where
  "value_or d r = (case r of Inl _ \<Rightarrow> d | Inr x \<Rightarrow> x)"

definition ott_generate :: "correlation \<Rightarrow> 'db world \<Rightarrow> one_time_token \<times> 'db world" where
  "ott_generate c w = apfst (value_or (fresh_token [] c)) (run_state (GenerateToken c) w)"

definition ott_redeem :: "string \<Rightarrow> 'db world \<Rightarrow> one_time_token option \<times> 'db world" where
  "ott_redeem k w = apfst (value_or None) (run_state (RedeemToken k) w)"

definition ott_issued :: "'db world \<Rightarrow> string set" where
  "ott_issued w = w_ulids w ` {..< w_ulid w}"

definition ott_inv :: "'db world \<Rightarrow> bool" where
  "ott_inv w \<longleftrightarrow> inj (w_ulids w) \<and> (\<forall>n. w_faults w n = None) \<and> dom (w_ott w) \<subseteq> ott_issued w"

interpretation ott: one_time_store ott_inv w_ott ott_issued ott_generate ott_redeem o_ID
proof unfold_locales
  fix w :: "'db world" and c k
  assume inv: "ott_inv w"
  then show "dom (w_ott w) \<subseteq> ott_issued w" by (simp add: ott_inv_def)
  show "o_ID (fst (ott_generate c w)) \<notin> ott_issued w"
    using inv by (auto simp: ott_generate_def ott_inv_def ott_issued_def run_GenerateToken Let_def
        value_or_def inj_def)
  show "ott_issued (snd (ott_generate c w)) = insert (o_ID (fst (ott_generate c w))) (ott_issued w)"
    using inv by (auto simp: ott_generate_def ott_inv_def ott_issued_def run_GenerateToken Let_def
        value_or_def lessThan_Suc)
  then show "ott_inv (snd (ott_generate c w))"
    using inv by (auto simp: ott_generate_def ott_inv_def run_GenerateToken Let_def value_or_def)
  show "w_ott (snd (ott_generate c w)) =
      (w_ott w)(o_ID (fst (ott_generate c w)) \<mapsto> fst (ott_generate c w))"
    using inv by (auto simp: ott_generate_def ott_inv_def run_GenerateToken Let_def value_or_def)
  show "ott_inv (snd (ott_redeem k w))"
    using inv by (auto simp: ott_redeem_def ott_inv_def ott_issued_def run_RedeemToken Let_def)
  show "ott_issued (snd (ott_redeem k w)) = ott_issued w"
    using inv by (auto simp: ott_redeem_def ott_inv_def ott_issued_def run_RedeemToken Let_def)
  show "fst (ott_redeem k w) = w_ott w k"
    using inv by (auto simp: ott_redeem_def ott_inv_def run_RedeemToken Let_def value_or_def)
  show "w_ott (snd (ott_redeem k w)) = (w_ott w)(k := None)"
    using inv by (auto simp: ott_redeem_def ott_inv_def run_RedeemToken Let_def)
qed

end
