(* ===== verification/SessionStores.thy ===== *)
theory SessionStores
  imports Context
begin

text \<open>
  \<open>session.go\<close>: the interface \<open>core.SessionStore\<close> as the record \<open>session_store\<close> of its operations, and its
  two implementations. The cache store keeps a session under its identifier. The Postgres store calls
  stored procedures, which are the parameter \<open>pg_env\<close>: each is a function of the database state. The
  locale \<open>session_store_laws\<close> states what a store promises the handlers; it is interpreted on the cache
  store, for a cache whose operations succeed.

  A session that is passed to \<open>Create\<close> has an identifier already in every caller; the one the code
  would give it is part of the returned value.
\<close>

record get_user_sessions_request =
  gs_ID :: "string option"
  gs_Code :: string
  gs_Page :: "int option"
  gs_PerPage :: "int option"

record 'db session_store =
  st_Create :: "session \<Rightarrow> ('db, go_error + session) action"
  st_Update :: "session \<Rightarrow> ('db, go_error + session) action"
  st_GetSession :: "('db, go_error + session option) action"
  st_GetSessionByID :: "string \<Rightarrow> ('db, go_error + session) action"
  st_Extend :: "request \<Rightarrow> string \<Rightarrow> ('db, go_error + session) action"
  st_Delete :: "string \<Rightarrow> ('db, go_error + unit) action"
  st_StoreStart :: "('db, go_error + unit) action"
  st_StoreStop :: "('db, unit) action"
  st_DeleteExpiredSessions :: "duration \<Rightarrow> ('db, go_error + unit) action"
  st_GetUserSessions ::
    "request \<Rightarrow> string \<Rightarrow> string \<Rightarrow> ('db, go_error + sessions_response option) action"
  st_DeleteUserSession :: "string \<Rightarrow> ('db, go_error + unit) action"
  st_GetSessions :: "request \<Rightarrow> ('db, go_error + session list) action"

text \<open>\<open>if session.ID == "" { session.ID = ulid.Make().String() }\<close>\<close>

definition with_session_id :: "session \<Rightarrow> ('db, session) action" where
  "with_session_id s =
     (if s_ID s = [] then do { i \<leftarrow> new_ulid; ret (s\<lparr>s_ID := i\<rparr>) } else ret s)"

text \<open>\<open>ctx.UserValue(SessionUserValueKey).(*core.Session)\<close> in its two-value form\<close>

definition GetSession :: "('db, go_error + session option) action" where
  "GetSession = gets (\<lambda>w. Inr (w_session w))"

subsection \<open>The cache store\<close>

definition Cache_GetSessionByID :: "string \<Rightarrow> ('db, go_error + session) action" where
  "Cache_GetSessionByID k = attempt (ses_get k) (\<lambda>s.
     (case s of None \<Rightarrow> ret (Inl (ErrSessionNotFound k)) | Some x \<Rightarrow> ret (Inr x)))"

definition Cache_Create :: "session \<Rightarrow> ('db, go_error + session) action" where
  "Cache_Create session = do {
     s \<leftarrow> with_session_id session;
     attempt (ses_set (s_ID s) s) (\<lambda>_. ret (Inr s))
   }"

definition Cache_Update :: "session \<Rightarrow> ('db, go_error + session) action" where
  "Cache_Update s =
     (if s_ID s = [] then ret (Inl (ErrSessionNotFound (s_ID s)))
      else attempt (ses_set (s_ID s) s) (\<lambda>_. ret (Inr s)))"

definition Cache_Extend :: "request \<Rightarrow> string \<Rightarrow> ('db, go_error + session) action" where
  "Cache_Extend rq k =
     (if length k > 26 then ret (Inl (ErrSessionNotFound k))
      else attempt (ses_get k) (\<lambda>found.
        (case found of
           None \<Rightarrow> ret (Inl (ErrSessionNotFound k))
         | Some x \<Rightarrow> do {
             let s = x\<lparr>s_LastAccessed := Some (rq_Now rq)\<rparr>;
             _ \<leftarrow> ses_set (s_ID s) s;
             ret (Inr s)
           })))"

definition Cache_Delete :: "string \<Rightarrow> ('db, go_error + unit) action" where
  "Cache_Delete k = ses_delete k"

definition CacheSessionStore :: "'db session_store" where
  "CacheSessionStore = \<lparr>
     st_Create = Cache_Create, st_Update = Cache_Update, st_GetSession = GetSession,
     st_GetSessionByID = Cache_GetSessionByID, st_Extend = Cache_Extend, st_Delete = Cache_Delete,
     st_StoreStart = ret (Inr ()), st_StoreStop = skip,
     st_DeleteExpiredSessions = (\<lambda>_. ret (Inr ())),
     st_GetUserSessions = (\<lambda>_ _ _. ret (Inr None)),
     st_DeleteUserSession = (\<lambda>_. ret (Inr ())),
     st_GetSessions = (\<lambda>_. ret (Inr []))\<rparr>"

subsection \<open>The Postgres store\<close>

record 'db pg_env =
  pg_ValidateID :: "string \<Rightarrow> go_error option"
  pg_ValidateUserSessions :: "get_user_sessions_request \<Rightarrow> go_error option"
  pg_ValidateDelete :: "string \<Rightarrow> go_error option"
  pg_ValidateFilter :: "session_filter \<Rightarrow> go_error option"
  pg_get_session :: "string \<Rightarrow> 'db \<Rightarrow> (go_error + session) \<times> 'db"
  pg_save_session :: "session \<Rightarrow> 'db \<Rightarrow> (go_error + unit) \<times> 'db"
  pg_delete_session :: "string \<Rightarrow> 'db \<Rightarrow> (go_error + unit) \<times> 'db"
  pg_delete_expired_sessions :: "duration \<Rightarrow> 'db \<Rightarrow> (go_error + unit) \<times> 'db"
  pg_get_user_sessions ::
    "get_user_sessions_request \<Rightarrow> 'db \<Rightarrow> (go_error + sessions_response) \<times> 'db"
  pg_delete_user_session :: "string \<Rightarrow> 'db \<Rightarrow> (go_error + unit) \<times> 'db"
  pg_get_sessions :: "session_filter \<Rightarrow> 'db \<Rightarrow> (go_error + sessions_response) \<times> 'db"
  pg_Start :: "'db \<Rightarrow> (go_error + unit) \<times> 'db"
  pg_Close :: "'db \<Rightarrow> 'db"

definition pg_exec :: "('db \<Rightarrow> 'a \<times> 'db) \<Rightarrow> ('db, 'a) action" where
  "pg_exec f = do {
     d \<leftarrow> gets w_db;
     modify (\<lambda>w. w\<lparr>w_db := snd (f d)\<rparr>);
     ret (fst (f d))
   }"

definition Pg_GetSessionByID :: "'db pg_env \<Rightarrow> string \<Rightarrow> ('db, go_error + session) action" where
  "Pg_GetSessionByID pg k =
     (case pg_ValidateID pg k of
        Some e \<Rightarrow> do { respond (Error e); ret (Inl (ErrSessionNotFound k)) }
      | None \<Rightarrow> do {
          r \<leftarrow> pg_exec (pg_get_session pg k);
          (case r of Inl _ \<Rightarrow> ret (Inl (ErrSessionNotFound k)) | Inr s \<Rightarrow> ret (Inr s))
        })"

definition Pg_Create :: "'db pg_env \<Rightarrow> session \<Rightarrow> ('db, go_error + session) action" where
  "Pg_Create pg session = do {
     s \<leftarrow> with_session_id session;
     attempt (pg_exec (pg_save_session pg s)) (\<lambda>_. ret (Inr s))
   }"

definition Pg_Update :: "'db pg_env \<Rightarrow> session \<Rightarrow> ('db, go_error + session) action" where
  "Pg_Update pg s =
     (if s_ID s = [] then ret (Inl (ErrSessionNotFound (s_ID s)))
      else attempt (pg_exec (pg_save_session pg s)) (\<lambda>_. ret (Inr s)))"

definition Pg_Extend :: "'db pg_env \<Rightarrow> request \<Rightarrow> string \<Rightarrow> ('db, go_error + session) action" where
  "Pg_Extend pg rq k =
     (case pg_ValidateID pg k of
        Some e \<Rightarrow> do { respond (Error e); ret (Inl (ErrSessionNotFound k)) }
      | None \<Rightarrow> do {
          r \<leftarrow> pg_exec (pg_get_session pg k);
          (case r of
             Inl _ \<Rightarrow> ret (Inl (ErrSessionNotFound k))
           | Inr x \<Rightarrow>
               let s = x\<lparr>s_LastAccessed := Some (rq_Now rq)\<rparr> in
               attempt (pg_exec (pg_save_session pg s)) (\<lambda>_. ret (Inr s)))
        })"

definition Pg_Delete :: "'db pg_env \<Rightarrow> string \<Rightarrow> ('db, go_error + unit) action" where
  "Pg_Delete pg k =
     (case pg_ValidateID pg k of
        Some e \<Rightarrow> do { respond (Error e); ret (Inl (ErrSessionNotFound k)) }
      | None \<Rightarrow> pg_exec (pg_delete_session pg k))"

definition Pg_GetUserSessions ::
  "'db pg_env \<Rightarrow> request \<Rightarrow> string \<Rightarrow> string \<Rightarrow> ('db, go_error + sessions_response option) action" where
  "Pg_GetUserSessions pg rq code k =
     (case rq_QueryInt rq ''page'' of
        Inl e \<Rightarrow> ret (Inl e)
      | Inr page \<Rightarrow>
          (case rq_QueryInt rq ''perPage'' of
             Inl e \<Rightarrow> ret (Inl e)
           | Inr perPage \<Rightarrow>
               let params = \<lparr>gs_ID = (if k \<noteq> [] then Some k else None), gs_Code = code,
                             gs_Page = page, gs_PerPage = perPage\<rparr> in
               (case pg_ValidateUserSessions pg params of
                  Some e \<Rightarrow> ret (Inl e)
                | None \<Rightarrow> attempt (pg_exec (pg_get_user_sessions pg params))
                    (\<lambda>sessions. ret (Inr (Some sessions))))))"

definition Pg_DeleteUserSession :: "'db pg_env \<Rightarrow> string \<Rightarrow> ('db, go_error + unit) action" where
  "Pg_DeleteUserSession pg k =
     (case pg_ValidateDelete pg k of
        Some e \<Rightarrow> do { respond (Error e); ret (Inl e) }
      | None \<Rightarrow> pg_exec (pg_delete_user_session pg k))"

definition Pg_GetSessions :: "'db pg_env \<Rightarrow> request \<Rightarrow> ('db, go_error + session list) action" where
  "Pg_GetSessions pg rq =
     (case rq_BodyFilter rq of
        Inl e \<Rightarrow> do { respond (Error e); ret (Inl e) }
      | Inr params \<Rightarrow>
          (case pg_ValidateFilter pg params of
             Some e \<Rightarrow> ret (Inl e)
           | None \<Rightarrow> attempt (pg_exec (pg_get_sessions pg params))
               (\<lambda>sessions. ret (Inr (ss_List sessions)))))"

definition PostgresSessionStore :: "'db pg_env \<Rightarrow> 'db session_store" where
  "PostgresSessionStore pg = \<lparr>
     st_Create = Pg_Create pg, st_Update = Pg_Update pg, st_GetSession = GetSession,
     st_GetSessionByID = Pg_GetSessionByID pg, st_Extend = Pg_Extend pg, st_Delete = Pg_Delete pg,
     st_StoreStart = pg_exec (pg_Start pg), st_StoreStop = pg_exec (\<lambda>d. ((), pg_Close pg d)),
     st_DeleteExpiredSessions = (\<lambda>t. pg_exec (pg_delete_expired_sessions pg t)),
     st_GetUserSessions = Pg_GetUserSessions pg, st_DeleteUserSession = Pg_DeleteUserSession pg,
     st_GetSessions = Pg_GetSessions pg\<rparr>"

lemma store_sel [simp]:
  "st_GetSession CacheSessionStore = GetSession"
  "st_GetSession (PostgresSessionStore pg) = GetSession"
  by (simp_all add: CacheSessionStore_def PostgresSessionStore_def)

lemma run_pg_exec [simp]:
  "run_state (pg_exec f) w = (fst (f (w_db w)), w\<lparr>w_db := snd (f (w_db w))\<rparr>)"
  by (simp add: pg_exec_def)

lemma run_GetSession [simp]: "run_state GetSession w = (Inr (w_session w), w)"
  by (simp add: GetSession_def)

subsection \<open>What the handlers rely on\<close>

text \<open>
  \<open>inv\<close> holds of the states the store works in, \<open>view\<close> is the abstract content: a map from identifiers
  to sessions.
\<close>

locale session_store_laws =
  fixes inv :: "'s \<Rightarrow> bool"
    and view :: "'s \<Rightarrow> string \<Rightarrow> session option"
    and create :: "session \<Rightarrow> 's \<Rightarrow> (go_error + session) \<times> 's"
    and update :: "session \<Rightarrow> 's \<Rightarrow> (go_error + session) \<times> 's"
    and get :: "string \<Rightarrow> 's \<Rightarrow> (go_error + session) \<times> 's"
    and delete :: "string \<Rightarrow> 's \<Rightarrow> (go_error + unit) \<times> 's"
  assumes create_spec: "inv s \<Longrightarrow> s_ID x \<noteq> [] \<Longrightarrow> create x s = (r, s') \<Longrightarrow>
        r = Inr x \<and> inv s' \<and> view s' = (view s)(s_ID x \<mapsto> x)"
    and update_spec: "inv s \<Longrightarrow> s_ID x \<noteq> [] \<Longrightarrow> update x s = (r, s') \<Longrightarrow>
        r = Inr x \<and> inv s' \<and> view s' = (view s)(s_ID x \<mapsto> x)"
    and update_anonymous: "s_ID x = [] \<Longrightarrow> update x s = (Inl (ErrSessionNotFound []), s)"
    and get_spec: "inv s \<Longrightarrow> get k s = (r, s') \<Longrightarrow>
        inv s' \<and> view s' = view s \<and>
        r = (case view s k of None \<Rightarrow> Inl (ErrSessionNotFound k) | Some x \<Rightarrow> Inr x)"
    and delete_spec: "inv s \<Longrightarrow> delete k s = (d, s') \<Longrightarrow>
        d = Inr () \<and> inv s' \<and> view s' = (view s)(k := None)"
begin

lemma get_created:
  assumes "inv s" "s_ID x \<noteq> []" "create x s = (r, s')"
  shows "fst (get (s_ID x) s') = Inr x"
  using create_spec [OF assms] get_spec [of s' "s_ID x"] by (cases "get (s_ID x) s'") auto

lemma get_updated:
  assumes "inv s" "s_ID x \<noteq> []" "update x s = (r, s')"
  shows "fst (get (s_ID x) s') = Inr x"
  using update_spec [OF assms] get_spec [of s' "s_ID x"] by (cases "get (s_ID x) s'") auto

lemma get_deleted:
  assumes "inv s" "delete k s = (r, s')"
  shows "fst (get k s') = Inl (ErrSessionNotFound k)"
  using delete_spec [OF assms] get_spec [of s' k] by (cases "get k s'") auto

lemma delete_other:
  assumes "inv s" "delete k s = (r, s')" and "j \<noteq> k"
  shows "fst (get j s') = fst (get j s)"
  using delete_spec [OF assms(1,2)] get_spec [of s' j] get_spec [of s j] assms(1,3)
  by (cases "get j s'", cases "get j s") auto

lemma update_other:
  assumes "inv s" "s_ID x \<noteq> []" "update x s = (r, s')" and "j \<noteq> s_ID x"
  shows "fst (get j s') = fst (get j s)"
  using update_spec [OF assms(1-3)] get_spec [of s' j] get_spec [of s j] assms(1,4)
  by (cases "get j s'", cases "get j s") auto

lemma last_update_wins:
  assumes "inv s" "s_ID x \<noteq> []" "update x s = (r, s1)" "s_ID y = s_ID x" "update y s1 = (r', s2)"
  shows "view s2 = (view s)(s_ID x \<mapsto> y)"
  using update_spec [OF assms(1-3)] update_spec [of s1 y] assms(2,4,5) by simp

end

definition reliable :: "'db world \<Rightarrow> bool" where
  "reliable w \<longleftrightarrow> (\<forall>n. w_faults w n = None)"

interpretation cache_store: session_store_laws reliable w_ses
  "\<lambda>x. run_state (Cache_Create x)" "\<lambda>x. run_state (Cache_Update x)"
  "\<lambda>k. run_state (Cache_GetSessionByID k)" "\<lambda>k. run_state (Cache_Delete k)"
  by unfold_locales
     (auto simp: reliable_def Cache_Create_def Cache_Update_def Cache_GetSessionByID_def
       Cache_Delete_def with_session_id_def run_cache_set run_cache_get run_cache_delete Let_def
       split: option.splits)

lemma Cache_Extend_long: "length k > 26 \<Longrightarrow> run_state (Cache_Extend rq k) w = (Inl (ErrSessionNotFound k), w)"
  by (simp add: Cache_Extend_def)

lemma Cache_Extend_ok:
  assumes "run_state (Cache_Extend rq k) w = (Inr s, w')"
  obtains x where "w_ses w k = Some x" and "s = x\<lparr>s_LastAccessed := Some (rq_Now rq)\<rparr>"
    and "length k \<le> 26" and "w_ses w' = w_ses w \<or> w_ses w' = (w_ses w)(s_ID x \<mapsto> s)"
  using assms
  by (auto simp: Cache_Extend_def run_cache_get run_cache_set Let_def not_less
      split: if_splits option.splits)

subsection \<open>Frames\<close>

lemma same_pg_exec [triples]: "(\<And>w d. f (w\<lparr>w_db := d\<rparr>) = f w) \<Longrightarrow> same f (pg_exec g)"
  by (simp add: same_def exec_def)

lemma same_with_session_id [triples]:
  "(\<And>w n. f (w\<lparr>w_ulid := n\<rparr>) = f w) \<Longrightarrow> same f (with_session_id s)"
  unfolding with_session_id_def by (intro triples) auto

text \<open>Both stores touch the session cache or the database, a counter, and the response only.\<close>

lemma same_CacheSessionStore [triples]:
  assumes "\<And>w n. f (w\<lparr>w_tick := n\<rparr>) = f w" "\<And>w n. f (w\<lparr>w_ulid := n\<rparr>) = f w"
    "\<And>w m. f (w\<lparr>w_ses := m\<rparr>) = f w"
  shows "same f (Cache_Create x)" "same f (Cache_Update x)" "same f (Cache_GetSessionByID k)"
    "same f (Cache_Extend rq k)" "same f (Cache_Delete k)"
  unfolding Cache_Create_def Cache_Update_def Cache_GetSessionByID_def Cache_Extend_def
    Cache_Delete_def
  by (intro triples; simp add: assms)+

lemma same_PostgresSessionStore [triples]:
  assumes "\<And>w d. f (w\<lparr>w_db := d\<rparr>) = f w" "\<And>w n. f (w\<lparr>w_ulid := n\<rparr>) = f w"
    "\<And>w r. f (w\<lparr>w_resp := r\<rparr>) = f w"
  shows "same f (Pg_Create pg x)" "same f (Pg_Update pg x)" "same f (Pg_GetSessionByID pg k)"
    "same f (Pg_Extend pg rq k)" "same f (Pg_Delete pg k)" "same f (Pg_GetUserSessions pg rq c k)"
    "same f (Pg_DeleteUserSession pg k)" "same f (Pg_GetSessions pg rq)"
  unfolding Pg_Create_def Pg_Update_def Pg_GetSessionByID_def Pg_Extend_def Pg_Delete_def
    Pg_GetUserSessions_def Pg_DeleteUserSession_def Pg_GetSessions_def
  by (intro triples; simp add: assms)+

lemma same_GetSession [triples]: "same f GetSession"
  unfolding GetSession_def by (intro triples)

end
