(* ===== verification/AuthorizerImpl.thy ===== *)
theory AuthorizerImpl
  imports ClientStore GoUrlParse
begin

text \<open>
  \<open>core/authorizer.go\<close>: the two authorizers behind \<open>GetUserData\<close> and \<open>parseError\<close>, the reading of the
  error text \<open>[code] message\<close> that the authorization service answers with. The HTTP exchange and the
  JSON coding are the parameter \<open>authorizer_env\<close>. The lemmas characterise \<open>parseError\<close> and the error of
  every kind of answer.
\<close>

record authorizer_env =
  az_SetRequestURL :: "string \<Rightarrow> string \<Rightarrow> go_error option"
  az_Marshal :: "get_user_data_request \<Rightarrow> go_error + string"
  az_HTTP :: http_do
  az_Unmarshal :: "string \<Rightarrow> go_error + user_data"

record rest_authorizer_config =
  ra_ApiKey :: string
  ra_EndpointUrl :: string

datatype authorizer =
    NoopAuthorizer
  | RestAPIAuthorizer rest_authorizer_config

subsection \<open>Parsing the error text\<close>

text \<open>
  The regular expression \<open>\[([^\]]+)\]\s(.+)\<close>: \<open>bracketed\<close> is a match that starts at the first byte of
  its argument; \<open>\s\<close> is one of tab, newline, form feed, carriage return and blank; \<open>.\<close> is not a newline.
\<close>

definition regex_space :: "char \<Rightarrow> bool" where
  "regex_space c \<longleftrightarrow> (of_char c :: nat) \<in> {9, 10, 12, 13, 32}"

definition bracketed :: "string \<Rightarrow> (string \<times> string) option" where
  "bracketed s =
     (if has_prefix s ''['' then
        (let code = takeWhile (\<lambda>c. c \<noteq> CHR '']'') (tl s) in
         (case dropWhile (\<lambda>c. c \<noteq> CHR '']'') (tl s) of
            _ # sp # rest \<Rightarrow>
              (let msg = takeWhile (\<lambda>c. c \<noteq> CHR 0x0A) rest in
               if code \<noteq> [] \<and> regex_space sp \<and> msg \<noteq> [] then Some (code, msg) else None)
          | _ \<Rightarrow> None))
      else None)"

fun parseError :: "string \<Rightarrow> (string \<times> string) option" where
  "parseError [] = None"
| "parseError (c # s) = (case bracketed (c # s) of Some m \<Rightarrow> Some m | None \<Rightarrow> parseError s)"

subsection \<open>The authorizers\<close>

definition noop_GetUserData :: "get_user_data_request \<Rightarrow> go_error + user_data" where
  "noop_GetUserData r = ok \<lparr>ud_UserID = gu_Code r, ud_ClientID = [], ud_IsServiceClient = False,
     ud_PersonCode = gu_Code r, ud_FirstName = gu_FirstName r, ud_LastName = gu_LastName r,
     ud_Email = gu_Email r, ud_PhoneNumber = [], ud_IsTOSAccepted = False, ud_Roles = [],
     ud_Rights = []\<rparr>"

definition user_data_error :: "string \<Rightarrow> go_error" where
  "user_data_error body =
     (if body = [] then auth_fail AuthErrUserNotExists ''User not exists''
      else (case parseError body of
          None \<Rightarrow> ErrText body
        | Some (code, msg) \<Rightarrow>
            (case ErrorMap code of
               Some c \<Rightarrow> auth_fail c msg
             | None \<Rightarrow> auth_fail AuthErrServer msg)))"

definition rest_request :: "rest_authorizer_config \<Rightarrow> url \<Rightarrow> string \<Rightarrow> string \<Rightarrow> http_request" where
  "rest_request cfg u path body = \<lparr>hr_Method = ''POST'', hr_BaseURL = u_Scheme u @ ''://'' @ u_Host u,
     hr_Path = path, hr_Headers = [(''X-API-KEY'', ra_ApiKey cfg), (''Content-Type'', ''application/json'')],
     hr_Body = body\<rparr>"

definition rest_GetUserData ::
  "authorizer_env \<Rightarrow> rest_authorizer_config \<Rightarrow> get_user_data_request \<Rightarrow> go_error + user_data" where
  "rest_GetUserData env cfg r =
     (case url_parse (trim_right (ra_EndpointUrl cfg) (CHR ''/'')) of
        None \<Rightarrow> fail (ErrText ''parse'')
      | Some u \<Rightarrow>
          (let path = (if u_Path u = [] then ''/api/1.0/authorize'' else u_Path u) in
           case az_SetRequestURL env (u_Scheme u @ ''://'' @ u_Host u) path of
             Some e \<Rightarrow> fail e
           | None \<Rightarrow>
               and_then (az_Marshal env r) (\<lambda>body.
               and_then (az_HTTP env (rest_request cfg u path body)) (\<lambda>res.
                 if hp_StatusCode res = 422 then fail (user_data_error (hp_Body res))
                 else if hp_StatusCode res \<noteq> 200
                   then fail (auth_fail AuthErrServer ''Error retrieving user data'')
                 else az_Unmarshal env (hp_Body res)))))"

fun GetUserData ::
  "authorizer_env \<Rightarrow> authorizer \<Rightarrow> get_user_data_request \<Rightarrow> go_error + user_data" where
  "GetUserData env NoopAuthorizer r = noop_GetUserData r"
| "GetUserData env (RestAPIAuthorizer cfg) r = rest_GetUserData env cfg r"

subsection \<open>Lemmas\<close>

lemma regex_space_blank: "regex_space CHR '' ''"
  by code_simp

lemma bracketed_format:
  assumes "code \<noteq> []" "CHR '']'' \<notin> set code" "msg \<noteq> []" "CHR 0x0A \<notin> set msg"
  shows "bracketed (''['' @ code @ '']'' @ '' '' @ msg) = Some (code, msg)"
proof -
  have tw: "takeWhile (\<lambda>c. c \<noteq> CHR '']'') (code @ CHR '']'' # CHR '' '' # msg) = code"
    and "dropWhile (\<lambda>c. c \<noteq> CHR '']'') (code @ CHR '']'' # CHR '' '' # msg) = CHR '']'' # CHR '' '' # msg"
    and msg: "takeWhile (\<lambda>c. c \<noteq> CHR 0x0A) msg = msg"
    using assms(2,4) by (auto simp: takeWhile_append dropWhile_append takeWhile_eq_all_conv)
  then show ?thesis
    using assms(1,3) by (simp add: bracketed_def has_prefix_def regex_space_blank Let_def tw msg)
qed

lemma bracketed_sound:
  assumes "bracketed s = Some (code, msg)"
  shows "\<exists>sp rest. s = ''['' @ code @ '']'' @ sp # msg @ rest \<and> regex_space sp \<and>
           code \<noteq> [] \<and> CHR '']'' \<notin> set code \<and> msg \<noteq> [] \<and> CHR 0x0A \<notin> set msg"
proof -
  obtain t where s: "s = CHR ''['' # t"
    using assms by (auto simp: bracketed_def has_prefix_iff split: if_splits)
  let ?P = "\<lambda>c. c \<noteq> CHR '']''"
  obtain b sp rest where d: "dropWhile ?P t = b # sp # rest"
    and code: "code = takeWhile ?P t" "code \<noteq> []"
    and msg: "msg = takeWhile (\<lambda>c. c \<noteq> CHR 0x0A) rest" "msg \<noteq> []" and sp: "regex_space sp"
    using assms unfolding s bracketed_def
    by (auto simp: Let_def split: if_splits list.splits)
  have "b = CHR '']''" using hd_dropWhile [of ?P t] d by fastforce
  then have "t = code @ CHR '']'' # sp # rest"
    using takeWhile_dropWhile_id [of ?P t] d code by simp
  moreover have "rest = msg @ dropWhile (\<lambda>c. c \<noteq> CHR 0x0A) rest"
    using msg(1) by simp
  moreover have "CHR '']'' \<notin> set code" "CHR 0x0A \<notin> set msg"
    using code(1) msg(1) by (auto dest: set_takeWhileD)
  ultimately show ?thesis
    using s sp code(2) msg(2) by (metis append_Cons append_Nil)
qed

lemma parseError_sound:
  "parseError s = Some (code, msg) \<Longrightarrow>
   \<exists>before sp rest. s = before @ ''['' @ code @ '']'' @ sp # msg @ rest \<and> regex_space sp \<and>
     code \<noteq> [] \<and> CHR '']'' \<notin> set code \<and> msg \<noteq> [] \<and> CHR 0x0A \<notin> set msg"
proof (induction s)
  case (Cons c s)
  show ?case
  proof (cases "bracketed (c # s)")
    case None
    with Cons show ?thesis by simp (metis append_Cons)
  next
    case (Some m)
    with Cons.prems bracketed_sound [of "c # s" code msg] show ?thesis
      by simp (metis append_Nil)
  qed
qed simp

lemma parseError_skip:
  "CHR ''['' \<notin> set pre \<Longrightarrow> parseError (pre @ s) = parseError s"
proof (induction pre)
  case (Cons c pre)
  then have "bracketed ((c # pre) @ s) = None" by (auto simp: bracketed_def has_prefix_def)
  with Cons show ?case by simp
qed simp

lemma parseError_format:
  assumes "CHR ''['' \<notin> set pre" and "code \<noteq> []" "CHR '']'' \<notin> set code"
    and "msg \<noteq> []" "CHR 0x0A \<notin> set msg"
  shows "parseError (pre @ ''['' @ code @ '']'' @ '' '' @ msg) = Some (code, msg)"
  using parseError_skip [OF assms(1)] bracketed_format [OF assms(2-5)] by simp

lemma rest_GetUserData_ok:
  assumes "rest_GetUserData env cfg r = Inr d"
  shows "\<exists>u path body res. az_Marshal env r = Inr body \<and>
     az_HTTP env (rest_request cfg u path body) = Inr res \<and> hp_StatusCode res = 200 \<and>
     az_Unmarshal env (hp_Body res) = Inr d"
  using assms by (auto simp: rest_GetUserData_def Let_def split: option.splits if_splits)

end
