(* ===== verification/AuditProvider.thy ===== *)
theory AuditProvider
  imports AuthorizerImpl
begin

text \<open>
  \<open>core/audit.go\<close> and the part of the generated client \<open>audit/audit.gen.go\<close> it calls: \<open>SaveEvent\<close> of the
  no-op and of the REST provider, the filling-in of the event's fields from the request, and the
  request of \<open>SaveAuditEvent\<close>. The JSON coding, the HTTP exchange, the user object of the framework and
  the parameter styling of the generated client's runtime are the parameter \<open>audit_env\<close>.

  \<open>SaveEvent\<close> reads fields of the session behind a pointer without a test, so a nil session with at
  least one event panics: the result None.
\<close>

record rest_audit_config =
  rc_AuditUrl :: string
  rc_AuditIncludePersonData :: bool
  rc_AuditRestAPIKey :: string

record audit_client =
  xc_Server :: string

datatype audit_provider =
    NoopAuditProvider
  | RestAPIAuditProvider rest_audit_config audit_client

record audit_env =
  ax_AppName :: string
  ax_DisplayName :: "claims option \<Rightarrow> string"
  ax_ClaimValue :: "claims option \<Rightarrow> string \<Rightarrow> string"
  ax_UserID :: "claims option \<Rightarrow> string"
  ax_Marshal :: "audit_item list \<Rightarrow> go_error + string"
  ax_NewRequest :: "string \<Rightarrow> go_error option"
  ax_StyleParam :: "string \<Rightarrow> go_error + string"
  ax_HTTP :: http_do
  ax_ReadBody :: "http_response \<Rightarrow> go_error + string"

subsection \<open>The generated client\<close>

definition audit_NewClient :: "string \<Rightarrow> audit_client" where
  "audit_NewClient server =
     \<lparr>xc_Server = (if has_suffix server ''/'' then server else server @ ''/'')\<rparr>"

text \<open>\<open>URL.Parse\<close> of a relative reference: the directory of the base, then the dot segments go.\<close>

fun dot_segments :: "string list \<Rightarrow> string list \<Rightarrow> string list" where
  "dot_segments acc [] = rev acc"
| "dot_segments acc (s # ss) =
     (if s = ''.'' then dot_segments acc ss
      else if s = ''..'' then dot_segments (tl acc) ss
      else dot_segments (s # acc) ss)"

definition resolve_path :: "string \<Rightarrow> string \<Rightarrow> string" where
  "resolve_path base ref =
     (let dir = (case cut_last (CHR ''/'') base of None \<Rightarrow> [] | Some (d, _) \<Rightarrow> d @ ''/'');
          segments = split_on (CHR ''/'') (dir @ ref);
          joined = join_slash (dot_segments [] segments) @ (if last segments \<in> {''.'', ''..''} then ''/'' else [])
      in if has_prefix joined ''/'' then joined else CHR ''/'' # joined)"

text \<open>
  The first part of every request of the client: the operation's path with a dot in front, resolved
  against the URL of the server. A path with a dot in front has no scheme and no authority.
\<close>

definition operation_url :: "string \<Rightarrow> string \<Rightarrow> go_error + url" where
  "operation_url server operationPath =
     (case (url_parse server, url_parse (CHR ''.'' # operationPath)) of
        (Some u, Some ref) \<Rightarrow>
          (let r = ref\<lparr>u_Scheme := u_Scheme u, u_User := u_User u, u_Host := u_Host u\<rparr> in
           (case set_path r (resolve_path (escaped_path u) (escaped_path ref)) of None \<Rightarrow> ok r | Some v \<Rightarrow> ok v))
      | _ \<Rightarrow> fail (ErrText ''parse''))"

definition save_event_url :: "string \<Rightarrow> string option" where
  "save_event_url server = (case operation_url server ''/api/1.0/event'' of Inl _ \<Rightarrow> None | Inr u \<Rightarrow> Some (url_string u))"

definition NewSaveAuditEventRequest ::
  "audit_env \<Rightarrow> string \<Rightarrow> string \<Rightarrow> audit_item list \<Rightarrow> go_error + http_request" where
  "NewSaveAuditEventRequest env server apiKey events =
     and_then (ax_Marshal env events) (\<lambda>body.
       (case save_event_url server of
          None \<Rightarrow> fail (ErrText ''parse'')
        | Some url \<Rightarrow>
            (case ax_NewRequest env url of
               Some e \<Rightarrow> fail e
             | None \<Rightarrow> and_then (ax_StyleParam env apiKey) (\<lambda>key.
                 ok \<lparr>hr_Method = ''POST'', hr_BaseURL = url, hr_Path = [],
                    hr_Headers = [(''Content-Type'', ''application/json''), (''X-API-KEY'', key)],
                    hr_Body = body\<rparr>))))"

definition client_SaveAuditEvent ::
  "audit_env \<Rightarrow> audit_client \<Rightarrow> string \<Rightarrow> audit_item list \<Rightarrow> ('db, go_error + http_response) action" where
  "client_SaveAuditEvent env cl apiKey events =
     (case NewSaveAuditEventRequest env (xc_Server cl) apiKey events of
        Inl e \<Rightarrow> ret (Inl e)
      | Inr req \<Rightarrow> do {
          modify (\<lambda>w. w\<lparr>w_audit := w_audit w @ [events]\<rparr>);
          ret (ax_HTTP env req)
        })"

subsection \<open>The providers\<close>

definition NewRestAPIAuditProvider :: "rest_audit_config \<Rightarrow> audit_provider" where
  "NewRestAPIAuditProvider cfg = RestAPIAuditProvider cfg (audit_NewClient (rc_AuditUrl cfg))"

definition transactionIDFromContext :: "request \<Rightarrow> string" where
  "transactionIDFromContext rq =
     (let i = trim_space (rq_Header rq ''X-Correlation-ID'') in
      if i \<noteq> [] then (if length i > 50 then take 50 i else i)
      else (case rq_TraceID rq of Some t \<Rightarrow> t | None \<Rightarrow> rq_ContextID rq))"

text \<open>\<open>if event.F == nil { event.F = v }\<close>\<close>

definition or_else :: "'a option \<Rightarrow> 'a option \<Rightarrow> 'a option" where
  "or_else x v = (case x of None \<Rightarrow> v | Some _ \<Rightarrow> x)"

definition from_organization :: "session \<Rightarrow> audit_item \<Rightarrow> audit_item" where
  "from_organization s ev = (case s_Role s of
       None \<Rightarrow> ev
     | Some r \<Rightarrow> (case re_Organization r of
           None \<Rightarrow> ev
         | Some org \<Rightarrow> ev\<lparr>ae_UserOrganizationCode := PtrString (oe_Code org),
             ae_UserOrganizationId := PtrString (oe_ID org),
             ae_UserOrganizationName := PtrString (oe_Name org),
             ae_UserRoleId := PtrString (re_UserRoleID r),
             ae_UserRoleName := PtrString (re_Name r)\<rparr>))"

definition from_user :: "audit_env \<Rightarrow> claims option \<Rightarrow> audit_item \<Rightarrow> audit_item" where
  "from_user env user ev =
     (let name = PtrString (ax_DisplayName env user); code = PtrString (ax_ClaimValue env user ''code'') in
      ev\<lparr>ae_PersonAuditData := or_else (ae_PersonAuditData ev)
             (Some [\<lparr>pa_FullName = name, pa_PersonCode = code\<rparr>]),
         ae_UserFullName := or_else (ae_UserFullName ev) name,
         ae_UserCode := or_else (ae_UserCode ev) code,
         ae_UserId := or_else (ae_UserId ev) (PtrString (ax_UserID env user)),
         ae_UserSessionId := or_else (ae_UserSessionId ev) (PtrString (ax_ClaimValue env user ''sid'')),
         ae_IsApiUser := or_else (ae_IsApiUser ev)
             (Some (ax_ClaimValue env user ''is_service_client'' = ''true''))\<rparr>)"

definition enrich_event ::
  "audit_env \<Rightarrow> request \<Rightarrow> claims option \<Rightarrow> session \<Rightarrow> audit_item \<Rightarrow> audit_item" where
  "enrich_event env rq user s event =
     (let ev = event\<lparr>ae_RequestUrl := PtrString (rq_RequestURI rq),
            ae_EventType := or_else (ae_EventType event) (PtrString (rq_Method rq)),
            ae_ServerIdentifier := PtrString (ax_AppName env),
            ae_TransactionId := PtrString (transactionIDFromContext rq),
            ae_UserIp := PtrString (rq_IP rq)\<rparr>;
          ev' = from_user env user (from_organization s ev) in
      ev'\<lparr>ae_Justification := or_else (ae_Justification ev') (PtrString []),
          ae_EventTimestamp := or_else (ae_EventTimestamp ev') (Some (rq_Now rq))\<rparr>)"

definition send_events ::
  "audit_env \<Rightarrow> rest_audit_config \<Rightarrow> audit_client \<Rightarrow> audit_item list \<Rightarrow> ('db, go_error + unit) action" where
  "send_events env cfg cl events =
     attempt (client_SaveAuditEvent env cl (rc_AuditRestAPIKey cfg) events) (\<lambda>res.
       if hp_StatusCode res \<noteq> 200 then
         (case ax_ReadBody env res of
            Inl e \<Rightarrow> ret (Inl e)
          | Inr _ \<Rightarrow> do {
              respond (StatusCode (hp_StatusCode res));
              ret (Inl (ErrText ''err:audit:error''))
            })
       else ret (Inr ()))"

definition SaveEvent ::
  "audit_env \<Rightarrow> audit_provider \<Rightarrow> request \<Rightarrow> audit_event \<Rightarrow> ('db, (go_error + unit) option) action" where
  "SaveEvent env ap rq req =
     (case ap of
        NoopAuditProvider \<Rightarrow> ret (Some (Inr ()))
      | RestAPIAuditProvider cfg cl \<Rightarrow> do {
          user \<leftarrow> gets w_user;
          (case (av_Session req, av_Events req) of
             (None, _ # _) \<Rightarrow> do { respond (Panic ''nil session in SaveEvent''); ret None }
           | (None, []) \<Rightarrow> do { r \<leftarrow> send_events env cfg cl []; ret (Some r) }
           | (Some s, events) \<Rightarrow> do {
               r \<leftarrow> send_events env cfg cl (map (enrich_event env rq user s) events);
               ret (Some r)
             })
        })"

subsection \<open>Lemmas\<close>

lemma transaction_id_bound:
  assumes "\<And>t. rq_TraceID rq = Some t \<Longrightarrow> length t \<le> 50" and "length (rq_ContextID rq) \<le> 50"
  shows "length (transactionIDFromContext rq) \<le> 50"
  using assms by (auto simp: transactionIDFromContext_def Let_def split: option.splits)

lemma or_else_simps [simp]:
  "or_else None v = v" "or_else (Some x) v = Some x" "or_else y v = None \<longleftrightarrow> y = None \<and> v = None"
  by (auto simp: or_else_def split: option.splits)

lemma SaveEvent_noop [simp]: "run_state (SaveEvent env NoopAuditProvider rq ev) w = (Some (Inr ()), w)"
  by (simp add: SaveEvent_def)

lemma SaveEvent_session:
  assumes "av_Session ev = Some s" and "run_state (SaveEvent env ap rq ev) w = (r, w')"
  shows "r \<noteq> None"
  using assms by (auto simp: SaveEvent_def split: audit_provider.splits prod.splits)

lemma from_organization_keeps:
  "ae_UserSessionId (from_organization s ev) = ae_UserSessionId ev"
  "ae_UserId (from_organization s ev) = ae_UserId ev"
  "ae_UserCode (from_organization s ev) = ae_UserCode ev"
  "ae_UserFullName (from_organization s ev) = ae_UserFullName ev"
  "ae_EventCode (from_organization s ev) = ae_EventCode ev"
  "ae_EventSuccessful (from_organization s ev) = ae_EventSuccessful ev"
  "ae_EventType (from_organization s ev) = ae_EventType ev"
  "ae_EventTimestamp (from_organization s ev) = ae_EventTimestamp ev"
  "ae_IsApiUser (from_organization s ev) = ae_IsApiUser ev"
  "ae_PersonAuditData (from_organization s ev) = ae_PersonAuditData ev"
  "ae_TransactionId (from_organization s ev) = ae_TransactionId ev"
  "ae_UserIp (from_organization s ev) = ae_UserIp ev"
  by (simp_all add: from_organization_def split: option.splits)

text \<open>What the caller has set is sent unchanged.\<close>

lemma enrich_keeps:
  "ae_EventCode (enrich_event env rq u s ev) = ae_EventCode ev"
  "ae_EventSuccessful (enrich_event env rq u s ev) = ae_EventSuccessful ev"
  "ae_UserSessionId ev = Some x \<Longrightarrow> ae_UserSessionId (enrich_event env rq u s ev) = Some x"
  "ae_UserId ev = Some x \<Longrightarrow> ae_UserId (enrich_event env rq u s ev) = Some x"
  "ae_UserCode ev = Some x \<Longrightarrow> ae_UserCode (enrich_event env rq u s ev) = Some x"
  "ae_EventType ev = Some x \<Longrightarrow> ae_EventType (enrich_event env rq u s ev) = Some x"
  by (simp_all add: enrich_event_def from_user_def Let_def from_organization_keeps)

lemma same_send_events [triples]:
  assumes "\<And>w x. f (w\<lparr>w_audit := x\<rparr>) = f w" "\<And>w r. f (w\<lparr>w_resp := r\<rparr>) = f w"
  shows "same f (send_events env cfg cl events)"
  unfolding send_events_def client_SaveAuditEvent_def by (intro triples; simp add: assms)

lemma same_SaveEvent [triples]:
  assumes "\<And>w x. f (w\<lparr>w_audit := x\<rparr>) = f w" "\<And>w r. f (w\<lparr>w_resp := r\<rparr>) = f w"
  shows "same f (SaveEvent env ap rq ev)"
  unfolding SaveEvent_def
  by (cases ap; cases "av_Session ev"; cases "av_Events ev"; simp; intro triples; simp add: assms)

end
