(* ===== verification/ClaimMapper.thy ===== *)
theory ClaimMapper
  imports Context
begin

text \<open>
  \<open>claim_mapper.go\<close>: the Jsonnet mapping of a provider's claims to an \<open>AuthRequest\<close>, and the provider
  configuration of \<open>core/auth.go\<close>. Reading the file, Jsonnet and the JSON coding are the parameter
  \<open>jsonnet_env\<close>. Whatever the script answers, token, provider and raw claims are the provider's own.
\<close>

record auth_provider_config =
  pc_ID :: string
  pc_Type :: string
  pc_Realm :: string
  pc_MetadataURL :: string
  pc_IDPEndpoint :: string
  pc_SigningCertificatePEM :: string
  pc_PostCallbackSignout :: bool
  pc_ClientID :: string
  pc_ClientSecret :: string
  pc_Metadata :: "(string \<times> string) list"
  pc_Scope :: "string list"
  pc_AcrValues :: string
  pc_ClaimMappingFile :: string
  pc_PostLogoutRedirectURI :: string
  pc_LogoutParams :: "(string \<times> string) list"

record claim_mapping_input =
  ci_ProviderID :: string
  ci_ProviderType :: string
  ci_Claims :: "(string \<times> json) list"
  ci_Metadata :: "(string \<times> string) list"
  ci_Nonce :: "string option"
  ci_RawToken :: string

record claim_mapper =
  cm_filePath :: string
  cm_script :: string

record jsonnet_env =
  jn_ReadFile :: "string \<Rightarrow> go_error + string"
  jn_SnippetToAST :: "string \<Rightarrow> string \<Rightarrow> go_error option"
  jn_Marshal :: "claim_mapping_input \<Rightarrow> go_error + string"
  jn_Evaluate :: "string \<Rightarrow> string \<Rightarrow> go_error + string"
  jn_Unmarshal :: "string \<Rightarrow> go_error + auth_request"

definition newJSONNetClaimMapper :: "jsonnet_env \<Rightarrow> string \<Rightarrow> go_error + claim_mapper" where
  "newJSONNetClaimMapper env path =
     (case jn_ReadFile env path of
        Inl _ \<Rightarrow> fail (ErrText (''read claim mapping file '' @ path))
      | Inr bytes \<Rightarrow>
          (let script = trim_space bytes in
           if script = [] then fail (ErrText (''claim mapping file is empty: '' @ path))
           else (case jn_SnippetToAST env path script of
               Some _ \<Rightarrow> fail (ErrText (''parse claim mapping file '' @ path))
             | None \<Rightarrow> ok \<lparr>cm_filePath = path, cm_script = script\<rparr>)))"

definition mapping_snippet :: "claim_mapper \<Rightarrow> string \<Rightarrow> string" where
  "mapping_snippet m payload = ''local map = ('' @ cm_script m @ ''); map('' @ payload @ '')''"

definition mapToAuthRequest ::
  "jsonnet_env \<Rightarrow> claim_mapper \<Rightarrow> claim_mapping_input \<Rightarrow> go_error + auth_request" where
  "mapToAuthRequest env m input =
     (case jn_Marshal env input of
        Inl _ \<Rightarrow> fail (auth_fail AuthErrServer ''failed to encode claim mapping input'')
      | Inr payload \<Rightarrow>
          (case jn_Evaluate env (cm_filePath m) (mapping_snippet m payload) of
             Inl _ \<Rightarrow> fail (auth_fail AuthErrInvalidRequest ''claim mapping evaluation failed'')
           | Inr mapped \<Rightarrow>
               if trim_space mapped = ''null''
                 then fail (auth_fail AuthErrInvalidRequest ''authorization denied by claim mapping'')
               else (case jn_Unmarshal env mapped of
                   Inl _ \<Rightarrow> fail (auth_fail AuthErrInvalidRequest
                              ''claim mapping output must be JSON object or null'')
                 | Inr r \<Rightarrow> ok (r\<lparr>ar_Token := ci_RawToken input, ar_ProviderID := ci_ProviderID input,
                             ar_RawClaims := ci_Claims input\<rparr>))))"

lemma mapToAuthRequest_ok:
  assumes "mapToAuthRequest env m input = Inr r"
  shows "ar_Token r = ci_RawToken input" "ar_ProviderID r = ci_ProviderID input"
    "ar_RawClaims r = ci_Claims input"
  using assms by (auto simp: mapToAuthRequest_def split: sum.splits if_splits)

lemma mapToAuthRequest_errors:
  assumes "mapToAuthRequest env m input = Inl e"
  shows "\<exists>ae. e = AuthorizeError ae \<and> ae_Code ae \<in> {AuthErrServer, AuthErrInvalidRequest}"
  using assms by (auto simp: mapToAuthRequest_def split: sum.splits if_splits)

lemma newJSONNetClaimMapper_script:
  "newJSONNetClaimMapper env path = Inr m \<Longrightarrow> cm_filePath m = path \<and> cm_script m \<noteq> []"
  by (auto simp: newJSONNetClaimMapper_def Let_def split: sum.splits if_splits option.splits)

end
