(* ===== verification/Providers.thy ===== *)
theory Providers
  imports ClaimMapper GoUrlParse "HOL-Library.AList" "HOL-Library.Multiset"
begin

text \<open>
  \<open>providers.go\<close>, \<open>core/auth_file.go\<close>, \<open>oidc.go\<close>, \<open>vpm.go\<close> and \<open>Init\<close> of \<open>idauth.go\<close>: the file store of
  provider configurations, the two kinds of providers and the registry. The OpenID Connect, OAuth2 and
  WS-Federation libraries are the parameter \<open>provider_env\<close>.

  A provider object is shared by all requests. Its field \<open>signoutURL\<close> is written by a callback and read
  by the handler afterwards; it is \<open>w_signout\<close>, under the name the provider is registered with. The
  redirect URL, which is written right before each use, is an argument of the call. The locale
  \<open>registry\<close> is the contract of \<open>Register\<close> and \<open>GetProvider\<close>.
\<close>

subsection \<open>\<open>core/auth_file.go\<close>\<close>

record provider_file_env =
  pe_ReadFile :: "string \<Rightarrow> go_error + string"
  pe_YAML :: "string \<Rightarrow> go_error + auth_provider_config list"
  pe_Validate :: "auth_provider_config \<Rightarrow> go_error option"

type_synonym provider_file = "(string \<times> auth_provider_config) list"

fun add_configs ::
  "provider_file_env \<Rightarrow> provider_file \<Rightarrow> auth_provider_config list \<Rightarrow> go_error + provider_file" where
  "add_configs env m [] = ok m"
| "add_configs env m (p # ps) =
     (case pe_Validate env p of
        Some e \<Rightarrow> fail e
      | None \<Rightarrow> add_configs env (AList.update (pc_ID p) p m) ps)"

definition NewFileAuthProviderStore :: "provider_file_env \<Rightarrow> string \<Rightarrow> go_error + provider_file" where
  "NewFileAuthProviderStore env path =
     (if path = [] then fail (ErrText ''auth file store path is required'')
      else and_then (pe_ReadFile env path) (\<lambda>bytes.
           and_then (pe_YAML env bytes) (\<lambda>ps. add_configs env [] ps)))"

definition file_GetProvider :: "provider_file \<Rightarrow> string \<Rightarrow> go_error + auth_provider_config" where
  "file_GetProvider m k = (case List.find (\<lambda>p. equal_fold (pc_ID p) k) (map snd m) of
       Some p \<Rightarrow> ok p
     | None \<Rightarrow> fail (ErrText ''provider not found''))"

definition GetAllProviders :: "provider_file \<Rightarrow> go_error + auth_provider_config list" where
  "GetAllProviders m = ok (map snd m)"

definition GetAvailableProviders ::
  "provider_file \<Rightarrow> string \<Rightarrow> go_error + auth_provider_config list" where
  "GetAvailableProviders m clientID = ok (map snd m)"

subsection \<open>The two kinds of providers\<close>

record oidc_provider =
  op_config :: auth_provider_config
  op_Scopes :: "string list"
  op_claimMapper :: "claim_mapper option"
  op_endSessionURL :: string

record vpm_provider =
  vp_config :: auth_provider_config
  vp_IDPEndpoint :: "url option"
  vp_Certificate :: "string option"
  vp_claimMapper :: "claim_mapper option"

datatype auth_provider = OidcAuthProvider oidc_provider | VPMAuthProvider vpm_provider

record oidc_claims =
  oc_Subject :: string
  oc_Email :: string
  oc_GivenName :: string
  oc_FirstName :: string
  oc_FamilyName :: string
  oc_PersonCode :: string
  oc_LastName :: string
  oc_Verified :: bool

record id_token =
  it_Nonce :: string
  it_AllClaims :: "go_error + (string \<times> json) list"
  it_Claims :: "go_error + oidc_claims"

text \<open>The claim types \<open>convertVPM\<close> asks the WS-Federation library for, by their names there.\<close>

datatype wsfed_claim = ClaimTypePrivatePersonalIdentifier | ClaimTypeGivenName
  | ClaimTypeSurname | ClaimTypeSID

record wsfed_token =
  wt_Validated :: string
  wt_Attributes :: "(string \<times> string list) list"
  wt_ClaimValue :: "wsfed_claim \<Rightarrow> string"

record provider_env =
  px_jsonnet :: jsonnet_env
  px_NewProvider :: "string \<Rightarrow> go_error + string"
  px_AuthCodeURL :: "oidc_provider \<Rightarrow> string \<Rightarrow> string \<Rightarrow> string"
  px_Exchange :: "oidc_provider \<Rightarrow> string \<Rightarrow> string \<Rightarrow> go_error + string option"
  px_Verify :: "oidc_provider \<Rightarrow> string \<Rightarrow> go_error + id_token"
  px_WsfedNew :: "string \<Rightarrow> go_error option"
  px_ParseCertificate :: "string \<Rightarrow> go_error option"
  px_SigninURL :: "vpm_provider \<Rightarrow> request \<Rightarrow> string \<Rightarrow> go_error + string"
  px_ReadResponse :: "vpm_provider \<Rightarrow> request \<Rightarrow> string \<Rightarrow> go_error + wsfed_token"
  px_SignoutURL :: "vpm_provider \<Rightarrow> string \<Rightarrow> string \<Rightarrow> go_error + string"

definition load_mapper :: "provider_env \<Rightarrow> string \<Rightarrow> go_error + claim_mapper option" where
  "load_mapper env file =
     (if file = [] then ok None
      else and_then (newJSONNetClaimMapper (px_jsonnet env) file) (\<lambda>m. ok (Some m)))"

definition provider_config :: "auth_provider \<Rightarrow> auth_provider_config" where
  "provider_config p = (case p of OidcAuthProvider o1 \<Rightarrow> op_config o1 | VPMAuthProvider v \<Rightarrow> vp_config v)"

definition callback_url :: "request \<Rightarrow> auth_provider_config \<Rightarrow> string" where
  "callback_url rq cfg = rq_BaseURL rq @ ''/callback/'' @ pc_ID cfg"

definition signout_key :: "auth_provider_config \<Rightarrow> string" where
  "signout_key cfg = to_lower (pc_ID cfg)"

definition set_signout :: "auth_provider_config \<Rightarrow> string \<Rightarrow> ('db, unit) action" where
  "set_signout cfg url = modify (\<lambda>w. w\<lparr>w_signout := (w_signout w)(signout_key cfg := url)\<rparr>)"

subsection \<open>\<open>oidc.go\<close>\<close>

text \<open>\<open>px_NewProvider\<close> answers the end-session endpoint of the discovery document, empty if it has none.\<close>

definition NewOidcService :: "provider_env \<Rightarrow> auth_provider_config \<Rightarrow> go_error + oidc_provider" where
  "NewOidcService env cfg =
     and_then (px_NewProvider env (pc_MetadataURL cfg)) (\<lambda>endSession.
     and_then (load_mapper env (pc_ClaimMappingFile cfg)) (\<lambda>mapper.
       ok \<lparr>op_config = cfg,
           op_Scopes = (if pc_Scope cfg = [] then [''openid'', ''profile'', ''email''] else pc_Scope cfg),
           op_claimMapper = mapper, op_endSessionURL = endSession\<rparr>))"

definition Oidc_Authorize ::
  "provider_env \<Rightarrow> oidc_provider \<Rightarrow> request \<Rightarrow> correlation \<Rightarrow> ('db, (go_error + unit) option) action" where
  "Oidc_Authorize env p rq cor =
     (case c_State cor of
        None \<Rightarrow> do { respond (Panic ''nil state in Authorize''); ret None }
      | Some state \<Rightarrow> do {
          let url = px_AuthCodeURL env p (callback_url rq (op_config p)) state;
          let acr = pc_AcrValues (op_config p);
          respond (Redirect (if acr \<noteq> [] then url @ ''&acr_values='' @ acr else url));
          ret (Some (Inr ()))
        })"

definition end_session_query :: "oidc_provider \<Rightarrow> string \<Rightarrow> string \<Rightarrow> url_values \<Rightarrow> url_values" where
  "end_session_query p idTokenHint postLogout q =
     (let q1 = value_set ''id_token_hint'' idTokenHint q;
          q2 = (if postLogout \<noteq> [] then value_set ''client_id'' (pc_ClientID (op_config p))
                  (value_set ''post_logout_redirect_uri'' postLogout q1) else q1)
      in fold (\<lambda>(k, v). value_set k v) (pc_LogoutParams (op_config p)) q2)"

definition buildEndSessionURL :: "oidc_provider \<Rightarrow> string \<Rightarrow> string \<Rightarrow> string" where
  "buildEndSessionURL p idTokenHint postLogout =
     (if op_endSessionURL p = [] \<or> idTokenHint = [] then []
      else (case url_parse (op_endSessionURL p) of
          None \<Rightarrow> []
        | Some u \<Rightarrow> url_string (u\<lparr>u_RawQuery :=
            query_encode (end_session_query p idTokenHint postLogout (query_parse (u_RawQuery u)))\<rparr>)))"

definition LogoutURL :: "oidc_provider \<Rightarrow> string \<Rightarrow> string" where
  "LogoutURL p idTokenHint = buildEndSessionURL p idTokenHint (pc_PostLogoutRedirectURI (op_config p))"

definition first_set :: "string \<Rightarrow> string \<Rightarrow> string" where
  "first_set a b = (if a = [] then b else a)"

definition oidc_auth_request :: "auth_provider_config \<Rightarrow> string \<Rightarrow> oidc_claims \<Rightarrow> auth_request" where
  "oidc_auth_request cfg raw cs = \<lparr>ar_PersonCode = first_set (oc_PersonCode cs) (oc_Subject cs),
     ar_FirstName = first_set (oc_GivenName cs) (oc_FirstName cs),
     ar_LastName = first_set (oc_FamilyName cs) (oc_LastName cs), ar_Email = oc_Email cs,
     ar_IPAddress = [], ar_Nonce = None, ar_Rights = [], ar_SessionID = [], ar_Token = raw,
     ar_ClientID = [], ar_ProviderID = pc_ID cfg, ar_TOS = False, ar_Organizations = [],
     ar_RawClaims = []\<rparr>"

definition provider_mapping_input ::
  "auth_provider_config \<Rightarrow> (string \<times> json) list \<Rightarrow> string option \<Rightarrow> string \<Rightarrow> claim_mapping_input" where
  "provider_mapping_input cfg cs nonce raw = \<lparr>ci_ProviderID = pc_ID cfg, ci_ProviderType = pc_Type cfg,
     ci_Claims = cs, ci_Metadata = pc_Metadata cfg, ci_Nonce = nonce, ci_RawToken = raw\<rparr>"

definition oidc_claims_request ::
  "provider_env \<Rightarrow> oidc_provider \<Rightarrow> correlation \<Rightarrow> string \<Rightarrow> id_token \<Rightarrow> go_error + auth_request" where
  "oidc_claims_request env p sess raw t =
     and_then (it_AllClaims t) (\<lambda>all.
       (case op_claimMapper p of
          Some m \<Rightarrow> mapToAuthRequest (px_jsonnet env) m
                      (provider_mapping_input (op_config p) all (c_Nonce sess) raw)
        | None \<Rightarrow> and_then (it_Claims t) (\<lambda>cs. ok (oidc_auth_request (op_config p) raw cs))))"

definition Oidc_Callback ::
  "provider_env \<Rightarrow> oidc_provider \<Rightarrow> request \<Rightarrow> correlation \<Rightarrow> ('db, go_error + auth_request) action" where
  "Oidc_Callback env p rq sess =
     (case and_then (rq_Query rq ''code'') (px_Exchange env p (callback_url rq (op_config p))) of
        Inl e \<Rightarrow> ret (Inl e)
      | Inr None \<Rightarrow> ret (Inl (ErrText ''missing id_token''))
      | Inr (Some raw) \<Rightarrow>
          (case px_Verify env p raw of
             Inl e \<Rightarrow> ret (Inl e)
           | Inr t \<Rightarrow>
               if \<exists>n \<in> set_option (c_Nonce sess). n \<noteq> it_Nonce t
               then ret (Inl (ErrText ''nonce did not match''))
               else do {
                 _ \<leftarrow> (if pc_PostCallbackSignout (op_config p)
                      then set_signout (op_config p)
                             (buildEndSessionURL p raw (rq_BaseURL rq @ ''/oidc/logout/callback''))
                      else skip);
                 ret (oidc_claims_request env p sess raw t)
               }))"

subsection \<open>\<open>vpm.go\<close>\<close>

definition parse_idp_endpoint :: "string \<Rightarrow> go_error + url option" where
  "parse_idp_endpoint s =
     (if s = [] then ok None
      else (case url_parse s of None \<Rightarrow> fail (ErrText ''parse'') | Some u \<Rightarrow> ok (Some u)))"

definition parse_certificate :: "provider_env \<Rightarrow> string \<Rightarrow> go_error + string option" where
  "parse_certificate env pem =
     (if pem = [] then ok None
      else (case decode64 pem of
          None \<Rightarrow> fail (ErrText ''illegal base64 data'')
        | Some data \<Rightarrow>
            (case px_ParseCertificate env data of Some e \<Rightarrow> fail e | None \<Rightarrow> ok (Some data))))"

definition NewVPMService :: "provider_env \<Rightarrow> auth_provider_config \<Rightarrow> go_error + vpm_provider" where
  "NewVPMService env cfg =
     (case px_WsfedNew env (pc_MetadataURL cfg) of
        Some e \<Rightarrow> fail e
      | None \<Rightarrow>
          and_then (load_mapper env (pc_ClaimMappingFile cfg)) (\<lambda>mapper.
          and_then (parse_idp_endpoint (pc_IDPEndpoint cfg)) (\<lambda>endpoint.
          and_then (parse_certificate env (pc_SigningCertificatePEM cfg)) (\<lambda>cert.
            ok \<lparr>vp_config = cfg, vp_IDPEndpoint = endpoint, vp_Certificate = cert,
                vp_claimMapper = mapper\<rparr>))))"

definition VPM_Authorize ::
  "provider_env \<Rightarrow> vpm_provider \<Rightarrow> request \<Rightarrow> correlation \<Rightarrow> ('db, (go_error + unit) option) action" where
  "VPM_Authorize env p rq sess =
     (case px_SigninURL env p rq (pc_Realm (vp_config p)) of
        Inl _ \<Rightarrow> do { respond (StatusCode 500); ret (Some (Inr ())) }
      | Inr url \<Rightarrow> do { respond (Redirect url); ret (Some (Inr ())) })"

definition convertVPM :: "wsfed_token \<Rightarrow> auth_request" where
  "convertVPM t = \<lparr>ar_PersonCode = wt_ClaimValue t ClaimTypePrivatePersonalIdentifier,
     ar_FirstName = wt_ClaimValue t ClaimTypeGivenName,
     ar_LastName = wt_ClaimValue t ClaimTypeSurname, ar_Email = [], ar_IPAddress = [],
     ar_Nonce = None, ar_Rights = [], ar_SessionID = wt_ClaimValue t ClaimTypeSID,
     ar_Token = wt_Validated t, ar_ClientID = [], ar_ProviderID = [], ar_TOS = False,
     ar_Organizations = [], ar_RawClaims = []\<rparr>"

definition vpm_auth_request ::
  "provider_env \<Rightarrow> vpm_provider \<Rightarrow> request \<Rightarrow> correlation \<Rightarrow> wsfed_token \<Rightarrow> go_error + auth_request" where
  "vpm_auth_request env p rq sess t =
     and_then
       (case vp_claimMapper p of
          Some m \<Rightarrow> mapToAuthRequest (px_jsonnet env) m
            (provider_mapping_input (vp_config p)
              (map (\<lambda>(k, vs). (k, JArr (map JStr vs))) (wt_Attributes t)) (c_Nonce sess) (wt_Validated t))
        | None \<Rightarrow> ok (convertVPM t))
       (\<lambda>r. ok (r\<lparr>ar_IPAddress := rq_IP rq, ar_Nonce := c_Nonce sess\<rparr>))"

definition VPM_Callback ::
  "provider_env \<Rightarrow> vpm_provider \<Rightarrow> request \<Rightarrow> correlation \<Rightarrow> ('db, go_error + auth_request option) action" where
  "VPM_Callback env p rq sess =
     (if rq_IsSignoutResponse rq then do { respond (StatusCode 200); ret (Inr None) }
      else (case px_ReadResponse env p rq (pc_Realm (vp_config p)) of
          Inl e \<Rightarrow> ret (Inl e)
        | Inr t \<Rightarrow>
            attempt
              (if pc_PostCallbackSignout (vp_config p) then
                 (case px_SignoutURL env p (pc_Realm (vp_config p)) (callback_url rq (vp_config p)) of
                    Inl e \<Rightarrow> ret (Inl e)
                  | Inr url \<Rightarrow> do { set_signout (vp_config p) url; ret (Inr ()) })
               else ret (Inr ()))
              (\<lambda>_. ret (and_then (vpm_auth_request env p rq sess t) (\<lambda>r. ok (Some r))))))"

subsection \<open>The interface \<open>core.AuthProvider\<close>\<close>

definition provider_Authorize ::
  "provider_env \<Rightarrow> auth_provider \<Rightarrow> request \<Rightarrow> correlation \<Rightarrow> ('db, (go_error + unit) option) action" where
  "provider_Authorize env p rq cor = (case p of
       OidcAuthProvider o1 \<Rightarrow> Oidc_Authorize env o1 rq cor
     | VPMAuthProvider v \<Rightarrow> VPM_Authorize env v rq cor)"

definition provider_Callback ::
  "provider_env \<Rightarrow> auth_provider \<Rightarrow> request \<Rightarrow> correlation \<Rightarrow> ('db, go_error + auth_request option) action" where
  "provider_Callback env p rq sess = (case p of
       OidcAuthProvider o1 \<Rightarrow> attempt (Oidc_Callback env o1 rq sess) (\<lambda>r. ret (Inr (Some r)))
     | VPMAuthProvider v \<Rightarrow> VPM_Callback env v rq sess)"

definition RequiresSignoutCallback :: "auth_provider \<Rightarrow> bool" where
  "RequiresSignoutCallback p = pc_PostCallbackSignout (provider_config p)"

definition GetSignoutURL :: "auth_provider \<Rightarrow> ('db, string) action" where
  "GetSignoutURL p = gets (\<lambda>w. w_signout w (signout_key (provider_config p)))"

subsection \<open>\<open>providers.go\<close>\<close>

type_synonym providers = "string \<Rightarrow> auth_provider option"

text \<open>\<open>None\<close> is a panic: a nil provider or a name registered already.\<close>

definition Register :: "string \<Rightarrow> auth_provider option \<Rightarrow> providers \<Rightarrow> providers option" where
  "Register name provider m =
     (case provider of
        None \<Rightarrow> None
      | Some p \<Rightarrow> if m (to_lower name) \<noteq> None then None else Some (m(to_lower name \<mapsto> p)))"

definition GetProvider :: "providers \<Rightarrow> string \<Rightarrow> go_error + auth_provider" where
  "GetProvider m name = (case m (to_lower name) of
       None \<Rightarrow> fail (ErrText (''idauth: unknown provider '' @ to_lower name))
     | Some p \<Rightarrow> ok p)"

definition new_provider :: "provider_env \<Rightarrow> auth_provider_config \<Rightarrow> go_error + auth_provider" where
  "new_provider env cfg =
     (if to_lower (pc_Type cfg) = ''vpm''
        then and_then (NewVPMService env cfg) (\<lambda>v. ok (VPMAuthProvider v))
      else if to_lower (pc_Type cfg) = ''oidc''
        then and_then (NewOidcService env cfg) (\<lambda>p. ok (OidcAuthProvider p))
      else fail (ErrText ''auth type not supported''))"

fun Init_from ::
  "provider_env \<Rightarrow> auth_provider_config list \<Rightarrow> providers \<Rightarrow> (go_error + providers) option" where
  "Init_from env [] m = Some (Inr m)"
| "Init_from env (cfg # cfgs) m =
     (case new_provider env cfg of
        Inl e \<Rightarrow> Some (Inl e)
      | Inr p \<Rightarrow>
          (case Register (pc_ID cfg) (Some p) m of
             None \<Rightarrow> None
           | Some m' \<Rightarrow> Init_from env cfgs m'))"

definition Init :: "provider_env \<Rightarrow> provider_file \<Rightarrow> (go_error + providers) option" where
  "Init env store =
     (case GetAllProviders store of
        Inl e \<Rightarrow> Some (Inl e)
      | Inr cfgs \<Rightarrow> Init_from env cfgs Map.empty)"

subsection \<open>The registry\<close>

locale registry =
  fixes norm :: "string \<Rightarrow> string"
    and empty :: "'r"
    and register :: "string \<Rightarrow> 'p \<Rightarrow> 'r \<Rightarrow> 'r option"
    and lookup :: "'r \<Rightarrow> string \<Rightarrow> 'p option"
  assumes lookup_empty: "lookup empty n = None"
    and register_taken: "lookup r n \<noteq> None \<Longrightarrow> register n p r = None"
    and register_free: "lookup r n = None \<Longrightarrow>
      \<exists>r'. register n p r = Some r' \<and>
           (\<forall>m. lookup r' m = (if norm m = norm n then Some p else lookup r m))"
    and lookup_norm: "norm m = norm n \<Longrightarrow> lookup r m = lookup r n"
begin

fun register_all :: "(string \<times> 'p) list \<Rightarrow> 'r \<Rightarrow> 'r option" where
  "register_all [] r = Some r"
| "register_all ((n, p) # nps) r =
     (case register n p r of None \<Rightarrow> None | Some r' \<Rightarrow> register_all nps r')"

lemma register_all_iff:
  "register_all nps r \<noteq> None \<longleftrightarrow>
     distinct (map (norm \<circ> fst) nps) \<and> (\<forall>(n, p) \<in> set nps. lookup r n = None)"
proof (induction nps arbitrary: r)
  case (Cons np nps)
  obtain n p where np: "np = (n, p)" by (cases np)
  show ?case
  proof (cases "lookup r n")
    case None
    from register_free [OF None, of p] obtain r' where r': "register n p r = Some r'"
      and look: "\<And>m. lookup r' m = (if norm m = norm n then Some p else lookup r m)"
      by blast
    have "lookup r' m = None \<longleftrightarrow> norm m \<noteq> norm n \<and> lookup r m = None" for m
      by (simp add: look)
    then have "(\<forall>(m, q) \<in> set nps. lookup r' m = None) \<longleftrightarrow>
        norm n \<notin> set (map (norm \<circ> fst) nps) \<and> (\<forall>(m, q) \<in> set nps. lookup r m = None)"
      by (auto simp: case_prod_beta image_iff)
    with None np r' Cons.IH [of r'] show ?thesis by auto
  next
    case (Some q)
    with np register_taken [of r n p] show ?thesis by auto
  qed
qed simp

lemma register_all_lookup:
  "register_all nps r = Some r' \<Longrightarrow>
   lookup r' m = (case map_of (map (apfst norm) nps) (norm m) of Some p \<Rightarrow> Some p | None \<Rightarrow> lookup r m)"
proof (induction nps arbitrary: r)
  case (Cons np nps)
  obtain n p where np: "np = (n, p)" by (cases np)
  from Cons.prems np obtain r1 where r1: "register n p r = Some r1" and rest: "register_all nps r1 = Some r'"
    by (auto split: option.splits)
  then have free: "lookup r n = None" using register_taken [of r n p] by force
  with register_free [OF free, of p] r1
  have look: "lookup r1 m = (if norm m = norm n then Some p else lookup r m)" by auto
  have "map_of (map (apfst norm) nps) (norm n) = None"
  proof (rule ccontr)
    assume "\<not> ?thesis"
    then obtain q where "(norm n, q) \<in> set (map (apfst norm) nps)"
      by (blast dest: map_of_SomeD)
    then have "norm n \<in> norm ` fst ` set nps" by force
    moreover have "\<forall>(k, q) \<in> set nps. lookup r1 k = None"
      using register_all_iff [of nps r1] rest by simp
    moreover have "\<And>k. norm k = norm n \<Longrightarrow> lookup r1 k \<noteq> None"
      using register_free [OF free, of p] r1 by auto
    ultimately show False by force
  qed
  with Cons.IH [OF rest] look np show ?case by (auto split: option.splits)
qed simp

lemma register_twice:
  assumes "register n p r = Some r'" and "norm m = norm n"
  shows "register m q r' = None"
proof -
  have "lookup r n = None" using assms(1) register_taken [of r n p] by force
  from register_free [OF this, of p] assms have "lookup r' m = Some p" by auto
  then show ?thesis by (simp add: register_taken)
qed

end

definition lookup_provider :: "providers \<Rightarrow> string \<Rightarrow> auth_provider option" where
  "lookup_provider m n = (case GetProvider m n of Inl _ \<Rightarrow> None | Inr p \<Rightarrow> Some p)"

lemma lookup_provider_eq: "lookup_provider m n = m (to_lower n)"
  by (simp add: lookup_provider_def GetProvider_def split: option.splits)

interpretation idauth_registry: registry to_lower Map.empty "\<lambda>n p. Register n (Some p)" lookup_provider
  by unfold_locales (auto simp: lookup_provider_eq Register_def)

text \<open>\<open>Init\<close> registers the providers one after the other, after it has made all of them.\<close>

fun new_providers ::
  "provider_env \<Rightarrow> auth_provider_config list \<Rightarrow> (string \<times> auth_provider) list option" where
  "new_providers env [] = Some []"
| "new_providers env (cfg # cfgs) =
     (case new_provider env cfg of
        Inl _ \<Rightarrow> None
      | Inr p \<Rightarrow> map_option ((#) (pc_ID cfg, p)) (new_providers env cfgs))"

lemma new_providers_ids:
  "new_providers env cfgs = Some ps \<Longrightarrow> map fst ps = map pc_ID cfgs"
  by (induction cfgs arbitrary: ps) (auto split: sum.splits)

lemma Init_from_register_all:
  "new_providers env cfgs = Some ps \<Longrightarrow>
   Init_from env cfgs m = map_option Inr (idauth_registry.register_all ps m)"
  by (induction cfgs arbitrary: ps m) (auto split: sum.splits option.splits)

lemma new_provider_config: "new_provider env cfg = Inr p \<Longrightarrow> provider_config p = cfg"
  by (auto simp: new_provider_def NewVPMService_def NewOidcService_def provider_config_def
      split: if_splits option.splits)

lemma Init_from_wf:
  "Init_from env cfgs m = Some (Inr m') \<Longrightarrow>
   (\<forall>k p. m k = Some p \<longrightarrow> k = signout_key (provider_config p)) \<Longrightarrow>
   m' k = Some p \<Longrightarrow> k = signout_key (provider_config p)"
proof (induction cfgs arbitrary: m)
  case (Cons cfg cfgs)
  from Cons.prems(1) obtain q m1 where q: "new_provider env cfg = Inr q"
    and m1: "Register (pc_ID cfg) (Some q) m = Some m1" and rest: "Init_from env cfgs m1 = Some (Inr m')"
    by (auto split: sum.splits option.splits)
  have "\<forall>k p. m1 k = Some p \<longrightarrow> k = signout_key (provider_config p)"
    using m1 Cons.prems(2) new_provider_config [OF q]
    by (auto simp: Register_def signout_key_def split: if_splits)
  from Cons.IH [OF rest this Cons.prems(3)] show ?case .
qed auto

subsection \<open>Logout parameters\<close>

text \<open>
  The code ranges over the map \<open>LogoutParams\<close>, in an order the language leaves open: it does not matter.
\<close>

lemma fold_value_set_order:
  assumes "distinct (map fst ps)" and "mset ps = mset qs"
  shows "fold (\<lambda>(k, v). value_set k v) ps q = fold (\<lambda>(k, v). value_set k v) qs q"
proof -
  have "fold (\<lambda>(k, v). value_set k v) ps = fold (\<lambda>(k, v). value_set k v) qs"
  proof (rule fold_multiset_equiv [OF _ assms(2)])
    fix x y assume "x \<in> set ps" "y \<in> set ps"
    then have "x = y \<or> fst x \<noteq> fst y" using assms(1) by (metis eq_key_imp_eq_value prod.collapse)
    then show "(\<lambda>(k, v). value_set k v) x \<circ> (\<lambda>(k, v). value_set k v) y =
        (\<lambda>(k, v). value_set k v) y \<circ> (\<lambda>(k, v). value_set k v) x"
      by (cases x; cases y) (auto simp: fun_eq_iff value_set_commute)
  qed
  then show ?thesis by simp
qed

lemma fold_value_set_wf:
  "values_wf q \<Longrightarrow> values_wf (fold (\<lambda>(k, v). value_set k v) ps q)"
  by (induction ps arbitrary: q) (auto simp: values_wf_set)

lemma fold_value_set_get:
  "values_wf q \<Longrightarrow> k \<notin> set (map fst ps) \<Longrightarrow>
   value_get k (fold (\<lambda>(k, v). value_set k v) ps q) = value_get k q"
  by (induction ps arbitrary: q) (auto simp: values_wf_set)

lemma end_session_query_wf: "values_wf q \<Longrightarrow> values_wf (end_session_query p hint uri q)"
  by (simp add: end_session_query_def Let_def fold_value_set_wf values_wf_set)

lemma end_session_query_hint:
  assumes "values_wf q" and "''id_token_hint'' \<notin> set (map fst (pc_LogoutParams (op_config p)))"
  shows "value_get ''id_token_hint'' (end_session_query p hint uri q) = hint"
  using assms by (simp add: end_session_query_def Let_def fold_value_set_get values_wf_set)

subsection \<open>Callbacks\<close>

lemma Oidc_Callback_ok:
  assumes "run_state (Oidc_Callback env p rq sess) w = (Inr r, w')"
  obtains code raw t where "rq_Query rq ''code'' = Inr code"
    and "px_Exchange env p (callback_url rq (op_config p)) code = Inr (Some raw)"
    and "px_Verify env p raw = Inr t" and "\<forall>n \<in> set_option (c_Nonce sess). n = it_Nonce t"
    and "oidc_claims_request env p sess raw t = Inr r"
proof (cases "and_then (rq_Query rq ''code'') (px_Exchange env p (callback_url rq (op_config p)))")
  case (Inr x)
  then obtain code where code: "rq_Query rq ''code'' = Inr code"
    and ex: "px_Exchange env p (callback_url rq (op_config p)) code = Inr x" by auto
  from assms Inr obtain raw where x: "x = Some raw"
    by (cases x) (simp_all add: Oidc_Callback_def)
  from assms Inr x obtain t where t: "px_Verify env p raw = Inr t"
    by (cases "px_Verify env p raw") (simp_all add: Oidc_Callback_def)
  from assms Inr x t have n: "\<forall>n \<in> set_option (c_Nonce sess). n = it_Nonce t"
    by (auto simp: Oidc_Callback_def split: if_splits)
  from assms Inr x t n have "oidc_claims_request env p sess raw t = Inr r"
    by (auto simp: Oidc_Callback_def set_signout_def split: if_splits)
  with code ex x t n that show thesis by simp
qed (use assms in \<open>simp add: Oidc_Callback_def\<close>)

lemma oidc_claims_request_token:
  assumes "oidc_claims_request env p sess raw t = Inr r"
  shows "ar_Token r = raw" "ar_ProviderID r = pc_ID (op_config p)"
  using assms mapToAuthRequest_ok
  by (force simp: oidc_claims_request_def oidc_auth_request_def provider_mapping_input_def
      split: option.splits)+

subsection \<open>Frames\<close>

lemma same_set_signout [triples]:
  "(\<And>w m. f (w\<lparr>w_signout := m\<rparr>) = f w) \<Longrightarrow> same f (set_signout cfg url)"
  by (simp add: set_signout_def same_def)

lemma same_provider_Authorize [triples]:
  "(\<And>w r. f (w\<lparr>w_resp := r\<rparr>) = f w) \<Longrightarrow> same f (provider_Authorize env p rq cor)"
  unfolding provider_Authorize_def Oidc_Authorize_def VPM_Authorize_def Let_def
  by (cases p; simp only: auth_provider.case; intro triples; simp)

lemma same_Oidc_Callback [triples]:
  "(\<And>w m. f (w\<lparr>w_signout := m\<rparr>) = f w) \<Longrightarrow> same f (Oidc_Callback env p rq cor)"
  unfolding Oidc_Callback_def by (intro triples; simp)

lemma same_VPM_Callback [triples]:
  "(\<And>w r. f (w\<lparr>w_resp := r\<rparr>) = f w) \<Longrightarrow> (\<And>w m. f (w\<lparr>w_signout := m\<rparr>) = f w) \<Longrightarrow>
   same f (VPM_Callback env p rq cor)"
  unfolding VPM_Callback_def by (intro triples; simp)

lemma same_provider_Callback [triples]:
  "(\<And>w r. f (w\<lparr>w_resp := r\<rparr>) = f w) \<Longrightarrow> (\<And>w m. f (w\<lparr>w_signout := m\<rparr>) = f w) \<Longrightarrow>
   same f (provider_Callback env p rq cor)"
  unfolding provider_Callback_def by (cases p; simp only: auth_provider.case; intro triples; simp)

end
