(* ===== verification/IDAuth.thy ===== *)
theory IDAuth
  imports TokenValidator Correlation OneTimeToken SessionStores AuditProvider Providers
begin

text \<open>
  The service object of \<open>idauth.go\<close> and what its handlers share: the configuration, the record \<open>idauth\<close>
  of the collaborators that \<open>With...\<close> installs, \<open>RedirectToCaller\<close>, the helpers on roles at the end of
  \<open>routes.go\<close> and the audit events. A handler is an action that ends in \<open>unit\<close>; a function that can
  panic returns an option.
\<close>

record configuration =
  cf_IntrospectionURL :: string
  cf_IntrospectionClientID :: string
  cf_IntrospectionClientSecret :: string
  cf_IAMIssuer :: string
  cf_IAMJWKSURL :: string
  cf_SessionTimeout :: duration
  cf_SessionCountdown :: duration
  cf_AuthorizerRestAPIKey :: string
  cf_AuthorizerRequiresTOS :: bool
  cf_TOSEndpoint :: string
  cf_SessionRequiresRole :: bool
  cf_UsesAuthorizationCodeGrant :: bool
  cf_UsesIAMGrant :: bool
  cf_UsesPfasGrant :: bool

record 'db idauth =
  ia_config :: configuration
  ia_clientEnv :: client_env
  ia_clientSources :: "client_source list"
  ia_tokenEnv :: token_env
  ia_sessionStore :: "'db session_store"
  ia_authorizer :: authorizer
  ia_authorizerEnv :: authorizer_env
  ia_auditProvider :: audit_provider
  ia_auditEnv :: audit_env
  ia_authProviders :: providers
  ia_providerEnv :: provider_env
  ia_appName :: string

type_synonym 'db handler = "request \<Rightarrow> ('db, unit) action"

subsection \<open>Errors of a handler\<close>

text \<open>\<open>var authErr *auth.AuthorizeError; if errors.As(err, &authErr) { ctx.JSON(authErr) }\<close>\<close>

definition json_if_auth_error :: "go_error \<Rightarrow> ('db, unit) action" where
  "json_if_auth_error e = (case e of AuthorizeError ae \<Rightarrow> respond (JSON (BAuthError ae)) | _ \<Rightarrow> skip)"

definition refuse :: "nat \<Rightarrow> auth_err_code \<Rightarrow> string \<Rightarrow> ('db, unit) action" where
  "refuse status code msg = do {
     respond (StatusCode status);
     respond (JSON (BAuthError (auth_error code msg)))
   }"

definition nil_dereference :: "string \<Rightarrow> ('db, 'a option) action" where
  "nil_dereference place = do { respond (Panic place); ret None }"

definition ignore_result :: "('db, 'a) action \<Rightarrow> ('db, unit) action" where
  "ignore_result m = do { _ \<leftarrow> m; skip }"

subsection \<open>Roles\<close>

definition getRoleByRelationID :: "role_entity list \<Rightarrow> string \<Rightarrow> role_entity option" where
  "getRoleByRelationID roles userRoleID = List.find (\<lambda>r. re_UserRoleID r = userRoleID) roles"

text \<open>\<open>!roleEntity.Blocked && (roleEntity.Organization == nil || !roleEntity.Organization.Blocked)\<close>\<close>

definition usable_role :: "role_entity \<Rightarrow> bool" where
  "usable_role r \<longleftrightarrow> \<not> re_Blocked r \<and> \<not> (\<exists>org \<in> set_option (re_Organization r). oe_Blocked org)"

text \<open>The role of a user who has exactly one.\<close>

definition single_role :: "role_entity list \<Rightarrow> role_entity option" where
  "single_role roles = (case roles of
       [r] \<Rightarrow> if usable_role r then getRoleByRelationID roles (re_UserRoleID r) else None
     | _ \<Rightarrow> None)"

definition right_scope :: "granted_right \<Rightarrow> string" where
  "right_scope g = (if gr_LevelCode g = [] then gr_RightCode g
                    else gr_RightCode g @ '':'' @ gr_LevelCode g)"

definition getCurrentRole ::
  "session \<Rightarrow> user_organization option \<times> role_basic option \<times> string list" where
  "getCurrentRole s = (case s_Role s of
       None \<Rightarrow> (None, None, [])
     | Some r \<Rightarrow>
         (map_option (\<lambda>org. \<lparr>uo_ID = oe_ID org, uo_Code = oe_Code org, uo_Name = oe_Name org,
              uo_TypeID = oe_TypeID org, uo_UserOrganizationID = oe_UserOrganizationID org\<rparr>)
            (re_Organization r),
          Some \<lparr>rb_ID = re_ID r, rb_UserRoleID = re_UserRoleID r, rb_Code = re_Code r,
            rb_AppCode = [], rb_Name = re_Name r, rb_Description = Some (re_Description r),
            rb_System = False, rb_AppURL = [], rb_DataScopes = re_DataScopes r\<rparr>,
          map right_scope (filter (\<lambda>g. gr_UserRoleID g = re_UserRoleID r) (s_Rights s))))"

lemma single_role_SomeD:
  "single_role roles = Some r \<Longrightarrow> roles = [r] \<and> usable_role r"
  by (auto simp: single_role_def getRoleByRelationID_def split: list.splits if_splits)

lemma single_role_single [simp]:
  "single_role [r] = (if usable_role r then Some r else None)"
  by (simp add: single_role_def getRoleByRelationID_def)

lemma getRoleByRelationID_SomeD:
  "getRoleByRelationID roles k = Some r \<Longrightarrow> r \<in> set roles \<and> re_UserRoleID r = k"
  by (auto simp: getRoleByRelationID_def dest: find_SomeD)

lemma getRoleByRelationID_None:
  "getRoleByRelationID roles k = None \<longleftrightarrow> k \<notin> re_UserRoleID ` set roles"
  by (auto simp: getRoleByRelationID_def find_None_iff_all)

subsection \<open>Audit events\<close>

text \<open>Latvian texts, in UTF-8.\<close>

definition lv_e :: string where "lv_e = [CHR 0xC4, CHR 0x93]"
definition lv_a :: string where "lv_a = [CHR 0xC4, CHR 0x81]"
definition lv_s :: string where "lv_s = [CHR 0xC5, CHR 0xA1]"
definition lv_n :: string where "lv_n = [CHR 0xC5, CHR 0x86]"

definition full_name :: "session \<Rightarrow> string" where
  "full_name s = trim_space (s_FirstName s @ '' '' @ s_LastName s)"

definition api_service_event :: "session \<Rightarrow> bool \<Rightarrow> audit_item" where
  "api_service_event s successful = empty_audit_item\<lparr>
     ae_EventCode := Some ''api_service_authorized'',
     ae_EventDescription := Some (''API klients autoriz'' @ lv_e @ ''ts''),
     ae_EventSuccessful := Some successful, ae_IsApiUser := Some (s_IsServiceClient s),
     ae_UserFullName := PtrString (full_name s), ae_UserCode := PtrString (s_Code s),
     ae_UserId := PtrString (s_Subject s), ae_UserSessionId := PtrString (s_ID s)\<rparr>"

definition login_event :: "session \<Rightarrow> bool \<Rightarrow> audit_item" where
  "login_event s successful = empty_audit_item\<lparr>
     ae_EventCode := Some ''login'',
     ae_EventDescription := Some (''Piesl'' @ lv_e @ ''g'' @ lv_s @ ''an'' @ lv_a @ ''s''),
     ae_EventType := Some ''POST'',
     ae_EventSuccessful := Some successful, ae_IsApiUser := Some (s_IsServiceClient s),
     ae_PersonAuditData := Some [],
     ae_UserFullName := PtrString (full_name s), ae_UserCode := PtrString (s_Code s),
     ae_UserId := PtrString (s_Subject s), ae_UserSessionId := PtrString (s_ID s)\<rparr>"

definition logout_event :: "bool \<Rightarrow> audit_item" where
  "logout_event successful = empty_audit_item\<lparr>
     ae_EventCode := Some ''logout'',
     ae_EventDescription := Some (''Atsl'' @ lv_e @ ''g'' @ lv_s @ ''an'' @ lv_a @ ''s''),
     ae_EventSuccessful := Some successful, ae_PersonAuditData := Some []\<rparr>"

definition terms_event :: "bool \<Rightarrow> audit_item" where
  "terms_event successful = empty_audit_item\<lparr>
     ae_EventCode := Some ''terms_accept'',
     ae_EventDescription := Some (''Piekri'' @ lv_s @ ''ana platformas lieto'' @ lv_s @
        ''anas noteikumiem''),
     ae_EventType := Some ''POST'',
     ae_EventSuccessful := Some successful, ae_PersonAuditData := Some []\<rparr>"

definition role_change_event :: "bool \<Rightarrow> audit_item" where
  "role_change_event successful = empty_audit_item\<lparr>
     ae_EventCode := Some ''role_change'',
     ae_EventDescription := Some (''Lomas mai'' @ lv_n @ ''a''),
     ae_EventType := Some ''PUT'',
     ae_EventSuccessful := Some successful, ae_PersonAuditData := Some []\<rparr>"

definition is_ok :: "'e + 'a \<Rightarrow> bool" where
  "is_ok r = (case r of Inl _ \<Rightarrow> False | Inr _ \<Rightarrow> True)"

text \<open>
  \<open>if _, auditErr := a.auditProvider.SaveEvent(ctx, auditData); auditErr != nil && err == nil {
  err = auditErr }\<close> and the rest of the handler, which gets the error that remains.
\<close>

definition audited ::
  "'db idauth \<Rightarrow> request \<Rightarrow> session option \<Rightarrow> (bool \<Rightarrow> audit_item) \<Rightarrow> go_error + 'a \<Rightarrow>
   (go_error option \<Rightarrow> ('db, 'b option) action) \<Rightarrow> ('db, 'b option) action" where
  "audited a rq s event result cont = do {
     saved \<leftarrow> SaveEvent (ia_auditEnv a) (ia_auditProvider a) rq
                \<lparr>av_Session = s, av_Events = [event (is_ok result)]\<rparr>;
     (case saved of
        None \<Rightarrow> ret None
      | Some r \<Rightarrow>
          (case result of
             Inl e \<Rightarrow> cont (Some e)
           | Inr _ \<Rightarrow> (case r of Inl e \<Rightarrow> cont (Some e) | Inr _ \<Rightarrow> cont None)))
   }"

subsection \<open>\<open>RedirectToCaller\<close>\<close>

definition redirect_target :: "correlation \<Rightarrow> string" where
  "redirect_target sess =
     (if \<exists>u \<in> set_option (c_TOSTargetURI sess). u \<noteq> [] then the (c_TOSTargetURI sess)
      else c_RedirectURI sess)"

definition with_state :: "correlation \<Rightarrow> url_values \<Rightarrow> url_values" where
  "with_state sess q = (case c_State sess of None \<Rightarrow> q | Some s \<Rightarrow> value_set ''state'' s q)"

definition finish_redirect :: "request \<Rightarrow> url \<Rightarrow> url_values \<Rightarrow> ('db, go_error + unit) action" where
  "finish_redirect rq u q = do {
     _ \<leftarrow> Correlation_Delete rq;
     respond (Redirect (url_string (u\<lparr>u_RawQuery := query_encode q\<rparr>)));
     ret (Inr ())
   }"

definition RedirectToCaller ::
  "'db idauth \<Rightarrow> request \<Rightarrow> correlation \<Rightarrow> ('db, go_error + unit) action" where
  "RedirectToCaller a rq sess =
     (case url_parse (redirect_target sess) of
        None \<Rightarrow> ret (Inl (ErrText ''parsing redirect URI''))
      | Some u \<Rightarrow>
          (let q = with_state sess (query_parse (u_RawQuery u)) in
           if c_ErrorCode sess \<noteq> []
             then finish_redirect rq u (value_set ''error'' (c_ErrorCode sess) q)
           else if cf_UsesAuthorizationCodeGrant (ia_config a) \<and> \<not> c_ManagedByProvider sess
             then attempt (GenerateToken sess)
                    (\<lambda>ott. finish_redirect rq u (value_set ''code'' (o_ID ott) q))
           else finish_redirect rq u (value_set ''code'' (c_ID sess) q)))"

definition redirect_or_error :: "'db idauth \<Rightarrow> request \<Rightarrow> correlation \<Rightarrow> ('db, unit) action" where
  "redirect_or_error a rq sess = do {
     r \<leftarrow> RedirectToCaller a rq sess;
     (case r of Inl e \<Rightarrow> respond (Error e) | Inr _ \<Rightarrow> skip)
   }"

subsection \<open>Lemmas\<close>

text \<open>The outcome of \<open>RedirectToCaller\<close>, by its branches.\<close>

definition caller_query :: "'db idauth \<Rightarrow> correlation \<Rightarrow> url \<Rightarrow> string \<Rightarrow> url_values" where
  "caller_query a sess u code =
     (let q = with_state sess (query_parse (u_RawQuery u)) in
      if c_ErrorCode sess \<noteq> [] then value_set ''error'' (c_ErrorCode sess) q
      else value_set ''code'' code q)"

lemma finish_redirect_resp:
  assumes "run_state (finish_redirect rq u q) w = (r, w')"
  shows "\<exists>ops. w_resp w' = w_resp w @ ops @ [Redirect (url_string (u\<lparr>u_RawQuery := query_encode q\<rparr>))]"
    and "r = Inr ()"
  using assms
  by (auto simp: finish_redirect_def Correlation_Delete_def deleteFromCookie_def run_cache_delete
      Let_def split: option.splits sum.splits)

lemma finish_redirect_ott: "run_state (finish_redirect rq u q) w = (r, w') \<Longrightarrow> w_ott w' = w_ott w"
  by (auto simp: finish_redirect_def Correlation_Delete_def deleteFromCookie_def run_cache_delete
      Let_def split: option.splits sum.splits)

lemma RedirectToCaller_ok:
  assumes "run_state (RedirectToCaller a rq sess) w = (Inr x, w')"
  obtains u code ops where "url_parse (redirect_target sess) = Some u"
    and "w_resp w' = w_resp w @ ops @
           [Redirect (url_string (u\<lparr>u_RawQuery := query_encode (caller_query a sess u code)\<rparr>))]"
    and "c_ErrorCode sess \<noteq> [] \<and> w_ott w' = w_ott w \<or>
         c_ErrorCode sess = [] \<and> cf_UsesAuthorizationCodeGrant (ia_config a) \<and>
           \<not> c_ManagedByProvider sess \<and> code = w_ulids w (w_ulid w) \<and>
           w_ott w' = (w_ott w)(code \<mapsto> fresh_token code sess) \<or>
         c_ErrorCode sess = [] \<and> \<not> (cf_UsesAuthorizationCodeGrant (ia_config a) \<and>
           \<not> c_ManagedByProvider sess) \<and> code = c_ID sess \<and> w_ott w' = w_ott w"
proof -
  obtain u where u: "url_parse (redirect_target sess) = Some u"
    using assms by (cases "url_parse (redirect_target sess)") (auto simp: RedirectToCaller_def)
  let ?q = "with_state sess (query_parse (u_RawQuery u))"
  consider (error) "c_ErrorCode sess \<noteq> []"
    | (code) "c_ErrorCode sess = []" "cf_UsesAuthorizationCodeGrant (ia_config a)"
        "\<not> c_ManagedByProvider sess"
    | (id) "c_ErrorCode sess = []"
        "\<not> (cf_UsesAuthorizationCodeGrant (ia_config a) \<and> \<not> c_ManagedByProvider sess)"
    by blast
  then show thesis
  proof cases
    case error
    with assms u have r: "run_state (finish_redirect rq u (value_set ''error'' (c_ErrorCode sess) ?q)) w
        = (Inr x, w')" by (simp add: RedirectToCaller_def)
    with error show thesis
      using that [OF u, of _ undefined] finish_redirect_resp(1) [OF r] finish_redirect_ott [OF r]
      by (auto simp: caller_query_def)
  next
    case code
    let ?k = "w_ulids w (w_ulid w)"
    have g: "w_faults w (w_tick w) = None"
      using assms code u
      by (simp add: RedirectToCaller_def run_GenerateToken Let_def split: option.splits)
    define w1 where "w1 = w\<lparr>w_ulid := Suc (w_ulid w), w_tick := Suc (w_tick w),
        w_ott := (w_ott w)(?k \<mapsto> fresh_token ?k sess)\<rparr>"
    have r: "run_state (finish_redirect rq u (value_set ''code'' ?k ?q)) w1 = (Inr x, w')"
      using assms code u g
      by (simp add: RedirectToCaller_def run_GenerateToken Let_def w1_def)
    have "w_resp w1 = w_resp w" "w_ott w1 = (w_ott w)(?k \<mapsto> fresh_token ?k sess)"
      by (simp_all add: w1_def)
    with code show thesis
      using that [OF u, of _ ?k] finish_redirect_resp(1) [OF r] finish_redirect_ott [OF r]
      by (auto simp: caller_query_def)
  next
    case id
    with assms u have r: "run_state (finish_redirect rq u (value_set ''code'' (c_ID sess) ?q)) w
        = (Inr x, w')" by (auto simp: RedirectToCaller_def)
    with id show thesis
      using that [OF u, of _ "c_ID sess"] finish_redirect_resp(1) [OF r] finish_redirect_ott [OF r]
      by (auto simp: caller_query_def)
  qed
qed

lemma with_state_wf: "values_wf q \<Longrightarrow> values_wf (with_state sess q)"
  by (simp add: with_state_def values_wf_set split: option.splits)

lemma caller_query_wf: "values_wf (caller_query a sess u code)"
  by (simp add: caller_query_def Let_def values_wf_set with_state_wf)

lemma caller_query_get:
  "c_ErrorCode sess \<noteq> [] \<Longrightarrow> value_get ''error'' (caller_query a sess u code) = c_ErrorCode sess"
  "c_ErrorCode sess = [] \<Longrightarrow> value_get ''code'' (caller_query a sess u code) = code"
  "c_State sess = Some s \<Longrightarrow> value_get ''state'' (caller_query a sess u code) = s"
  by (simp_all add: caller_query_def Let_def with_state_wf) (simp_all add: with_state_def values_wf_set)

subsection \<open>Frames\<close>

lemma same_json_if_auth_error [triples]:
  "(\<And>w r. f (w\<lparr>w_resp := r\<rparr>) = f w) \<Longrightarrow> same f (json_if_auth_error e)"
  unfolding json_if_auth_error_def by (cases e; simp only: go_error.case; intro triples; simp)

lemma same_refuse [triples]: "(\<And>w r. f (w\<lparr>w_resp := r\<rparr>) = f w) \<Longrightarrow> same f (refuse n c m)"
  unfolding refuse_def by (intro triples; simp)

lemma same_nil_dereference [triples]:
  "(\<And>w r. f (w\<lparr>w_resp := r\<rparr>) = f w) \<Longrightarrow> same f (nil_dereference m)"
  unfolding nil_dereference_def by (intro triples; simp)

lemma same_ignore_result [triples]: "same f m \<Longrightarrow> same f (ignore_result m)"
  unfolding ignore_result_def by (intro triples; simp)

lemma same_audited [triples]:
  "(\<And>w x. f (w\<lparr>w_audit := x\<rparr>) = f w) \<Longrightarrow> (\<And>w r. f (w\<lparr>w_resp := r\<rparr>) = f w) \<Longrightarrow>
   (\<And>e. same f (cont e)) \<Longrightarrow> same f (audited a rq s event result cont)"
  unfolding audited_def by (intro triples; simp)

lemma same_RedirectToCaller [triples]:
  assumes "\<And>w n. f (w\<lparr>w_tick := n\<rparr>) = f w" "\<And>w n. f (w\<lparr>w_ulid := n\<rparr>) = f w"
    "\<And>w m. f (w\<lparr>w_ott := m\<rparr>) = f w" "\<And>w m. f (w\<lparr>w_cor := m\<rparr>) = f w"
    "\<And>w r. f (w\<lparr>w_resp := r\<rparr>) = f w"
  shows "same f (RedirectToCaller a rq sess)" "same f (redirect_or_error a rq sess)"
  unfolding redirect_or_error_def RedirectToCaller_def finish_redirect_def Let_def
  by (intro triples; simp add: assms)+

end
