(* ===== verification/TokenEndpoint.thy ===== *)
theory TokenEndpoint
  imports IDAuth
begin

text \<open>
  The handlers \<open>token\<close>, \<open>clientCredentials\<close> and \<open>authorizationCode\<close> of \<open>routes.go\<close>. The lemmas give the
  conditions under which an access token is written to the response, and what the failing branches
  write.
\<close>

definition pfas_config_of :: "configuration \<Rightarrow> pfas_config option" where
  "pfas_config_of c = (if cf_UsesPfasGrant c then Some
     \<lparr>pf_IntrospectionURL = cf_IntrospectionURL c, pf_IntrospectionClientId = cf_IntrospectionClientID c,
      pf_IntrospectionClientSecret = cf_IntrospectionClientSecret c\<rparr> else None)"

definition iam_config_of :: "configuration \<Rightarrow> iam_config option" where
  "iam_config_of c = (if cf_UsesIAMGrant c then Some
     \<lparr>im_Issuer = cf_IAMIssuer c, im_JWKSURL = cf_IAMJWKSURL c\<rparr> else None)"

definition client_user_data_request :: "token_validation_result \<Rightarrow> get_user_data_request" where
  "client_user_data_request r = \<lparr>gu_Code = [], gu_FirstName = [], gu_LastName = [], gu_Email = [],
     gu_ProviderID = [], gu_ClientID = Some (tv_ClientID r), gu_ClientSecret = tv_ClientSecret r,
     gu_IsTOSAccepted = False, gu_Organizations = [], gu_RawClaims = []\<rparr>"

definition request_device :: "request \<Rightarrow> device_entity" where
  "request_device rq = \<lparr>de_IPAddress = Some (rq_IP rq), de_UserAgent = Some (rq_UserAgent rq)\<rparr>"

definition session_of_user ::
  "string \<Rightarrow> string \<Rightarrow> role_entity option \<Rightarrow> time \<Rightarrow> device_entity option \<Rightarrow> user_data \<Rightarrow> session" where
  "session_of_user sid state role now device u = zero_session\<lparr>s_ID := sid, s_State := state,
     s_Code := ud_PersonCode u, s_Subject := ud_UserID u, s_FirstName := ud_FirstName u,
     s_LastName := ud_LastName u, s_Email := ud_Email u, s_PhoneNumber := ud_PhoneNumber u,
     s_Role := role, s_LastAccessed := Some now, s_Roles := ud_Roles u, s_Rights := ud_Rights u,
     s_IsServiceClient := ud_IsServiceClient u, s_Device := device,
     s_IsTOSAccepted := ud_IsTOSAccepted u\<rparr>"

definition access_token :: "'db idauth \<Rightarrow> request \<Rightarrow> string \<Rightarrow> time option \<Rightarrow> access_token_response" where
  "access_token a rq sid created = \<lparr>at_AccessToken = sid, at_TokenType = ''bearer'',
     at_ExpiresIn = GetSecondsToLive (rq_Now rq) (cf_SessionTimeout (ia_config a)) created\<rparr>"

text \<open>From a validated client to the response.\<close>

definition issue_client_session ::
  "'db idauth \<Rightarrow> request \<Rightarrow> user_data \<Rightarrow> ('db, unit option) action" where
  "issue_client_session a rq userData = do {
     sid \<leftarrow> new_ulid;
     let session = session_of_user sid SessionStateAuthorized (single_role (ud_Roles userData))
                     (rq_Now rq) (Some (request_device rq)) userData;
     created \<leftarrow> st_Create (ia_sessionStore a) session;
     audited a rq (Some session) (api_service_event session) created (\<lambda>err.
       (case err of
          Some e \<Rightarrow> do {
            _ \<leftarrow> st_Delete (ia_sessionStore a) (s_ID session);
            respond (Error e);
            ret (Some ())
          }
        | None \<Rightarrow> do {
            respond (JSON (BToken (access_token a rq (s_ID session) (s_LastAccessed session))));
            ret (Some ())
          }))
   }"

definition validated_client ::
  "'db idauth \<Rightarrow> request \<Rightarrow> token_validation_result \<Rightarrow> ('db, unit) action" where
  "validated_client a rq result =
     (if \<not> tv_Valid result then respond (StatusCode 401)
      else (case GetUserData (ia_authorizerEnv a) (ia_authorizer a) (client_user_data_request result) of
          Inl e \<Rightarrow> do { respond (Error e); json_if_auth_error e }
        | Inr userData \<Rightarrow> ignore_result (issue_client_session a rq userData)))"

definition clientCredentials :: "'db idauth \<Rightarrow> string \<Rightarrow> 'db handler" where
  "clientCredentials a grantType rq =
     (let cfg = ia_config a in
      if grantType = GRANT_TYPE_PFAS \<and> \<not> cf_UsesPfasGrant cfg
        then refuse 403 AuthErrInvalidRequest ''PFAS grant is not enabled''
      else if grantType = GRANT_TYPE_IAM \<and> \<not> cf_UsesIAMGrant cfg
        then refuse 403 AuthErrInvalidRequest ''IAM grant is not enabled''
      else (case NewTokenValidator grantType (pfas_config_of cfg) (iam_config_of cfg) of
          Inl e \<Rightarrow> do { respond (Error e); respond (StatusCode 500) }
        | Inr validator \<Rightarrow> do {
            result \<leftarrow> ValidateToken (ia_tokenEnv a) validator rq;
            (case result of
               Inl e \<Rightarrow> do { respond (Error e); json_if_auth_error e }
             | Inr r \<Rightarrow> validated_client a rq r)
          }))"

definition valid_ott_redirect :: "one_time_token \<Rightarrow> string \<Rightarrow> bool" where
  "valid_ott_redirect ott redirectURI =
     (if o_RedirectURIs ott \<noteq> [] then redirectURI \<in> set (o_RedirectURIs ott)
      else o_RedirectURI ott = redirectURI)"

definition redeem_code :: "'db idauth \<Rightarrow> request \<Rightarrow> string \<Rightarrow> string \<Rightarrow> ('db, unit) action" where
  "redeem_code a rq redirectURI code = do {
     r \<leftarrow> RedeemToken code;
     (case r of
        Inl e \<Rightarrow> respond (Error e)
      | Inr None \<Rightarrow> refuse 401 AuthErrInvalidRequest ''Invalid ott token''
      | Inr (Some ott) \<Rightarrow>
          if \<not> valid_ott_redirect ott redirectURI
            then refuse 401 AuthErrInvalidRequest ''Invalid redirect uri''
          else respond (JSON (BToken (access_token a rq (o_SessionToken ott) (o_SessionCreated ott)))))
   }"

text \<open>The first branch writes a refusal and goes on, as the code does: it has no \<open>return\<close>.\<close>

definition authorizationCode :: "'db idauth \<Rightarrow> 'db handler" where
  "authorizationCode a rq = do {
     _ \<leftarrow> (if \<not> cf_UsesAuthorizationCodeGrant (ia_config a)
          then refuse 403 AuthErrInvalidRequest ''Authorization code grant is not enabled''
          else skip);
     (case rq_Form rq ''redirect_uri'' of
        Inl _ \<Rightarrow> refuse 400 AuthErrInvalidRequest ''redirect_uri field required''
      | Inr redirectURI \<Rightarrow>
          (case rq_Form rq ''code'' of
             Inl _ \<Rightarrow> refuse 400 AuthErrInvalidRequest ''code field required''
           | Inr code \<Rightarrow> redeem_code a rq redirectURI code))
   }"

definition token :: "'db idauth \<Rightarrow> 'db handler" where
  "token a rq =
     (case rq_Form rq ''grant_type'' of
        Inl _ \<Rightarrow> respond (StatusCode 400)
      | Inr grantType \<Rightarrow>
          if grantType = ''client_credentials'' then clientCredentials a GRANT_TYPE_CLIENT_CREDENTIALS rq
          else if grantType = GRANT_TYPE_IAM then clientCredentials a GRANT_TYPE_IAM rq
          else if grantType = ''authorization_code'' then authorizationCode a rq
          else clientCredentials a grantType rq)"

subsection \<open>Access tokens in a response\<close>

definition issues :: "access_token_response \<Rightarrow> resp_op list \<Rightarrow> bool" where
  "issues t ops \<longleftrightarrow> JSON (BToken t) \<in> set ops"

lemma run_refuse [simp]:
  "run_state (refuse n c m) w =
     ((), w\<lparr>w_resp := w_resp w @ [StatusCode n, JSON (BAuthError (auth_error c m))]\<rparr>)"
  by (simp add: refuse_def)

lemma session_of_user_sel [simp]:
  "s_ID (session_of_user i st r now d u) = i" "s_State (session_of_user i st r now d u) = st"
  "s_Role (session_of_user i st r now d u) = r" "s_LastAccessed (session_of_user i st r now d u) = Some now"
  "s_Roles (session_of_user i st r now d u) = ud_Roles u" "s_Rights (session_of_user i st r now d u) = ud_Rights u"
  "s_IsTOSAccepted (session_of_user i st r now d u) = ud_IsTOSAccepted u"
  "s_Subject (session_of_user i st r now d u) = ud_UserID u" "s_Device (session_of_user i st r now d u) = d"
  "s_Metadata (session_of_user i st r now d u) = None" "s_Code (session_of_user i st r now d u) = ud_PersonCode u"
  by (simp_all add: session_of_user_def zero_session_def)

lemma redeem_code_resp:
  assumes "run_state (redeem_code a rq uri code) w = (x, w')"
  obtains (error) e where "w_resp w' = w_resp w @ [Error e]" and "w_faults w (w_tick w) = Some e"
  | (unknown) "w_ott w code = None" and "w_resp w' = w_resp w @
      [StatusCode 401, JSON (BAuthError (auth_error AuthErrInvalidRequest ''Invalid ott token''))]"
  | (redirect) ott where "w_ott w code = Some ott" and "\<not> valid_ott_redirect ott uri"
      and "w_resp w' = w_resp w @
      [StatusCode 401, JSON (BAuthError (auth_error AuthErrInvalidRequest ''Invalid redirect uri''))]"
  | (issued) ott where "w_ott w code = Some ott" and "valid_ott_redirect ott uri"
      and "w_resp w' = w_resp w @
      [JSON (BToken (access_token a rq (o_SessionToken ott) (o_SessionCreated ott)))]"
proof -
  let ?t = "w_tick w"
  show thesis
  proof (cases "w_faults w ?t")
    case (Some e)
    with assms error show thesis by (auto simp: redeem_code_def run_RedeemToken Let_def)
  next
    case None
    show thesis
    proof (cases "w_ott w code")
      case u: None
      with None assms unknown show thesis
        by (auto simp: redeem_code_def run_RedeemToken Let_def split: option.splits)
    next
      case (Some ott)
      with None assms redirect issued show thesis
        by (cases "valid_ott_redirect ott uri")
           (auto simp: redeem_code_def run_RedeemToken Let_def split: option.splits)
    qed
  qed
qed

lemma authorizationCode_run:
  assumes "rq_Form rq ''redirect_uri'' = Inr uri" and "rq_Form rq ''code'' = Inr code"
    and "cf_UsesAuthorizationCodeGrant (ia_config a)"
  shows "authorizationCode a rq = redeem_code a rq uri code"
  using assms by (simp add: authorizationCode_def skip_def State_Monad.bind_def)

lemma redeem_code_spends:
  assumes "run_state (redeem_code a rq uri code) w = (x, w')"
    and "w_faults w (w_tick w) = None" "w_faults w (Suc (w_tick w)) = None"
  shows "w_ott w' = (w_ott w)(code := None)"
  using assms
  by (auto simp: redeem_code_def run_RedeemToken Let_def split: option.splits if_splits)

subsection \<open>The client-credentials grants\<close>

lemma clientCredentials_disabled:
  "\<not> cf_UsesPfasGrant (ia_config a) \<Longrightarrow> clientCredentials a GRANT_TYPE_PFAS rq =
     refuse 403 AuthErrInvalidRequest ''PFAS grant is not enabled''"
  "\<not> cf_UsesIAMGrant (ia_config a) \<Longrightarrow> clientCredentials a GRANT_TYPE_IAM rq =
     refuse 403 AuthErrInvalidRequest ''IAM grant is not enabled''"
  by (simp_all add: clientCredentials_def Let_def)

lemma NewTokenValidator_configured:
  assumes "grant = GRANT_TYPE_PFAS \<longrightarrow> cf_UsesPfasGrant c" "grant = GRANT_TYPE_IAM \<longrightarrow> cf_UsesIAMGrant c"
  shows "\<exists>v. NewTokenValidator grant (pfas_config_of c) (iam_config_of c) = Inr v"
  using assms by (simp add: NewTokenValidator_def pfas_config_of_def iam_config_of_def)

end
