(* ===== verification/Login.thy ===== *)
theory Login
  imports TokenEndpoint
begin

text \<open>
  The browser flow of \<open>routes.go\<close>: \<open>authorize\<close>, \<open>callback\<close>, \<open>oidcLogoutCallback\<close>, \<open>handleUserData\<close> with
  \<open>createSessionFromUserData\<close>, and the functions on redirect URIs. The correlation that \<open>callback\<close> hands
  on by pointer is returned together with the result. The lemmas characterise the state of a new
  session, the shape of the terms-of-service URL and the redirect URIs that are accepted.
\<close>

subsection \<open>Redirect URIs\<close>

definition validRedirectURI :: "client \<Rightarrow> string \<Rightarrow> bool" where
  "validRedirectURI c redirectURI \<longleftrightarrow> (\<exists>uri \<in> set (cl_RedirectURI c). contains uri redirectURI)"

definition tos_endpoint :: "string \<Rightarrow> string" where
  "tos_endpoint endpoint =
     (let e = (if endpoint = [] then ''/terms-of-service'' else endpoint) in
      if has_prefix e ''/'' then e else ''/'' @ e)"

definition tos_path :: "string \<Rightarrow> string \<Rightarrow> string" where
  "tos_path path endpoint =
     (if has_suffix path ''/auth-done'' then trim_suffix path ''/auth-done'' @ endpoint else endpoint)"

definition buildTOSRedirect :: "string \<Rightarrow> string \<Rightarrow> go_error + string" where
  "buildTOSRedirect original endpoint =
     (case url_parse original of
        None \<Rightarrow> fail (ErrText ''parse'')
      | Some u \<Rightarrow> ok (url_string (u\<lparr>u_Path := tos_path (u_Path u) (tos_endpoint endpoint),
                                     u_RawQuery := []\<rparr>)))"

subsection \<open>Sessions from user data\<close>

definition state_for_roles :: "'db idauth \<Rightarrow> role_entity list \<Rightarrow> string" where
  "state_for_roles a roles =
     (if \<not> cf_SessionRequiresRole (ia_config a) then SessionStateAuthorized
      else (case roles of
          [r] \<Rightarrow> if usable_role r then SessionStateAuthorized else SessionStateRequireRole
        | _ \<Rightarrow> SessionStateRequireRole))"

definition role_for_login :: "'db idauth \<Rightarrow> role_entity list \<Rightarrow> role_entity option" where
  "role_for_login a roles = (if cf_SessionRequiresRole (ia_config a) then single_role roles else None)"

definition createSessionFromUserData ::
  "'db idauth \<Rightarrow> time \<Rightarrow> correlation \<Rightarrow> user_data \<Rightarrow> session" where
  "createSessionFromUserData a now sess u =
     (if cf_AuthorizerRequiresTOS (ia_config a) \<and> \<not> ud_IsTOSAccepted u
        then session_of_user (c_ID sess) SessionStateRequireAgreement None now None u
      else session_of_user (c_ID sess) (state_for_roles a (ud_Roles u))
             (role_for_login a (ud_Roles u)) now None u)"

subsection \<open>\<open>handleUserData\<close>\<close>

definition user_data_request :: "auth_request \<Rightarrow> get_user_data_request" where
  "user_data_request t = \<lparr>gu_Code = ar_PersonCode t, gu_FirstName = ar_FirstName t,
     gu_LastName = ar_LastName t, gu_Email = ar_Email t, gu_ProviderID = ar_ProviderID t,
     gu_ClientID = None, gu_ClientSecret = None, gu_IsTOSAccepted = ar_TOS t,
     gu_Organizations = ar_Organizations t, gu_RawClaims = ar_RawClaims t\<rparr>"

definition refresh_session :: "request \<Rightarrow> user_data \<Rightarrow> session \<Rightarrow> session" where
  "refresh_session rq u current = current\<lparr>s_Subject := ud_UserID u, s_FirstName := ud_FirstName u,
     s_LastName := ud_LastName u, s_Code := ud_PersonCode u, s_Email := ud_Email u,
     s_PhoneNumber := ud_PhoneNumber u, s_Roles := ud_Roles u, s_Rights := ud_Rights u,
     s_IsServiceClient := ud_IsServiceClient u, s_IsTOSAccepted := ud_IsTOSAccepted u,
     s_LastAccessed := Some (rq_Now rq), s_Device := Some (request_device rq)\<rparr>"

text \<open>A user with one role is authorized here even when that role is blocked.\<close>

definition state_after_terms :: "'db idauth \<Rightarrow> role_entity list \<Rightarrow> string" where
  "state_after_terms a roles =
     (if \<not> cf_SessionRequiresRole (ia_config a) then SessionStateAuthorized
      else if length roles = 0 then SessionStateRequireRole
      else if length roles = 1 then SessionStateAuthorized
      else SessionStateRequireRole)"

definition accept_terms :: "'db idauth \<Rightarrow> request \<Rightarrow> user_data \<Rightarrow> session \<Rightarrow> session" where
  "accept_terms a rq u current =
     (let s = refresh_session rq u current in
      if ud_IsTOSAccepted u
      then s\<lparr>s_State := state_after_terms a (ud_Roles u), s_Role := role_for_login a (ud_Roles u)\<rparr>
      else s)"

definition update_current_session ::
  "'db idauth \<Rightarrow> request \<Rightarrow> user_data \<Rightarrow> ('db, (go_error + unit) option) action" where
  "update_current_session a rq u = do {
     r \<leftarrow> st_GetSession (ia_sessionStore a);
     (case r of
        Inl e \<Rightarrow> ret (Some (Inl e))
      | Inr None \<Rightarrow> nil_dereference ''nil session in handleUserData''
      | Inr (Some current) \<Rightarrow> do {
          let s = accept_terms a rq u current;
          modify (\<lambda>w. w\<lparr>w_session := Some s\<rparr>);
          updated \<leftarrow> st_Update (ia_sessionStore a) s;
          (case updated of Inl e \<Rightarrow> ret (Some (Inl e)) | Inr _ \<Rightarrow> ret (Some (Inr ())))
        })
   }"

definition login_metadata :: "auth_request \<Rightarrow> (string \<Rightarrow> string option) option" where
  "login_metadata t =
     (if ar_ProviderID t = [] \<and> ar_Token t = [] then None
      else Some ((if ar_ProviderID t \<noteq> [] then Map.empty(SessionMetaProviderID \<mapsto> ar_ProviderID t)
                  else Map.empty) ++
                 (if ar_Token t \<noteq> [] then Map.empty(SessionMetaIDToken \<mapsto> ar_Token t) else Map.empty)))"

definition login_session :: "'db idauth \<Rightarrow> request \<Rightarrow> correlation \<Rightarrow> auth_request \<Rightarrow> user_data \<Rightarrow> session" where
  "login_session a rq sess t u = (createSessionFromUserData a (rq_Now rq) sess u)\<lparr>
     s_Device := Some (request_device rq), s_Metadata := login_metadata t\<rparr>"

text \<open>The terms-of-service target, stored on the correlation when the user has to accept the terms.\<close>

definition store_tos_target ::
  "'db idauth \<Rightarrow> request \<Rightarrow> correlation \<Rightarrow> user_data \<Rightarrow> ('db, (go_error + unit) \<times> correlation) action" where
  "store_tos_target a rq sess u =
     (if cf_AuthorizerRequiresTOS (ia_config a) \<and> \<not> ud_IsTOSAccepted u then
        (case buildTOSRedirect (c_RedirectURI sess) (cf_TOSEndpoint (ia_config a)) of
           Inl e \<Rightarrow> ret (Inl e, sess)
         | Inr tos \<Rightarrow> do {
             let sess' = sess\<lparr>c_TOSTargetURI := Some tos\<rparr>;
             r \<leftarrow> Correlation_Set rq (Some sess');
             (case r of Inl e \<Rightarrow> ret (Inl e, sess') | Inr _ \<Rightarrow> ret (Inr (), sess'))
           })
      else ret (Inr (), sess))"

definition finish_login ::
  "'db idauth \<Rightarrow> request \<Rightarrow> correlation \<Rightarrow> session \<Rightarrow> go_error + session \<Rightarrow>
   ('db, ((go_error + unit) \<times> correlation) option) action" where
  "finish_login a rq sess session created =
     audited a rq (Some session) (login_event session) created (\<lambda>err.
       (case err of
          Some e \<Rightarrow> do {
            _ \<leftarrow> st_Delete (ia_sessionStore a) (s_ID session);
            respond (Error e);
            ret (Some (Inl e, sess\<lparr>c_ErrorCode := AuthErrServer\<rparr>))
          }
        | None \<Rightarrow> ret (Some (Inr (), sess))))"

definition login_user ::
  "'db idauth \<Rightarrow> request \<Rightarrow> correlation \<Rightarrow> auth_request \<Rightarrow> user_data \<Rightarrow>
   ('db, ((go_error + unit) \<times> correlation) option) action" where
  "login_user a rq sess0 t u = do {
     let sess = (if \<not> c_ManagedByProvider sess0
                 then sess0\<lparr>c_SessionCreated := CloneTimePtr (Some (rq_Now rq))\<rparr> else sess0);
     stored \<leftarrow> Correlation_Set rq (Some sess);
     (case stored of
        Inl e \<Rightarrow> ret (Some (Inl e, sess))
      | Inr _ \<Rightarrow> do {
          let session = login_session a rq sess t u;
          created \<leftarrow> st_Create (ia_sessionStore a) session;
          tos \<leftarrow> store_tos_target a rq sess u;
          (case tos of
             (Inl e, sess') \<Rightarrow> ret (Some (Inl e, sess'))
           | (Inr _, sess') \<Rightarrow> finish_login a rq sess' session created)
        })
   }"

definition handleUserData ::
  "'db idauth \<Rightarrow> request \<Rightarrow> correlation option \<Rightarrow> auth_request \<Rightarrow>
   ('db, ((go_error + unit) \<times> correlation option) option) action" where
  "handleUserData a rq sess t =
     (case GetUserData (ia_authorizerEnv a) (ia_authorizer a) (user_data_request t) of
        Inl e \<Rightarrow> ret (Some (Inl e,
          map_option (\<lambda>c. c\<lparr>c_ErrorCode := error_code_or AuthErrServer e\<rparr>) sess))
      | Inr u \<Rightarrow>
          (case sess of
             None \<Rightarrow> do {
               r \<leftarrow> update_current_session a rq u;
               ret (map_option (\<lambda>x. (x, None)) r)
             }
           | Some c \<Rightarrow> do {
               r \<leftarrow> login_user a rq c t u;
               ret (map_option (\<lambda>(x, c'). (x, Some c')) r)
             }))"

subsection \<open>The handlers\<close>

definition authorize_client :: "'db idauth \<Rightarrow> client \<Rightarrow> string \<Rightarrow> string \<Rightarrow> 'db handler" where
  "authorize_client a client clientID redirectURI rq =
     (case (case rq_QueryOptional rq ''acr_values'' of
              Some p \<Rightarrow> Some p | None \<Rightarrow> rq_QueryOptional rq ''auth_type'') of
        None \<Rightarrow> refuse 400 AuthErrInvalidRequest ''auth_type or acr_values parameters required''
      | Some providerID \<Rightarrow> do {
          state \<leftarrow> (case rq_QueryOptional rq ''state'' of Some s \<Rightarrow> ret s | None \<Rightarrow> new_ulid);
          (case GetProvider (ia_authProviders a) providerID of
             Inl _ \<Rightarrow> refuse 400 AuthErrInvalidRequest ''auth provider not found''
           | Inr provider \<Rightarrow> do {
               stored \<leftarrow> Correlation_Set rq (Some \<lparr>c_ID = [], c_ClientID = clientID,
                 c_RedirectURI = redirectURI, c_Nonce = CloneStrPtr (rq_QueryOptional rq ''nonce''),
                 c_State = CloneStrPtr (Some state),
                 c_CodeChallenge = CloneStrPtr (rq_QueryOptional rq ''code_challenge''),
                 c_CodeChallengeMethod = CloneStrPtr (rq_QueryOptional rq ''code_challenge_method''),
                 c_ErrorCode = [], c_ManagedByProvider = False, c_SessionCreated = None,
                 c_TOSTargetURI = None\<rparr>);
               (case stored of
                  Inl e \<Rightarrow> respond (Error e)
                | Inr correlation \<Rightarrow>
                    if c_ID correlation \<noteq> [] then redirect_or_error a rq correlation
                    else do {
                      r \<leftarrow> provider_Authorize (ia_providerEnv a) provider rq correlation;
                      (case r of
                         Some (Inl _) \<Rightarrow>
                           redirect_or_error a rq (correlation\<lparr>c_ErrorCode := AuthErrServer\<rparr>)
                       | _ \<Rightarrow> skip)
                    })
             })
        })"

definition authorize :: "'db idauth \<Rightarrow> 'db handler" where
  "authorize a rq =
     (case rq_Query rq ''client_id'' of
        Inl e \<Rightarrow> respond (Error e)
      | Inr clientID \<Rightarrow> do {
          clients \<leftarrow> gets w_clients;
          (case GetClient clients clientID of
             Inl _ \<Rightarrow> refuse 400 AuthErrInvalidClient ''Client not found''
           | Inr client \<Rightarrow>
               (case rq_Query rq ''redirect_uri'' of
                  Inl e \<Rightarrow> respond (Error e)
                | Inr redirectURI \<Rightarrow>
                    if \<not> validRedirectURI client redirectURI
                      then refuse 400 AuthErrInvalidRequest ''Redirect uri is not allowed''
                    else authorize_client a client clientID redirectURI rq))
        })"

definition handleSignoutResponse :: "request \<Rightarrow> ('db, bool) action" where
  "handleSignoutResponse rq =
     (if rq_IsSignoutResponse rq then do { respond (StatusCode 200); ret True } else ret False)"

text \<open>The end of \<open>callback\<close>, after the user data have been handled.\<close>

definition callback_signout ::
  "'db idauth \<Rightarrow> request \<Rightarrow> auth_provider \<Rightarrow> string \<Rightarrow> correlation \<Rightarrow> ('db, unit) action" where
  "callback_signout a rq provider providerID sess =
     (if RequiresSignoutCallback provider then do {
        signoutURL \<leftarrow> GetSignoutURL provider;
        (if signoutURL = []
         then respond (Error (auth_fail AuthErrServer (''Signout URL not found for provider '' @ providerID)))
         else respond (Redirect signoutURL))
      }
      else redirect_or_error a rq sess)"

definition callback_user_data ::
  "'db idauth \<Rightarrow> request \<Rightarrow> auth_provider \<Rightarrow> string \<Rightarrow> correlation \<Rightarrow> auth_request option \<Rightarrow>
   ('db, unit) action" where
  "callback_user_data a rq provider providerID sess authToken =
     (if c_ManagedByProvider sess then redirect_or_error a rq sess
      else (case authToken of
          None \<Rightarrow> ignore_result (nil_dereference ''nil token in handleUserData'' :: ('db, unit option) action)
        | Some t \<Rightarrow> do {
            r \<leftarrow> handleUserData a rq (Some sess) t;
            (case r of
               None \<Rightarrow> skip
             | Some (Inl _, sess') \<Rightarrow> redirect_or_error a rq (case sess' of Some c \<Rightarrow> c | None \<Rightarrow> sess)
             | Some (Inr _, sess') \<Rightarrow>
                 callback_signout a rq provider providerID (case sess' of Some c \<Rightarrow> c | None \<Rightarrow> sess))
          }))"

definition callback_with_provider ::
  "'db idauth \<Rightarrow> request \<Rightarrow> auth_provider \<Rightarrow> string \<Rightarrow> correlation \<Rightarrow> ('db, unit) action" where
  "callback_with_provider a rq provider providerID sess0 =
     (case rq_QueryOptional rq ''error'' of
        Some _ \<Rightarrow> redirect_or_error a rq (sess0\<lparr>c_ErrorCode := AuthErrCanceled\<rparr>)
      | None \<Rightarrow> do {
          sid \<leftarrow> new_ulid;
          let sess = sess0\<lparr>c_ID := sid\<rparr>;
          r \<leftarrow> provider_Callback (ia_providerEnv a) provider rq sess;
          (case r of
             Inl e \<Rightarrow> redirect_or_error a rq
                       (sess\<lparr>c_ErrorCode := error_code_or AuthErrInvalidCallback e\<rparr>)
           | Inr authToken \<Rightarrow> callback_user_data a rq provider providerID sess authToken)
        })"

definition callback :: "'db idauth \<Rightarrow> 'db handler" where
  "callback a rq =
     (let providerID = rq_Param rq ''id'' in
      if providerID = [] then respond (StatusCode 404)
      else do {
        handled \<leftarrow> handleSignoutResponse rq;
        (if handled then skip
         else do {
           found \<leftarrow> Correlation_Get rq;
           (case found of
              Inl e \<Rightarrow> respond (Error e)
            | Inr None \<Rightarrow> respond (Error (ErrText ''no session''))
            | Inr (Some sess) \<Rightarrow>
                if c_ID sess \<noteq> [] then redirect_or_error a rq sess
                else (case GetProvider (ia_authProviders a) providerID of
                    Inl _ \<Rightarrow> do {
                      redirect_or_error a rq (sess\<lparr>c_ErrorCode := AuthErrInvalidCallback\<rparr>);
                      _ \<leftarrow> Correlation_Delete rq;
                      skip
                    }
                  | Inr provider \<Rightarrow> callback_with_provider a rq provider providerID sess))
         })
      })"

definition oidcLogoutCallback :: "'db idauth \<Rightarrow> 'db handler" where
  "oidcLogoutCallback a rq = do {
     found \<leftarrow> Correlation_Get rq;
     (case found of
        Inl e \<Rightarrow> respond (Error e)
      | Inr None \<Rightarrow> respond (StatusCode 204)
      | Inr (Some sess) \<Rightarrow>
          if c_ID sess = [] then respond (StatusCode 204) else redirect_or_error a rq sess)
   }"

end
