(* ===== verification/SessionApi.thy ===== *)
theory SessionApi
  imports Login
begin

text \<open>
  The session endpoints of \<open>routes.go\<close>, with \<open>user_sessions.go\<close>, \<open>webhooks.go\<close>, \<open>metadata.go\<close> and
  \<open>app/healthz.go\<close>. Handlers behind \<open>AuthorizeBearer\<close> find their session in \<open>w_session\<close>; a type
  assertion on an absent value panics.
\<close>

subsection \<open>Logout\<close>

definition providerLogoutURL :: "'db idauth \<Rightarrow> session option \<Rightarrow> string" where
  "providerLogoutURL a session =
     (case session of
        None \<Rightarrow> []
      | Some s \<Rightarrow> (case s_Metadata s of
          None \<Rightarrow> []
        | Some m \<Rightarrow>
            (let providerID = (case m SessionMetaProviderID of None \<Rightarrow> [] | Some v \<Rightarrow> v);
                 idToken = (case m SessionMetaIDToken of None \<Rightarrow> [] | Some v \<Rightarrow> v) in
             if providerID = [] \<or> idToken = [] then []
             else (case GetProvider (ia_authProviders a) providerID of
                 Inr (OidcAuthProvider p) \<Rightarrow> LogoutURL p idToken
               | _ \<Rightarrow> []))))"

definition deleteSession :: "'db idauth \<Rightarrow> request \<Rightarrow> ('db, unit option) action" where
  "deleteSession a rq = do {
     v \<leftarrow> gets w_session;
     (case v of
        None \<Rightarrow> nil_dereference ''nil session in deleteSession''
      | Some s \<Rightarrow> do {
          r \<leftarrow> st_GetSession (ia_sessionStore a);
          (case r of
             Inl e \<Rightarrow> do { respond (Error e); ret (Some ()) }
           | Inr session \<Rightarrow> do {
               deleted \<leftarrow> st_Delete (ia_sessionStore a) (s_ID s);
               audited a rq session logout_event deleted (\<lambda>err.
                 (case err of
                    Some e \<Rightarrow> do { respond (Error e); ret (Some ()) }
                  | None \<Rightarrow>
                      let logoutURL = providerLogoutURL a session in
                      if logoutURL \<noteq> [] then do {
                        respond (StatusCode 200); respond (Text logoutURL); ret (Some ())
                      }
                      else do { respond (StatusCode 204); ret (Some ()) }))
             })
        })
   }"

subsection \<open>The session in a response\<close>

definition active_response :: "'db idauth \<Rightarrow> int \<Rightarrow> session \<Rightarrow> session_response" where
  "active_response a secondsToLive s =
     (case getCurrentRole s of (organization, role, scopes) \<Rightarrow>
       \<lparr>sr_ID = s_ID s, sr_Active = True, sr_State = s_State s, sr_Subject = s_Subject s,
        sr_Code = s_Code s, sr_FirstName = s_FirstName s, sr_LastName = s_LastName s,
        sr_GivenName = s_FirstName s, sr_FamilyName = s_LastName s, sr_Institution = organization,
        sr_Role = role, sr_Scope = scopes, sr_SecondsToLive = secondsToLive,
        sr_SecondsToCountdown = whole_seconds (cf_SessionCountdown (ia_config a)),
        sr_Email = PtrString (s_Email s), sr_Phone = None, sr_PhoneNumber = s_PhoneNumber s,
        sr_IsServiceClient = s_IsServiceClient s, sr_IsTOSAccepted = Some (s_IsTOSAccepted s)\<rparr>)"

definition sessionToResponse ::
  "'db idauth \<Rightarrow> request \<Rightarrow> session option \<Rightarrow> ('db, session_response option) action" where
  "sessionToResponse a rq session =
     (case session of
        None \<Rightarrow> ret (Some inactive_response)
      | Some s \<Rightarrow>
          if s_State s = SessionStateNone then ret (Some inactive_response)
          else (let secondsToLive = GetSecondsToLive (rq_Now rq)
                      (cf_SessionTimeout (ia_config a)) (s_LastAccessed s) in
            if secondsToLive < 0 then do {
              r \<leftarrow> deleteSession a rq;
              ret (map_option (\<lambda>_. inactive_response) r)
            }
            else ret (Some (active_response a secondsToLive s))))"

definition json_session :: "'db idauth \<Rightarrow> request \<Rightarrow> session option \<Rightarrow> ('db, unit) action" where
  "json_session a rq session = do {
     r \<leftarrow> sessionToResponse a rq session;
     (case r of None \<Rightarrow> skip | Some resp \<Rightarrow> respond (JSON (BSession resp)))
   }"

definition getSession_handler :: "'db idauth \<Rightarrow> 'db handler" where
  "getSession_handler a rq = do {
     r \<leftarrow> st_GetSession (ia_sessionStore a);
     (case r of Inl e \<Rightarrow> respond (Error e) | Inr session \<Rightarrow> json_session a rq session)
   }"

definition extendSession :: "'db idauth \<Rightarrow> 'db handler" where
  "extendSession a rq = do {
     v \<leftarrow> gets w_session;
     (case v of
        None \<Rightarrow> respond (Panic ''nil session in extendSession'')
      | Some s \<Rightarrow> do {
          r \<leftarrow> st_Extend (ia_sessionStore a) rq (s_ID s);
          (case r of Inl e \<Rightarrow> respond (Error e) | Inr x \<Rightarrow> json_session a rq (Some x))
        })
   }"

definition getSessionAvailableRoles :: "'db idauth \<Rightarrow> 'db handler" where
  "getSessionAvailableRoles a rq = do {
     v \<leftarrow> gets w_session;
     (case v of
        None \<Rightarrow> respond (Panic ''nil session in getSessionAvailableRoles'')
      | Some s \<Rightarrow> respond (JSON (BRoles (s_Roles s))))
   }"

subsection \<open>Choosing a role\<close>

definition with_role :: "role_entity \<Rightarrow> session \<Rightarrow> session" where
  "with_role r s = s\<lparr>s_Role := Some r, s_State :=
     (if s_State s = SessionStateRequireRole then SessionStateAuthorized else s_State s)\<rparr>"

text \<open>
  From the chosen role on. \<open>Update\<close> assigns its first result to the variable \<open>session\<close>, which is nil
  when it fails.
\<close>

definition store_role :: "'db idauth \<Rightarrow> request \<Rightarrow> session \<Rightarrow> ('db, unit option) action" where
  "store_role a rq s = do {
     modify (\<lambda>w. w\<lparr>w_session := Some s\<rparr>);
     updated \<leftarrow> st_Update (ia_sessionStore a) s;
     let session = (case updated of Inl _ \<Rightarrow> None | Inr x \<Rightarrow> Some x);
     audited a rq session role_change_event updated (\<lambda>err.
       (case err of
          Some e \<Rightarrow> do { respond (Error e); ret (Some ()) }
        | None \<Rightarrow> do { json_session a rq session; ret (Some ()) }))
   }"

definition choose_role :: "'db idauth \<Rightarrow> request \<Rightarrow> session \<Rightarrow> string \<Rightarrow> ('db, unit) action" where
  "choose_role a rq s roleID =
     (case getRoleByRelationID (s_Roles s) roleID of
        None \<Rightarrow> respond (StatusCode 400)
      | Some role \<Rightarrow>
          if \<exists>org \<in> set_option (re_Organization role). oe_Blocked org
            then refuse 403 AuthErrBlocked ''Organization is blocked''
          else if re_Blocked role then refuse 403 AuthErrBlocked ''Role is blocked''
          else ignore_result (store_role a rq (with_role role s)))"

definition setSessionRole :: "'db idauth \<Rightarrow> 'db handler" where
  "setSessionRole a rq = do {
     v \<leftarrow> gets w_session;
     (case v of
        None \<Rightarrow> respond (Panic ''nil session in setSessionRole'')
      | Some s \<Rightarrow>
          if \<not> IsRoleRequired v \<and> \<not> IsAuthorized v
            then refuse 400 AuthErrInvalidRequest
                   ''Role selection not allowed in current session state''
          else (case rq_BodyRole rq of
              Inl e \<Rightarrow> respond (Error e)
            | Inr roleID \<Rightarrow> choose_role a rq s roleID))
   }"

subsection \<open>Accepting the terms\<close>

definition terms_auth_request :: "session \<Rightarrow> auth_request" where
  "terms_auth_request s = \<lparr>ar_PersonCode = s_Code s, ar_FirstName = s_FirstName s,
     ar_LastName = s_LastName s, ar_Email = s_Email s, ar_IPAddress = [], ar_Nonce = None,
     ar_Rights = [], ar_SessionID = [], ar_Token = [], ar_ClientID = [], ar_ProviderID = [],
     ar_TOS = True, ar_Organizations = [], ar_RawClaims = []\<rparr>"

text \<open>
  The session of the audit event is the pointer that \<open>GetSession\<close> returned first, with the fields
  \<open>handleUserData\<close> has given it.
\<close>

definition termsAccept :: "'db idauth \<Rightarrow> 'db handler" where
  "termsAccept a rq = do {
     r \<leftarrow> st_GetSession (ia_sessionStore a);
     (case r of
        Inl _ \<Rightarrow> skip
      | Inr None \<Rightarrow> respond (Panic ''nil session in termsAccept'')
      | Inr (Some s) \<Rightarrow> do {
          done \<leftarrow> handleUserData a rq None (terms_auth_request s);
          (case done of
             None \<Rightarrow> skip
           | Some (result, _) \<Rightarrow> do {
               session \<leftarrow> gets w_session;
               ignore_result (audited a rq session terms_event result (\<lambda>err.
                 (case err of
                    Some e \<Rightarrow> do { respond (Error e); ret (Some ()) }
                  | None \<Rightarrow> ret (Some ()))))
             })
        })
   }"

subsection \<open>\<open>user_sessions.go\<close>\<close>

definition getUserSessions :: "'db idauth \<Rightarrow> 'db handler" where
  "getUserSessions a rq = do {
     v \<leftarrow> gets w_session;
     (case v of
        None \<Rightarrow> respond (Panic ''nil session in getUserSessions'')
      | Some s \<Rightarrow> do {
          r \<leftarrow> st_GetUserSessions (ia_sessionStore a) rq (s_Code s) [];
          (case r of
             Inl e \<Rightarrow> respond (Error e)
           | Inr sessions \<Rightarrow> respond (JSON (BSessions sessions)))
        })
   }"

definition deleteUsersSession :: "'db idauth \<Rightarrow> 'db handler" where
  "deleteUsersSession a rq = do {
     r \<leftarrow> st_DeleteUserSession (ia_sessionStore a) (rq_Param rq ''id'');
     (case r of Inl e \<Rightarrow> respond (Error e) | Inr _ \<Rightarrow> skip)
   }"

definition getSessions_handler :: "'db idauth \<Rightarrow> 'db handler" where
  "getSessions_handler a rq = do {
     r \<leftarrow> st_GetSessions (ia_sessionStore a) rq;
     (case r of Inl e \<Rightarrow> respond (Error e) | Inr xs \<Rightarrow> respond (JSON (BSessionList xs)))
   }"

definition deleteUserSession :: "'db idauth \<Rightarrow> 'db handler" where
  "deleteUserSession a rq = do {
     v \<leftarrow> gets w_session;
     (case v of
        None \<Rightarrow> respond (Panic ''nil session in deleteUserSession'')
      | Some s \<Rightarrow> do {
          r \<leftarrow> st_GetUserSessions (ia_sessionStore a) rq (s_Code s) (rq_Param rq ''id'');
          (case r of
             Inl e \<Rightarrow> respond (Error e)
           | Inr None \<Rightarrow> respond (Panic ''nil sessions in deleteUserSession'')
           | Inr (Some sessions) \<Rightarrow>
               if length (ss_List sessions) = 0 then respond (StatusCode 403)
               else deleteUsersSession a rq)
        })
   }"

subsection \<open>\<open>webhooks.go\<close>, \<open>metadata.go\<close>, \<open>app/healthz.go\<close>\<close>

definition clientsReload :: "'db idauth \<Rightarrow> 'db handler" where
  "clientsReload a rq = do {
     r \<leftarrow> RefetchClients (ia_clientEnv a) (ia_clientSources a);
     _ \<leftarrow> (case r of Inl e \<Rightarrow> respond (Error e) | Inr _ \<Rightarrow> skip);
     respond (StatusCode 200)
   }"

definition supported_grants :: "configuration \<Rightarrow> string list" where
  "supported_grants c = [''client_credentials''] @
     (if cf_UsesAuthorizationCodeGrant c then [''authorization_code''] else []) @
     (if cf_UsesIAMGrant c then [GRANT_TYPE_IAM] else []) @
     (if cf_UsesPfasGrant c then [''pfas''] else [])"

definition metadata :: "'db idauth \<Rightarrow> 'db handler" where
  "metadata a rq =
     (case url_join_path (rq_BaseURL rq) ''/token'' of
        None \<Rightarrow> respond (Error (ErrText ''parse''))
      | Some tokenEndpoint \<Rightarrow>
          (case url_join_path (rq_BaseURL rq) ''/userinfo'' of
             None \<Rightarrow> respond (Error (ErrText ''parse''))
           | Some userInfoEndpoint \<Rightarrow>
               let code = cf_UsesAuthorizationCodeGrant (ia_config a) in
               respond (JSON (BOAuth \<lparr>oc_Issuer = rq_BaseURL rq,
                 oc_GrantTypesSupported = supported_grants (ia_config a),
                 oc_ResponseTypesSupported = (if code then [''code''] else []),
                 oc_TokenEndpoint = tokenEndpoint, oc_UserInfoEndpoint = userInfoEndpoint,
                 oc_TokenEndpointAuthMethodsSupported =
                   ''client_secret_basic'' # (if code then [''none''] else [])\<rparr>))))"

definition getConfigValues :: "'db idauth \<Rightarrow> 'db handler" where
  "getConfigValues a rq = respond (JSON (BConfig
     \<lparr>cr_SessionTimeout = whole_seconds (cf_SessionTimeout (ia_config a)),
      cr_SessionCountdown = whole_seconds (cf_SessionCountdown (ia_config a))\<rparr>))"

definition healthz :: "'db idauth \<Rightarrow> 'db handler" where
  "healthz a rq = respond (JSON (BHealthz \<lparr>hz_Status = ''pass'', hz_Description = ia_appName a\<rparr>))"

end
