(* ===== verification/Middleware.thy ===== *)
theory Middleware
  imports SessionApi
begin

text \<open>
  The middlewares of \<open>idauth.go\<close> and \<open>httpx/nocache.go\<close>, the route table of \<open>Bind\<close> (\<open>idauth.go\<close> and
  \<open>app/routes.go\<close>) and the serving of one request. A route runs through the middlewares that the code
  has installed, before it registers the route, on the route's group and on the groups around it; the
  framework has matched the route: \<open>rq_Method\<close> and \<open>rq_Route\<close> name it.
\<close>

type_synonym 'db middleware = "'db handler \<Rightarrow> 'db handler"

definition NoStore :: "'db middleware" where
  "NoStore nxt rq = do {
     respond (SetHeader ''Cache-Control'' ''no-store'');
     nxt rq
   }"

definition AuthorizeBearer :: "'db idauth \<Rightarrow> 'db middleware" where
  "AuthorizeBearer a h rq =
     (if rq_Method rq = ''OPTIONS'' then h rq
      else (let tok = rq_Header rq ''Authorization'' in
        if length tok = 0 \<or> to_lower tok = ''bearer null'' \<or>
           \<not> has_prefix (to_lower tok) AuthorizationBearer
          then respond (StatusCode 401)
        else do {
          r \<leftarrow> st_GetSessionByID (ia_sessionStore a) (trim_space (drop (length AuthorizationBearer) tok));
          (case r of
             Inl e \<Rightarrow>
               (case e of
                  ErrSessionNotFound _ \<Rightarrow> refuse 401 AuthErrNoSession ''Session not found''
                | _ \<Rightarrow> respond (Error e))
           | Inr session \<Rightarrow> do {
               modify (\<lambda>w. w\<lparr>w_session := Some session\<rparr>);
               modify (\<lambda>w. w\<lparr>w_user := Some (ToClaims session)\<rparr>);
               h rq
             })
        }))"

definition RequireAuthorized :: "'db middleware" where
  "RequireAuthorized h rq = do {
     v \<leftarrow> gets w_session;
     (case v of
        None \<Rightarrow> refuse 401 AuthErrNoSession ''Session not found''
      | Some s \<Rightarrow>
          if \<not> IsAuthorized (Some s) then refuse 401 AuthErrInvalidToken ''Session not authorized''
          else h rq)
   }"

definition RequireTOSAccepted :: "'db idauth \<Rightarrow> 'db middleware" where
  "RequireTOSAccepted a h rq =
     (if \<not> cf_AuthorizerRequiresTOS (ia_config a) then h rq
      else do {
        v \<leftarrow> gets w_session;
        (case v of
           None \<Rightarrow> respond (JSON (BAuthError (auth_error AuthErrNoSession ''Session not found'')))
         | Some s \<Rightarrow>
             if \<not> s_IsTOSAccepted s
               then respond (JSON (BAuthError
                      (auth_error AuthErrTermsNotAccepted ''Terms of Service not accepted'')))
             else h rq)
      })"

definition AuthorizeStaticToken :: "'db idauth \<Rightarrow> 'db middleware" where
  "AuthorizeStaticToken a h rq =
     (let tok = rq_Header rq ''X-API-KEY'' in
      if length tok = 0 \<or> tok \<noteq> cf_AuthorizerRestAPIKey (ia_config a) then respond (StatusCode 401)
      else h rq)"

subsection \<open>Routes\<close>

definition deleteSession_handler :: "'db idauth \<Rightarrow> 'db handler" where
  "deleteSession_handler a rq = ignore_result (deleteSession a rq)"

text \<open>The groups: \<open>webhooks\<close>, \<open>adminApi\<close>, \<open>preAuthorized\<close>, \<open>tosRequired\<close> and \<open>secured\<close>.\<close>

definition webhook_group :: "'db idauth \<Rightarrow> 'db middleware" where
  "webhook_group a h = AuthorizeStaticToken a h"

definition admin_group :: "'db idauth \<Rightarrow> 'db middleware" where
  "admin_group a h = AuthorizeStaticToken a (NoStore h)"

definition api_group :: "'db idauth \<Rightarrow> 'db middleware" where
  "api_group a h = AuthorizeBearer a (NoStore h)"

definition tos_group :: "'db idauth \<Rightarrow> 'db middleware" where
  "tos_group a h = api_group a (RequireTOSAccepted a h)"

definition secured_group :: "'db idauth \<Rightarrow> 'db middleware" where
  "secured_group a h = api_group a (RequireAuthorized h)"

definition routes :: "'db idauth \<Rightarrow> ((string \<times> string) \<times> 'db handler) list" where
  "routes a = [
     ((''GET'', ''/healthz''), healthz a),
     ((''GET'', ''/.well-known/oauth-authorization-server''), metadata a),
     ((''POST'', ''/token''), NoStore (token a)),
     ((''GET'', ''/authorize''), authorize a),
     ((''GET'', ''/callback/{id}''), callback a),
     ((''POST'', ''/callback/{id}''), callback a),
     ((''GET'', ''/oidc/logout/callback''), oidcLogoutCallback a),
     ((''POST'', ''/oidc/logout/callback''), oidcLogoutCallback a),
     ((''POST'', ''/webhooks/clients/reload''), webhook_group a (clientsReload a)),
     ((''POST'', ''/admin-api/1.0/sessions''), admin_group a (getSessions_handler a)),
     ((''DELETE'', ''/admin-api/1.0/sessions/{id}''), admin_group a (deleteUsersSession a)),
     ((''GET'', ''/api/1.0/session''), api_group a (getSession_handler a)),
     ((''DELETE'', ''/api/1.0/session''), api_group a (deleteSession_handler a)),
     ((''PATCH'', ''/api/1.0/terms/accept''), api_group a (termsAccept a)),
     ((''GET'', ''/api/1.0/session/keep-alive''), api_group a (extendSession a)),
     ((''GET'', ''/api/1.0/session/roles''), tos_group a (getSessionAvailableRoles a)),
     ((''PATCH'', ''/api/1.0/session''), tos_group a (setSessionRole a)),
     ((''GET'', ''/api/1.0/config''), secured_group a (getConfigValues a)),
     ((''GET'', ''/api/1.0/auth/sessions''), secured_group a (getUserSessions a)),
     ((''DELETE'', ''/api/1.0/auth/sessions/{id}''), secured_group a (deleteUserSession a))]"

subsection \<open>One request\<close>

text \<open>A new context: no user value, no user, an empty response.\<close>

definition new_context :: "'db world \<Rightarrow> 'db world" where
  "new_context w = w\<lparr>w_session := None, w_user := None, w_resp := []\<rparr>"

definition serve :: "'db idauth \<Rightarrow> request \<Rightarrow> 'db world \<Rightarrow> 'db world" where
  "serve a rq w =
     (case map_of (routes a) (rq_Method rq, rq_Route rq) of
        None \<Rightarrow> new_context w
      | Some h \<Rightarrow> exec (h rq) (new_context w))"

end
