(* ===== verification/ServerInvariants.thy ===== *)
theory ServerInvariants
  imports Middleware
begin

text \<open>
  Invariants of the server over served requests. The locale \<open>server_invariant\<close> names the operations that
  can break an invariant \<open>I\<close> of the server's state, a property \<open>good\<close> of sessions and a property
  \<open>good_id\<close> of new identifiers; inside it, every handler, every middleware and \<open>serve\<close> are shown to keep \<open>I\<close>, once for all invariants.
\<close>

locale server_invariant =
  fixes I :: "'db world \<Rightarrow> bool"
    and good :: "session \<Rightarrow> bool"
    and good_id :: "string \<Rightarrow> bool"
    and a :: "'db idauth"
  assumes fresh_context: "I w \<Longrightarrow> I (new_context w)"
    and keep_resp: "I w \<Longrightarrow> I (w\<lparr>w_resp := ops\<rparr>)"
    and keep_tick: "I w \<Longrightarrow> I (w\<lparr>w_tick := n\<rparr>)"
    and keep_ulid: "I w \<Longrightarrow> I (w\<lparr>w_ulid := Suc (w_ulid w)\<rparr>)"
    and keep_cor: "I w \<Longrightarrow> I (w\<lparr>w_cor := m\<rparr>)"
    and keep_signout: "I w \<Longrightarrow> I (w\<lparr>w_signout := x\<rparr>)"
    and keep_clients: "I w \<Longrightarrow> I (w\<lparr>w_clients := cs\<rparr>)"
    and keep_audit: "I w \<Longrightarrow> I (w\<lparr>w_audit := au\<rparr>)"
    and keep_user: "I w \<Longrightarrow> I (w\<lparr>w_user := us\<rparr>)"
    and keep_session: "good s \<Longrightarrow> I w \<Longrightarrow> I (w\<lparr>w_session := Some s\<rparr>)"
    and session_good: "I w \<Longrightarrow> w_session w = Some s \<Longrightarrow> good s"
    and keep_generate: "keeps I (GenerateToken c)"
    and keep_redeem: "keeps I (RedeemToken k)"
    and store_session: "st_GetSession (ia_sessionStore a) = GetSession"
    and store_get: "valid I (st_GetSessionByID (ia_sessionStore a) k)
                      (\<lambda>r w. I w \<and> (\<forall>s. r = Inr s \<longrightarrow> good s))"
    and store_create: "good s \<Longrightarrow> keeps I (st_Create (ia_sessionStore a) s)"
    and store_update: "good s \<Longrightarrow> keeps I (st_Update (ia_sessionStore a) s)"
    and store_extend: "keeps I (st_Extend (ia_sessionStore a) rq k)"
    and store_delete: "keeps I (st_Delete (ia_sessionStore a) k)"
    and store_user_sessions: "keeps I (st_GetUserSessions (ia_sessionStore a) rq code k)"
    and store_delete_user: "keeps I (st_DeleteUserSession (ia_sessionStore a) k)"
    and store_sessions: "keeps I (st_GetSessions (ia_sessionStore a) rq)"
    and new_id: "I w \<Longrightarrow> good_id (w_ulids w (w_ulid w))"
    and good_client: "good_id sid \<Longrightarrow>
          good (session_of_user sid SessionStateAuthorized (single_role (ud_Roles u)) now d u)"
    and good_login: "good_id (c_ID cor) \<Longrightarrow> good (login_session a rq cor t u)"
    and good_terms: "good s \<Longrightarrow> good (accept_terms a rq u s)"
    and good_role: "good s \<Longrightarrow> getRoleByRelationID (s_Roles s) k = Some r \<Longrightarrow> usable_role r \<Longrightarrow>
                      good (with_role r s)"
begin

lemma respond_keeps: "keeps I (respond op)"
  by (simp add: keeps_def exec_def keep_resp)

lemma new_ulid_keeps: "keeps I new_ulid"
  by (simp add: keeps_def exec_def keep_ulid)

lemma fault_keeps: "keeps I fault"
  by (simp add: keeps_def exec_def keep_tick)

lemma cor_set_keeps: "keeps I (cor_set k c)"
  unfolding cache_set_def by (intro triples fault_keeps) (auto simp: keeps_def keep_cor)

lemma cor_get_keeps: "keeps I (cor_get k)"
  unfolding cache_get_def by (intro triples fault_keeps)

lemma cor_delete_keeps: "keeps I (cor_delete k)"
  unfolding cache_delete_def by (intro triples fault_keeps) (auto simp: keeps_def keep_cor)

lemma audit_keeps: "keeps I (modify (\<lambda>w. w\<lparr>w_audit := w_audit w @ [e]\<rparr>))"
  by (simp add: keeps_def keep_audit)

lemma set_signout_keeps: "keeps I (set_signout cfg url)"
  by (simp add: keeps_def set_signout_def keep_signout)

lemma set_session_keeps: "good s \<Longrightarrow> keeps I (modify (\<lambda>w. w\<lparr>w_session := Some s\<rparr>))"
  by (simp add: keeps_def keep_session)

lemma set_user_keeps: "keeps I (modify (\<lambda>w. w\<lparr>w_user := u\<rparr>))"
  by (simp add: keeps_def keep_user)

text \<open>A new identifier.\<close>

lemma fresh_id_keeps:
  "(\<And>i. good_id i \<Longrightarrow> keeps I (f i)) \<Longrightarrow> keeps I (State_Monad.bind new_ulid f)"
  by (simp add: keeps_def exec_def keep_ulid new_id)

text \<open>Reading the session of the request, and a session of the store.\<close>

lemma read_session_keeps:
  "(\<And>v. (\<forall>s. v = Some s \<longrightarrow> good s) \<Longrightarrow> keeps I (f v)) \<Longrightarrow> keeps I (State_Monad.bind (gets w_session) f)"
  by (simp add: keeps_def exec_def session_good)

lemma get_session_keeps:
  "(\<And>r. (\<forall>s. r = Inr (Some s) \<longrightarrow> good s) \<Longrightarrow> keeps I (f r)) \<Longrightarrow>
   keeps I (State_Monad.bind (st_GetSession (ia_sessionStore a)) f)"
  by (simp add: store_session keeps_def exec_def session_good)

lemma find_session_keeps:
  assumes "\<And>r. (\<forall>s. r = Inr s \<longrightarrow> good s) \<Longrightarrow> keeps I (f r)"
  shows "keeps I (State_Monad.bind (st_GetSessionByID (ia_sessionStore a) k) f)"
  unfolding keeps_valid
proof (rule valid_bind [OF store_get])
  fix r
  show "valid (\<lambda>w. I w \<and> (\<forall>s. r = Inr s \<longrightarrow> good s)) (f r) (\<lambda>_. I)"
    using assms [of r] by (auto simp: keeps_valid valid_def)
qed

lemmas primitives = respond_keeps new_ulid_keeps cor_set_keeps cor_get_keeps cor_delete_keeps
  audit_keeps set_signout_keeps set_user_keeps keep_generate keep_redeem store_extend store_delete
  store_user_sessions store_delete_user store_sessions

subsection \<open>Shared pieces\<close>

lemma refuse_keeps: "keeps I (refuse n c m)"
  unfolding refuse_def by (intro triples primitives)

lemma json_if_auth_error_keeps: "keeps I (json_if_auth_error e)"
  unfolding json_if_auth_error_def by (cases e; simp only: go_error.case; intro triples primitives)

lemma nil_dereference_keeps: "keeps I (nil_dereference p)"
  unfolding nil_dereference_def by (intro triples primitives)

lemma ignore_result_keeps: "keeps I m \<Longrightarrow> keeps I (ignore_result m)"
  unfolding ignore_result_def by (intro triples)

lemma SaveEvent_keeps: "keeps I (SaveEvent env ap rq ev)"
  unfolding SaveEvent_def send_events_def client_SaveAuditEvent_def
  by (cases ap; cases "av_Session ev"; cases "av_Events ev"; simp; intro triples primitives)

lemma audited_keeps: "(\<And>e. keeps I (cont e)) \<Longrightarrow> keeps I (audited a rq s event result cont)"
  unfolding audited_def by (intro triples SaveEvent_keeps)

lemma Correlation_keeps:
  "keeps I (Correlation_Set rq c)" "keeps I (Correlation_Get rq)" "keeps I (Correlation_Delete rq)"
  unfolding Correlation_Set_def Correlation_Get_def Correlation_Delete_def getFromCookie_def
    setToCookie_def deleteFromCookie_def
  by (intro triples primitives)+

lemma redirect_keeps: "keeps I (redirect_or_error a rq sess)"
  unfolding redirect_or_error_def RedirectToCaller_def finish_redirect_def Let_def
  by (intro triples primitives Correlation_keeps)

lemmas pieces = primitives refuse_keeps json_if_auth_error_keeps nil_dereference_keeps
  ignore_result_keeps audited_keeps Correlation_keeps redirect_keeps

subsection \<open>Handlers\<close>

lemma ValidateToken_keeps: "keeps I (ValidateToken env v rq)"
  by (cases v; simp only: ValidateToken.simps Basic_ValidateToken_def Pfas_ValidateToken_def
      IAM_ValidateToken_def IAM_validateToken_def Noop_ValidateToken_def)
     (intro triples pieces)+

lemma issue_client_session_keeps: "keeps I (issue_client_session a rq u)"
  unfolding issue_client_session_def Let_def
  by (intro fresh_id_keeps triples pieces store_create good_client)

lemma token_keeps: "keeps I (token a rq)"
  unfolding token_def clientCredentials_def authorizationCode_def redeem_code_def
    validated_client_def Let_def
  by (intro triples pieces ValidateToken_keeps issue_client_session_keeps)

lemma handleUserData_keeps:
  assumes "\<And>c. sess = Some c \<Longrightarrow> good_id (c_ID c)"
  shows "keeps I (handleUserData a rq sess t)"
proof -
  have "keeps I (login_user a rq c t u)" if "good_id (c_ID c)" for c u
    unfolding login_user_def store_tos_target_def finish_login_def Let_def
    using that by (intro triples pieces store_create good_login; simp)
  moreover have "keeps I (update_current_session a rq u)" for u
    unfolding update_current_session_def Let_def
    by (intro get_session_keeps triples pieces set_session_keeps store_update good_terms) blast+
  ultimately show ?thesis
    unfolding handleUserData_def using assms by (intro triples; blast)
qed

lemma authorize_keeps: "keeps I (authorize a rq)"
proof -
  have "keeps I (provider_Authorize env p rq cor)" for env p cor
    unfolding provider_Authorize_def Oidc_Authorize_def VPM_Authorize_def Let_def
    by (cases p; simp only: auth_provider.case; intro triples pieces)
  then show ?thesis
    unfolding authorize_def authorize_client_def by (intro triples pieces)
qed

lemma callback_keeps: "keeps I (callback a rq)"
proof -
  have "keeps I (provider_Callback env p rq cor)" for env p cor
    unfolding provider_Callback_def Oidc_Callback_def VPM_Callback_def
    by (cases p; simp only: auth_provider.case; intro triples pieces)
  then show ?thesis
    unfolding callback_def callback_with_provider_def callback_user_data_def callback_signout_def
      handleSignoutResponse_def GetSignoutURL_def Let_def
    by (intro fresh_id_keeps triples pieces handleUserData_keeps; force)
qed

lemma oidcLogoutCallback_keeps: "keeps I (oidcLogoutCallback a rq)"
  unfolding oidcLogoutCallback_def by (intro triples pieces)

lemma deleteSession_keeps: "keeps I (deleteSession a rq)"
  unfolding deleteSession_def Let_def by (intro get_session_keeps triples pieces)

lemma json_session_keeps: "keeps I (json_session a rq s)"
  unfolding json_session_def sessionToResponse_def Let_def
  by (intro triples pieces deleteSession_keeps)

lemma setSessionRole_keeps: "keeps I (setSessionRole a rq)"
proof -
  have "keeps I (store_role a rq s)" if "good s" for s
    unfolding store_role_def Let_def
    using that by (intro triples pieces set_session_keeps store_update json_session_keeps)
  then have "keeps I (choose_role a rq s k)" if "good s" for s k
    using that good_role [of s k]
    by (auto simp: choose_role_def usable_role_def intro!: triples pieces split: option.splits)
  then show ?thesis
    unfolding setSessionRole_def by (intro read_session_keeps triples pieces) blast+
qed

lemma termsAccept_keeps: "keeps I (termsAccept a rq)"
  unfolding termsAccept_def by (intro triples get_session_keeps pieces handleUserData_keeps; simp)

lemma session_handlers_keep:
  "keeps I (getSession_handler a rq)" "keeps I (extendSession a rq)"
  "keeps I (getSessionAvailableRoles a rq)" "keeps I (getUserSessions a rq)"
  "keeps I (deleteUsersSession a rq)" "keeps I (getSessions_handler a rq)"
  "keeps I (deleteUserSession a rq)" "keeps I (deleteSession_handler a rq)"
  unfolding getSession_handler_def extendSession_def getSessionAvailableRoles_def
    getUserSessions_def deleteUsersSession_def getSessions_handler_def deleteUserSession_def
    deleteSession_handler_def
  by (intro get_session_keeps triples pieces json_session_keeps deleteSession_keeps)+

lemma other_handlers_keep:
  "keeps I (clientsReload a rq)" "keeps I (metadata a rq)" "keeps I (getConfigValues a rq)"
  "keeps I (healthz a rq)"
  unfolding clientsReload_def RefetchClients_def loadClients_def metadata_def getConfigValues_def
    healthz_def Let_def
  by (intro triples pieces; auto simp: keeps_def keep_clients)+

lemmas handlers = token_keeps authorize_keeps callback_keeps oidcLogoutCallback_keeps
  setSessionRole_keeps termsAccept_keeps session_handlers_keep other_handlers_keep

subsection \<open>Middlewares and requests\<close>

lemma NoStore_keeps: "(\<And>rq. keeps I (h rq)) \<Longrightarrow> keeps I (NoStore h rq)"
  unfolding NoStore_def by (intro triples pieces)

lemma AuthorizeStaticToken_keeps: "(\<And>rq. keeps I (h rq)) \<Longrightarrow> keeps I (AuthorizeStaticToken a h rq)"
  unfolding AuthorizeStaticToken_def Let_def by (intro triples pieces)

lemma RequireAuthorized_keeps: "(\<And>rq. keeps I (h rq)) \<Longrightarrow> keeps I (RequireAuthorized h rq)"
  unfolding RequireAuthorized_def by (intro triples pieces)

lemma RequireTOSAccepted_keeps: "(\<And>rq. keeps I (h rq)) \<Longrightarrow> keeps I (RequireTOSAccepted a h rq)"
  unfolding RequireTOSAccepted_def by (intro triples pieces)

lemma AuthorizeBearer_keeps:
  assumes "\<And>rq. keeps I (h rq)"
  shows "keeps I (AuthorizeBearer a h rq)"
proof -
  have "keeps I (case e of ErrSessionNotFound m \<Rightarrow> refuse n c msg | _ \<Rightarrow> respond (Error e))" for e n c msg
    by (cases e) (auto intro: pieces)
  then show ?thesis
    unfolding AuthorizeBearer_def Let_def
    by (intro find_session_keeps triples pieces assms set_session_keeps) blast+
qed

lemma route_keeps: "(key, h) \<in> set (routes a) \<Longrightarrow> keeps I (h rq)"
  unfolding routes_def webhook_group_def admin_group_def api_group_def tos_group_def secured_group_def
  by (simp, elim disjE conjE; simp; intro handlers NoStore_keeps AuthorizeStaticToken_keeps
      AuthorizeBearer_keeps RequireTOSAccepted_keeps RequireAuthorized_keeps)

lemma serve_keeps: "I w \<Longrightarrow> I (serve a rq w)"
  by (auto simp: serve_def fresh_context dest!: map_of_SomeD
      intro!: keepsD [OF route_keeps] split: option.splits)

end

end
