(* ===== verification/Flow.thy ===== *)
theory Flow
  imports ServerInvariants
begin

text \<open>
  The server as a transition system: a step serves one request, lets an entry of a cache expire, or
  runs the clean-up job. Requests are atomic here; what two concurrent redemptions of one code can do
  is the relation \<open>redeem_step\<close>, with the store calls of \<open>RedeemToken\<close> as its steps. The invariants are
  interpretations of \<open>server_invariant\<close>: the bookkeeping of issued codes, a spent code staying spent,
  the key of every session, and the role of every session being usable.
\<close>

subsection \<open>Steps\<close>

definition cached :: "'db idauth \<Rightarrow> 'db idauth" where
  "cached a = a\<lparr>ia_sessionStore := CacheSessionStore\<rparr>"

definition with_postgres :: "'db pg_env \<Rightarrow> 'db idauth \<Rightarrow> 'db idauth" where
  "with_postgres pg a = a\<lparr>ia_sessionStore := PostgresSessionStore pg\<rparr>"

text \<open>The two stores that \<open>app.New\<close> installs.\<close>

definition deployed :: "'db idauth \<Rightarrow> bool" where
  "deployed a \<longleftrightarrow> ia_sessionStore a = CacheSessionStore \<or>
     (\<exists>pg. ia_sessionStore a = PostgresSessionStore pg)"

inductive server_step :: "('db idauth \<Rightarrow> bool) \<Rightarrow> 'db world \<Rightarrow> 'db world \<Rightarrow> bool"
  for S :: "'db idauth \<Rightarrow> bool" where
  served: "S a \<Longrightarrow> server_step S w (serve a rq w)"
| correlation_expires: "server_step S w (w\<lparr>w_cor := (w_cor w)(k := None)\<rparr>)"
| token_expires: "server_step S w (w\<lparr>w_ott := (w_ott w)(k := None)\<rparr>)"
| session_expires: "server_step S w (w\<lparr>w_ses := (w_ses w)(k := None)\<rparr>)"
| cleanup: "S a \<Longrightarrow> server_step S w
     (exec (st_DeleteExpiredSessions (ia_sessionStore a) (cf_SessionTimeout (ia_config a))) w)"

inductive_cases server_stepE: "server_step S w w'"

abbreviation server_steps :: "('db idauth \<Rightarrow> bool) \<Rightarrow> 'db world \<Rightarrow> 'db world \<Rightarrow> bool" where
  "server_steps S \<equiv> (server_step S)\<^sup>*\<^sup>*"

lemma invariant_steps:
  assumes "server_steps S w w'" and "I w"
    and "\<And>a rq w. S a \<Longrightarrow> I w \<Longrightarrow> I (serve a rq w)"
    and "\<And>w k. I w \<Longrightarrow> I (w\<lparr>w_cor := (w_cor w)(k := None)\<rparr>)"
    and "\<And>w k. I w \<Longrightarrow> I (w\<lparr>w_ott := (w_ott w)(k := None)\<rparr>)"
    and "\<And>w k. I w \<Longrightarrow> I (w\<lparr>w_ses := (w_ses w)(k := None)\<rparr>)"
    and "\<And>a t w. S a \<Longrightarrow> I w \<Longrightarrow> I (exec (st_DeleteExpiredSessions (ia_sessionStore a) t) w)"
  shows "I w'"
  using assms(1,2)
  by (induction rule: rtranclp_induct) (auto elim!: server_stepE intro: assms(3-7))

subsection \<open>Session stores and invariants that do not look at sessions\<close>

lemma exec_DeleteExpired:
  "exec (st_DeleteExpiredSessions CacheSessionStore t) w = w"
  "exec (st_DeleteExpiredSessions (PostgresSessionStore pg) t) w =
     w\<lparr>w_db := snd (pg_delete_expired_sessions pg t (w_db w))\<rparr>"
  by (simp_all add: CacheSessionStore_def PostgresSessionStore_def exec_def)

lemma keeps_GenerateToken:
  assumes "\<And>w n. I w \<Longrightarrow> I (w\<lparr>w_tick := n\<rparr>)" and "\<And>w. I w \<Longrightarrow> I (w\<lparr>w_ulid := Suc (w_ulid w)\<rparr>)"
    and "\<And>w. I w \<Longrightarrow> I (w\<lparr>w_ulid := Suc (w_ulid w), w_ott := (w_ott w)(w_ulids w (w_ulid w) \<mapsto>
            fresh_token (w_ulids w (w_ulid w)) c)\<rparr>)"
  shows "keeps I (GenerateToken c)"
proof (rule keepsI)
  fix w assume "I w"
  let ?k = "w_ulids w (w_ulid w)"
  from assms(1) [OF assms(2) [OF \<open>I w\<close>]]
  have "I (w\<lparr>w_ulid := Suc (w_ulid w), w_tick := Suc (w_tick w)\<rparr>)" by simp
  moreover have eq: "w\<lparr>w_ulid := Suc (w_ulid w), w_tick := Suc (w_tick w),
      w_ott := (w_ott w)(?k \<mapsto> fresh_token ?k c)\<rparr> = w\<lparr>w_ulid := Suc (w_ulid w),
      w_ott := (w_ott w)(?k \<mapsto> fresh_token ?k c), w_tick := Suc (w_tick w)\<rparr>"
    by (cases w) simp
  have "I (w\<lparr>w_ulid := Suc (w_ulid w), w_tick := Suc (w_tick w),
      w_ott := (w_ott w)(?k \<mapsto> fresh_token ?k c)\<rparr>)"
    unfolding eq by (rule assms(1) [OF assms(3) [OF \<open>I w\<close>]])
  ultimately show "I (exec (GenerateToken c) w)"
    by (auto simp: exec_def run_GenerateToken Let_def split: option.splits)
qed

lemma keeps_RedeemToken:
  assumes "\<And>w n. I w \<Longrightarrow> I (w\<lparr>w_tick := n\<rparr>)"
    and "\<And>w k. I w \<Longrightarrow> I (w\<lparr>w_ott := (w_ott w)(k := None)\<rparr>)"
  shows "keeps I (RedeemToken k)"
proof (rule keepsI)
  fix w assume "I w"
  then have "I (w\<lparr>w_tick := n, w_ott := (w_ott w)(k := None)\<rparr>)" for n
    using assms(2) [of "w\<lparr>w_tick := n\<rparr>" k] by (simp add: assms(1))
  with \<open>I w\<close> show "I (exec (RedeemToken k) w)"
    by (auto simp: exec_def run_RedeemToken Let_def assms(1) split: option.splits)
qed

text \<open>What an invariant must allow for both stores to keep it.\<close>

lemma cache_store_keeps:
  assumes "\<And>w n. I w \<Longrightarrow> I (w\<lparr>w_tick := n\<rparr>)" and "\<And>w. I w \<Longrightarrow> I (w\<lparr>w_ulid := Suc (w_ulid w)\<rparr>)"
    and "\<And>w s. I w \<Longrightarrow> good s \<Longrightarrow> I (w\<lparr>w_ses := (w_ses w)(s_ID s \<mapsto> s)\<rparr>)"
    and "\<And>w k. I w \<Longrightarrow> I (w\<lparr>w_ses := (w_ses w)(k := None)\<rparr>)"
    and "\<And>w k s. I w \<Longrightarrow> w_ses w k = Some s \<Longrightarrow> good s"
    and "\<And>w s. I w \<Longrightarrow> good s \<Longrightarrow> good (s\<lparr>s_ID := w_ulids w (w_ulid w)\<rparr>)"
    and "\<And>s t. good s \<Longrightarrow> good (s\<lparr>s_LastAccessed := t\<rparr>)"
  shows "good s \<Longrightarrow> keeps I (Cache_Create s)" and "good s \<Longrightarrow> keeps I (Cache_Update s)"
    and "keeps I (Cache_Extend rq k)" and "keeps I (Cache_Delete k)"
    and "valid I (Cache_GetSessionByID k) (\<lambda>r w. I w \<and> (\<forall>s. r = Inr s \<longrightarrow> good s))"
    and "keeps I (Cache_GetSessionByID k)"
proof -
  have f: "keeps I fault" by (simp add: keeps_def exec_def assms(1))
  have u: "keeps I new_ulid" by (simp add: keeps_def exec_def assms(2))
  have set: "keeps I (ses_set (s_ID x) x)" if "good x" for x
    unfolding cache_set_def by (intro triples f) (auto simp: keeps_def assms(3) that)
  show "good s \<Longrightarrow> keeps I (Cache_Update s)"
    unfolding Cache_Update_def by (intro triples set)
  show "good s \<Longrightarrow> keeps I (Cache_Create s)"
  proof (rule keepsI)
    fix w assume "good s" "I w"
    obtain x w1 where x: "run_state (with_session_id s) w = (x, w1)" by force
    then have "good x" "I w1"
      using \<open>good s\<close> \<open>I w\<close> by (auto simp: with_session_id_def assms(2,6) split: if_splits)
    then have "I (exec (attempt (ses_set (s_ID x) x) (\<lambda>_. ret (Inr x))) w1)"
      by (intro keepsD [where I = I] triples set)
    then show "I (exec (Cache_Create s) w)" by (simp add: Cache_Create_def exec_def x)
  qed
  show "keeps I (Cache_Delete k)"
    unfolding Cache_Delete_def cache_delete_def by (intro triples f) (auto simp: keeps_def assms(4))
  show "valid I (Cache_GetSessionByID k) (\<lambda>r w. I w \<and> (\<forall>s. r = Inr s \<longrightarrow> good s))"
    by (auto simp: valid_def Cache_GetSessionByID_def run_cache_get assms(1,5) split: option.splits)
  then show "keeps I (Cache_GetSessionByID k)"
    by (auto simp: keeps_valid valid_def)
  show "keeps I (Cache_Extend rq k)"
  proof (rule keepsI)
    fix w assume "I w"
    show "I (exec (Cache_Extend rq k) w)"
    proof (cases "length k > 26 \<or> w_faults w (w_tick w) \<noteq> None \<or> w_ses w k = None")
      case True
      with \<open>I w\<close> show ?thesis
        by (auto simp: Cache_Extend_def exec_def run_cache_get assms(1) split: option.splits)
    next
      case False
      then obtain x where x: "w_ses w k = Some x" by auto
      let ?s = "x\<lparr>s_LastAccessed := Some (rq_Now rq)\<rparr>"
      let ?w = "w\<lparr>w_tick := Suc (w_tick w)\<rparr>"
      have "good ?s" using assms(5) [OF \<open>I w\<close> x] by (rule assms(7))
      then have "I (exec (ses_set (s_ID ?s) ?s) ?w)"
        using \<open>I w\<close> by (intro keepsD [OF set] assms(1))
      moreover have "exec (Cache_Extend rq k) w = exec (ses_set (s_ID ?s) ?s) ?w"
        using False x
        by (simp add: Cache_Extend_def exec_def run_cache_get split_def Let_def)
      ultimately show ?thesis by simp
    qed
  qed
qed

lemma pg_store_keeps:
  assumes "\<And>w. I w \<Longrightarrow> I (w\<lparr>w_ulid := Suc (w_ulid w)\<rparr>)"
    and "\<And>w d. I w \<Longrightarrow> I (w\<lparr>w_db := d\<rparr>)" and "\<And>w r. I w \<Longrightarrow> I (w\<lparr>w_resp := r\<rparr>)"
  shows "keeps I (Pg_Create pg s)" and "keeps I (Pg_Update pg s)" and "keeps I (Pg_Extend pg rq k)"
    and "keeps I (Pg_Delete pg k)" and "keeps I (Pg_GetSessionByID pg k)"
    and "keeps I (Pg_GetUserSessions pg rq c k)" and "keeps I (Pg_DeleteUserSession pg k)"
    and "keeps I (Pg_GetSessions pg rq)"
proof -
  have u: "keeps I new_ulid" by (simp add: keeps_def exec_def assms(1))
  have r: "keeps I (respond op)" for op by (simp add: keeps_def exec_def assms(3))
  have e: "keeps I (pg_exec f)" for f by (simp add: keeps_def exec_def assms(2))
  show "keeps I (Pg_Create pg s)" and "keeps I (Pg_Update pg s)" and "keeps I (Pg_Extend pg rq k)"
    and "keeps I (Pg_Delete pg k)" and "keeps I (Pg_GetSessionByID pg k)"
    and "keeps I (Pg_GetUserSessions pg rq c k)" and "keeps I (Pg_DeleteUserSession pg k)"
    and "keeps I (Pg_GetSessions pg rq)"
    unfolding Pg_Create_def Pg_Update_def Pg_Extend_def Pg_Delete_def Pg_GetSessionByID_def
      Pg_GetUserSessions_def Pg_DeleteUserSession_def Pg_GetSessions_def with_session_id_def Let_def
    by (intro triples u r e)+
qed

subsection \<open>The interpretations\<close>

lemma cached_sel [simp]: "ia_sessionStore (cached a) = CacheSessionStore"
  by (simp add: cached_def)

lemma with_postgres_sel [simp]: "ia_sessionStore (with_postgres pg a) = PostgresSessionStore pg"
  by (simp add: with_postgres_def)

lemma cached_id: "ia_sessionStore a = CacheSessionStore \<Longrightarrow> cached a = a"
  by (cases a) (simp add: cached_def)

lemma deployed_cases:
  "deployed a \<Longrightarrow> a = cached a \<or> (\<exists>pg. a = with_postgres pg a)"
  by (auto simp: deployed_def cached_def with_postgres_def) (metis idauth.surjective idauth.update_convs(5))+

lemma cache_store_ops [simp]:
  "st_Create CacheSessionStore = Cache_Create" "st_Update CacheSessionStore = Cache_Update"
  "st_GetSessionByID CacheSessionStore = Cache_GetSessionByID"
  "st_Extend CacheSessionStore = Cache_Extend" "st_Delete CacheSessionStore = Cache_Delete"
  "st_GetUserSessions CacheSessionStore rq c k = ret (Inr None)"
  "st_DeleteUserSession CacheSessionStore k = ret (Inr ())"
  "st_GetSessions CacheSessionStore rq = ret (Inr [])"
  by (simp_all add: CacheSessionStore_def)

lemma pg_store_ops [simp]:
  "st_Create (PostgresSessionStore pg) = Pg_Create pg"
  "st_Update (PostgresSessionStore pg) = Pg_Update pg"
  "st_GetSessionByID (PostgresSessionStore pg) = Pg_GetSessionByID pg"
  "st_Extend (PostgresSessionStore pg) = Pg_Extend pg"
  "st_Delete (PostgresSessionStore pg) = Pg_Delete pg"
  "st_GetUserSessions (PostgresSessionStore pg) = Pg_GetUserSessions pg"
  "st_DeleteUserSession (PostgresSessionStore pg) = Pg_DeleteUserSession pg"
  "st_GetSessions (PostgresSessionStore pg) = Pg_GetSessions pg"
  by (simp_all add: PostgresSessionStore_def)

text \<open>A code that was issued and is no longer stored.\<close>

definition spent :: "(nat \<Rightarrow> string) \<Rightarrow> nat \<Rightarrow> 'db world \<Rightarrow> bool" where
  "spent us i w \<longleftrightarrow> inj us \<and> w_ulids w = us \<and> i < w_ulid w \<and> w_ott w (us i) = None"

lemma spent_updates:
  "spent us i (w\<lparr>w_tick := n\<rparr>) = spent us i w" "spent us i (w\<lparr>w_resp := r\<rparr>) = spent us i w"
  "spent us i (w\<lparr>w_cor := c\<rparr>) = spent us i w" "spent us i (w\<lparr>w_signout := x\<rparr>) = spent us i w"
  "spent us i (w\<lparr>w_clients := cs\<rparr>) = spent us i w" "spent us i (w\<lparr>w_audit := au\<rparr>) = spent us i w"
  "spent us i (w\<lparr>w_user := u\<rparr>) = spent us i w" "spent us i (w\<lparr>w_session := s\<rparr>) = spent us i w"
  "spent us i (w\<lparr>w_ses := m\<rparr>) = spent us i w" "spent us i (w\<lparr>w_db := d\<rparr>) = spent us i w"
  "spent us i (new_context w) = spent us i w"
  by (simp_all add: spent_def new_context_def)

lemma spent_ulid: "spent us i w \<Longrightarrow> spent us i (w\<lparr>w_ulid := Suc (w_ulid w)\<rparr>)"
  by (simp add: spent_def)

lemma spent_generate: "keeps (spent us i) (GenerateToken c)"
  by (rule keeps_GenerateToken) (auto simp: spent_updates spent_ulid, auto simp: spent_def inj_def)

lemma spent_redeem: "keeps (spent us i) (RedeemToken k)"
  by (rule keeps_RedeemToken) (auto simp: spent_updates, auto simp: spent_def)

interpretation spent_cache: server_invariant "spent us i" "\<lambda>_. True" "\<lambda>_. True" "cached a" for us i a
  by unfold_locales
     (simp_all add: spent_updates spent_ulid spent_generate spent_redeem cache_store_keeps
       [where good = "\<lambda>_. True" and I = "spent us i"] keeps_return keeps_valid [symmetric])

interpretation spent_pg: server_invariant "spent us i" "\<lambda>_. True" "\<lambda>_. True" "with_postgres pg a" for us i pg a
  by unfold_locales
     (simp_all add: spent_updates spent_ulid spent_generate spent_redeem
       pg_store_keeps [where I = "spent us i"] keeps_valid [symmetric])

lemma spent_steps:
  assumes "server_steps deployed w w'" and "spent us i w"
  shows "spent us i w'"
  using assms
proof (rule invariant_steps)
  fix a :: "'a idauth" and rq and w :: "'a world"
  assume "deployed a" "spent us i w"
  then show "spent us i (serve a rq w)"
    using deployed_cases [of a] spent_cache.serve_keeps [of us i w a rq]
      spent_pg.serve_keeps [of us i w _ a rq] by metis
next
  fix a :: "'a idauth" and t and w :: "'a world"
  assume "deployed a" "spent us i w"
  then show "spent us i (exec (st_DeleteExpiredSessions (ia_sessionStore a) t) w)"
    by (auto simp: deployed_def exec_DeleteExpired spent_updates)
qed (auto simp: spent_updates, auto simp: spent_def)

text \<open>Every stored token is stored under its own identifier, for the one redirect URI it was made for.\<close>

definition tokens_wf :: "'db world \<Rightarrow> bool" where
  "tokens_wf w \<longleftrightarrow> (\<forall>k v. w_ott w k = Some v \<longrightarrow>
     k \<in> ott_issued w \<and> o_ID v = k \<and> o_RedirectURIs v = [o_RedirectURI v])"

lemma tokens_wf_updates:
  "tokens_wf (w\<lparr>w_tick := n\<rparr>) = tokens_wf w" "tokens_wf (w\<lparr>w_resp := r\<rparr>) = tokens_wf w"
  "tokens_wf (w\<lparr>w_cor := c\<rparr>) = tokens_wf w" "tokens_wf (w\<lparr>w_signout := x\<rparr>) = tokens_wf w"
  "tokens_wf (w\<lparr>w_clients := cs\<rparr>) = tokens_wf w" "tokens_wf (w\<lparr>w_audit := au\<rparr>) = tokens_wf w"
  "tokens_wf (w\<lparr>w_user := u\<rparr>) = tokens_wf w" "tokens_wf (w\<lparr>w_session := s\<rparr>) = tokens_wf w"
  "tokens_wf (w\<lparr>w_ses := m\<rparr>) = tokens_wf w" "tokens_wf (w\<lparr>w_db := d\<rparr>) = tokens_wf w"
  "tokens_wf (new_context w) = tokens_wf w"
  by (simp_all add: tokens_wf_def new_context_def ott_issued_def)

lemma tokens_wf_ulid: "tokens_wf w \<Longrightarrow> tokens_wf (w\<lparr>w_ulid := Suc (w_ulid w)\<rparr>)"
  by (force simp: tokens_wf_def ott_issued_def)

lemma tokens_wf_generate: "keeps tokens_wf (GenerateToken c)"
  by (rule keeps_GenerateToken)
     (auto simp: tokens_wf_updates tokens_wf_ulid, force simp: tokens_wf_def ott_issued_def)

lemma tokens_wf_redeem: "keeps tokens_wf (RedeemToken k)"
  by (rule keeps_RedeemToken) (auto simp: tokens_wf_updates, auto simp: tokens_wf_def ott_issued_def)

interpretation tokens_cache: server_invariant tokens_wf "\<lambda>_. True" "\<lambda>_. True" "cached a" for a
  by unfold_locales
     (simp_all add: tokens_wf_updates tokens_wf_ulid tokens_wf_generate tokens_wf_redeem
       cache_store_keeps [where good = "\<lambda>_. True" and I = tokens_wf] keeps_return keeps_valid [symmetric])

interpretation tokens_pg: server_invariant tokens_wf "\<lambda>_. True" "\<lambda>_. True" "with_postgres pg a" for pg a
  by unfold_locales
     (simp_all add: tokens_wf_updates tokens_wf_ulid tokens_wf_generate tokens_wf_redeem
       pg_store_keeps [where I = tokens_wf] keeps_valid [symmetric])

lemma tokens_steps:
  assumes "server_steps deployed w w'" and "tokens_wf w"
  shows "tokens_wf w'"
  using assms
proof (rule invariant_steps)
  fix a :: "'a idauth" and rq and w :: "'a world"
  assume "deployed a" "tokens_wf w"
  then show "tokens_wf (serve a rq w)"
    using deployed_cases [of a] tokens_cache.serve_keeps [of w a rq]
      tokens_pg.serve_keeps [of w _ a rq] by metis
next
  fix a :: "'a idauth" and t and w :: "'a world"
  assume "deployed a" "tokens_wf w"
  then show "tokens_wf (exec (st_DeleteExpiredSessions (ia_sessionStore a) t) w)"
    by (auto simp: deployed_def exec_DeleteExpired tokens_wf_updates)
qed (auto simp: tokens_wf_updates, auto simp: tokens_wf_def ott_issued_def)

text \<open>
  The role a session acts in is never a blocked role or a role of a blocked organization, as the
  authorizer described it when the role was chosen. Its state is one of the three that the code
  gives to a session, and a session that has to choose a role has none.
\<close>

definition typed_state :: "session \<Rightarrow> bool" where
  "typed_state s \<longleftrightarrow>
     s_State s \<in> {SessionStateRequireAgreement, SessionStateRequireRole, SessionStateAuthorized} \<and>
     (s_State s = SessionStateRequireRole \<longrightarrow> s_Role s = None)"

definition usable_session :: "session \<Rightarrow> bool" where
  "usable_session s \<longleftrightarrow> (\<forall>r \<in> set_option (s_Role s). usable_role r) \<and> typed_state s"

definition sessions_usable :: "'db world \<Rightarrow> bool" where
  "sessions_usable w \<longleftrightarrow> (\<forall>k s. w_ses w k = Some s \<longrightarrow> s_ID s = k \<and> usable_session s) \<and>
     (\<forall>s. w_session w = Some s \<longrightarrow> usable_session s)"

lemma sessions_usable_updates:
  "sessions_usable (w\<lparr>w_tick := n\<rparr>) = sessions_usable w"
  "sessions_usable (w\<lparr>w_resp := r\<rparr>) = sessions_usable w"
  "sessions_usable (w\<lparr>w_cor := c\<rparr>) = sessions_usable w"
  "sessions_usable (w\<lparr>w_signout := x\<rparr>) = sessions_usable w"
  "sessions_usable (w\<lparr>w_clients := cs\<rparr>) = sessions_usable w"
  "sessions_usable (w\<lparr>w_audit := au\<rparr>) = sessions_usable w"
  "sessions_usable (w\<lparr>w_user := u\<rparr>) = sessions_usable w"
  "sessions_usable (w\<lparr>w_ulid := i\<rparr>) = sessions_usable w"
  "sessions_usable (w\<lparr>w_ott := m\<rparr>) = sessions_usable w"
  by (simp_all add: sessions_usable_def)

lemma usable_session_updates [simp]:
  "usable_session (s\<lparr>s_ID := i\<rparr>) = usable_session s"
  "usable_session (s\<lparr>s_LastAccessed := t\<rparr>) = usable_session s"
  by (simp_all add: usable_session_def typed_state_def)

lemma single_role_usable: "r \<in> set_option (single_role roles) \<Longrightarrow> usable_role r"
  by (auto dest: single_role_SomeD)

text \<open>A state that makes the user choose goes with no role.\<close>

lemma choosing_has_no_role:
  assumes "SessionStateRequireRole \<in> {state_for_roles a roles, state_after_terms a roles}"
  shows "role_for_login a roles = None"
proof (rule ccontr)
  assume "role_for_login a roles \<noteq> None"
  then obtain r where "roles = [r]" "usable_role r" "cf_SessionRequiresRole (ia_config a)"
    by (auto simp: role_for_login_def dest: single_role_SomeD split: if_splits)
  with assms show False
    by (simp add: state_for_roles_def state_after_terms_def)
qed

lemma state_range:
  "state_for_roles a roles \<in> {SessionStateRequireRole, SessionStateAuthorized}"
  "state_after_terms a roles \<in> {SessionStateRequireRole, SessionStateAuthorized}"
  by (auto simp: state_for_roles_def state_after_terms_def split: list.splits)

lemma role_for_login_usable: "r \<in> set_option (role_for_login a roles) \<Longrightarrow> usable_role r"
  by (auto simp: role_for_login_def single_role_usable split: if_splits)

lemma usable_login:
  "usable_session (session_of_user sid SessionStateAuthorized (single_role roles) now d u)"
  "usable_session (login_session a rq c t u)"
  "usable_session s \<Longrightarrow> usable_session (accept_terms a rq u s)"
  "usable_role r \<Longrightarrow> usable_session s \<Longrightarrow> usable_session (with_role r s)"
proof -
  show "usable_session (session_of_user sid SessionStateAuthorized (single_role roles) now d u)"
    by (simp add: usable_session_def typed_state_def session_of_user_def single_role_usable)
  show "usable_session (login_session a rq c t u)"
    using state_range(1) [of a "ud_Roles u"]
    by (auto simp: usable_session_def typed_state_def login_session_def createSessionFromUserData_def
        session_of_user_def role_for_login_usable choosing_has_no_role)
  show "usable_session s \<Longrightarrow> usable_session (accept_terms a rq u s)"
    using state_range(2) [of a "ud_Roles u"]
    by (auto simp: usable_session_def typed_state_def accept_terms_def refresh_session_def Let_def
        role_for_login_usable choosing_has_no_role)
  show "usable_role r \<Longrightarrow> usable_session s \<Longrightarrow> usable_session (with_role r s)"
    by (auto simp: usable_session_def typed_state_def with_role_def)
qed

lemma usable_store:
  "sessions_usable w \<Longrightarrow> sessions_usable (w\<lparr>w_tick := n\<rparr>)"
  "sessions_usable w \<Longrightarrow> sessions_usable (w\<lparr>w_ulid := Suc (w_ulid w)\<rparr>)"
  "sessions_usable w \<Longrightarrow> usable_session s \<Longrightarrow> sessions_usable (w\<lparr>w_ses := (w_ses w)(s_ID s \<mapsto> s)\<rparr>)"
  "sessions_usable w \<Longrightarrow> sessions_usable (w\<lparr>w_ses := (w_ses w)(k := None)\<rparr>)"
  "sessions_usable w \<Longrightarrow> w_ses w k = Some s \<Longrightarrow> usable_session s"
  "sessions_usable w \<Longrightarrow> usable_session s \<Longrightarrow> usable_session (s\<lparr>s_ID := w_ulids w (w_ulid w)\<rparr>)"
  "usable_session s \<Longrightarrow> usable_session (s\<lparr>s_LastAccessed := t\<rparr>)"
  by (auto simp: sessions_usable_def)

lemmas usable_store_keeps = cache_store_keeps [where good = usable_session and I = sessions_usable,
    OF usable_store]

interpretation roles_cache: server_invariant sessions_usable usable_session "\<lambda>_. True" "cached a" for a
  by unfold_locales
     (simp_all add: sessions_usable_updates usable_login keeps_GenerateToken keeps_RedeemToken
       keeps_return usable_store_keeps,
      auto simp: sessions_usable_def new_context_def usable_login)

lemma usable_steps:
  assumes "server_steps (\<lambda>a. ia_sessionStore a = CacheSessionStore) w w'" and "sessions_usable w"
  shows "sessions_usable w'"
  using assms
proof (rule invariant_steps)
  fix a :: "'a idauth" and rq and w :: "'a world"
  assume "ia_sessionStore a = CacheSessionStore" "sessions_usable w"
  then show "sessions_usable (serve a rq w)"
    using roles_cache.serve_keeps [of w a rq] by (simp add: cached_id)
qed (auto simp: exec_DeleteExpired sessions_usable_updates, auto simp: sessions_usable_def)

text \<open>
  A session identifier that was issued and is no longer stored. New identifiers differ from it, so it
  never names a session again.
\<close>

definition gone :: "string \<Rightarrow> 'db world \<Rightarrow> bool" where
  "gone k w \<longleftrightarrow> inj (w_ulids w) \<and> k \<in> ott_issued w \<and>
     (\<forall>j s. w_ses w j = Some s \<longrightarrow> j \<noteq> k \<and> s_ID s \<noteq> k) \<and> (\<forall>s. w_session w = Some s \<longrightarrow> s_ID s \<noteq> k)"

lemma issued_sel [simp]:
  "ott_issued (w\<lparr>w_tick := n\<rparr>) = ott_issued w" "ott_issued (w\<lparr>w_resp := r\<rparr>) = ott_issued w"
  "ott_issued (w\<lparr>w_cor := c\<rparr>) = ott_issued w" "ott_issued (w\<lparr>w_signout := x\<rparr>) = ott_issued w"
  "ott_issued (w\<lparr>w_clients := cs\<rparr>) = ott_issued w" "ott_issued (w\<lparr>w_audit := au\<rparr>) = ott_issued w"
  "ott_issued (w\<lparr>w_user := u\<rparr>) = ott_issued w" "ott_issued (w\<lparr>w_ott := m\<rparr>) = ott_issued w"
  "ott_issued (w\<lparr>w_ses := ss\<rparr>) = ott_issued w" "ott_issued (w\<lparr>w_session := s\<rparr>) = ott_issued w"
  by (simp_all add: ott_issued_def)

lemma new_context_issued [simp]: "ott_issued (new_context w) = ott_issued w" "w_ulids (new_context w) = w_ulids w"
  by (simp_all add: new_context_def ott_issued_def)

lemma issued_ulid:
  "ott_issued (w\<lparr>w_ulid := Suc (w_ulid w)\<rparr>) = insert (w_ulids w (w_ulid w)) (ott_issued w)"
  "inj (w_ulids w) \<Longrightarrow> w_ulids w (w_ulid w) \<notin> ott_issued w"
  by (auto simp: ott_issued_def lessThan_Suc inj_def)

lemma gone_updates:
  "gone k (w\<lparr>w_tick := n\<rparr>) = gone k w" "gone k (w\<lparr>w_resp := r\<rparr>) = gone k w"
  "gone k (w\<lparr>w_cor := c\<rparr>) = gone k w" "gone k (w\<lparr>w_signout := x\<rparr>) = gone k w"
  "gone k (w\<lparr>w_clients := cs\<rparr>) = gone k w" "gone k (w\<lparr>w_audit := au\<rparr>) = gone k w"
  "gone k (w\<lparr>w_user := u\<rparr>) = gone k w" "gone k (w\<lparr>w_ott := m\<rparr>) = gone k w"
  by (simp_all add: gone_def)

lemma gone_ids:
  "s_ID (session_of_user sid st r now d u) = sid" "s_ID (login_session a rq c t u) = c_ID c"
  "s_ID (accept_terms a rq u s) = s_ID s" "s_ID (with_role e s) = s_ID s"
  by (simp_all add: session_of_user_def login_session_def createSessionFromUserData_def
      accept_terms_def refresh_session_def with_role_def Let_def)

lemma gone_store:
  "gone k w \<Longrightarrow> gone k (w\<lparr>w_tick := n\<rparr>)"
  "gone k w \<Longrightarrow> gone k (w\<lparr>w_ulid := Suc (w_ulid w)\<rparr>)"
  "gone k w \<Longrightarrow> s_ID s \<noteq> k \<Longrightarrow> gone k (w\<lparr>w_ses := (w_ses w)(s_ID s \<mapsto> s)\<rparr>)"
  "gone k w \<Longrightarrow> gone k (w\<lparr>w_ses := (w_ses w)(j := None)\<rparr>)"
  "gone k w \<Longrightarrow> w_ses w j = Some s \<Longrightarrow> s_ID s \<noteq> k"
  "gone k w \<Longrightarrow> s_ID s \<noteq> k \<Longrightarrow> s_ID (s\<lparr>s_ID := w_ulids w (w_ulid w)\<rparr>) \<noteq> k"
  "s_ID s \<noteq> k \<Longrightarrow> s_ID (s\<lparr>s_LastAccessed := t\<rparr>) \<noteq> k"
  by (auto simp: gone_def issued_ulid)

lemmas gone_store_keeps = cache_store_keeps [where good = "\<lambda>s. s_ID s \<noteq> k" and I = "gone k" for k,
    OF gone_store]

lemma gone_generate: "keeps (gone k) (GenerateToken c)"
  by (rule keeps_GenerateToken) (auto simp: gone_updates gone_store)

lemma gone_redeem: "keeps (gone k) (RedeemToken j)"
  by (rule keeps_RedeemToken) (auto simp: gone_updates)

definition issued :: "string \<Rightarrow> 'db world \<Rightarrow> bool" where
  "issued k w \<longleftrightarrow> inj (w_ulids w) \<and> k \<in> ott_issued w"

lemma issued_updates:
  "issued k (w\<lparr>w_tick := n\<rparr>) = issued k w" "issued k (w\<lparr>w_resp := r\<rparr>) = issued k w"
  "issued k (w\<lparr>w_cor := c\<rparr>) = issued k w" "issued k (w\<lparr>w_signout := x\<rparr>) = issued k w"
  "issued k (w\<lparr>w_clients := cs\<rparr>) = issued k w" "issued k (w\<lparr>w_audit := au\<rparr>) = issued k w"
  "issued k (w\<lparr>w_user := u\<rparr>) = issued k w" "issued k (w\<lparr>w_ott := m\<rparr>) = issued k w"
  "issued k (w\<lparr>w_ses := ss\<rparr>) = issued k w" "issued k (w\<lparr>w_session := s\<rparr>) = issued k w"
  "issued k w \<Longrightarrow> issued k (w\<lparr>w_ulid := Suc (w_ulid w)\<rparr>)" "issued k (new_context w) = issued k w"
  by (simp_all add: issued_def issued_ulid new_context_issued)

lemma issued_ops: "keeps (issued k) (GenerateToken c)" "keeps (issued k) (RedeemToken j)"
  by (auto intro!: keeps_GenerateToken keeps_RedeemToken simp: issued_updates)

interpretation issued_cache: server_invariant "issued k" "\<lambda>_. True" "\<lambda>_. True" "cached a" for k a
  by unfold_locales
     (simp_all add: issued_updates issued_ops cache_store_keeps
       [where good = "\<lambda>_. True" and I = "issued k"] keeps_return keeps_valid [symmetric])

interpretation gone_cache: server_invariant "gone k" "\<lambda>s. s_ID s \<noteq> k" "\<lambda>j. j \<noteq> k" "cached a" for k a
  by unfold_locales
     (simp_all add: gone_updates gone_store gone_ids gone_generate gone_redeem keeps_return gone_store_keeps,
      auto simp: gone_def new_context_def issued_ulid)

lemma new_context_idem: "new_context (new_context w) = new_context w"
  by (simp add: new_context_def)

lemma serve_new_context: "serve a rq (new_context w) = serve a rq w"
  unfolding serve_def new_context_idem ..

lemma gone_steps:
  assumes "server_steps (\<lambda>a. ia_sessionStore a = CacheSessionStore) w w'" and "gone k (new_context w)"
  shows "gone k (new_context w')"
  using assms
proof (rule invariant_steps)
  fix a :: "'a idauth" and rq and w :: "'a world"
  assume "ia_sessionStore a = CacheSessionStore" "gone k (new_context w)"
  then have "gone k (serve a rq w)"
    using gone_cache.serve_keeps [of k "new_context w" a rq] by (simp add: cached_id serve_new_context)
  then show "gone k (new_context (serve a rq w))" by (rule gone_cache.fresh_context)
qed (auto simp: exec_DeleteExpired gone_def new_context_def)

subsection \<open>One redemption, call by call\<close>

text \<open>
  \<open>RedeemToken\<close> makes two calls on the cache, \<open>Get\<close> and \<open>Delete\<close>. Two requests that redeem the same
  code may run between each other's calls.
\<close>

datatype redeem_pc = AtGet | AtDelete "one_time_token option" | Redeemed "one_time_token option"
  | RedeemFailed go_error

definition redeem_call :: "string \<Rightarrow> redeem_pc \<Rightarrow> 'db world \<Rightarrow> redeem_pc \<times> 'db world" where
  "redeem_call k pc w = (case pc of
       AtGet \<Rightarrow> (case run_state (GetToken k) w of
           (Inl e, w') \<Rightarrow> (RedeemFailed e, w') | (Inr v, w') \<Rightarrow> (AtDelete v, w'))
     | AtDelete v \<Rightarrow> (Redeemed v, exec (ott_delete k) w)
     | _ \<Rightarrow> (pc, w))"

text \<open>The two calls in a row are \<open>RedeemToken\<close>.\<close>

lemma redeem_calls:
  "(case redeem_call k AtGet w of (pc, w1) \<Rightarrow> redeem_call k pc w1) =
     (case run_state (RedeemToken k) w of
        (Inl e, w') \<Rightarrow> (RedeemFailed e, w') | (Inr v, w') \<Rightarrow> (Redeemed v, w'))"
  by (auto simp: redeem_call_def RedeemToken_def exec_def split: prod.splits sum.splits)

inductive redeem_step ::
  "string \<Rightarrow> (nat \<Rightarrow> redeem_pc) \<times> 'db world \<Rightarrow> (nat \<Rightarrow> redeem_pc) \<times> 'db world \<Rightarrow> bool" for k where
  call: "redeem_call k (pcs i) w = (pc, w') \<Longrightarrow> redeem_step k (pcs, w) (pcs(i := pc), w')"

end
