(* ===== verification/Examples.thy ===== *)
theory Examples
  imports Flow
begin

text \<open>
  One concrete deployment, on which the witnesses of the properties evaluate: a cache session store, the
  no-op authorizer and audit provider, one OpenID Connect provider, a browser client, a service
  client, and libraries that answer with fixed values.
\<close>

definition ex_ulid :: "nat \<Rightarrow> string" where
  "ex_ulid n = replicate (Suc n) (CHR ''u'')"

lemma inj_ex_ulid [simp]: "inj ex_ulid"
  by (auto simp: inj_def ex_ulid_def dest: arg_cong [where f = length])

lemma ex_ulid_simps [simp]: "ex_ulid n \<noteq> []" "ex_ulid m = ex_ulid n \<longleftrightarrow> m = n"
  using inj_ex_ulid by (simp add: ex_ulid_def, metis inj_eq)

definition ex_app :: client where
  "ex_app = \<lparr>cl_ID = ''app'', cl_RedirectURI = [''https://app.example/auth-done''],
     cl_GrantTypes = [''authorization_code''], cl_Scopes = [], cl_Metadata = [], cl_Secrets = [],
     cl_Certificates = [], cl_Claims = [], cl_isServiceClient = False\<rparr>"

definition ex_service :: client where
  "ex_service = \<lparr>cl_ID = ''svc'', cl_RedirectURI = [], cl_GrantTypes = [''basic'', ''iam'', ''pfas''],
     cl_Scopes = [''read''], cl_Metadata = [], cl_Secrets = [''pw''],
     cl_Certificates = [], cl_Claims = [], cl_isServiceClient = False\<rparr>"

definition ex_provider_config :: auth_provider_config where
  "ex_provider_config = \<lparr>pc_ID = ''idp'', pc_Type = ''OIDC'', pc_Realm = [],
     pc_MetadataURL = ''https://idp.example'', pc_IDPEndpoint = [], pc_SigningCertificatePEM = [],
     pc_PostCallbackSignout = False, pc_ClientID = ''idauth'', pc_ClientSecret = ''x'',
     pc_Metadata = [], pc_Scope = [], pc_AcrValues = [], pc_ClaimMappingFile = [],
     pc_PostLogoutRedirectURI = ''https://app.example/'', pc_LogoutParams = [(''force'', ''1'')]\<rparr>"

definition ex_oidc :: oidc_provider where
  "ex_oidc = \<lparr>op_config = ex_provider_config, op_Scopes = [''openid''], op_claimMapper = None,
     op_endSessionURL = ''https://idp.example/logout''\<rparr>"

definition ex_claims :: oidc_claims where
  "ex_claims = \<lparr>oc_Subject = ''s1'', oc_Email = ''j@example'', oc_GivenName = ''Jane'',
     oc_FirstName = [], oc_FamilyName = ''Doe'', oc_PersonCode = [], oc_LastName = [], oc_Verified = True\<rparr>"

definition ex_jsonnet :: jsonnet_env where
  "ex_jsonnet = \<lparr>jn_ReadFile = (\<lambda>_. Inr ''function(x) x''), jn_SnippetToAST = (\<lambda>_ _. None),
     jn_Marshal = (\<lambda>_. Inr ''{}''), jn_Evaluate = (\<lambda>_ _. Inr ''{}''),
     jn_Unmarshal = (\<lambda>_. Inr (oidc_auth_request ex_provider_config ''forged'' ex_claims))\<rparr>"

text \<open>The identity token is the authorization code itself; its nonce is \<open>n\<close>.\<close>

definition ex_provider_env :: provider_env where
  "ex_provider_env = \<lparr>px_jsonnet = ex_jsonnet, px_NewProvider = (\<lambda>_. Inr ''https://idp.example/logout''),
     px_AuthCodeURL = (\<lambda>_ redirect state. ''https://idp.example/auth?state='' @ state),
     px_Exchange = (\<lambda>_ _ code. Inr (Some code)),
     px_Verify = (\<lambda>_ raw. Inr \<lparr>it_Nonce = ''n'', it_AllClaims = Inr [], it_Claims = Inr ex_claims\<rparr>),
     px_WsfedNew = (\<lambda>_. None), px_ParseCertificate = (\<lambda>_. None),
     px_SigninURL = (\<lambda>_ _ _. Inr ''https://vpm.example/''),
     px_ReadResponse = (\<lambda>_ _ _. Inl (ExtError ''no token'')),
     px_SignoutURL = (\<lambda>_ _ _. Inr ''https://vpm.example/out'')\<rparr>"

definition ex_config :: configuration where
  "ex_config = \<lparr>cf_IntrospectionURL = ''https://pfas.example/introspect'',
     cf_IntrospectionClientID = ''i'', cf_IntrospectionClientSecret = ''s'',
     cf_IAMIssuer = ''https://iam.example'', cf_IAMJWKSURL = ''https://iam.example/jwks'',
     cf_SessionTimeout = 3600 * 10 ^ 9, cf_SessionCountdown = 300 * 10 ^ 9,
     cf_AuthorizerRestAPIKey = ''key'', cf_AuthorizerRequiresTOS = False,
     cf_TOSEndpoint = [], cf_SessionRequiresRole = False, cf_UsesAuthorizationCodeGrant = True,
     cf_UsesIAMGrant = True, cf_UsesPfasGrant = True\<rparr>"

definition ex_no_http :: http_do where
  "ex_no_http r = Inl (ExtError ''connection refused'')"

definition ex_client_env :: client_env where
  "ex_client_env = \<lparr>ce_ReadFile = (\<lambda>_. Inr ''yaml''), ce_YAML = (\<lambda>_. Inr [ex_app, ex_service]),
     ce_NewRequest = (\<lambda>_. None), ce_HTTP = ex_no_http, ce_JSON = (\<lambda>_. Inr []),
     ce_Validate = (\<lambda>_. None)\<rparr>"

definition ex_token_env :: token_env where
  "ex_token_env = \<lparr>te_SetRequestURL = (\<lambda>_ _. None), te_HTTP = ex_no_http,
     te_JSON = (\<lambda>_. Inl (ExtError ''no body'')),
     te_Verify = (\<lambda>_ raw. Inr (Inr \<lparr>ic_ClientID = ''svc'', ic_ExpiresAt = 100, ic_IssuedAt = 1,
       ic_NotBefore = 0\<rparr>))\<rparr>"

definition ex_authorizer_env :: authorizer_env where
  "ex_authorizer_env = \<lparr>az_SetRequestURL = (\<lambda>_ _. None), az_Marshal = (\<lambda>_. Inr ''{}''),
     az_HTTP = ex_no_http, az_Unmarshal = (\<lambda>_. Inl (ExtError ''no body''))\<rparr>"

definition ex_audit_env :: audit_env where
  "ex_audit_env = \<lparr>ax_AppName = ''IDAuth'', ax_DisplayName = (\<lambda>_. ''Jane Doe''),
     ax_ClaimValue = (\<lambda>_ _. []), ax_UserID = (\<lambda>_. []), ax_Marshal = (\<lambda>_. Inr ''[]''),
     ax_NewRequest = (\<lambda>_. None), ax_StyleParam = (\<lambda>k. Inr k), ax_HTTP = ex_no_http,
     ax_ReadBody = (\<lambda>r. Inr (hp_Body r))\<rparr>"

definition ex_idauth :: "unit idauth" where
  "ex_idauth = \<lparr>ia_config = ex_config, ia_clientEnv = ex_client_env,
     ia_clientSources = [FileSource ''clients.yaml'' False], ia_tokenEnv = ex_token_env,
     ia_sessionStore = CacheSessionStore, ia_authorizer = NoopAuthorizer,
     ia_authorizerEnv = ex_authorizer_env, ia_auditProvider = NoopAuditProvider,
     ia_auditEnv = ex_audit_env, ia_authProviders = Map.empty(''idp'' \<mapsto> OidcAuthProvider ex_oidc),
     ia_providerEnv = ex_provider_env, ia_appName = ''IDAuth''\<rparr>"

definition ex_world :: "unit world" where
  "ex_world = \<lparr>w_clients = Map.empty(''app'' \<mapsto> ex_app, ''svc'' \<mapsto> file_client ex_service),
     w_cor = Map.empty, w_ott = Map.empty, w_ses = Map.empty, w_signout = (\<lambda>_. []), w_db = (),
     w_ulids = ex_ulid, w_ulid = 0, w_faults = (\<lambda>_. None), w_tick = 0, w_audit = [],
     w_session = None, w_user = None, w_resp = []\<rparr>"

definition ex_request :: request where
  "ex_request = \<lparr>rq_Method = ''GET'', rq_Route = [], rq_Header = (\<lambda>_. []),
     rq_Form = (\<lambda>_. Inl (ExtError ''missing'')), rq_FormOptional = (\<lambda>_. None),
     rq_Query = (\<lambda>_. Inl (ExtError ''missing'')), rq_QueryOptional = (\<lambda>_. None),
     rq_QueryInt = (\<lambda>_. Inr None), rq_Param = (\<lambda>_. []), rq_BodyRole = Inl (ExtError ''no body''),
     rq_BodyFilter = Inl (ExtError ''no body''), rq_Cookie = None, rq_IP = ''10.0.0.1'',
     rq_UserAgent = ''ua'', rq_BaseURL = ''https://id.example'', rq_BasePath = ''/'',
     rq_RequestURI = ''/'', rq_IsTLS = True, rq_TraceID = None, rq_ContextID = ''c1'',
     rq_IsSignoutResponse = False, rq_Now = 50 * 10 ^ 9\<rparr>"

definition ex_correlation :: correlation where
  "ex_correlation = \<lparr>c_ID = ''sid'', c_ClientID = ''app'', c_RedirectURI = ''https://app.example/auth-done'',
     c_Nonce = Some ''n'', c_State = Some ''st'', c_CodeChallenge = None,
     c_CodeChallengeMethod = None, c_ErrorCode = [], c_ManagedByProvider = False,
     c_SessionCreated = Some (40 * 10 ^ 9), c_TOSTargetURI = None\<rparr>"

definition ex_code_request :: "string \<Rightarrow> string \<Rightarrow> request" where
  "ex_code_request uri code = ex_request\<lparr>rq_Method := ''POST'', rq_Route := ''/token'',
     rq_Form := (\<lambda>k. if k = ''grant_type'' then Inr ''authorization_code''
                     else if k = ''redirect_uri'' then Inr uri
                     else if k = ''code'' then Inr code else Inl (ExtError ''missing''))\<rparr>"

lemma ex_world_sel [simp]:
  "w_clients ex_world = Map.empty(''app'' \<mapsto> ex_app, ''svc'' \<mapsto> file_client ex_service)"
  "w_cor ex_world = Map.empty" "w_ott ex_world = Map.empty" "w_ses ex_world = Map.empty"
  "w_ulids ex_world = ex_ulid" "w_ulid ex_world = 0" "w_faults ex_world = (\<lambda>_. None)"
  "w_tick ex_world = 0" "w_resp ex_world = []" "w_session ex_world = None" "w_audit ex_world = []"
  "w_signout ex_world = (\<lambda>_. [])"
  by (simp_all add: ex_world_def)

lemma ex_idauth_sel [simp]:
  "ia_config ex_idauth = ex_config" "ia_sessionStore ex_idauth = CacheSessionStore"
  "ia_authorizer ex_idauth = NoopAuthorizer" "ia_auditProvider ex_idauth = NoopAuditProvider"
  "ia_providerEnv ex_idauth = ex_provider_env" "ia_tokenEnv ex_idauth = ex_token_env"
  "ia_authProviders ex_idauth = Map.empty(''idp'' \<mapsto> OidcAuthProvider ex_oidc)"
  "ia_clientEnv ex_idauth = ex_client_env"
  "ia_clientSources ex_idauth = [FileSource ''clients.yaml'' False]"
  by (simp_all add: ex_idauth_def)

lemma ex_config_sel [simp]:
  "cf_UsesAuthorizationCodeGrant ex_config" "cf_UsesIAMGrant ex_config" "cf_UsesPfasGrant ex_config"
  "cf_AuthorizerRequiresTOS ex_config = False" "cf_SessionRequiresRole ex_config = False"
  "cf_AuthorizerRestAPIKey ex_config = ''key''"
  "cf_SessionTimeout ex_config = 3600 * 10 ^ 9" "cf_TOSEndpoint ex_config = []"
  by (simp_all add: ex_config_def)

lemma ex_code_request_sel [simp]:
  "rq_Method (ex_code_request uri code) = ''POST''" "rq_Route (ex_code_request uri code) = ''/token''"
  "rq_Form (ex_code_request uri code) ''grant_type'' = Inr ''authorization_code''"
  "rq_Form (ex_code_request uri code) ''redirect_uri'' = Inr uri"
  "rq_Form (ex_code_request uri code) ''code'' = Inr code"
  "rq_Now (ex_code_request uri code) = 50 * 10 ^ 9"
  by (simp_all add: ex_code_request_def ex_request_def)

lemma ex_correlation_sel [simp]:
  "c_ID ex_correlation = ''sid''" "c_RedirectURI ex_correlation = ''https://app.example/auth-done''"
  "c_ErrorCode ex_correlation = []" "\<not> c_ManagedByProvider ex_correlation"
  "c_State ex_correlation = Some ''st''" "c_Nonce ex_correlation = Some ''n''"
  "c_TOSTargetURI ex_correlation = None" "c_SessionCreated ex_correlation = Some (40 * 10 ^ 9)"
  "c_ClientID ex_correlation = ''app''"
  by (simp_all add: ex_correlation_def)

end
