(* ===== verification/TokenProps.thy ===== *)
theory TokenProps
  imports Examples
begin

text \<open>
  Properties of the token endpoint: which requests get an access token, for which session, and what
  happens to an authorization code that has been redeemed.
\<close>

subsection \<open>Shared lemmas\<close>

text \<open>\<open>quiet t\<close>: the response holds no access token \<open>t\<close> so far.\<close>

definition quiet :: "access_token_response \<Rightarrow> 'db world \<Rightarrow> bool" where
  "quiet t w \<longleftrightarrow> \<not> issues t (w_resp w)"

lemma quiet_respond: "op \<noteq> JSON (BToken t) \<Longrightarrow> keeps (quiet t) (respond op)"
  by (simp add: keeps_def exec_def quiet_def issues_def)

lemma quiet_refuse: "keeps (quiet t) (refuse n c m)"
  unfolding refuse_def by (intro triples quiet_respond) simp_all

lemma quiet_json_if_auth_error: "keeps (quiet t) (json_if_auth_error e)"
  unfolding json_if_auth_error_def
  by (cases e; simp only: go_error.case; intro triples quiet_respond; simp)

lemma quiet_ValidateToken: "keeps (quiet t) (ValidateToken env v rq)"
  by (cases v; simp only: ValidateToken.simps Basic_ValidateToken_def Pfas_ValidateToken_def
      IAM_ValidateToken_def IAM_validateToken_def Noop_ValidateToken_def)
     (intro triples quiet_respond; simp)+

lemmas quiet = quiet_respond quiet_refuse quiet_json_if_auth_error quiet_ValidateToken

lemma authorizationCode_cases:
  assumes "quiet t w" and "issues t (w_resp (exec (authorizationCode a rq) w))"
  obtains uri code ott where "rq_Form rq ''redirect_uri'' = Inr uri" and "rq_Form rq ''code'' = Inr code"
    and "w_faults w (w_tick w) = None" and "w_ott w code = Some ott" and "valid_ott_redirect ott uri"
    and "t = access_token a rq (o_SessionToken ott) (o_SessionCreated ott)"
proof -
  define w1 where "w1 = (if cf_UsesAuthorizationCodeGrant (ia_config a) then w else
    w\<lparr>w_resp := w_resp w @ [StatusCode 403, JSON (BAuthError (auth_error AuthErrInvalidRequest
        ''Authorization code grant is not enabled''))]\<rparr>)"
  have w1: "w_ott w1 = w_ott w" "w_faults w1 = w_faults w" "w_tick w1 = w_tick w" "quiet t w1"
    using assms(1) by (simp_all add: w1_def quiet_def issues_def)
  have e: "exec (authorizationCode a rq) w =
    exec (case rq_Form rq ''redirect_uri'' of
        Inl _ \<Rightarrow> refuse 400 AuthErrInvalidRequest ''redirect_uri field required''
      | Inr redirectURI \<Rightarrow>
          (case rq_Form rq ''code'' of
             Inl _ \<Rightarrow> refuse 400 AuthErrInvalidRequest ''code field required''
           | Inr code \<Rightarrow> redeem_code a rq redirectURI code)) w1"
    by (simp add: authorizationCode_def exec_def w1_def)
  have "keeps (quiet t) (refuse n c m)" for n c m by (rule quiet_refuse)
  then have q: "\<not> issues t (w_resp (exec (refuse n c m) w1))" for n c m
    using w1(4) keepsD [of "quiet t"] by (fastforce simp: quiet_def)
  from assms(2) e q obtain uri code where uri: "rq_Form rq ''redirect_uri'' = Inr uri"
    and code: "rq_Form rq ''code'' = Inr code"
    and iss: "issues t (w_resp (exec (redeem_code a rq uri code) w1))"
    by (auto split: sum.splits)
  obtain x w' where run: "run_state (redeem_code a rq uri code) w1 = (x, w')" by (rule prod.exhaust)
  from iss run have iss': "issues t (w_resp w')" by (simp add: exec_def)
  from run show thesis
  proof (cases rule: redeem_code_resp)
    case (issued ott)
    have "w_faults w1 (w_tick w1) = None"
      using run issued(3) by (auto simp: redeem_code_def run_RedeemToken Let_def split: option.splits)
    with issued iss' w1 uri code that show thesis by (auto simp: quiet_def issues_def)
  qed (use iss' w1(4) in \<open>auto simp: quiet_def issues_def\<close>)
qed

lemma run_token_code:
  assumes "rq_Form rq ''grant_type'' = Inr ''authorization_code''"
  shows "token a rq = authorizationCode a rq"
  using assms by (simp add: token_def)

lemma serve_token:
  assumes "rq_Method rq = ''POST''" and "rq_Route rq = ''/token''"
  shows "serve a rq w = exec (token a rq)
     ((new_context w)\<lparr>w_resp := [SetHeader ''Cache-Control'' ''no-store'']\<rparr>)"
  using assms by (simp add: serve_def routes_def NoStore_def exec_def new_context_def)

text \<open>A request to redeem a code at the token endpoint.\<close>

definition code_request :: "string \<Rightarrow> string \<Rightarrow> request \<Rightarrow> bool" where
  "code_request uri code rq \<longleftrightarrow> rq_Method rq = ''POST'' \<and> rq_Route rq = ''/token'' \<and>
     rq_Form rq ''grant_type'' = Inr ''authorization_code'' \<and>
     rq_Form rq ''redirect_uri'' = Inr uri \<and> rq_Form rq ''code'' = Inr code"

definition token_context :: "'db world \<Rightarrow> 'db world" where
  "token_context w = (new_context w)\<lparr>w_resp := [SetHeader ''Cache-Control'' ''no-store'']\<rparr>"

lemma token_context_sel [simp]:
  "w_ott (token_context w) = w_ott w" "w_faults (token_context w) = w_faults w"
  "w_tick (token_context w) = w_tick w" "quiet t (token_context w)"
  "w_ulids (token_context w) = w_ulids w" "w_ulid (token_context w) = w_ulid w"
  by (simp_all add: token_context_def new_context_def quiet_def issues_def)

lemma serve_code_request:
  "code_request uri code rq \<Longrightarrow> serve a rq w = exec (authorizationCode a rq) (token_context w)"
  by (simp add: code_request_def serve_token run_token_code token_context_def)

lemma serve_code_issues:
  assumes "code_request uri code rq" and "issues t (w_resp (serve a rq w))"
  shows "\<exists>ott. w_ott w code = Some ott \<and> valid_ott_redirect ott uri \<and>
           t = access_token a rq (o_SessionToken ott) (o_SessionCreated ott)"
proof -
  have "issues t (w_resp (exec (authorizationCode a rq) (token_context w)))"
    using assms serve_code_request by metis
  then obtain uri' code' ott where "rq_Form rq ''redirect_uri'' = Inr uri'"
    "rq_Form rq ''code'' = Inr code'" "w_ott w code' = Some ott" "valid_ott_redirect ott uri'"
    "t = access_token a rq (o_SessionToken ott) (o_SessionCreated ott)"
    using authorizationCode_cases [of t "token_context w" a rq] by (metis token_context_sel(1,4))
  with assms(1) show ?thesis by (auto simp: code_request_def)
qed

lemma serve_code_spends:
  assumes "code_request uri code rq" and "cf_UsesAuthorizationCodeGrant (ia_config a)"
    and "w_faults w (w_tick w) = None" and "w_faults w (Suc (w_tick w)) = None"
  shows "w_ott (serve a rq w) code = None"
proof -
  let ?w = "token_context w"
  obtain x w' where run: "run_state (redeem_code a rq uri code) ?w = (x, w')" by (rule prod.exhaust)
  from redeem_code_spends [OF run] assms(3,4) have "w_ott w' code = None" by simp
  moreover have "serve a rq w = w'"
    using serve_code_request [OF assms(1), of a w] assms(1,2) run
    by (simp add: code_request_def authorizationCode_run exec_def)
  ultimately show ?thesis by simp
qed

lemma issuing_leaves_no_code:
  assumes "code_request uri code rq" and "issues t (w_resp (serve a rq w))"
    and "cf_UsesAuthorizationCodeGrant (ia_config a)" and "\<forall>n. w_faults w n = None"
    and "tokens_wf w" and "inj (w_ulids w)"
  obtains i where "spent (w_ulids w) i (serve a rq w)" and "w_ulids w i = code"
proof -
  from serve_code_issues [OF assms(1,2)] obtain ott where ott: "w_ott w code = Some ott" by blast
  then obtain i where i: "i < w_ulid w" "w_ulids w i = code"
    using assms(5) by (auto simp: tokens_wf_def ott_issued_def)
  obtain x w' where run: "run_state (redeem_code a rq uri code) (token_context w) = (x, w')"
    by (rule prod.exhaust)
  have w': "serve a rq w = w'"
    using serve_code_request [OF assms(1), of a w] assms(1,3) run
    by (simp add: code_request_def authorizationCode_run exec_def)
  have "w_ulids w' = w_ulids w" "w_ulid w' = w_ulid w"
    using run assms(4) ott
    by (auto simp: redeem_code_def run_RedeemToken Let_def token_context_def new_context_def
        split: option.splits if_splits)
  moreover have "w_ott w' code = None"
    using serve_code_spends [OF assms(1,3), of w] by (simp add: assms(4) w')
  ultimately show thesis using i assms(6) that w' by (auto simp: spent_def)
qed

subsection \<open>Properties\<close>


definition ex_token :: one_time_token where
  "ex_token = fresh_token (ex_ulid 0) ex_correlation"

definition ex_token_world :: "unit world" where
  "ex_token_world = ex_world\<lparr>w_ott := Map.empty(ex_ulid 0 \<mapsto> ex_token), w_ulid := 1\<rparr>"

lemma ex_token_world_sel [simp]:
  "w_ott ex_token_world = Map.empty(ex_ulid 0 \<mapsto> ex_token)" "w_ulid ex_token_world = 1"
  "w_ulids ex_token_world = ex_ulid" "w_faults ex_token_world = (\<lambda>_. None)"
  "w_tick ex_token_world = 0" "w_resp ex_token_world = []"
  "tokens_wf ex_token_world"
  by (simp_all add: ex_token_world_def tokens_wf_def ott_issued_def ex_token_def)

lemma ex_code_request_is [simp]: "code_request uri code (ex_code_request uri code)"
  by (simp add: code_request_def)

lemma ex_redeem:
  "w_resp (exec (authorizationCode ex_idauth
       (ex_code_request ''https://app.example/auth-done'' (ex_ulid 0))) (token_context ex_token_world)) =
     [SetHeader ''Cache-Control'' ''no-store'',
      JSON (BToken \<lparr>at_AccessToken = ''sid'', at_TokenType = ''bearer'', at_ExpiresIn = 3590\<rparr>)]"
  by (simp add: authorizationCode_run [of _ "''https://app.example/auth-done''" "ex_ulid 0"] exec_def
      redeem_code_def run_RedeemToken token_context_def new_context_def ex_token_def
      valid_ott_redirect_def access_token_def GetSecondsToLive_def time_sub_def wrap64_def
      whole_seconds_def)

lemma serve_ex_code_request:
  "serve a (ex_code_request uri code) w = exec (authorizationCode a (ex_code_request uri code)) (token_context w)"
  by (rule serve_code_request [OF ex_code_request_is])

abbreviation ex_redeem_request :: request where
  "ex_redeem_request \<equiv> ex_code_request ''https://app.example/auth-done'' (ex_ulid 0)"

abbreviation ex_access_token :: access_token_response where
  "ex_access_token \<equiv> \<lparr>at_AccessToken = ''sid'', at_TokenType = ''bearer'', at_ExpiresIn = 3590\<rparr>"

lemma deployed_ex [simp]: "deployed ex_idauth"
  by (simp add: deployed_def)


text \<open>
  C14: the authorization-code grant answers with a token exactly when both fields are there, the store
  answers, the code is stored, and the redirect URI is one the code was made for; the token is then
  the session of the code, with the lifetime counted from the login.
\<close>

theorem authorizationCode_issues_iff:
  "issues t (w_resp (exec (authorizationCode a rq) w)) \<longleftrightarrow>
     issues t (w_resp w) \<or>
     (\<exists>uri code ott. rq_Form rq ''redirect_uri'' = Inr uri \<and> rq_Form rq ''code'' = Inr code \<and>
        w_faults w (w_tick w) = None \<and> w_ott w code = Some ott \<and> valid_ott_redirect ott uri \<and>
        t = access_token a rq (o_SessionToken ott) (o_SessionCreated ott))"
  (is "?l \<longleftrightarrow> ?old \<or> ?new")
proof -
  have "?l" if "?old"
    using that
    by (auto simp: authorizationCode_def redeem_code_def exec_def run_RedeemToken Let_def issues_def
        split: sum.splits option.splits)
  moreover have "?l" if "?new"
    using that
    by (auto simp: authorizationCode_def redeem_code_def exec_def run_RedeemToken Let_def issues_def
        split: option.splits)
  moreover have "?old \<or> ?new" if "?l"
    using authorizationCode_cases [of t w a rq] that unfolding quiet_def by metis
  ultimately show ?thesis by blast
qed

text \<open>
  C34: with the grant disabled, the handler writes the refusal and goes on: a stored code is redeemed
  and its token follows the refusal in the response.
\<close>

theorem disabled_grant_still_issues:
  assumes "\<not> cf_UsesAuthorizationCodeGrant (ia_config a)"
    and "rq_Form rq ''redirect_uri'' = Inr uri" and "rq_Form rq ''code'' = Inr code"
    and "w_faults w (w_tick w) = None" and "w_ott w code = Some ott" and "valid_ott_redirect ott uri"
  shows "w_resp (exec (authorizationCode a rq) w) = w_resp w @
     [StatusCode 403, JSON (BAuthError (auth_error AuthErrInvalidRequest
        ''Authorization code grant is not enabled'')),
      JSON (BToken (access_token a rq (o_SessionToken ott) (o_SessionCreated ott)))]"
  using assms
  by (auto simp: authorizationCode_def redeem_code_def exec_def run_RedeemToken Let_def
      split: option.splits)

definition ex_no_code_grant :: "unit idauth" where
  "ex_no_code_grant = ex_idauth\<lparr>ia_config := ex_config\<lparr>cf_UsesAuthorizationCodeGrant := False\<rparr>\<rparr>"

theorem disabled_grant_still_issues_witness:
  "w_resp (exec (authorizationCode ex_no_code_grant ex_redeem_request) ex_token_world) =
     [StatusCode 403, JSON (BAuthError (auth_error AuthErrInvalidRequest
        ''Authorization code grant is not enabled'')),
      JSON (BToken (access_token ex_no_code_grant ex_redeem_request ''sid'' (Some (40 * 10 ^ 9))))]"
  using disabled_grant_still_issues [of ex_no_code_grant ex_redeem_request
      "''https://app.example/auth-done''" "ex_ulid 0" ex_token_world ex_token]
  by (simp add: ex_no_code_grant_def ex_token_def valid_ott_redirect_def)

text \<open>
  C11: round trip of a login. \<open>RedirectToCaller\<close> sends the browser to the caller with a code in the
  query; the token endpoint, asked with that code and the caller's redirect URI, answers with the
  session of the correlation.
\<close>

theorem code_round_trip:
  assumes "run_state (RedirectToCaller a rq sess) w = (Inr (), w')" and "\<forall>n. w_faults w n = None"
    and "cf_UsesAuthorizationCodeGrant (ia_config a)" and "c_ErrorCode sess = []"
    and "\<not> c_ManagedByProvider sess"
  shows "\<exists>u ops code. url_parse (redirect_target sess) = Some u \<and>
     w_resp w' = w_resp w @ ops @
       [Redirect (url_string (u\<lparr>u_RawQuery := query_encode (caller_query a sess u code)\<rparr>))] \<and>
     value_get ''code'' (query_parse (query_encode (caller_query a sess u code))) = code \<and>
     (\<forall>rq2. rq_Form rq2 ''redirect_uri'' = Inr (c_RedirectURI sess) \<longrightarrow> rq_Form rq2 ''code'' = Inr code \<longrightarrow>
        w_resp (exec (authorizationCode a rq2) w') =
          w_resp w' @ [JSON (BToken (access_token a rq2 (c_ID sess) (c_SessionCreated sess)))])"
proof -
  obtain u code ops where u: "url_parse (redirect_target sess) = Some u"
    and resp: "w_resp w' = w_resp w @ ops @
      [Redirect (url_string (u\<lparr>u_RawQuery := query_encode (caller_query a sess u code)\<rparr>))]"
    and ott: "w_ott w' = (w_ott w)(code \<mapsto> fresh_token code sess)"
    using RedirectToCaller_ok [OF assms(1)] assms(3-5) by metis
  have "same w_faults (RedirectToCaller a rq sess)" by (intro triples; simp)
  then have f: "w_faults w' n = None" for n using same_run [OF _ assms(1)] assms(2) by metis
  have "w_resp (exec (authorizationCode a rq2) w') =
      w_resp w' @ [JSON (BToken (access_token a rq2 (c_ID sess) (c_SessionCreated sess)))]"
    if "rq_Form rq2 ''redirect_uri'' = Inr (c_RedirectURI sess)" "rq_Form rq2 ''code'' = Inr code" for rq2
    using that assms(3) f ott
    by (simp add: authorizationCode_run exec_def redeem_code_def run_RedeemToken Let_def
        valid_ott_redirect_def)
  moreover have "value_get ''code'' (query_parse (query_encode (caller_query a sess u code))) = code"
    using assms(4) by (simp add: query_parse_encode caller_query_wf caller_query_get(2))
  ultimately show ?thesis using u resp by blast
qed

lemma ex_url_parses: "url_parse ''https://app.example/auth-done'' \<noteq> None"
  by code_simp

lemma ex_redirect_ok:
  "fst (run_state (RedirectToCaller ex_idauth ex_request ex_correlation) ex_world) = Inr ()"
  using ex_url_parses
  by (auto simp: RedirectToCaller_def redirect_target_def finish_redirect_def run_GenerateToken Let_def
      split_def)

theorem code_round_trip_witness:
  "\<exists>u ops code. url_parse (redirect_target ex_correlation) = Some u \<and>
     w_resp (exec (RedirectToCaller ex_idauth ex_request ex_correlation) ex_world) = [] @ ops @
       [Redirect (url_string (u\<lparr>u_RawQuery := query_encode (caller_query ex_idauth ex_correlation u code)\<rparr>))]"
  using code_round_trip [of ex_idauth ex_request ex_correlation ex_world
      "exec (RedirectToCaller ex_idauth ex_request ex_correlation) ex_world"] ex_redirect_ok
  by (force simp: exec_def prod_eq_iff)

lemma clientCredentials_cases:
  assumes "quiet t w" and "issues t (w_resp (exec (clientCredentials a grant rq) w))"
  obtains v r w1 where "NewTokenValidator grant (pfas_config_of (ia_config a)) (iam_config_of (ia_config a)) = Inr v"
    and "run_state (ValidateToken (ia_tokenEnv a) v rq) w = (Inr r, w1)" and "tv_Valid r"
proof -
  have ref: "\<not> issues t (w_resp (exec (refuse n c m) w))" for n c m
    using quiet_refuse assms(1) by (meson keepsD quiet_def)
  from assms(2) ref obtain v where v: "NewTokenValidator grant (pfas_config_of (ia_config a))
      (iam_config_of (ia_config a)) = Inr v"
    using assms(1) unfolding clientCredentials_def Let_def
    by (auto simp: exec_def quiet_def issues_def split: sum.splits if_splits)
  obtain x w1 where run: "run_state (ValidateToken (ia_tokenEnv a) v rq) w = (x, w1)"
    by (rule prod.exhaust)
  have q: "quiet t w1" using keeps_run [OF quiet_ValidateToken assms(1) run] .
  from assms(2) ref have rest: "issues t (w_resp (exec
      (case x of Inl e \<Rightarrow> do { respond (Error e); json_if_auth_error e }
       | Inr r \<Rightarrow> validated_client a rq r) w1))"
    using v run by (auto simp: clientCredentials_def Let_def exec_def split: if_splits)
  then obtain r where r: "x = Inr r" and iss: "issues t (w_resp (exec (validated_client a rq r) w1))"
  proof (cases x)
    case (Inl e)
    have "keeps (quiet t) (do { respond (Error e); json_if_auth_error e })"
      by (intro triples quiet) simp
    with Inl q rest show thesis unfolding keeps_def quiet_def by auto
  qed auto
  have "tv_Valid r"
    using iss q quiet_respond [of "StatusCode 401" t]
    by (auto simp: validated_client_def keeps_def quiet_def split: if_splits)
  with v run r that show thesis by blast
qed

text \<open>
  C4: the client-credentials grant issues a token to a client that has shown its secret only: the header
  decodes to an identifier and a secret, the client is registered as a service client, it may use
  the grant, and the hash of the secret is among its secrets.
\<close>

theorem client_token_needs_secret:
  assumes "issues t (w_resp (exec (clientCredentials a ''client_credentials'' rq) w))"
    and "\<not> issues t (w_resp w)"
  shows "\<exists>i secret c. getBasicAuthCredentials (rq_Header rq ''Authorization'') = Inr (i, secret) \<and>
     w_clients w i = Some c \<and> cl_isServiceClient c \<and> sha512_hex secret \<in> set (cl_Secrets c) \<and>
     (''client_credentials'' \<in> set (cl_GrantTypes c) \<or> ''basic'' \<in> set (cl_GrantTypes c)) \<and>
     (\<forall>s \<in> set_option (rq_FormOptional rq ''scope''). set (str_fields s) \<subseteq> set (cl_Scopes c))"
proof -
  have "quiet t w" using assms(2) by (simp add: quiet_def)
  then obtain r w1 where run: "run_state (Basic_ValidateToken rq) w = (Inr r, w1)"
    using clientCredentials_cases [OF _ assms(1)]
    by (metis Inr_inject NewTokenValidator_def ValidateToken.simps(1))
  then obtain i secret where cred: "getBasicAuthCredentials (rq_Header rq ''Authorization'') = Inr (i, secret)"
    by (auto simp: Basic_ValidateToken_def split: sum.splits)
  let ?cred = "\<lparr>cc_ClientID = i, cc_ClientSecret = Some (sha512_hex secret),
      cc_Scope = rq_FormOptional rq ''scope'', cc_GrantType = GRANT_TYPE_CLIENT_CREDENTIALS\<rparr>"
  from run cred have "ValidateCredentials (w_clients w) ?cred = Inr ()"
    by (auto simp: Basic_ValidateToken_def split: sum.splits)
  then obtain c where "w_clients w i = Some c" "credentials_ok c ?cred"
    by (auto simp: composite.validate_iff)
  with cred show ?thesis by (auto simp: credentials_ok_def)
qed

definition ex_basic_request :: request where
  "ex_basic_request = ex_request\<lparr>rq_Method := ''POST'', rq_Route := ''/token'',
     rq_Header := (\<lambda>k. if k = ''Authorization'' then ''Basic '' @ encode64 (''svc'' @ CHR '':'' # ''pw'') else []),
     rq_Form := (\<lambda>_. Inr ''client_credentials'')\<rparr>"

lemma ex_basic_request_sel [simp]:
  "rq_Header ex_basic_request ''Authorization'' = ''Basic '' @ encode64 (''svc'' @ CHR '':'' # ''pw'')"
  "rq_FormOptional ex_basic_request = (\<lambda>_. None)" "rq_Now ex_basic_request = 50 * 10 ^ 9"
  by (simp_all add: ex_basic_request_def ex_request_def)

abbreviation ex_service_token :: access_token_response where
  "ex_service_token \<equiv> \<lparr>at_AccessToken = ex_ulid 0, at_TokenType = ''bearer'', at_ExpiresIn = 3600\<rparr>"

lemma ex_basic_credentials:
  "getBasicAuthCredentials (''Basic '' @ encode64 (''svc'' @ CHR '':'' # ''pw'')) = Inr (''svc'', ''pw'')"
  by (rule getBasicAuthCredentials_encode) simp

lemma ex_basic_valid:
  "run_state (Basic_ValidateToken ex_basic_request) ex_world =
     (Inr \<lparr>tv_Valid = True, tv_ClientID = ''svc'', tv_ClientSecret = Some (sha512_hex ''pw''),
        tv_ClientName = None, tv_LegalEntity = None\<rparr>, ex_world)"
  by (simp only: Basic_ValidateToken_def ex_basic_request_sel ex_basic_credentials sum.case prod.case)
     (simp add: ValidateCredentials_def GetClient_def file_client_def ex_service_def
       grant_types_with_fallback_def missing_scope_def grantTypeSkipsClientSecret_def)

lemma ex_service_token_issued:
  "issues ex_service_token (w_resp (exec (clientCredentials ex_idauth ''client_credentials'' ex_basic_request) ex_world))"
  by (simp add: clientCredentials_def NewTokenValidator_def exec_def ex_basic_valid validated_client_def
      noop_GetUserData_def client_user_data_request_def issue_client_session_def ignore_result_def
      Cache_Create_def with_session_id_def run_cache_set Let_def audited_def issues_def
      access_token_def GetSecondsToLive_def time_sub_def wrap64_def whole_seconds_def)

theorem client_token_needs_secret_witness:
  "\<exists>i secret c. getBasicAuthCredentials (rq_Header ex_basic_request ''Authorization'') = Inr (i, secret) \<and>
     w_clients ex_world i = Some c \<and> sha512_hex secret \<in> set (cl_Secrets c)"
  using client_token_needs_secret [OF ex_service_token_issued]
  by (fastforce simp: issues_def)

text \<open>
  A grant type the server does not know, or one that is switched off, gets no token.
\<close>

theorem unknown_grant_gets_no_token:
  assumes "rq_Form rq ''grant_type'' = Inr grant" and "grant \<noteq> ''authorization_code''"
    and "grant = ''pfas'' \<longrightarrow> \<not> cf_UsesPfasGrant (ia_config a)"
    and "grant = ''iam'' \<longrightarrow> \<not> cf_UsesIAMGrant (ia_config a)"
    and "grant \<notin> {''basic'', ''client_credentials''}" and "\<not> issues t (w_resp w)"
  shows "\<not> issues t (w_resp (exec (token a rq) w))"
proof
  assume "issues t (w_resp (exec (token a rq) w))"
  with assms(1,2) have iss: "issues t (w_resp (exec (clientCredentials a grant rq) w))"
    by (simp add: token_def split: if_splits)
  from assms(6) have q: "quiet t w" by (simp add: quiet_def)
  have "\<not> issues t (w_resp (exec (refuse n c m) w))" for n c m
    using quiet_refuse q by (meson keepsD quiet_def)
  with iss assms(3,4) have "grant \<notin> {''pfas'', ''iam''}"
    by (auto simp: clientCredentials_disabled)
  with assms(5) have "NewTokenValidator grant p i = Inr v \<Longrightarrow> v = NoopTokenValidator" for p i v
    by (auto simp: NewTokenValidator_def)
  with clientCredentials_cases [OF q iss] show False
    by (metis Noop_ValidateToken_def Pair_inject ValidateToken.simps(4) run_state_return sum.inject(2)
        token_validation_result.select_convs(1))
qed

theorem unknown_grant_gets_no_token_witness:
  "\<not> issues ex_service_token (w_resp (exec (token ex_idauth
     (ex_basic_request\<lparr>rq_Form := (\<lambda>_. Inr ''password'')\<rparr>)) ex_world))"
  by (rule unknown_grant_gets_no_token [of _ "''password''"]) (simp_all add: issues_def)



text \<open>
  C15: the IAM grant accepts a token only if the issuer's verifier does, inside the time window of its
  claims, and for a registered service client that lists the grant.
\<close>

theorem iam_token_accepted:
  assumes "run_state (IAM_ValidateToken env cfg rq) w = (Inr r, w')"
  shows "\<exists>claims c. te_Verify env cfg (parseBearerToken (rq_Header rq ''Authorization'')) = Inr (Inr claims) \<and>
     tv_ClientID r = ic_ClientID claims \<and> w_clients w (ic_ClientID claims) = Some c \<and>
     cl_isServiceClient c \<and> ''iam'' \<in> set (cl_GrantTypes c) \<and>
     rq_Now rq div 10 ^ 9 < ic_ExpiresAt claims \<and>
     (ic_NotBefore claims = 0 \<or> ic_NotBefore claims \<le> rq_Now rq div 10 ^ 9) \<and>
     (ic_IssuedAt claims = 0 \<or> ic_IssuedAt claims \<le> rq_Now rq div 10 ^ 9)"
proof -
  let ?tok = "parseBearerToken (rq_Header rq ''Authorization'')"
  have run: "run_state (IAM_validateToken env cfg (rq_Now rq) ?tok) w = (Inr r, w')"
    using assms by (auto simp: IAM_ValidateToken_def Let_def split: if_splits)
  then obtain claims where claims: "te_Verify env cfg ?tok = Inr (Inr claims)"
    by (auto simp: IAM_validateToken_def split: sum.splits)
  with run have ok: "validateIAMTokenClaims claims (rq_Now rq) = Inr ()"
    and v: "ValidateCredentials (w_clients w) \<lparr>cc_ClientID = ic_ClientID claims, cc_ClientSecret = None,
       cc_Scope = None, cc_GrantType = GRANT_TYPE_IAM\<rparr> = Inr ()"
    and r: "tv_ClientID r = ic_ClientID claims"
    by (auto simp: IAM_validateToken_def split: sum.splits)
  from v obtain c where "w_clients w (ic_ClientID claims) = Some c" "credentials_ok c
      \<lparr>cc_ClientID = ic_ClientID claims, cc_ClientSecret = None, cc_Scope = None, cc_GrantType = GRANT_TYPE_IAM\<rparr>"
    by (auto simp: composite.validate_iff)
  with claims ok r show ?thesis by (auto simp: validateIAMTokenClaims_ok credentials_ok_def)
qed

definition ex_bearer_request :: "string \<Rightarrow> request" where
  "ex_bearer_request tok = ex_request\<lparr>rq_Header := (\<lambda>k. if k = ''Authorization'' then ''bearer '' @ tok else [])\<rparr>"

lemma ex_bearer_token: "parseBearerToken (''bearer '' @ ''jwt'') = ''jwt''"
  by code_simp

lemma ex_iam_run:
  "fst (run_state (IAM_ValidateToken ex_token_env iam (ex_bearer_request ''jwt'')) ex_world) =
     Inr \<lparr>tv_Valid = True, tv_ClientID = ''svc'', tv_ClientSecret = None, tv_ClientName = None,
       tv_LegalEntity = None\<rparr>"
proof -
  have "trim_space ''svc'' = ''svc''" by code_simp
  then show ?thesis
    using ex_bearer_token
    by (simp add: IAM_ValidateToken_def IAM_validateToken_def ex_bearer_request_def ex_token_env_def
        ex_request_def validateIAMTokenClaims_def Let_def ValidateCredentials_def GetClient_def
        file_client_def ex_service_def grant_types_with_fallback_def missing_scope_def
        grantTypeSkipsClientSecret_def)
qed

theorem iam_token_accepted_witness:
  "\<exists>c. w_clients ex_world ''svc'' = Some c \<and> ''iam'' \<in> set (cl_GrantTypes c)"
  using iam_token_accepted [of ex_token_env "\<lparr>im_Issuer = [], im_JWKSURL = []\<rparr>" "ex_bearer_request ''jwt''" ex_world
      _ "exec (IAM_ValidateToken ex_token_env \<lparr>im_Issuer = [], im_JWKSURL = []\<rparr> (ex_bearer_request ''jwt'')) ex_world"]
    ex_iam_run [of "\<lparr>im_Issuer = [], im_JWKSURL = []\<rparr>"]
  by (fastforce simp: exec_def prod_eq_iff)


definition ex_pfas_env :: token_env where
  "ex_pfas_env = \<lparr>te_SetRequestURL = (\<lambda>_ _. None), te_HTTP = (\<lambda>_. Inr \<lparr>hp_StatusCode = 200, hp_Body = []\<rparr>),
     te_JSON = (\<lambda>_. Inr \<lparr>ir_Active = ''true'', ir_Scope = [], ir_ClientID = [], ir_Username = ''u'',
       ir_TokenType = [], ir_ExpiresIn = 0, ir_IssuedAt = 0, ir_NotBefore = 0, ir_Subject = [],
       ir_Audience = ''urn:svc'', ir_Issuer = [], ir_JwtId = [], ir_PrimarySid = [], ir_AuthTime = 0,
       ir_LegalEntity = [], ir_NameIdFormat = [], ir_AuthMethod = []\<rparr>), te_Verify = (\<lambda>_ _. Inl (ExtError []))\<rparr>"

definition ex_pfas :: pfas_config where
  "ex_pfas = \<lparr>pf_IntrospectionURL = ''https://pfas.example/introspect'', pf_IntrospectionClientId = ''i'',
     pf_IntrospectionClientSecret = ''s''\<rparr>"

lemma ex_pfas_run:
  "\<exists>r. fst (run_state (Pfas_ValidateToken ex_pfas_env ex_pfas (ex_bearer_request ''jwt'')) ex_world) = Inr r"
proof -
  have "url_parse ''https://pfas.example/introspect'' \<noteq> None" by code_simp
  moreover have "last (split_on (CHR '':'') ''urn:svc'') = ''svc''" by code_simp
  ultimately show ?thesis
    using ex_bearer_token
    by (auto simp: Pfas_ValidateToken_def introspectToken_def ex_bearer_request_def ex_pfas_env_def
        ex_pfas_def ex_request_def Let_def ValidateCredentials_def GetClient_def
        file_client_def ex_service_def grant_types_with_fallback_def missing_scope_def
        grantTypeSkipsClientSecret_def split: option.splits)
qed


end
