(* ===== verification/LoginProps.thy ===== *)
theory LoginProps
  imports Examples
begin

text \<open>
  Properties of the browser flow: the correlation, the providers, the session a login creates and the
  redirects.
\<close>

subsection \<open>The correlation\<close>

text \<open>
  C17: a new \<open>/authorize\<close> starts from nothing: whatever the cookie points to, an abandoned flow of the
  same client included, the correlation that is stored and returned is the one of the new request, with
  no session, error, nonce, state, PKCE value or redirect of the old one.
\<close>

theorem restarted_flow_keeps_nothing:
  assumes "run_state (Correlation_Set rq (Some c)) w = (Inr cor, w')" and "c_ID c = []"
  shows "cor = new_correlation c \<and>
     (\<exists>key. w_cor w' = (w_cor w)(key \<mapsto> new_correlation c) \<and>
            w_resp w' = w_resp w @ [SetCookie (correlation_cookie rq key False)])"
  using Correlation_Set_ok [OF assms(1)] Correlation_Set_restart [OF assms] by metis

definition ex_cookie_request :: "string \<Rightarrow> request" where
  "ex_cookie_request k = ex_request\<lparr>rq_Cookie := Some (Inr k)\<rparr>"

definition ex_login_world :: "unit world" where
  "ex_login_world = ex_world\<lparr>w_cor := Map.empty(''k'' \<mapsto> ex_correlation)\<rparr>"

lemma ex_login_world_sel [simp]:
  "w_cor ex_login_world = Map.empty(''k'' \<mapsto> ex_correlation)" "w_faults ex_login_world = (\<lambda>_. None)"
  "w_tick ex_login_world = 0" "w_ott ex_login_world = Map.empty" "w_ulid ex_login_world = 0"
  "w_ulids ex_login_world = ex_ulid" "w_ses ex_login_world = Map.empty" "w_resp ex_login_world = []"
  "w_session ex_login_world = None" "w_signout ex_login_world = (\<lambda>_. [])"
  "w_clients ex_login_world = Map.empty(''app'' \<mapsto> ex_app, ''svc'' \<mapsto> file_client ex_service)"
  by (simp_all add: ex_login_world_def)

lemma ex_cookie_request_sel [simp]:
  "rq_Cookie (ex_cookie_request k) = Some (Inr k)" "rq_IP (ex_cookie_request k) = ''10.0.0.1''"
  "rq_Now (ex_cookie_request k) = 50 * 10 ^ 9"
  by (simp_all add: ex_cookie_request_def ex_request_def)

lemma run_Set_known:
  assumes "rq_Cookie rq = Some (Inr k)" "w_cor w k = Some old" "c_ClientID c = c_ClientID old"
    and "\<forall>n. w_faults w n = None"
  shows "run_state (Correlation_Set rq (Some c)) w = (Inr (merge_correlation old c),
     w\<lparr>w_tick := Suc (Suc (w_tick w)), w_cor := (w_cor w)(k \<mapsto> merge_correlation old c),
       w_resp := w_resp w @ [SetCookie (correlation_cookie rq k False)]\<rparr>)"
  using assms
  by (simp add: Correlation_Set_def getFromCookie_def setToCookie_def run_cache_get run_cache_set Let_def)

theorem restarted_flow_keeps_nothing_witness:
  "fst (run_state (Correlation_Set (ex_cookie_request ''k'') (Some (ex_correlation\<lparr>c_ID := [], c_State := Some ''new''\<rparr>)))
     ex_login_world) = Inr (new_correlation (ex_correlation\<lparr>c_ID := [], c_State := Some ''new''\<rparr>))"
proof -
  let ?c = "ex_correlation\<lparr>c_ID := [], c_State := Some ''new''\<rparr>"
  note run = run_Set_known [of "ex_cookie_request ''k''" "''k''" ex_login_world ex_correlation ?c, simplified]
  show ?thesis
    using restarted_flow_keeps_nothing [of "ex_cookie_request ''k''" ?c ex_login_world, OF run] run by simp
qed

text \<open>
  The update of a running flow stores the session identifier and the error code only. The time of
  the login and the terms-of-service target that the caller has put into its copy are not stored: the
  stored correlation keeps its own.
\<close>

theorem update_stores_id_and_error_only:
  assumes "rq_Cookie rq = Some (Inr k)" and "w_cor w k = Some old" and "c_ClientID c = c_ClientID old"
    and "c_ID c \<noteq> []" and "\<forall>n. w_faults w n = None"
    and "run_state (Correlation_Set rq (Some c)) w = (r, w')"
  shows "w_cor w' k = Some (old\<lparr>c_ID := c_ID c, c_ErrorCode := c_ErrorCode c\<rparr>)"
  using assms(6) unfolding run_Set_known [OF assms(1-3,5)]
  by (auto simp: merge_correlation_def update_correlation_def assms(4))

theorem update_stores_id_and_error_only_witness:
  "\<exists>stored. w_cor (exec (Correlation_Set (ex_cookie_request ''k'')
      (Some (ex_correlation\<lparr>c_TOSTargetURI := Some ''https://app.example/terms-of-service''\<rparr>)))
      ex_login_world) ''k'' = Some stored \<and> c_TOSTargetURI stored = None"
  using update_stores_id_and_error_only [of "ex_cookie_request ''k''" "''k''" ex_login_world ex_correlation
      "ex_correlation\<lparr>c_TOSTargetURI := Some ''https://app.example/terms-of-service''\<rparr>"
      _ "exec (Correlation_Set (ex_cookie_request ''k'')
        (Some (ex_correlation\<lparr>c_TOSTargetURI := Some ''https://app.example/terms-of-service''\<rparr>))) ex_login_world"]
  by (fastforce simp: exec_def prod_eq_iff)

subsection \<open>\<open>authorize\<close>\<close>

lemma provider_Authorize_no_error:
  "run_state (provider_Authorize env p rq cor) w = (r, w') \<Longrightarrow> r \<noteq> Some (Inl e)"
  by (auto simp: provider_Authorize_def Oidc_Authorize_def VPM_Authorize_def nil_dereference_def Let_def
      split: auth_provider.splits option.splits sum.splits)

lemma authorize_after_set:
  assumes "\<forall>c. stored = Inr c \<longrightarrow> c_ID c = []"
  shows "w_ott (exec (case stored of
        Inl e \<Rightarrow> respond (Error e)
      | Inr correlation \<Rightarrow>
          if c_ID correlation \<noteq> [] then redirect_or_error a rq correlation
          else do {
            r \<leftarrow> provider_Authorize (ia_providerEnv a) provider rq correlation;
            (case r of
               Some (Inl _) \<Rightarrow> redirect_or_error a rq (correlation\<lparr>c_ErrorCode := AuthErrServer\<rparr>)
             | _ \<Rightarrow> skip)
          }) w) = w_ott w"
proof (cases stored)
  case (Inr cor)
  obtain r w3 where p: "run_state (provider_Authorize (ia_providerEnv a) provider rq cor) w = (r, w3)"
    by (rule prod.exhaust)
  have "same w_ott (provider_Authorize (ia_providerEnv a) provider rq cor)" by (intro triples; simp)
  from same_run [OF this p] provider_Authorize_no_error [OF p] Inr assms p show ?thesis
    by (auto simp: exec_def split: option.splits sum.splits)
qed (simp add: exec_def)

lemma bind_restart_same_ott:
  fixes f :: "go_error + correlation \<Rightarrow> ('db world, 'b) state"
  assumes "c_ID c = []" and "\<And>stored w. (\<forall>c. stored = Inr c \<longrightarrow> c_ID c = []) \<Longrightarrow> w_ott (exec (f stored) w) = w_ott w"
  shows "same w_ott (State_Monad.bind (Correlation_Set rq (Some c)) f)"
proof (rule sameI)
  fix w :: "'db world"
  obtain stored w2 where s: "run_state (Correlation_Set rq (Some c)) w = (stored, w2)"
    by (rule prod.exhaust)
  have "same w_ott (Correlation_Set rq (Some c))" by (intro triples; simp)
  from same_run [OF this s] have "w_ott w2 = w_ott w" .
  moreover have "\<forall>cor. stored = Inr cor \<longrightarrow> c_ID cor = []"
    using Correlation_Set_restart [of rq c w] s assms(1) by fastforce
  ultimately show "w_ott (exec (State_Monad.bind (Correlation_Set rq (Some c)) f) w) = w_ott w"
    using assms(2) [of stored w2] s by (simp add: exec_def)
qed


subsection \<open>Sessions\<close>

text \<open>
  C19: the session a login creates is authorized exactly when the terms are accepted, where the server
  asks for them, and the user has one role that can be used, where the server asks for a role; that
  role is then the role of the session. Without the terms the state is \<open>req_agreement\<close>, without the
  role it is \<open>req_role\<close>.
\<close>

theorem login_session_state:
  "let s = login_session a rq sess t u;
       terms = (if cf_AuthorizerRequiresTOS (ia_config a) then ud_IsTOSAccepted u else True);
       needs_role = cf_SessionRequiresRole (ia_config a);
       one_role = (\<exists>r. ud_Roles u = [r] \<and> usable_role r);
       role = (if needs_role then one_role else True) in
   (s_State s = SessionStateAuthorized) = (terms \<and> role) \<and>
   (s_State s = SessionStateRequireAgreement) = (\<not> terms) \<and>
   (s_State s = SessionStateRequireRole) = (terms \<and> \<not> role) \<and>
   s_Role s = (if terms \<and> needs_role \<and> one_role then Some (hd (ud_Roles u)) else None)"
  by (auto simp: Let_def login_session_def createSessionFromUserData_def state_for_roles_def
      role_for_login_def single_role_def getRoleByRelationID_def split: list.splits)

text \<open>
  C35: accepting the terms gives a user whose only role is blocked an authorized session, without a
  role, where a login of the same user gives a session that still has to choose one.
\<close>

theorem terms_authorize_blocked_user:
  assumes "cf_SessionRequiresRole (ia_config a)" and "ud_Roles u = [r]" and "\<not> usable_role r"
    and "ud_IsTOSAccepted u" and "w_session w = Some cur" and "s_ID cur \<noteq> []"
    and "\<forall>n. w_faults w n = None" and "ia_sessionStore a = CacheSessionStore"
  shows "\<exists>s. w_ses (exec (update_current_session a rq u) w) (s_ID cur) = Some s \<and>
     s_State s = SessionStateAuthorized \<and> s_Role s = None \<and>
     s_State (login_session a rq sess t u) = SessionStateRequireRole"
  using assms
  by (simp add: update_current_session_def exec_def Cache_Update_def run_cache_set Let_def accept_terms_def
      refresh_session_def state_after_terms_def role_for_login_def login_session_def
      createSessionFromUserData_def state_for_roles_def)

definition ex_blocked_role :: role_entity where
  "ex_blocked_role = \<lparr>re_ID = ''1'', re_UserRoleID = ''11'', re_Organization = None, re_Code = ''ADM'',
     re_Name = ''Admin'', re_ShortName = [], re_Description = [], re_Blocked = True, re_DataScopes = []\<rparr>"

definition ex_user :: "role_entity list \<Rightarrow> user_data" where
  "ex_user roles = \<lparr>ud_UserID = ''7'', ud_ClientID = [], ud_IsServiceClient = False, ud_PersonCode = ''p'',
     ud_FirstName = ''Jane'', ud_LastName = ''Doe'', ud_Email = [], ud_PhoneNumber = [],
     ud_IsTOSAccepted = True, ud_Roles = roles, ud_Rights = []\<rparr>"

definition ex_role_idauth :: "unit idauth" where
  "ex_role_idauth = ex_idauth\<lparr>ia_config := ex_config\<lparr>cf_SessionRequiresRole := True\<rparr>\<rparr>"

definition ex_session :: session where
  "ex_session = session_of_user ''sid'' SessionStateAuthorized None (40 * 10 ^ 9) None (ex_user [])"

definition ex_session_world :: "unit world" where
  "ex_session_world = ex_world\<lparr>w_ses := Map.empty(''sid'' \<mapsto> ex_session), w_session := Some ex_session\<rparr>"

lemma ex_session_world_sel [simp]:
  "w_session ex_session_world = Some ex_session" "w_faults ex_session_world = (\<lambda>_. None)"
  "w_ses ex_session_world = Map.empty(''sid'' \<mapsto> ex_session)" "s_ID ex_session = ''sid''"
  by (simp_all add: ex_session_world_def ex_session_def)

theorem terms_authorize_blocked_user_witness:
  "\<exists>s. w_ses (exec (update_current_session ex_role_idauth ex_request (ex_user [ex_blocked_role]))
       ex_session_world) ''sid'' = Some s \<and> s_State s = SessionStateAuthorized \<and> s_Role s = None"
  using terms_authorize_blocked_user [of ex_role_idauth "ex_user [ex_blocked_role]" ex_blocked_role
      ex_session_world ex_session ex_request]
  by (auto simp: ex_role_idauth_def ex_user_def ex_blocked_role_def usable_role_def simp del: One_nat_def)

lemma bind_then_same:
  "(\<And>x. same g (f x)) \<Longrightarrow> g (exec (State_Monad.bind m f) w) = g (exec m w)"
  by (auto simp: exec_def same_def split: prod.splits)

lemma keeps_of_same: "same g m \<Longrightarrow> keeps (\<lambda>w. P (g w)) m"
  by (simp add: keeps_def same_def)

lemma login_session_created [simp]:
  "login_session a rq (c\<lparr>c_SessionCreated := x\<rparr>) t u = login_session a rq c t u"
  by (simp add: login_session_def createSessionFromUserData_def)

lemma login_session_ID [simp]: "s_ID (login_session a rq c t u) = c_ID c"
  by (simp add: login_session_def createSessionFromUserData_def)

lemma login_user_ses:
  assumes "ia_sessionStore a = CacheSessionStore" and "c_ID c \<noteq> []"
  shows "keeps (\<lambda>w. w_ses w \<in> {old, old(c_ID c \<mapsto> login_session a rq c t u), old(c_ID c := None)})
           (login_user a rq c t u)"
proof -
  let ?I = "\<lambda>w. w_ses w \<in> {old, old(c_ID c \<mapsto> login_session a rq c t u), old(c_ID c := None)}"
  let ?s = "login_session a rq c t u"
  have create: "keeps ?I (st_Create (ia_sessionStore a) ?s)"
    using assms by (auto simp: keeps_def exec_def Cache_Create_def with_session_id_def run_cache_set
        Let_def split: option.splits)
  have delete: "keeps ?I (st_Delete (ia_sessionStore a) (c_ID c))"
    using assms by (auto simp: keeps_def exec_def Cache_Delete_def run_cache_delete Let_def
        split: option.splits)
  have set: "keeps ?I (Correlation_Set rq x)" for x
    by (intro keeps_of_same [where P = "\<lambda>m. m \<in> _"] triples; simp)
  have save: "keeps ?I (SaveEvent e ap rq ev)" for e ap ev
    by (intro keeps_of_same [where P = "\<lambda>m. m \<in> _"] triples; simp)
  have resp: "keeps ?I (respond op)" for op
    by (intro keeps_of_same [where P = "\<lambda>m. m \<in> _"] triples; simp)
  let ?c = "if \<not> c_ManagedByProvider c then c\<lparr>c_SessionCreated := CloneTimePtr (Some (rq_Now rq))\<rparr> else c"
  have c: "c_ID ?c = c_ID c" "login_session a rq ?c t u = ?s" by simp_all
  show ?thesis
    unfolding login_user_def store_tos_target_def finish_login_def audited_def Let_def
      login_session_ID c
    by (intro triples create delete set save resp)
qed

lemma redirect_ses: "same w_ses (redirect_or_error a rq sess)"
  by (intro triples; simp)

lemma callback_user_data_ses:
  assumes "ia_sessionStore a = CacheSessionStore" and "c_ID sess \<noteq> []"
    and "w_ses (exec (callback_user_data a rq p pid sess (Some t)) w) \<noteq> w_ses w"
  shows "\<exists>u. GetUserData (ia_authorizerEnv a) (ia_authorizer a) (user_data_request t) = Inr u \<and>
     w_ses (exec (callback_user_data a rq p pid sess (Some t)) w) \<in>
       {(w_ses w)(c_ID sess \<mapsto> login_session a rq sess t u), (w_ses w)(c_ID sess := None)}"
proof -
  let ?h = "handleUserData a rq (Some sess) t"
  have unmanaged: "\<not> c_ManagedByProvider sess"
    using assms(3) sameD [OF redirect_ses] by (fastforce simp: callback_user_data_def)
  have signout: "same w_ses (callback_signout a rq p pid c)" for c
    unfolding callback_signout_def GetSignoutURL_def by (intro triples redirect_ses; simp)
  have same: "w_ses (exec (callback_user_data a rq p pid sess (Some t)) w) = w_ses (exec ?h w)"
    unfolding callback_user_data_def if_not_P [OF unmanaged] option.case
    by (rule bind_then_same)
       (auto intro: triples redirect_ses signout split: option.splits sum.splits prod.splits)
  with assms(3) obtain u where u: "GetUserData (ia_authorizerEnv a) (ia_authorizer a) (user_data_request t) = Inr u"
    by (auto simp: handleUserData_def split: sum.splits)
  then have "w_ses (exec ?h w) = w_ses (exec (login_user a rq sess t u) w)"
    by (simp add: handleUserData_def bind_then_same same_return)
  with keepsD [OF login_user_ses [OF assms(1,2)], of w "w_ses w" rq t u] assms(3) same u
  show ?thesis by auto
qed

lemma callback_reaches_provider:
  assumes "w_ses (exec (callback a rq) w) \<noteq> w_ses w"
  obtains cor w1 p where "run_state (Correlation_Get rq) w = (Inr (Some cor), w1)" and "c_ID cor = []"
    and "GetProvider (ia_authProviders a) (rq_Param rq ''id'') = Inr p"
    and "exec (callback a rq) w = exec (callback_with_provider a rq p (rq_Param rq ''id'') cor) w1"
proof -
  let ?pid = "rq_Param rq ''id''"
  have "?pid \<noteq> []" and "\<not> rq_IsSignoutResponse rq"
    using assms by (auto simp: callback_def handleSignoutResponse_def exec_def Let_def split: if_splits)
  obtain found w1 where get: "run_state (Correlation_Get rq) w = (found, w1)" by (rule prod.exhaust)
  have "same w_ses (Correlation_Get rq)" by (intro triples; simp)
  then have w1: "w_ses w1 = w_ses w" using get same_run by metis
  have rest: "exec (callback a rq) w = exec (case found of
      Inl e \<Rightarrow> respond (Error e)
    | Inr None \<Rightarrow> respond (Error (ErrText ''no session''))
    | Inr (Some sess) \<Rightarrow>
        if c_ID sess \<noteq> [] then redirect_or_error a rq sess
        else (case GetProvider (ia_authProviders a) ?pid of
            Inl _ \<Rightarrow> do {
              redirect_or_error a rq (sess\<lparr>c_ErrorCode := AuthErrInvalidCallback\<rparr>);
              _ \<leftarrow> Correlation_Delete rq;
              skip
            }
          | Inr provider \<Rightarrow> callback_with_provider a rq provider ?pid sess)) w1"
    using \<open>?pid \<noteq> []\<close> \<open>\<not> rq_IsSignoutResponse rq\<close> get
    by (simp add: callback_def handleSignoutResponse_def exec_def Let_def)
  have del: "w_ses (exec (do { redirect_or_error a rq c; _ \<leftarrow> Correlation_Delete rq; skip }) w1) = w_ses w" for c
    unfolding w1 [symmetric] by (rule sameD) (intro triples; simp)
  have resp: "w_ses (exec (respond op) w1) = w_ses w" for op by (simp add: exec_def w1)
  have red: "w_ses (exec (redirect_or_error a rq c) w1) = w_ses w" for c
    unfolding w1 [symmetric] by (rule sameD [OF redirect_ses])
  obtain cor where found: "found = Inr (Some cor)"
    using assms rest resp by (cases found rule: sum.exhaust [case_names e r]) (auto split: option.splits)
  have new: "c_ID cor = []" using assms rest red found by (auto split: if_splits)
  obtain p where p: "GetProvider (ia_authProviders a) ?pid = Inr p"
    using assms rest del found new by (cases "GetProvider (ia_authProviders a) ?pid") auto
  show thesis using that get found new p rest by simp
qed

lemma callback_with_provider_ses:
  assumes "ia_sessionStore a = CacheSessionStore" and "w_ulids w (w_ulid w) \<noteq> []"
    and "w_ses (exec (callback_with_provider a rq p pid cor) w) \<noteq> w_ses w"
    and sess: "sess = cor\<lparr>c_ID := w_ulids w (w_ulid w)\<rparr>"
  shows "\<exists>t u. fst (run_state (provider_Callback (ia_providerEnv a) p rq sess) (w\<lparr>w_ulid := Suc (w_ulid w)\<rparr>))
       = Inr (Some t) \<and>
     GetUserData (ia_authorizerEnv a) (ia_authorizer a) (user_data_request t) = Inr u \<and>
     w_ses (exec (callback_with_provider a rq p pid cor) w) \<in>
       {(w_ses w)(c_ID sess \<mapsto> login_session a rq sess t u), (w_ses w)(c_ID sess := None)}"
proof -
  let ?w2 = "w\<lparr>w_ulid := Suc (w_ulid w)\<rparr>"
  have red: "w_ses (exec (redirect_or_error a rq c) v) = w_ses v" for c v by (rule sameD [OF redirect_ses])
  have noerr: "rq_QueryOptional rq ''error'' = None"
    using assms(3) red by (cases "rq_QueryOptional rq ''error''") (auto simp: callback_with_provider_def)
  obtain r w3 where cb: "run_state (provider_Callback (ia_providerEnv a) p rq sess) ?w2 = (r, w3)"
    by (rule prod.exhaust)
  have "same w_ses (provider_Callback (ia_providerEnv a) p rq sess)" by (intro triples; simp)
  from same_run [OF this cb] have w3: "w_ses w3 = w_ses w" by simp
  have after: "exec (callback_with_provider a rq p pid cor) w = exec (case r of
      Inl e \<Rightarrow> redirect_or_error a rq (sess\<lparr>c_ErrorCode := error_code_or AuthErrInvalidCallback e\<rparr>)
    | Inr authToken \<Rightarrow> callback_user_data a rq p pid sess authToken) w3"
    unfolding sess using noerr cb [unfolded sess] by (simp add: callback_with_provider_def exec_def Let_def)
  have "same w_ses (callback_user_data a rq p pid sess None)"
    unfolding callback_user_data_def by (simp; intro conjI impI triples redirect_ses; simp)
  then have none: "w_ses (exec (callback_user_data a rq p pid sess None) w3) = w_ses w"
    using w3 by (simp add: same_def)
  obtain t where r: "r = Inr (Some t)"
  proof (cases r)
    case (Inl e)
    with assms(3) after red w3 show ?thesis by simp
  next
    case (Inr x)
    with assms(3) after none that show ?thesis by (cases x) auto
  qed
  have e: "exec (callback_with_provider a rq p pid cor) w = exec (callback_user_data a rq p pid sess (Some t)) w3"
    using after r by simp
  have "c_ID sess \<noteq> []" using assms(2) sess by simp
  from callback_user_data_ses [OF assms(1) this, of rq p pid t w3] assms(3) cb r show ?thesis
    unfolding e w3 by (metis fst_conv)
qed

text \<open>
  C5: \<open>callback\<close> changes the session store only for a user who has come through the provider: the
  provider has accepted the request, the authorizer has answered for the person the provider named,
  and the one entry that may have changed is that of the new session.
\<close>

theorem callback_sessions_are_authenticated:
  assumes "ia_sessionStore a = CacheSessionStore" and "\<forall>n. w_ulids w n \<noteq> []"
    and "w_ses (exec (callback a rq) w) \<noteq> w_ses w"
  shows "\<exists>p t u cor sess w1. run_state (Correlation_Get rq) w = (Inr (Some cor), w1) \<and> c_ID cor = [] \<and>
     sess = cor\<lparr>c_ID := w_ulids w (w_ulid w)\<rparr> \<and>
     GetProvider (ia_authProviders a) (rq_Param rq ''id'') = Inr p \<and>
     fst (run_state (provider_Callback (ia_providerEnv a) p rq sess)
       (w1\<lparr>w_ulid := Suc (w_ulid w1)\<rparr>)) = Inr (Some t) \<and>
     GetUserData (ia_authorizerEnv a) (ia_authorizer a) (user_data_request t) = Inr u \<and>
     w_ses (exec (callback a rq) w) \<in>
       {(w_ses w)(c_ID sess \<mapsto> login_session a rq sess t u), (w_ses w)(c_ID sess := None)}"
proof -
  obtain cor w1 p where get: "run_state (Correlation_Get rq) w = (Inr (Some cor), w1)" and new: "c_ID cor = []"
    and p: "GetProvider (ia_authProviders a) (rq_Param rq ''id'') = Inr p"
    and e: "exec (callback a rq) w = exec (callback_with_provider a rq p (rq_Param rq ''id'') cor) w1"
    using callback_reaches_provider [OF assms(3)] .
  have "same w_ses (Correlation_Get rq)" "same w_ulids (Correlation_Get rq)"
    "same w_ulid (Correlation_Get rq)" by (intro triples; simp)+
  then have w1: "w_ses w1 = w_ses w" "w_ulids w1 = w_ulids w" "w_ulid w1 = w_ulid w"
    using get same_run by metis+
  from callback_with_provider_ses [OF assms(1) _ _ refl, of w1 rq p "rq_Param rq ''id''" cor] assms(2,3) e w1
  obtain t u where "fst (run_state (provider_Callback (ia_providerEnv a) p rq (cor\<lparr>c_ID := w_ulids w (w_ulid w)\<rparr>))
       (w1\<lparr>w_ulid := Suc (w_ulid w1)\<rparr>)) = Inr (Some t)"
    "GetUserData (ia_authorizerEnv a) (ia_authorizer a) (user_data_request t) = Inr u"
    "w_ses (exec (callback a rq) w) \<in> (let sess = cor\<lparr>c_ID := w_ulids w (w_ulid w)\<rparr> in
       {(w_ses w)(c_ID sess \<mapsto> login_session a rq sess t u), (w_ses w)(c_ID sess := None)})"
    unfolding Let_def by metis
  with get new p show ?thesis unfolding Let_def by blast
qed

definition ex_callback_request :: request where
  "ex_callback_request = (ex_cookie_request ''k'')\<lparr>rq_Method := ''GET'', rq_Route := ''/callback/{id}'',
     rq_Param := (\<lambda>_. ''idp''), rq_Query := (\<lambda>_. Inr ''jwt'')\<rparr>"

definition ex_callback_world :: "unit world" where
  "ex_callback_world = ex_world\<lparr>w_cor := Map.empty(''k'' \<mapsto> ex_correlation\<lparr>c_ID := []\<rparr>)\<rparr>"

lemma ex_callback_request_sel [simp]:
  "rq_Param ex_callback_request k = ''idp''" "\<not> rq_IsSignoutResponse ex_callback_request"
  "rq_Cookie ex_callback_request = Some (Inr ''k'')" "rq_QueryOptional ex_callback_request k = None"
  "rq_Query ex_callback_request k = Inr ''jwt''" "rq_Now ex_callback_request = 50 * 10 ^ 9"
  by (simp_all add: ex_callback_request_def ex_cookie_request_def ex_request_def)

lemma ex_callback_world_sel [simp]:
  "w_cor ex_callback_world = Map.empty(''k'' \<mapsto> ex_correlation\<lparr>c_ID := []\<rparr>)"
  "w_faults ex_callback_world = (\<lambda>_. None)" "w_tick ex_callback_world = 0"
  "w_ulids ex_callback_world = ex_ulid" "w_ulid ex_callback_world = 0" "w_ses ex_callback_world = Map.empty"
  by (simp_all add: ex_callback_world_def)

lemma ex_get_provider: "GetProvider (Map.empty(''idp'' \<mapsto> OidcAuthProvider ex_oidc)) ''idp'' = Inr (OidcAuthProvider ex_oidc)"
  by code_simp

lemma ex_oidc_callback:
  "c_Nonce c = Some ''n'' \<Longrightarrow>
   run_state (provider_Callback ex_provider_env (OidcAuthProvider ex_oidc) ex_callback_request c) w
    = (Inr (Some (oidc_auth_request ex_provider_config ''jwt'' ex_claims)), w)"
  by (simp add: provider_Callback_def Oidc_Callback_def ex_provider_env_def ex_oidc_def ex_provider_config_def
      oidc_claims_request_def)

lemma ex_callback_signout:
  "w_ses (snd (run_state (callback_signout ex_idauth ex_callback_request (OidcAuthProvider ex_oidc) i c) w)) = w_ses w"
  using sameD [OF redirect_ses, of ex_idauth ex_callback_request c w]
  by (simp add: callback_signout_def RequiresSignoutCallback_def provider_config_def ex_oidc_def
      ex_provider_config_def exec_def)

lemma ex_callback_ses:
  "w_ses (exec (callback ex_idauth ex_callback_request) ex_callback_world) (ex_ulid 0) \<noteq> None"
  by (simp add: callback_def exec_def Let_def handleSignoutResponse_def Correlation_Get_def getFromCookie_def
      run_cache_get ex_get_provider callback_with_provider_def ex_oidc_callback callback_user_data_def
      handleUserData_def noop_GetUserData_def,
     simp add: login_user_def Correlation_Set_def getFromCookie_def run_cache_get run_cache_set
      setToCookie_def Let_def merge_correlation_def Cache_Create_def with_session_id_def,
     simp add: store_tos_target_def finish_login_def audited_def,
     simp add: ex_callback_signout)

theorem callback_sessions_are_authenticated_witness:
  "\<exists>p t u cor sess w1. run_state (Correlation_Get ex_callback_request) ex_callback_world = (Inr (Some cor), w1) \<and>
     GetProvider (ia_authProviders ex_idauth) ''idp'' = Inr p \<and> sess = cor\<lparr>c_ID := ex_ulid 0\<rparr> \<and>
     fst (run_state (provider_Callback ex_provider_env p ex_callback_request sess)
       (w1\<lparr>w_ulid := Suc (w_ulid w1)\<rparr>)) = Inr (Some t) \<and>
     GetUserData (ia_authorizerEnv ex_idauth) NoopAuthorizer (user_data_request t) = Inr u"
proof -
  have "w_ses (exec (callback ex_idauth ex_callback_request) ex_callback_world) \<noteq> w_ses ex_callback_world"
    using ex_callback_ses by auto
  from callback_sessions_are_authenticated [OF _ _ this] show ?thesis
    by (simp del: fun_upd_apply) blast
qed

end
