(* ===== verification/SessionProps.thy ===== *)
theory SessionProps
  imports LoginProps
begin

text \<open>
  Properties of the session endpoints and of the middlewares in front of them, for the cache store.
\<close>

subsection \<open>Requests with a bearer token\<close>

text \<open>The token \<open>AuthorizeBearer\<close> looks up, if there is one.\<close>

definition bearer_token :: "request \<Rightarrow> string option" where
  "bearer_token rq =
     (let tok = rq_Header rq ''Authorization'' in
      if length tok = 0 \<or> to_lower tok = ''bearer null'' \<or> \<not> has_prefix (to_lower tok) AuthorizationBearer
      then None else Some (trim_space (drop (length AuthorizationBearer) tok)))"

definition bearer_context :: "session \<Rightarrow> 'db world \<Rightarrow> 'db world" where
  "bearer_context s w = w\<lparr>w_tick := Suc (w_tick w), w_session := Some s, w_user := Some (ToClaims s)\<rparr>"

lemma bearer_context_sel [simp]:
  "w_session (bearer_context s w) = Some s" "w_ses (bearer_context s w) = w_ses w"
  "w_resp (bearer_context s w) = w_resp w" "w_faults (bearer_context s w) = w_faults w"
  "w_clients (bearer_context s w) = w_clients w" "w_ott (bearer_context s w) = w_ott w"
  "w_cor (bearer_context s w) = w_cor w" "w_tick (bearer_context s w) = Suc (w_tick w)"
  by (simp_all add: bearer_context_def)

lemma new_context_sel [simp]:
  "w_session (new_context w) = None" "w_ses (new_context w) = w_ses w" "w_resp (new_context w) = []"
  "w_faults (new_context w) = w_faults w" "w_clients (new_context w) = w_clients w"
  "w_ott (new_context w) = w_ott w" "w_cor (new_context w) = w_cor w" "w_tick (new_context w) = w_tick w"
  by (simp_all add: new_context_def)

lemma exec_AuthorizeBearer:
  assumes "ia_sessionStore a = CacheSessionStore" and "rq_Method rq \<noteq> ''OPTIONS''"
    and "w_faults w (w_tick w) = None"
  shows "exec (AuthorizeBearer a h rq) w =
    (case bearer_token rq of
       None \<Rightarrow> w\<lparr>w_resp := w_resp w @ [StatusCode 401]\<rparr>
     | Some k \<Rightarrow>
         (case w_ses w k of
            None \<Rightarrow> w\<lparr>w_tick := Suc (w_tick w), w_resp := w_resp w @
              [StatusCode 401, JSON (BAuthError (auth_error AuthErrNoSession ''Session not found''))]\<rparr>
          | Some s \<Rightarrow> exec (h rq) (bearer_context s w)))"
  using assms
  by (simp add: AuthorizeBearer_def bearer_token_def exec_def Let_def Cache_GetSessionByID_def
      run_cache_get bearer_context_def split: option.splits)

lemma exec_NoStore:
  "exec (NoStore h rq) w = exec (h rq) (w\<lparr>w_resp := w_resp w @ [SetHeader ''Cache-Control'' ''no-store'']\<rparr>)"
  by (simp add: NoStore_def exec_def)

lemma exec_RequireAuthorized:
  "exec (RequireAuthorized h rq) w =
    (case w_session w of
       None \<Rightarrow> exec (refuse 401 AuthErrNoSession ''Session not found'') w
     | Some s \<Rightarrow>
         if s_State s = SessionStateAuthorized then exec (h rq) w
         else exec (refuse 401 AuthErrInvalidToken ''Session not authorized'') w)"
  by (simp add: RequireAuthorized_def exec_def split: option.splits)

lemma exec_refuse: "exec (refuse n c m) w =
    w\<lparr>w_resp := w_resp w @ [StatusCode n, JSON (BAuthError (auth_error c m))]\<rparr>"
  by (simp add: exec_def)

text \<open>The session a request acts for, as the server's store has it.\<close>

definition session_of_request :: "request \<Rightarrow> 'db world \<Rightarrow> session option" where
  "session_of_request rq w = (case bearer_token rq of None \<Rightarrow> None | Some k \<Rightarrow> w_ses w k)"

lemma session_of_new_context [simp]: "session_of_request rq (new_context w) = session_of_request rq w"
  by (simp add: session_of_request_def split: option.splits)

lemma api_group_none:
  assumes "ia_sessionStore a = CacheSessionStore" and "rq_Method rq \<noteq> ''OPTIONS''"
    and "w_faults w (w_tick w) = None" and "session_of_request rq w = None"
  shows "w_ses (exec (api_group a h rq) w) = w_ses w"
    and "\<exists>ops. w_resp (exec (api_group a h rq) w) = w_resp w @ StatusCode 401 # ops"
  using assms
  by (auto simp: session_of_request_def api_group_def exec_AuthorizeBearer split: option.splits)

lemma api_group_some:
  assumes "ia_sessionStore a = CacheSessionStore" and "rq_Method rq \<noteq> ''OPTIONS''"
    and "w_faults w (w_tick w) = None" and "session_of_request rq w = Some s"
  shows "exec (api_group a h rq) w = exec (h rq) ((bearer_context s w)
         \<lparr>w_resp := w_resp w @ [SetHeader ''Cache-Control'' ''no-store'']\<rparr>)"
  using assms
  by (auto simp: session_of_request_def api_group_def exec_AuthorizeBearer exec_NoStore
      split: option.splits)

definition api_keys :: "(string \<times> string) set" where
  "api_keys = {(''GET'', ''/api/1.0/session''), (''DELETE'', ''/api/1.0/session''),
     (''PATCH'', ''/api/1.0/terms/accept''), (''GET'', ''/api/1.0/session/keep-alive''),
     (''GET'', ''/api/1.0/session/roles''), (''PATCH'', ''/api/1.0/session''),
     (''GET'', ''/api/1.0/config''), (''GET'', ''/api/1.0/auth/sessions''),
     (''DELETE'', ''/api/1.0/auth/sessions/{id}'')}"

definition secured_keys :: "(string \<times> string) set" where
  "secured_keys = {(''GET'', ''/api/1.0/config''), (''GET'', ''/api/1.0/auth/sessions''),
     (''DELETE'', ''/api/1.0/auth/sessions/{id}'')}"

lemma api_route: "key \<in> api_keys \<Longrightarrow> \<exists>h. map_of (routes a) key = Some (api_group a h)"
  unfolding api_keys_def by (elim insertE emptyE; simp add: routes_def tos_group_def secured_group_def; blast)

lemma secured_route: "key \<in> secured_keys \<Longrightarrow> \<exists>h. map_of (routes a) key = Some (secured_group a h)"
  unfolding secured_keys_def by (elim insertE emptyE; simp add: routes_def; blast)

lemma serve_api:
  assumes "(rq_Method rq, rq_Route rq) \<in> api_keys"
  obtains h where "serve a rq w = exec (api_group a h rq) (new_context w)" and "rq_Method rq \<noteq> ''OPTIONS''"
proof -
  obtain h where "map_of (routes a) (rq_Method rq, rq_Route rq) = Some (api_group a h)"
    using api_route [OF assms] by blast
  moreover have "rq_Method rq \<noteq> ''OPTIONS''" using assms by (auto simp: api_keys_def)
  ultimately show thesis using that by (simp add: serve_def)
qed

lemma serve_secured:
  assumes "(rq_Method rq, rq_Route rq) \<in> secured_keys"
  obtains h where "serve a rq w = exec (secured_group a h rq) (new_context w)" and "rq_Method rq \<noteq> ''OPTIONS''"
proof -
  obtain h where "map_of (routes a) (rq_Method rq, rq_Route rq) = Some (secured_group a h)"
    using secured_route [OF assms] by blast
  moreover have "rq_Method rq \<noteq> ''OPTIONS''" using assms by (auto simp: secured_keys_def)
  ultimately show thesis using that by (simp add: serve_def)
qed

subsection \<open>Who may call\<close>

text \<open>
  C6: no session, no service. On every route of the session API, a request whose bearer token is not
  the identifier of a stored session is answered with status 401 and changes no session, and on the
  secured routes so is one whose session is not authorized yet.
\<close>

theorem api_needs_session:
  assumes "ia_sessionStore a = CacheSessionStore" and "w_faults w (w_tick w) = None"
    and "(rq_Method rq, rq_Route rq) \<in> api_keys"
    and "session_of_request rq w = None \<or>
      (rq_Method rq, rq_Route rq) \<in> secured_keys \<and>
        \<not> IsAuthorized (session_of_request rq w)"
  shows "StatusCode 401 \<in> set (w_resp (serve a rq w)) \<and> w_ses (serve a rq w) = w_ses w"
proof (cases "session_of_request rq w")
  case None
  obtain h where h: "serve a rq w = exec (api_group a h rq) (new_context w)" "rq_Method rq \<noteq> ''OPTIONS''"
    using serve_api [OF assms(3)] .
  then show ?thesis
    using api_group_none [OF assms(1) h(2), of "new_context w" h] assms(2) None by force
next
  case (Some s)
  with assms(4) have sec: "(rq_Method rq, rq_Route rq) \<in> secured_keys"
    and s: "s_State s \<noteq> SessionStateAuthorized" by auto
  obtain h where h: "serve a rq w = exec (secured_group a h rq) (new_context w)" "rq_Method rq \<noteq> ''OPTIONS''"
    using serve_secured [OF sec] .
  with api_group_some [OF assms(1) h(2), of "new_context w" s "RequireAuthorized h"] assms(2) Some s
  show ?thesis
    by (simp add: secured_group_def exec_RequireAuthorized exec_refuse)
qed

definition ex_bearer_api :: "string \<Rightarrow> string \<Rightarrow> string \<Rightarrow> request" where
  "ex_bearer_api m r k = ex_request\<lparr>rq_Method := m, rq_Route := r,
     rq_Header := (\<lambda>h. if h = ''Authorization'' then ''Bearer '' @ k else [])\<rparr>"

lemma ex_bearer_api_sel [simp]:
  "rq_Method (ex_bearer_api m r k) = m" "rq_Route (ex_bearer_api m r k) = r"
  "rq_Now (ex_bearer_api m r k) = 50 * 10 ^ 9"
  "rq_Header (ex_bearer_api m r k) ''Authorization'' = ''Bearer '' @ k"
  by (simp_all add: ex_bearer_api_def ex_request_def)

lemma ex_api_token [simp]:
  "bearer_token (ex_bearer_api m r ''uu'') = Some ''uu''" "bearer_token (ex_bearer_api m r ''x'') = Some ''x''"
  by (simp_all add: bearer_token_def) code_simp+

definition ex_authorized :: session where
  "ex_authorized = (session_of_user ''uu'' SessionStateAuthorized None (40 * 10 ^ 9) None
     \<lparr>ud_UserID = ''7'', ud_ClientID = [], ud_IsServiceClient = False, ud_PersonCode = ''p'',
       ud_FirstName = ''Jane'', ud_LastName = ''Doe'', ud_Email = [], ud_PhoneNumber = [],
       ud_IsTOSAccepted = True, ud_Roles = [], ud_Rights = []\<rparr>)"

definition ex_authorized_world :: "unit world" where
  "ex_authorized_world = ex_world\<lparr>w_ses := Map.empty(''uu'' \<mapsto> ex_authorized), w_ulid := 2\<rparr>"

lemma ex_authorized_world_sel [simp]:
  "w_ses ex_authorized_world = Map.empty(''uu'' \<mapsto> ex_authorized)" "w_ulid ex_authorized_world = 2"
  "w_faults ex_authorized_world = (\<lambda>_. None)" "w_ulids ex_authorized_world = ex_ulid"
  "s_ID ex_authorized = ''uu''" "s_State ex_authorized = SessionStateAuthorized"
  "s_LastAccessed ex_authorized = Some (40 * 10 ^ 9)" "w_resp ex_authorized_world = []"
  by (simp_all add: ex_authorized_world_def ex_authorized_def)

theorem api_needs_session_witness:
  "StatusCode 401 \<in> set (w_resp (serve ex_idauth (ex_bearer_api ''GET'' ''/api/1.0/session'' ''x'') ex_authorized_world))"
  using api_needs_session [of ex_idauth ex_authorized_world "ex_bearer_api ''GET'' ''/api/1.0/session'' ''x''"]
  by (simp add: api_keys_def session_of_request_def)

subsection \<open>Logout\<close>

lemma deleteSession_ses:
  assumes "ia_sessionStore a = CacheSessionStore" and "w_session w = Some s"
    and "w_faults w (w_tick w) = None"
  shows "w_ses (exec (deleteSession a rq) w) = (w_ses w)(s_ID s := None)"
proof -
  let ?w = "w\<lparr>w_tick := Suc (w_tick w), w_ses := (w_ses w)(s_ID s := None)\<rparr>"
  let ?m = "audited a rq (Some s) logout_event (Inr ()) (\<lambda>err.
      (case err of
         Some e \<Rightarrow> do { respond (Error e); ret (Some ()) }
       | None \<Rightarrow>
           let logoutURL = providerLogoutURL a (Some s) in
           if logoutURL \<noteq> [] then do {
             respond (StatusCode 200); respond (Text logoutURL); ret (Some ())
           }
           else do { respond (StatusCode 204); ret (Some ()) }))"
  have "exec (deleteSession a rq) w = exec ?m ?w"
    using assms by (simp add: deleteSession_def exec_def Cache_Delete_def run_cache_delete Let_def)
  moreover have "same w_ses ?m" unfolding Let_def by (intro triples; simp)
  ultimately show ?thesis by (simp add: sameD)
qed

lemma serve_logout_ses:
  assumes "ia_sessionStore a = CacheSessionStore" and "\<forall>n. w_faults w n = None"
    and "rq_Method rq = ''DELETE''" and "rq_Route rq = ''/api/1.0/session''"
    and "session_of_request rq w = Some s"
  shows "w_ses (serve a rq w) = (w_ses w)(s_ID s := None)"
proof -
  let ?w = "(bearer_context s (new_context w))\<lparr>w_resp := [SetHeader ''Cache-Control'' ''no-store'']\<rparr>"
  have "serve a rq w = exec (api_group a (deleteSession_handler a) rq) (new_context w)"
    using assms(3,4) by (simp add: serve_def routes_def)
  then have "serve a rq w = exec (deleteSession_handler a rq) ?w"
    using api_group_some [OF assms(1), of rq "new_context w" s] assms(2,3,5) by simp
  then have "w_ses (serve a rq w) = w_ses (exec (deleteSession a rq) ?w)"
    by (simp add: deleteSession_handler_def ignore_result_def exec_def split_def)
  with deleteSession_ses [OF assms(1), of ?w s rq] assms(2) show ?thesis by simp
qed

text \<open>
  C3: logout is final. After the session of a bearer token has been deleted, the token is refused
  with status 401 on every route of the session API, in every state the server can reach from there:
  no request and no login ever stores a session under that identifier again.
\<close>

theorem logout_is_final:
  assumes "ia_sessionStore a = CacheSessionStore" and "\<forall>n. w_faults w n = None"
    and "rq_Method rq = ''DELETE''" and "rq_Route rq = ''/api/1.0/session''"
    and "bearer_token rq = Some k" and "w_ses w k = Some s"
    and "inj (w_ulids w)" and "k \<in> ott_issued w" and "\<forall>j x. w_ses w j = Some x \<longrightarrow> s_ID x = j"
    and "server_steps (\<lambda>a. ia_sessionStore a = CacheSessionStore) (serve a rq w) w2"
    and "ia_sessionStore a2 = CacheSessionStore" and "w_faults w2 (w_tick w2) = None"
    and "(rq_Method rq2, rq_Route rq2) \<in> api_keys" and "bearer_token rq2 = Some k"
  shows "StatusCode 401 \<in> set (w_resp (serve a2 rq2 w2))"
proof -
  have ses: "w_ses (serve a rq w) = (w_ses w)(k := None)"
    using serve_logout_ses [OF assms(1-4), of s] assms(5,6,9) by (auto simp: session_of_request_def)
  have "gone k (new_context (serve a rq w))"
    using ses assms(9) issued_cache.serve_keeps [of k w a rq] assms(1,7,8)
    by (auto simp: gone_def new_context_def issued_def ott_issued_def cached_id)
  then have "gone k (new_context w2)" by (rule gone_steps [OF assms(10)])
  then have "session_of_request rq2 w2 = None"
    using assms(14) by (cases "w_ses w2 k") (auto simp: gone_def session_of_request_def)
  with api_needs_session [OF assms(11-13)] show ?thesis by blast
qed

lemma ex_issued: "''uu'' \<in> ott_issued ex_authorized_world"
proof -
  have "ex_ulid 1 \<in> ott_issued ex_authorized_world" by (simp add: ott_issued_def)
  then show ?thesis by (simp add: ex_ulid_def eval_nat_numeral)
qed

lemma ex_session_of_request [simp]:
  "session_of_request (ex_bearer_api m r ''uu'') ex_authorized_world = Some ex_authorized"
  by (simp add: session_of_request_def)

lemma ex_logout_faults:
  "w_faults (serve ex_idauth (ex_bearer_api ''DELETE'' ''/api/1.0/session'' ''uu'') ex_authorized_world) = (\<lambda>_. None)"
proof -
  let ?rq = "ex_bearer_api ''DELETE'' ''/api/1.0/session'' ''uu''"
  have same: "same w_faults (deleteSession_handler ex_idauth ?rq)"
    unfolding deleteSession_handler_def deleteSession_def ex_idauth_sel cache_store_ops store_sel Let_def
    by (intro triples; simp)
  have "serve ex_idauth ?rq ex_authorized_world =
      exec (api_group ex_idauth (deleteSession_handler ex_idauth) ?rq) (new_context ex_authorized_world)"
    by (simp add: serve_def routes_def)
  then show ?thesis
    using api_group_some [of ex_idauth ?rq "new_context ex_authorized_world" ex_authorized] sameD [OF same]
    by simp
qed

theorem logout_is_final_witness:
  "StatusCode 401 \<in> set (w_resp (serve ex_idauth (ex_bearer_api ''GET'' ''/api/1.0/session'' ''uu'')
     (serve ex_idauth (ex_bearer_api ''DELETE'' ''/api/1.0/session'' ''uu'') ex_authorized_world)))"
  by (rule logout_is_final [of ex_idauth ex_authorized_world
        "ex_bearer_api ''DELETE'' ''/api/1.0/session'' ''uu''" "''uu''" ex_authorized])
     (simp_all add: ex_issued ex_logout_faults api_keys_def)

subsection \<open>Static tokens\<close>

definition static_keys :: "(string \<times> string) set" where
  "static_keys = {(''POST'', ''/webhooks/clients/reload''), (''POST'', ''/admin-api/1.0/sessions''),
     (''DELETE'', ''/admin-api/1.0/sessions/{id}'')}"

lemma static_route:
  "key \<in> static_keys \<Longrightarrow> \<exists>h. map_of (routes a) key = Some (AuthorizeStaticToken a h)"
  unfolding static_keys_def
  by (elim insertE emptyE; simp add: routes_def webhook_group_def admin_group_def; blast)

text \<open>
  C24: the webhook and the admin routes run only with the configured key: a request without it gets
  status 401 and changes nothing, and with no key configured every request is refused.
\<close>

theorem static_token_needed:
  assumes "(rq_Method rq, rq_Route rq) \<in> static_keys"
    and "rq_Header rq ''X-API-KEY'' \<noteq> cf_AuthorizerRestAPIKey (ia_config a) \<or>
         cf_AuthorizerRestAPIKey (ia_config a) = []"
  shows "serve a rq w = (new_context w)\<lparr>w_resp := [StatusCode 401]\<rparr>"
proof -
  obtain h where "map_of (routes a) (rq_Method rq, rq_Route rq) = Some (AuthorizeStaticToken a h)"
    using static_route [OF assms(1)] by blast
  with assms(2) show ?thesis
    by (auto simp: serve_def AuthorizeStaticToken_def Let_def exec_def)
qed

theorem static_token_needed_witness:
  "serve ex_idauth (ex_request\<lparr>rq_Method := ''POST'', rq_Route := ''/webhooks/clients/reload''\<rparr>) ex_world =
     (new_context ex_world)\<lparr>w_resp := [StatusCode 401]\<rparr>"
  by (rule static_token_needed) (simp_all add: static_keys_def ex_request_def)

subsection \<open>Lifetime\<close>

text \<open>
  C26: \<open>GetSecondsToLive\<close> for durations of less than 48 days: the result is at most the configured
  timeout, and it is negative, which is what the handlers take for expired, only a full second after
  the timeout has passed.
\<close>

theorem seconds_to_live_bounds:
  assumes "0 \<le> timeout" and "timeout < 2 ^ 22 * 10 ^ 9" and "0 \<le> now - la" and "now - la < 2 ^ 22 * 10 ^ 9"
  shows "GetSecondsToLive now timeout (Some la) \<le> timeout div 10 ^ 9 \<and>
     (GetSecondsToLive now timeout (Some la) < 0) = (timeout + 10 ^ 9 \<le> now - la)"
proof -
  have "time_sub now la = now - la" using assms by (simp add: time_sub_def)
  moreover have "wrap64 (timeout - (now - la)) = timeout - (now - la)"
    unfolding wrap64_def using assms by (subst mod_pos_pos_trivial) simp_all
  ultimately have e: "GetSecondsToLive now timeout (Some la) = whole_seconds (timeout - (now - la))"
    by (simp add: GetSecondsToLive_def)
  have neg: "- (x div 10 ^ 9) \<le> timeout div 10 ^ 9" if "0 \<le> x" for x :: int
    using that assms(1) pos_imp_zdiv_nonneg_iff [of "10 ^ 9" x] pos_imp_zdiv_nonneg_iff [of "10 ^ 9" timeout]
    by simp
  show ?thesis
    unfolding e whole_seconds_def using assms neg [of "now - la - timeout"]
    by (auto intro!: zdiv_mono1 simp: pos_imp_zdiv_pos_iff not_less)
qed

theorem seconds_to_live_bounds_witness:
  "GetSecondsToLive (3600 * 10 ^ 9 + 999999999) (3600 * 10 ^ 9) (Some 0) \<le> 3600 \<and>
   \<not> GetSecondsToLive (3600 * 10 ^ 9 + 999999999) (3600 * 10 ^ 9) (Some 0) < 0"
  using seconds_to_live_bounds [of "3600 * 10 ^ 9" "3600 * 10 ^ 9 + 999999999" 0] by simp

subsection \<open>Reading a session\<close>

lemma audited_some:
  assumes "\<And>e w. fst (run_state (cont e) w) \<noteq> None"
  shows "fst (run_state (audited a rq (Some s) ev result cont) w) \<noteq> None"
proof -
  obtain r w' where e: "run_state (SaveEvent (ia_auditEnv a) (ia_auditProvider a) rq
      \<lparr>av_Session = Some s, av_Events = [ev (is_ok result)]\<rparr>) w = (r, w')" by (rule prod.exhaust)
  then have "r \<noteq> None" using SaveEvent_session [OF _ e] by simp
  then obtain x where x: "r = Some x" by blast
  show ?thesis using assms e x by (cases result; cases x) (simp_all add: audited_def)
qed

lemma deleteSession_some:
  assumes "ia_sessionStore a = CacheSessionStore" and "w_session w = Some s"
  shows "fst (run_state (deleteSession a rq) w) \<noteq> None"
proof -
  obtain d w1 where d: "run_state (Cache_Delete (s_ID s)) w = (d, w1)" by (rule prod.exhaust)
  have "fst (run_state (audited a rq (Some s) logout_event d (\<lambda>err.
      (case err of
         Some e \<Rightarrow> do { respond (Error e); ret (Some ()) }
       | None \<Rightarrow>
           let logoutURL = providerLogoutURL a (Some s) in
           if logoutURL \<noteq> [] then do {
             respond (StatusCode 200); respond (Text logoutURL); ret (Some ())
           }
           else do { respond (StatusCode 204); ret (Some ()) }))) w1) \<noteq> None"
    by (rule audited_some) (simp add: Let_def split: option.splits)
  with assms d show ?thesis by (simp add: deleteSession_def)
qed

lemma json_session_expired:
  assumes "ia_sessionStore a = CacheSessionStore" and "w_session w = Some s" and "w_faults w (w_tick w) = None"
    and "s_State s \<noteq> SessionStateNone"
    and "GetSecondsToLive (rq_Now rq) (cf_SessionTimeout (ia_config a)) (s_LastAccessed s) < 0"
  shows "w_ses (exec (json_session a rq (Some s)) w) = (w_ses w)(s_ID s := None)"
    and "last (w_resp (exec (json_session a rq (Some s)) w)) = JSON (BSession inactive_response)"
proof -
  obtain r w1 where d: "run_state (deleteSession a rq) w = (r, w1)" by (rule prod.exhaust)
  then obtain x where "r = Some x" using deleteSession_some [OF assms(1,2), of rq] by auto
  with d assms(4,5) have "exec (json_session a rq (Some s)) w =
      w1\<lparr>w_resp := w_resp w1 @ [JSON (BSession inactive_response)]\<rparr>"
    by (simp add: json_session_def sessionToResponse_def exec_def Let_def)
  moreover have "w_ses w1 = (w_ses w)(s_ID s := None)"
    using deleteSession_ses [OF assms(1-3), of rq] d by (simp add: exec_def)
  ultimately show "w_ses (exec (json_session a rq (Some s)) w) = (w_ses w)(s_ID s := None)"
    and "last (w_resp (exec (json_session a rq (Some s)) w)) = JSON (BSession inactive_response)"
    by simp_all
qed

lemma json_session_live:
  assumes "s_State s \<noteq> SessionStateNone"
    and "\<not> GetSecondsToLive (rq_Now rq) (cf_SessionTimeout (ia_config a)) (s_LastAccessed s) < 0"
  shows "exec (json_session a rq (Some s)) w = w\<lparr>w_resp := w_resp w @ [JSON (BSession (active_response a
     (GetSecondsToLive (rq_Now rq) (cf_SessionTimeout (ia_config a)) (s_LastAccessed s)) s))]\<rparr>"
  using assms by (simp add: json_session_def sessionToResponse_def exec_def Let_def)

text \<open>
  C27: \<open>GET /api/1.0/session\<close> reports a session that has outlived the timeout as inactive and deletes
  it; any other one is reported with its state, its role and the seconds it has left, and stays.
\<close>

theorem get_session_reports:
  assumes "ia_sessionStore a = CacheSessionStore" and "\<forall>n. w_faults w n = None"
    and "rq_Method rq = ''GET''" and "rq_Route rq = ''/api/1.0/session''"
    and "session_of_request rq w = Some s" and "s_State s \<noteq> SessionStateNone"
  shows "let ttl = GetSecondsToLive (rq_Now rq) (cf_SessionTimeout (ia_config a)) (s_LastAccessed s) in
     last (w_resp (serve a rq w)) = JSON (BSession (if ttl < 0 then inactive_response else active_response a ttl s)) \<and>
     w_ses (serve a rq w) = (if ttl < 0 then (w_ses w)(s_ID s := None) else w_ses w)"
proof -
  let ?w = "(bearer_context s (new_context w))\<lparr>w_resp := [SetHeader ''Cache-Control'' ''no-store'']\<rparr>"
  have "serve a rq w = exec (api_group a (getSession_handler a) rq) (new_context w)"
    using assms(3,4) by (simp add: serve_def routes_def)
  then have e: "serve a rq w = exec (json_session a rq (Some s)) ?w"
    using api_group_some [OF assms(1), of rq "new_context w" s] assms(1,2,3,5)
    by (simp add: getSession_handler_def exec_def)
  show ?thesis
  proof (cases "GetSecondsToLive (rq_Now rq) (cf_SessionTimeout (ia_config a)) (s_LastAccessed s) < 0")
    case True
    with json_session_expired [OF assms(1) _ _ assms(6), of ?w rq] assms(2) e show ?thesis by simp
  next
    case False
    with json_session_live [OF assms(6), of rq a ?w] e show ?thesis by (simp add: Let_def)
  qed
qed

definition ex_late_request :: request where
  "ex_late_request = (ex_bearer_api ''GET'' ''/api/1.0/session'' ''uu'')\<lparr>rq_Now := 4000 * 10 ^ 9\<rparr>"

lemma ex_late_request_sel [simp]:
  "rq_Method ex_late_request = ''GET''" "rq_Route ex_late_request = ''/api/1.0/session''"
  "rq_Now ex_late_request = 4000 * 10 ^ 9"
  "session_of_request ex_late_request ex_authorized_world = Some ex_authorized"
  by (simp_all add: ex_late_request_def session_of_request_def bearer_token_def) code_simp+

theorem get_session_reports_witness:
  "w_ses (serve ex_idauth ex_late_request ex_authorized_world) ''uu'' = None"
proof -
  have "GetSecondsToLive (4000 * 10 ^ 9) (3600 * 10 ^ 9) (Some (40 * 10 ^ 9)) < 0" by code_simp
  with get_session_reports [of ex_idauth ex_authorized_world ex_late_request ex_authorized] show ?thesis
    by (simp add: Let_def)
qed

subsection \<open>Choosing a role\<close>

text \<open>The session of the request and the stored sessions, while the role \<open>s\<close> holds is stored.\<close>

definition role_stored :: "session \<Rightarrow> (string \<Rightarrow> session option) \<Rightarrow> 'db world \<Rightarrow> bool" where
  "role_stored s old w \<longleftrightarrow> w_session w = Some s \<and>
     w_ses w \<in> {old, old(s_ID s \<mapsto> s), old(s_ID s := None)}"

lemma role_stored_deleteSession:
  assumes "ia_sessionStore a = CacheSessionStore"
  shows "keeps (role_stored s old) (deleteSession a rq)"
proof (rule keepsI)
  fix w :: "'a world"
  assume w: "role_stored s old w"
  have "same w_session (deleteSession a rq)"
    unfolding deleteSession_def Let_def assms store_sel cache_store_ops by (intro triples; simp)
  then have "w_session (exec (deleteSession a rq) w) = Some s" using w by (simp add: same_def role_stored_def)
  moreover have "w_ses (exec (deleteSession a rq) w) \<in> {old, old(s_ID s \<mapsto> s), old(s_ID s := None)}"
  proof (cases "w_faults w (w_tick w)")
    case None
    from deleteSession_ses [OF assms _ None, of s rq] w show ?thesis by (auto simp: role_stored_def)
  next
    case (Some e)
    let ?m = "audited a rq (Some s) logout_event (Inl e :: go_error + unit) (\<lambda>err.
      (case err of
         Some e \<Rightarrow> do { respond (Error e); ret (Some ()) }
       | None \<Rightarrow>
           let logoutURL = providerLogoutURL a (Some s) in
           if logoutURL \<noteq> [] then do {
             respond (StatusCode 200); respond (Text logoutURL); ret (Some ())
           }
           else do { respond (StatusCode 204); ret (Some ()) }))"
    have "same w_ses ?m" unfolding Let_def by (intro triples; simp)
    moreover have "exec (deleteSession a rq) w = exec ?m (w\<lparr>w_tick := Suc (w_tick w)\<rparr>)"
      using assms w Some
      by (simp add: role_stored_def deleteSession_def exec_def Cache_Delete_def run_cache_delete Let_def)
    ultimately show ?thesis using w by (auto simp: sameD role_stored_def)
  qed
  ultimately show "role_stored s old (exec (deleteSession a rq) w)" by (simp add: role_stored_def)
qed

lemma role_stored_respond: "keeps (role_stored s old) (respond op)"
  by (simp add: keeps_def exec_def role_stored_def)

lemma role_stored_same: "same w_session m \<Longrightarrow> same w_ses m \<Longrightarrow> keeps (role_stored s old) m"
  by (simp add: keeps_def same_def role_stored_def)

lemma role_stored_SaveEvent: "keeps (role_stored s old) (SaveEvent e ap rq ev)"
  by (rule role_stored_same; intro triples; simp)

lemma store_role_ses:
  assumes "ia_sessionStore a = CacheSessionStore"
  shows "w_ses (exec (store_role a rq s) w) \<in> {w_ses w, (w_ses w)(s_ID s \<mapsto> s), (w_ses w)(s_ID s := None)}"
proof -
  have update: "keeps (role_stored s (w_ses w)) (Cache_Update s)"
    by (auto simp: keeps_def exec_def role_stored_def Cache_Update_def run_cache_set Let_def split: option.splits)
  have "keeps (role_stored s (w_ses w)) (do {
      updated \<leftarrow> Cache_Update s;
      let session = (case updated of Inl _ \<Rightarrow> None | Inr x \<Rightarrow> Some x);
      audited a rq session role_change_event updated (\<lambda>err.
        (case err of
           Some e \<Rightarrow> do { respond (Error e); ret (Some ()) }
         | None \<Rightarrow> do { json_session a rq session; ret (Some ()) })) })"
    unfolding Let_def audited_def json_session_def sessionToResponse_def
    by (intro triples update role_stored_respond role_stored_SaveEvent
        role_stored_deleteSession [OF assms])
  from keepsD [OF this, of "w\<lparr>w_session := Some s\<rparr>"] show ?thesis
    using assms by (simp add: store_role_def exec_def role_stored_def)
qed

text \<open>
  C7: choosing a role changes the session store only when the session may choose, the role is one of
  the session's own roles, and neither the role nor its organization is blocked. The one entry that
  changes is then the session with that role, authorized if it was waiting for a role.
\<close>

theorem role_choice_is_guarded:
  assumes "ia_sessionStore a = CacheSessionStore"
    and "w_ses (exec (setSessionRole a rq) w) \<noteq> w_ses w"
  shows "\<exists>s role. w_session w = Some s \<and> s_State s \<in> {SessionStateRequireRole, SessionStateAuthorized} \<and>
     rq_BodyRole rq = Inr (re_UserRoleID role) \<and> role \<in> set (s_Roles s) \<and> usable_role role \<and>
     w_ses (exec (setSessionRole a rq) w) \<in>
       {(w_ses w)(s_ID s \<mapsto> with_role role s), (w_ses w)(s_ID s := None)} \<and>
     s_State (with_role role s) = SessionStateAuthorized"
proof -
  obtain s where s: "w_session w = Some s"
    using assms(2) by (cases "w_session w") (auto simp: setSessionRole_def exec_def)
  then have st: "s_State s \<in> {SessionStateRequireRole, SessionStateAuthorized}"
    using assms(2) by (auto simp: setSessionRole_def exec_def split: if_splits)
  then obtain k where k: "rq_BodyRole rq = Inr k"
    using assms(2) s by (cases "rq_BodyRole rq") (auto simp: setSessionRole_def exec_def)
  have e: "exec (setSessionRole a rq) w = exec (choose_role a rq s k) w"
    using s st k by (auto simp: setSessionRole_def exec_def)
  obtain role where role: "getRoleByRelationID (s_Roles s) k = Some role"
    using assms(2) e by (cases "getRoleByRelationID (s_Roles s) k") (auto simp: choose_role_def exec_def)
  have use: "usable_role role"
    using assms(2) role unfolding e
    by (auto simp: choose_role_def exec_def usable_role_def split: if_splits)
  then have "w_ses (exec (setSessionRole a rq) w) = w_ses (exec (store_role a rq (with_role role s)) w)"
    unfolding e using role
    by (auto simp: choose_role_def usable_role_def ignore_result_def exec_def split_def)
  with store_role_ses [OF assms(1), of rq "with_role role s" w] assms(2)
  have "w_ses (exec (setSessionRole a rq) w) \<in>
      {(w_ses w)(s_ID s \<mapsto> with_role role s), (w_ses w)(s_ID s := None)}"
    by (auto simp: gone_ids)
  moreover have "s_State (with_role role s) = SessionStateAuthorized" using st by (auto simp: with_role_def)
  ultimately show ?thesis
    using s st k use getRoleByRelationID_SomeD [OF role] by (intro exI [of _ s] exI [of _ role]) auto
qed

definition ex_role :: role_entity where
  "ex_role = \<lparr>re_ID = ''1'', re_UserRoleID = ''11'', re_Organization = None, re_Code = ''ADM'',
     re_Name = ''Admin'', re_ShortName = [], re_Description = [], re_Blocked = False, re_DataScopes = []\<rparr>"

definition ex_choosing :: session where
  "ex_choosing = ex_authorized\<lparr>s_State := SessionStateRequireRole, s_Roles := [ex_role]\<rparr>"

definition ex_choosing_world :: "unit world" where
  "ex_choosing_world = ex_authorized_world\<lparr>w_session := Some ex_choosing\<rparr>"

definition ex_choice :: request where
  "ex_choice = (ex_bearer_api ''PATCH'' ''/api/1.0/session'' ''uu'')\<lparr>rq_BodyRole := Inr ''11''\<rparr>"

lemma ex_choosing_sel [simp]:
  "s_ID ex_choosing = ''uu''" "s_State ex_choosing = SessionStateRequireRole" "s_Roles ex_choosing = [ex_role]"
  "s_LastAccessed ex_choosing = Some (40 * 10 ^ 9)" "w_session ex_choosing_world = Some ex_choosing"
  "w_ses ex_choosing_world = Map.empty(''uu'' \<mapsto> ex_authorized)" "w_faults ex_choosing_world = (\<lambda>_. None)"
  "w_resp ex_choosing_world = []"
  "rq_BodyRole ex_choice = Inr ''11''" "rq_Now ex_choice = 50 * 10 ^ 9"
  "getRoleByRelationID [ex_role] ''11'' = Some ex_role" "\<not> re_Blocked ex_role" "re_Organization ex_role = None"
  by (simp_all add: ex_choosing_def ex_choosing_world_def ex_choice_def ex_role_def getRoleByRelationID_def)

lemma ex_choice_ses:
  "w_ses (exec (setSessionRole ex_idauth ex_choice) ex_choosing_world) =
     Map.empty(''uu'' \<mapsto> with_role ex_role ex_choosing)"
proof -
  have live: "\<not> GetSecondsToLive (50 * 10 ^ 9) (3600 * 10 ^ 9) (Some (40 * 10 ^ 9)) < 0" by code_simp
  have "s_State (with_role ex_role ex_choosing) \<noteq> SessionStateNone"
    "s_LastAccessed (with_role ex_role ex_choosing) = Some (40 * 10 ^ 9)"
    "s_ID (with_role ex_role ex_choosing) = ''uu''"
    by (simp_all add: with_role_def)
  with live json_session_live [of "with_role ex_role ex_choosing" ex_choice ex_idauth, unfolded exec_def]
  show ?thesis
    by (simp add: setSessionRole_def choose_role_def store_role_def audited_def exec_def Cache_Update_def
        run_cache_set Let_def ignore_result_def split_def)
qed

theorem role_choice_is_guarded_witness:
  "\<exists>s role. w_session ex_choosing_world = Some s \<and> role \<in> set (s_Roles s) \<and> usable_role role \<and>
     rq_BodyRole ex_choice = Inr (re_UserRoleID role)"
proof -
  have "w_ses (exec (setSessionRole ex_idauth ex_choice) ex_choosing_world) \<noteq> w_ses ex_choosing_world"
    unfolding ex_choice_ses by (simp add: fun_eq_iff with_role_def ex_choosing_def ex_role_def ex_authorized_def
        session_of_user_def zero_session_def)
  from role_choice_is_guarded [OF _ this] show ?thesis by (simp del: ex_choosing_sel) blast
qed

subsection \<open>Errors\<close>

text \<open>
  When storing the chosen role fails, the handler audits with the nil session that the failed
  \<open>Update\<close> returned: with the REST audit provider it panics, and the error is never answered.
\<close>

theorem failed_role_change_panics:
  assumes "ia_sessionStore a = CacheSessionStore" and "ia_auditProvider a = RestAPIAuditProvider cfg cl"
    and "w_session w = Some s" and "s_State s \<in> {SessionStateRequireRole, SessionStateAuthorized}"
    and "rq_BodyRole rq = Inr k" and "getRoleByRelationID (s_Roles s) k = Some role" and "usable_role role"
    and "s_ID s \<noteq> []" and "w_faults w (w_tick w) = Some e"
  shows "w_resp (exec (setSessionRole a rq) w) = w_resp w @ [Panic ''nil session in SaveEvent'']"
  using assms
  by (auto simp: setSessionRole_def choose_role_def usable_role_def store_role_def audited_def
      exec_def Cache_Update_def run_cache_set SaveEvent_def ignore_result_def gone_ids)

definition ex_rest_audit :: "unit idauth" where
  "ex_rest_audit = ex_idauth\<lparr>ia_auditProvider := NewRestAPIAuditProvider
     \<lparr>rc_AuditUrl = ''https://audit.example'', rc_AuditIncludePersonData = False, rc_AuditRestAPIKey = ''k''\<rparr>\<rparr>"

lemma ex_rest_audit_provider:
  "\<exists>cfg cl. ia_auditProvider ex_rest_audit = RestAPIAuditProvider cfg cl"
  by (cases "ia_auditProvider ex_rest_audit") (simp_all add: ex_rest_audit_def NewRestAPIAuditProvider_def)

theorem failed_role_change_panics_witness:
  "w_resp (exec (setSessionRole ex_rest_audit ex_choice)
     (ex_choosing_world\<lparr>w_faults := (\<lambda>_. Some (ErrText ''cache down''))\<rparr>)) =
     [Panic ''nil session in SaveEvent'']"
proof -
  obtain cfg cl where p: "ia_auditProvider ex_rest_audit = RestAPIAuditProvider cfg cl"
    using ex_rest_audit_provider by blast
  have "ia_sessionStore ex_rest_audit = CacheSessionStore" by (simp add: ex_rest_audit_def)
  from failed_role_change_panics [OF this p, of "ex_choosing_world\<lparr>w_faults := (\<lambda>_. Some (ErrText ''cache down''))\<rparr>"
      ex_choosing ex_choice "''11''" ex_role "ErrText ''cache down''"]
  show ?thesis by (simp add: usable_role_def)
qed

text \<open>
  C39: with the cache session store, \<open>DELETE /api/1.0/auth/sessions/{id}\<close> of an authorized user always
  ends in a nil dereference: the store answers nil for the user's sessions.
\<close>

theorem delete_user_session_panics:
  assumes "ia_sessionStore a = CacheSessionStore" and "w_faults w (w_tick w) = None"
    and "rq_Method rq = ''DELETE''" and "rq_Route rq = ''/api/1.0/auth/sessions/{id}''"
    and "IsAuthorized (session_of_request rq w)"
  shows "w_resp (serve a rq w) =
     [SetHeader ''Cache-Control'' ''no-store'', Panic ''nil sessions in deleteUserSession'']"
proof -
  obtain s where s: "session_of_request rq w = Some s" and st: "s_State s = SessionStateAuthorized"
    using assms(5) by (cases "session_of_request rq w") auto
  have "serve a rq w = exec (api_group a (RequireAuthorized (deleteUserSession a)) rq) (new_context w)"
    using assms(3,4) by (simp add: serve_def routes_def secured_group_def)
  then show ?thesis
    using api_group_some [OF assms(1), of rq "new_context w" s] assms(1-3) s st
    by (simp add: exec_RequireAuthorized) (simp add: deleteUserSession_def exec_def)
qed

theorem delete_user_session_panics_witness:
  "Panic ''nil sessions in deleteUserSession'' \<in> set (w_resp (serve ex_idauth
     (ex_bearer_api ''DELETE'' ''/api/1.0/auth/sessions/{id}'' ''uu'') ex_authorized_world))"
  by (subst delete_user_session_panics) simp_all

text \<open>
  A user who has not accepted the terms gets no role list and no role: the request is answered
  with the error of the terms and changes no session. No status code is written, so the answer has
  the framework's default.
\<close>

theorem terms_block_roles:
  assumes "ia_sessionStore a = CacheSessionStore" and "w_faults w (w_tick w) = None"
    and "(rq_Method rq, rq_Route rq) \<in> {(''GET'', ''/api/1.0/session/roles''), (''PATCH'', ''/api/1.0/session'')}"
    and "cf_AuthorizerRequiresTOS (ia_config a)"
    and "session_of_request rq w = Some s" and "\<not> s_IsTOSAccepted s"
  shows "w_resp (serve a rq w) = [SetHeader ''Cache-Control'' ''no-store'',
       JSON (BAuthError (auth_error AuthErrTermsNotAccepted ''Terms of Service not accepted''))] \<and>
     w_ses (serve a rq w) = w_ses w"
proof -
  have "\<exists>h. map_of (routes a) (rq_Method rq, rq_Route rq) = Some (tos_group a h)"
    using assms(3) by (elim insertE emptyE; simp add: routes_def; blast)
  then obtain h where "serve a rq w = exec (api_group a (RequireTOSAccepted a h) rq) (new_context w)"
    by (auto simp: serve_def tos_group_def)
  moreover have "rq_Method rq \<noteq> ''OPTIONS''" using assms(3) by auto
  ultimately show ?thesis
    using api_group_some [OF assms(1), of rq "new_context w" s] assms(2,4-6)
    by (simp add: RequireTOSAccepted_def exec_def)
qed

definition ex_tos_idauth :: "unit idauth" where
  "ex_tos_idauth = ex_idauth\<lparr>ia_config := ex_config\<lparr>cf_AuthorizerRequiresTOS := True\<rparr>\<rparr>"

definition ex_tos_world :: "unit world" where
  "ex_tos_world = ex_world\<lparr>w_ses := Map.empty(''uu'' \<mapsto> ex_authorized\<lparr>s_IsTOSAccepted := False\<rparr>)\<rparr>"

theorem terms_block_roles_witness:
  "\<forall>n. StatusCode n \<notin> set (w_resp (serve ex_tos_idauth
     (ex_bearer_api ''PATCH'' ''/api/1.0/session'' ''uu'') ex_tos_world))"
  using terms_block_roles [of ex_tos_idauth ex_tos_world "ex_bearer_api ''PATCH'' ''/api/1.0/session'' ''uu''"
      "ex_authorized\<lparr>s_IsTOSAccepted := False\<rparr>"]
  by (simp add: ex_tos_idauth_def ex_tos_world_def session_of_request_def)

text \<open>
  A reload of the clients that fails leaves the clients as they are, but the answer is the error
  followed by status 200.
\<close>

theorem failed_reload_answers_ok:
  assumes "rq_Method rq = ''POST''" and "rq_Route rq = ''/webhooks/clients/reload''"
    and "rq_Header rq ''X-API-KEY'' = cf_AuthorizerRestAPIKey (ia_config a)"
    and "cf_AuthorizerRestAPIKey (ia_config a) \<noteq> []"
    and "load_sources (ia_clientEnv a) Map.empty (ia_clientSources a) = Inl e"
  shows "serve a rq w = (new_context w)\<lparr>w_resp := [Error e, StatusCode 200]\<rparr>"
  using assms
  by (simp add: serve_def routes_def webhook_group_def AuthorizeStaticToken_def Let_def exec_def
      clientsReload_def RefetchClients_def loadClients_def)

definition ex_no_clients :: "unit idauth" where
  "ex_no_clients = ex_idauth\<lparr>ia_clientEnv := ex_client_env\<lparr>ce_ReadFile := (\<lambda>_. Inl (ErrText ''no file''))\<rparr>\<rparr>"

definition ex_reload :: request where
  "ex_reload = ex_request\<lparr>rq_Method := ''POST'', rq_Route := ''/webhooks/clients/reload'',
     rq_Header := (\<lambda>_. ''key'')\<rparr>"

theorem failed_reload_answers_ok_witness:
  "\<exists>e. w_resp (serve ex_no_clients ex_reload ex_world) = [Error e, StatusCode 200]"
proof -
  obtain e where "load_sources (ia_clientEnv ex_no_clients) Map.empty (ia_clientSources ex_no_clients) = Inl e"
    by (simp add: ex_no_clients_def fileSource_LoadClients_def)
  with failed_reload_answers_ok [of ex_reload ex_no_clients e ex_world] show ?thesis
    by (simp add: ex_reload_def ex_no_clients_def)
qed

subsection \<open>Reachable sessions\<close>

text \<open>
  C12: in every state a server that starts without sessions can reach, each session is stored under
  its own identifier and acts in no blocked role and in no role of a blocked organization.
\<close>

theorem reachable_roles_are_usable:
  assumes "server_steps (\<lambda>a. ia_sessionStore a = CacheSessionStore) w w'"
    and "w_ses w = Map.empty" and "w_session w = None" and "w_ses w' k = Some s"
  shows "s_ID s = k \<and> (\<forall>r \<in> set_option (s_Role s). \<not> re_Blocked r \<and>
     (\<forall>org \<in> set_option (re_Organization r). \<not> oe_Blocked org))"
proof -
  have "sessions_usable w" using assms(2,3) by (simp add: sessions_usable_def)
  from usable_steps [OF assms(1) this] assms(4) show ?thesis
    by (auto simp: sessions_usable_def usable_session_def usable_role_def)
qed

lemma ex_reached_session:
  obtains s where "w_ses (serve ex_idauth ex_callback_request ex_callback_world) (ex_ulid 0) = Some s"
    and "server_steps (\<lambda>a. ia_sessionStore a = CacheSessionStore) ex_callback_world
      (serve ex_idauth ex_callback_request ex_callback_world)"
proof -
  have "new_context ex_callback_world = ex_callback_world"
    by (simp add: new_context_def ex_callback_world_def ex_world_def)
  then have "serve ex_idauth ex_callback_request ex_callback_world =
      exec (callback ex_idauth ex_callback_request) ex_callback_world"
    by (simp add: serve_def routes_def ex_callback_request_def)
  with ex_callback_ses obtain s where
    "w_ses (serve ex_idauth ex_callback_request ex_callback_world) (ex_ulid 0) = Some s" by auto
  moreover have "server_steps (\<lambda>a. ia_sessionStore a = CacheSessionStore) ex_callback_world
      (serve ex_idauth ex_callback_request ex_callback_world)"
    by (intro r_into_rtranclp served) simp
  ultimately show ?thesis by (rule that)
qed

theorem reachable_roles_are_usable_witness:
  "\<exists>s. w_ses (serve ex_idauth ex_callback_request ex_callback_world) (ex_ulid 0) = Some s \<and> s_ID s = ex_ulid 0"
proof -
  obtain s where s: "w_ses (serve ex_idauth ex_callback_request ex_callback_world) (ex_ulid 0) = Some s"
    and run: "server_steps (\<lambda>a. ia_sessionStore a = CacheSessionStore) ex_callback_world
      (serve ex_idauth ex_callback_request ex_callback_world)"
    by (rule ex_reached_session)
  from reachable_roles_are_usable [OF run _ _ s] s show ?thesis
    by (simp add: ex_callback_world_def)
qed

text \<open>
  C21: in every state a server that starts without sessions can reach, each stored session is in one of
  the three states that stand for a live session, the state string \<open>none\<close> never among them, so
  \<open>IsActive\<close> holds of it; and a session that has to choose a role has none yet.
\<close>

theorem reachable_states_are_typed:
  assumes "server_steps (\<lambda>a. ia_sessionStore a = CacheSessionStore) w w'"
    and "w_ses w = Map.empty" and "w_session w = None" and "w_ses w' k = Some s"
  shows "s_State s \<in> {SessionStateRequireAgreement, SessionStateRequireRole, SessionStateAuthorized} \<and>
    IsActive (Some s) \<and> (IsRoleRequired (Some s) \<longrightarrow> s_Role s = None)"
proof -
  have "sessions_usable w" using assms(2,3) by (simp add: sessions_usable_def)
  from usable_steps [OF assms(1) this] assms(4) have "typed_state s"
    by (auto simp: sessions_usable_def usable_session_def)
  then show ?thesis by (auto simp: typed_state_def)
qed

theorem reachable_states_are_typed_witness:
  "\<exists>s. w_ses (serve ex_idauth ex_callback_request ex_callback_world) (ex_ulid 0) = Some s \<and> IsActive (Some s)"
proof -
  obtain s where s: "w_ses (serve ex_idauth ex_callback_request ex_callback_world) (ex_ulid 0) = Some s"
    and run: "server_steps (\<lambda>a. ia_sessionStore a = CacheSessionStore) ex_callback_world
      (serve ex_idauth ex_callback_request ex_callback_world)"
    by (rule ex_reached_session)
  from reachable_states_are_typed [OF run _ _ s] s show ?thesis
    by (simp add: ex_callback_world_def ex_world_def)
qed

end
