(* ===== verification/StoreProps.thy ===== *)
theory StoreProps
  imports Examples
begin

text \<open>
  Properties of the stores: the credentials the client store accepts, its reload, the cache session store
  as an implementation of a map, and two redemptions of one code that overlap.
\<close>

subsection \<open>Clients\<close>

text \<open>
  C22: \<open>ValidateCredentials\<close>, with its checks in their order and its fallback for the old name of the
  grant, accepts exactly the credentials of a registered client that satisfy \<open>credentials_ok\<close>.
\<close>

theorem credentials_accepted_iff:
  "(ValidateCredentials m cred = Inr ()) = (\<exists>c. m (cc_ClientID cred) = Some c \<and> credentials_ok c cred)"
  by (rule composite.validate_iff)

text \<open>
  C28: a reload either fails and changes nothing or replaces all clients: those of the sources in
  order, the first one for every identifier.
\<close>

theorem reload_takes_first_client:
  "case run_state (RefetchClients env sources) w of
     (Inl e, w') \<Rightarrow> w' = w
   | (Inr u, w') \<Rightarrow> w' = w\<lparr>w_clients := map_of (map (\<lambda>c. (cl_ID c, c)) (all_clients env sources))\<rparr>"
proof (cases "load_sources env Map.empty sources")
  case (Inr m)
  with load_sources_spec [OF this] show ?thesis by (simp add: RefetchClients_def loadClients_def)
qed (simp add: RefetchClients_def loadClients_def)

subsection \<open>The cache session store implements a map\<close>

datatype store_op = OpCreate session | OpUpdate session | OpGet string | OpDelete string
  | OpExtend request string

datatype store_answer = Session "go_error + session" | Done "go_error + unit"

fun run_store_op :: "'db session_store \<Rightarrow> store_op \<Rightarrow> 'db world \<Rightarrow> store_answer \<times> 'db world" where
  "run_store_op st (OpCreate s) w = apfst Session (run_state (st_Create st s) w)"
| "run_store_op st (OpUpdate s) w = apfst Session (run_state (st_Update st s) w)"
| "run_store_op st (OpGet k) w = apfst Session (run_state (st_GetSessionByID st k) w)"
| "run_store_op st (OpDelete k) w = apfst Done (run_state (st_Delete st k) w)"
| "run_store_op st (OpExtend rq k) w = apfst Session (run_state (st_Extend st rq k) w)"

fun map_store_op ::
  "store_op \<Rightarrow> (string \<Rightarrow> session option) \<Rightarrow> store_answer \<times> (string \<Rightarrow> session option)" where
  "map_store_op (OpCreate s) m = (Session (Inr s), m(s_ID s \<mapsto> s))"
| "map_store_op (OpUpdate s) m = (Session (Inr s), m(s_ID s \<mapsto> s))"
| "map_store_op (OpGet k) m = (Session (case m k of None \<Rightarrow> Inl (ErrSessionNotFound k) | Some s \<Rightarrow> Inr s), m)"
| "map_store_op (OpDelete k) m = (Done (Inr ()), m(k := None))"
| "map_store_op (OpExtend rq k) m =
     (case if length k \<le> 26 then m k else None of
        None \<Rightarrow> (Session (Inl (ErrSessionNotFound k)), m)
      | Some x \<Rightarrow> (let s = x\<lparr>s_LastAccessed := Some (rq_Now rq)\<rparr> in (Session (Inr s), m(s_ID s \<mapsto> s))))"

fun run_ops :: "('o \<Rightarrow> 's \<Rightarrow> 'r \<times> 's) \<Rightarrow> 'o list \<Rightarrow> 's \<Rightarrow> 'r list \<times> 's" where
  "run_ops step [] s = ([], s)"
| "run_ops step (p # ps) s =
     (case step p s of (r, s1) \<Rightarrow> (case run_ops step ps s1 of (rs, s2) \<Rightarrow> (r # rs, s2)))"

text \<open>The handlers create and update sessions that have an identifier.\<close>

fun named_op :: "store_op \<Rightarrow> bool" where
  "named_op (OpCreate s) = (s_ID s \<noteq> [])"
| "named_op (OpUpdate s) = (s_ID s \<noteq> [])"
| "named_op _ = True"

lemma run_ops_simulation:
  assumes "\<And>p s r s'. p \<in> set ps \<Longrightarrow> good s \<Longrightarrow> step p s = (r, s') \<Longrightarrow> good s' \<and> spec p (view s) = (r, view s')"
    and "good s" and "run_ops step ps s = (rs, s')"
  shows "run_ops spec ps (view s) = (rs, view s')"
  using assms
proof (induction ps arbitrary: s rs)
  case (Cons p ps)
  obtain r s1 rs1 where step: "step p s = (r, s1)" and rest: "run_ops step ps s1 = (rs1, s')" and rs: "rs = r # rs1"
    using Cons.prems(3) by (auto split: prod.splits)
  have s1: "good s1" "spec p (view s) = (r, view s1)" using Cons.prems(1) [OF _ Cons.prems(2) step] by simp_all
  have "run_ops spec ps (view s1) = (rs1, view s')"
    by (rule Cons.IH [OF _ s1(1) rest], rule Cons.prems(1)) simp_all
  with s1 rs show ?case by simp
qed simp

lemma store_op_refines:
  assumes "named_op p" and "reliable w" and "run_store_op CacheSessionStore p w = (r, w')"
  shows "reliable w' \<and> map_store_op p (w_ses w) = (r, w_ses w')"
proof (cases p)
  case (OpCreate s)
  with assms cache_store.create_spec [OF assms(2), of s] show ?thesis by (auto simp: apfst_def map_prod_def split: prod.splits)
next
  case (OpUpdate s)
  with assms cache_store.update_spec [OF assms(2), of s] show ?thesis by (auto simp: apfst_def map_prod_def split: prod.splits)
next
  case (OpGet k)
  with assms cache_store.get_spec [OF assms(2), of k] show ?thesis by (auto simp: apfst_def map_prod_def split: prod.splits)
next
  case (OpDelete k)
  with assms cache_store.delete_spec [OF assms(2), of k] show ?thesis by (auto simp: apfst_def map_prod_def split: prod.splits)
next
  case (OpExtend rq k)
  with assms show ?thesis
    by (auto simp: Cache_Extend_def run_cache_get run_cache_set reliable_def Let_def apfst_def
        map_prod_def not_less split: prod.splits if_splits option.splits)
qed

text \<open>
  C9: as long as the cache answers, the cache session store is a map from identifiers to sessions: every
  sequence of store calls gives the answers of the map, and leaves the sessions of the map.
\<close>

theorem cache_store_refines_map:
  assumes "reliable w" and "\<forall>p \<in> set ps. named_op p" and "run_ops (run_store_op CacheSessionStore) ps w = (rs, w')"
  shows "run_ops map_store_op ps (w_ses w) = (rs, w_ses w')"
  using run_ops_simulation [where good = reliable and view = w_ses, OF _ assms(1,3)] store_op_refines assms(2)
  by metis

definition ex_store_session :: session where
  "ex_store_session = zero_session\<lparr>s_ID := ''s'', s_State := SessionStateAuthorized\<rparr>"

theorem cache_store_refines_map_witness:
  "fst (run_ops (run_store_op CacheSessionStore) [OpCreate ex_store_session, OpGet ''s'', OpDelete ''s'', OpGet ''s''] ex_world) =
     [Session (Inr ex_store_session), Session (Inr ex_store_session), Done (Inr ()),
      Session (Inl (ErrSessionNotFound ''s''))]"
proof -
  let ?ops = "[OpCreate ex_store_session, OpGet ''s'', OpDelete ''s'', OpGet ''s'']"
  obtain rs w' where run: "run_ops (run_store_op CacheSessionStore) ?ops ex_world = (rs, w')" by (rule prod.exhaust)
  have "reliable ex_world" "\<forall>p \<in> set ?ops. named_op p" by (simp_all add: reliable_def ex_store_session_def)
  from cache_store_refines_map [OF this run] run show ?thesis
    by (simp add: ex_store_session_def)
qed

subsection \<open>The Postgres store implements the same map\<close>

text \<open>
  The stored procedures of the database are not in the repository. What the store needs of them:
  \<open>save_session\<close> stores a session under its identifier, \<open>get_session\<close> finds it or fails,
  \<open>delete_session\<close> removes it.
\<close>

definition pg_keeps_sessions :: "'db pg_env \<Rightarrow> ('db \<Rightarrow> string \<Rightarrow> session option) \<Rightarrow> bool" where
  "pg_keeps_sessions pg sessions \<longleftrightarrow>
     (\<forall>k d. sessions (snd (pg_get_session pg k d)) = sessions d \<and>
        (case sessions d k of None \<Rightarrow> \<not> is_ok (fst (pg_get_session pg k d))
         | Some s \<Rightarrow> fst (pg_get_session pg k d) = Inr s)) \<and>
     (\<forall>s d. fst (pg_save_session pg s d) = Inr () \<and>
        sessions (snd (pg_save_session pg s d)) = (sessions d)(s_ID s \<mapsto> s)) \<and>
     (\<forall>k d. fst (pg_delete_session pg k d) = Inr () \<and>
        sessions (snd (pg_delete_session pg k d)) = (sessions d)(k := None))"

text \<open>Identifiers that pass the validation of \<open>Params\<close>, a ULID of 26 characters.\<close>

fun ulid_op :: "'db pg_env \<Rightarrow> store_op \<Rightarrow> bool" where
  "ulid_op pg (OpGet k) = (pg_ValidateID pg k = None)"
| "ulid_op pg (OpDelete k) = (pg_ValidateID pg k = None)"
| "ulid_op pg (OpExtend rq k) = (pg_ValidateID pg k = None \<and> length k \<le> 26)"
| "ulid_op pg _ = True"

lemma pg_op_refines:
  assumes "pg_keeps_sessions pg sessions" and "named_op p" and "ulid_op pg p"
    and "run_store_op (PostgresSessionStore pg) p w = (r, w')"
  shows "map_store_op p (sessions (w_db w)) = (r, sessions (w_db w'))"
proof -
  have rest: "sessions (snd (pg_get_session pg k d)) = sessions d"
    "fst (pg_save_session pg s d) = Inr ()" "sessions (snd (pg_save_session pg s d)) = (sessions d)(s_ID s \<mapsto> s)"
    "fst (pg_delete_session pg k d) = Inr ()" "sessions (snd (pg_delete_session pg k d)) = (sessions d)(k := None)" for s k d
    using assms(1) by (simp_all add: pg_keeps_sessions_def)
  have found: "case sessions d k of None \<Rightarrow> \<not> is_ok (fst (pg_get_session pg k d))
      | Some s \<Rightarrow> fst (pg_get_session pg k d) = Inr s" for k d
    using assms(1) by (simp add: pg_keeps_sessions_def)
  have get: "(\<exists>e. sessions d k = None \<and> fst (pg_get_session pg k d) = Inl e) \<or>
      (\<exists>s. sessions d k = Some s \<and> fst (pg_get_session pg k d) = Inr s)" for k d
    using found [of k d] by (cases "sessions d k"; cases "fst (pg_get_session pg k d)") (simp_all add: is_ok_def)
  show ?thesis
  proof (cases p)
    case (OpGet k)
    from assms(3,4) OpGet have "r = Session (fst (run_state (Pg_GetSessionByID pg k) w))"
      and "w' = snd (run_state (Pg_GetSessionByID pg k) w)" and "pg_ValidateID pg k = None"
      by (simp_all add: apfst_def map_prod_def split: prod.splits)
    with OpGet show ?thesis using get [where d = "w_db w" and k = k] by (elim disjE exE conjE) (simp_all add: Pg_GetSessionByID_def rest)
  next
    case (OpExtend rq k)
    from assms(3,4) OpExtend have "r = Session (fst (run_state (Pg_Extend pg rq k) w))"
      and "w' = snd (run_state (Pg_Extend pg rq k) w)" and "pg_ValidateID pg k = None" and "length k \<le> 26"
      by (simp_all add: apfst_def map_prod_def split: prod.splits)
    with OpExtend show ?thesis
      using get [where d = "w_db w" and k = k] by (elim disjE exE conjE) (simp_all add: Pg_Extend_def rest Let_def split_beta)
  qed (use assms(2-4) in \<open>auto simp: rest Pg_Create_def Pg_Update_def Pg_Delete_def with_session_id_def\<close>)
qed


text \<open>A database that is a map, whose procedures never fail but \<open>get_session\<close> on an unknown identifier.\<close>

definition ex_pg :: "(string \<Rightarrow> session option) pg_env" where
  "ex_pg = \<lparr>pg_ValidateID = (\<lambda>k. if length k = 26 then None else Some (ExtError ''ulid'')),
     pg_ValidateUserSessions = (\<lambda>_. None), pg_ValidateDelete = (\<lambda>_. None), pg_ValidateFilter = (\<lambda>_. None),
     pg_get_session = (\<lambda>k d. (case d k of None \<Rightarrow> Inl (ExtError ''no rows'') | Some s \<Rightarrow> Inr s, d)),
     pg_save_session = (\<lambda>s d. (Inr (), d(s_ID s \<mapsto> s))),
     pg_delete_session = (\<lambda>k d. (Inr (), d(k := None))),
     pg_delete_expired_sessions = (\<lambda>_ d. (Inr (), d)),
     pg_get_user_sessions = (\<lambda>_ d. (Inl (ExtError ''not used''), d)),
     pg_delete_user_session = (\<lambda>k d. (Inr (), d(k := None))),
     pg_get_sessions = (\<lambda>_ d. (Inl (ExtError ''not used''), d)),
     pg_Start = (\<lambda>d. (Inr (), d)), pg_Close = (\<lambda>d. d)\<rparr>"

definition ex_pg_world :: "(string \<Rightarrow> session option) world" where
  "ex_pg_world = \<lparr>w_clients = Map.empty, w_cor = Map.empty, w_ott = Map.empty, w_ses = Map.empty,
     w_signout = (\<lambda>_. []), w_db = Map.empty, w_ulids = ex_ulid, w_ulid = 0, w_faults = (\<lambda>_. None), w_tick = 0,
     w_audit = [], w_session = None, w_user = None, w_resp = []\<rparr>"

definition ex_store_ops :: "store_op list" where
  "ex_store_ops = (let k = replicate 26 (CHR ''0''); s = zero_session\<lparr>s_ID := k, s_State := SessionStateAuthorized\<rparr> in
     [OpCreate s, OpGet k, OpExtend ex_request k, OpDelete k, OpExtend ex_request k])"


subsection \<open>Overlapping redemptions\<close>

text \<open>
  C36: the two store calls of \<open>RedeemToken\<close> are not one: two requests for the same stored code, each
  between the other's calls, both redeem it.
\<close>

theorem overlapping_redemptions_both_succeed:
  assumes "w_ott w k = Some v" and "\<forall>n. w_faults w n = None" and "i \<noteq> j"
  shows "\<exists>pcs w'. (redeem_step k)\<^sup>*\<^sup>* (\<lambda>_. AtGet, w) (pcs, w') \<and>
     pcs i = Redeemed (Some v) \<and> pcs j = Redeemed (Some v) \<and> w_ott w' k = None"
proof -
  let ?at = "\<lambda>_ :: nat. AtGet"
  let ?w1 = "w\<lparr>w_tick := Suc (w_tick w)\<rparr>"
  let ?w2 = "?w1\<lparr>w_tick := Suc (w_tick ?w1)\<rparr>"
  let ?w3 = "exec (ott_delete k) ?w2"
  let ?w4 = "exec (ott_delete k) ?w3"
  have "redeem_step k (?at, w) (?at(i := AtDelete (Some v)), ?w1)"
    by (rule call) (simp add: redeem_call_def GetToken_def run_cache_get assms)
  moreover have "redeem_step k (?at(i := AtDelete (Some v)), ?w1)
      (?at(i := AtDelete (Some v), j := AtDelete (Some v)), ?w2)"
    by (rule call) (use assms in \<open>simp add: redeem_call_def GetToken_def run_cache_get\<close>)
  moreover have "redeem_step k (?at(i := AtDelete (Some v), j := AtDelete (Some v)), ?w2)
      (?at(i := AtDelete (Some v), j := AtDelete (Some v), i := Redeemed (Some v)), ?w3)"
    by (rule call) (use assms in \<open>simp add: redeem_call_def\<close>)
  moreover have "redeem_step k (?at(i := AtDelete (Some v), j := AtDelete (Some v), i := Redeemed (Some v)), ?w3)
      (?at(i := AtDelete (Some v), j := AtDelete (Some v), i := Redeemed (Some v), j := Redeemed (Some v)), ?w4)"
    by (rule call) (use assms in \<open>simp add: redeem_call_def\<close>)
  ultimately have "(redeem_step k)\<^sup>*\<^sup>* (?at, w)
      (?at(i := AtDelete (Some v), j := AtDelete (Some v), i := Redeemed (Some v), j := Redeemed (Some v)), ?w4)"
    by (meson rtranclp.rtrancl_into_rtrancl rtranclp.rtrancl_refl)
  moreover have "w_ott ?w4 k = None" using assms(2) by (simp add: exec_def run_cache_delete Let_def)
  ultimately show ?thesis
    using assms(3)
    by (intro exI [of _ "?at(i := AtDelete (Some v), j := AtDelete (Some v), i := Redeemed (Some v),
        j := Redeemed (Some v))"] exI [of _ ?w4]) simp
qed

theorem overlapping_redemptions_both_succeed_witness:
  "\<exists>pcs w'. (redeem_step ''code'')\<^sup>*\<^sup>* (\<lambda>_. AtGet, ex_world\<lparr>w_ott := Map.empty(''code'' \<mapsto> fresh_token ''code'' ex_correlation)\<rparr>)
       (pcs, w') \<and> pcs 0 = Redeemed (Some (fresh_token ''code'' ex_correlation)) \<and>
     pcs 1 = Redeemed (Some (fresh_token ''code'' ex_correlation)) \<and> w_ott w' ''code'' = None"
  by (rule overlapping_redemptions_both_succeed) simp_all

end
