(* ===== verification/AppConfig.thy ===== *)
theory AppConfig
  imports Middleware
begin

text \<open>
  \<open>app/config.go\<close> and \<open>app/app.go\<close>: the keys \<open>Bind\<close> registers, the validation of the configuration, what
  of it the handlers see, and \<open>New\<close>, which chooses the stores and providers by the configuration. The
  configuration library, the struct validator, the construction of caches, of the database store, of
  the cron schedule and of the telemetry task are the parameter \<open>app_env\<close>.
\<close>

record app_config =
  ap_SessionStoreType :: string
  ap_EnableSessionStoreCleanup :: bool
  ap_CleanupCronExpression :: string
  ap_SessionTimeout :: duration
  ap_SessionCountdown :: duration
  ap_IntrospectionURL :: string
  ap_IntrospectionClientID :: string
  ap_IntrospectionClientSecret :: string
  ap_IAMIssuer :: string
  ap_IAMJWKSURL :: string
  ap_ClientStoreFile :: string
  ap_ClientStoreAPIURL :: string
  ap_ClientStoreAPIKey :: string
  ap_AuthProviderStoreType :: string
  ap_AuthProviderStoreFile :: string
  ap_AuthorizerType :: string
  ap_AuthorizerRestAPIURL :: string
  ap_AuthorizerRestAPIKey :: string
  ap_AuthorizerRequiresTOS :: bool
  ap_TOSEndpoint :: string
  ap_AuditType :: string
  ap_AuditRestAPIUrl :: string
  ap_AuditIncludePersonData :: bool
  ap_AuditRestAPIKey :: string
  ap_SessionRequiresRole :: bool
  ap_UsesAuthorizationCodeGrant :: bool
  ap_UsesIAMGrant :: bool
  ap_UsesPfasGrant :: bool

subsection \<open>\<open>Bind\<close>\<close>

datatype config_value = CBool bool | CString string

text \<open>The secrets are those of \<open>loader.LoadRemoteSecret\<close>, by their names.\<close>

definition bind_defaults :: "(string \<Rightarrow> string) \<Rightarrow> (string \<times> config_value) list" where
  "bind_defaults secret = [
     (''session_store_type'', CString ''cache''),
     (''session_store_cleanup_enabled'', CBool True),
     (''session_store_cleanup_cron'', CString ''0 4 * * *''),
     (''session_timeout'', CString ''60m''),
     (''session_countdown'', CString ''5m''),
     (''client_store_file'', CString ''.config/clients.yaml''),
     (''auth_provider_store_type'', CString ''file''),
     (''auth_provider_store_file'', CString ''.config/providers.yaml''),
     (''authorizer_type'', CString ''rest_api''),
     (''authorizer_rest_api_key'', CString (secret ''AUTHORIZER_REST_API_KEY'')),
     (''authorizer_requires_tos'', CBool False),
     (''audit_type'', CString ''noop''),
     (''audit_include_person_data'', CBool False),
     (''audit_rest_api_key'', CString (secret ''AUDIT_API_KEY'')),
     (''client_store_api_key'', CString (secret ''CLIENT_STORE_API_KEY'')),
     (''introspection_client_id'', CString (secret ''INTROSPECTION_CLIENT_ID'')),
     (''introspection_client_secret'', CString (secret ''INTROSPECTION_CLIENT_SECRET'')),
     (''uses_authorization_code_grant'', CBool False),
     (''uses_iam_grant'', CBool False),
     (''uses_pfas_grant'', CBool True),
     (''session_requires_role'', CBool False)]"

definition bind_env :: "(string \<times> string) list" where
  "bind_env = [
     (''session_store_type'', ''SESSION_STORE_TYPE''),
     (''enable_session_store_cleanup'', ''ENABLE_SESSION_STORE_CLEANUP''),
     (''cleanup_cron_expression'', ''CLEANUP_CRON_EXPRESSION''),
     (''session_timeout'', ''SESSION_TIMEOUT''),
     (''session_countdown'', ''SESSION_COUNTDOWN''),
     (''introspection_url'', ''INTROSPECTION_URL''),
     (''introspection_client_id'', ''INTROSPECTION_CLIENT_ID''),
     (''introspection_client_secret'', ''INTROSPECTION_CLIENT_SECRET''),
     (''iam_issuer'', ''IAM_ISSUER''),
     (''iam_jwks_url'', ''IAM_JWKS_URL''),
     (''client_store_file'', ''CLIENT_STORE_FILE''),
     (''client_store_api_url'', ''CLIENT_STORE_API_URL''),
     (''client_store_api_key'', ''CLIENT_STORE_API_KEY''),
     (''auth_provider_store_type'', ''AUTH_PROVIDER_STORE_TYPE''),
     (''auth_provider_store_file'', ''AUTH_PROVIDER_STORE_FILE''),
     (''authorizer_type'', ''AUTHORIZER_TYPE''),
     (''authorizer_rest_api_url'', ''AUTHORIZER_REST_API_URL''),
     (''authorizer_rest_api_key'', ''AUTHORIZER_REST_API_KEY''),
     (''authorizer_requires_tos'', ''AUTHORIZER_REQUIRES_TOS''),
     (''tos_endpoint'', ''TOS_ENDPOINT''),
     (''audit_type'', ''AUDIT_TYPE''),
     (''audit_url'', ''AUDIT_URL''),
     (''audit_include_person_data'', ''AUDIT_INCLUDE_PERSON_DATA''),
     (''audit_rest_api_key'', ''AUDIT_API_KEY''),
     (''uses_authorization_code_grant'', ''USES_AUTHORIZATION_CODE_GRANT''),
     (''uses_iam_grant'', ''USES_IAM_GRANT''),
     (''uses_pfas_grant'', ''USES_PFAS_GRANT''),
     (''session_requires_role'', ''SESSION_REQUIRES_ROLE'')]"

text \<open>The key each field of \<open>Configuration\<close> is filled from: the \<open>mapstructure\<close> tags.\<close>

definition config_keys :: "string list" where
  "config_keys = [''session_store_type'', ''enable_session_store_cleanup'', ''cleanup_cron_expression'',
     ''session_timeout'', ''session_countdown'', ''introspection_url'', ''introspection_client_id'',
     ''introspection_client_secret'', ''iam_issuer'', ''iam_jwks_url'', ''client_store_file'',
     ''client_store_api_url'', ''client_store_api_key'', ''auth_provider_store_type'',
     ''auth_provider_store_file'', ''authorizer_type'', ''authorizer_rest_api_url'',
     ''authorizer_rest_api_key'', ''authorizer_requires_tos'', ''tos_endpoint'', ''audit_type'',
     ''audit_url'', ''audit_include_person_data'', ''audit_rest_api_key'', ''session_requires_role'',
     ''uses_authorization_code_grant'', ''uses_iam_grant'', ''uses_pfas_grant'']"

subsection \<open>Validation\<close>

record 'db app_env =
  ae_TelemetryError :: "go_error option"
  ae_PostgresError :: "go_error option"
  ae_StructError :: "app_config \<Rightarrow> go_error option"
  ae_ServerError :: "go_error option"
  ae_ClientEnv :: client_env
  ae_ProviderFileEnv :: provider_file_env
  ae_CacheError :: "string \<Rightarrow> go_error option"
  ae_PgStore :: "go_error + 'db pg_env"
  ae_CronError :: "string \<Rightarrow> go_error option"
  ae_UseTelemetryError :: "go_error option"
  ae_AddTaskError :: "go_error option"
  ae_TokenEnv :: token_env
  ae_AuthorizerEnv :: authorizer_env
  ae_AuditEnv :: audit_env
  ae_ProviderEnv :: provider_env

definition validate_iam :: "app_config \<Rightarrow> go_error + unit" where
  "validate_iam c =
     (if ap_UsesIAMGrant c \<and> trim_space (ap_IAMIssuer c) = []
        then fail (ErrText ''iam_issuer is required when uses_iam_grant is enabled'')
      else if ap_UsesIAMGrant c \<and> trim_space (ap_IAMJWKSURL c) = []
        then fail (ErrText ''iam_jwks_url is required when uses_iam_grant is enabled'')
      else ok ())"

definition Validate :: "'db app_env \<Rightarrow> app_config \<Rightarrow> go_error + unit" where
  "Validate env c =
     (case ae_TelemetryError env of
        Some e \<Rightarrow> fail e
      | None \<Rightarrow>
          (case if ap_SessionStoreType c = ''postgres'' then ae_PostgresError env else None of
             Some e \<Rightarrow> fail e
           | None \<Rightarrow>
               (case ae_StructError env c of Some e \<Rightarrow> fail e | None \<Rightarrow> validate_iam c)))"

definition ExposedConfig :: "app_config \<Rightarrow> configuration" where
  "ExposedConfig c = \<lparr>cf_IntrospectionURL = ap_IntrospectionURL c,
     cf_IntrospectionClientID = ap_IntrospectionClientID c,
     cf_IntrospectionClientSecret = ap_IntrospectionClientSecret c,
     cf_IAMIssuer = ap_IAMIssuer c, cf_IAMJWKSURL = ap_IAMJWKSURL c,
     cf_SessionTimeout = ap_SessionTimeout c, cf_SessionCountdown = ap_SessionCountdown c,
     cf_AuthorizerRestAPIKey = ap_AuthorizerRestAPIKey c,
     cf_AuthorizerRequiresTOS = ap_AuthorizerRequiresTOS c, cf_TOSEndpoint = ap_TOSEndpoint c,
     cf_SessionRequiresRole = ap_SessionRequiresRole c,
     cf_UsesAuthorizationCodeGrant = ap_UsesAuthorizationCodeGrant c,
     cf_UsesIAMGrant = ap_UsesIAMGrant c, cf_UsesPfasGrant = ap_UsesPfasGrant c\<rparr>"

subsection \<open>\<open>New\<close>\<close>

text \<open>\<open>An_AuthProviderStore\<close> is nil for any type but \<open>file\<close>.\<close>

record 'db app =
  an_Auth :: "'db idauth"
  an_AuthProviderStore :: "provider_file option"
  an_Cleanup :: bool

definition check :: "go_error option \<Rightarrow> go_error + unit" where
  "check e = (case e of Some x \<Rightarrow> fail x | None \<Rightarrow> ok ())"

definition new_provider_store :: "'db app_env \<Rightarrow> app_config \<Rightarrow> go_error + provider_file option" where
  "new_provider_store env c =
     (if ap_AuthProviderStoreType c = ''file''
      then and_then (NewFileAuthProviderStore (ae_ProviderFileEnv env) (ap_AuthProviderStoreFile c))
             (\<lambda>s. ok (Some s))
      else ok None)"

text \<open>The constructors of the three caches, each under its name, and of the database store.\<close>

definition NewAzugoCacheOOTStore :: "'db app_env \<Rightarrow> go_error + unit" where
  "NewAzugoCacheOOTStore env = check (ae_CacheError env ''idauth-ott'')"

definition NewAzugoCacheCorrelationStore :: "'db app_env \<Rightarrow> go_error + unit" where
  "NewAzugoCacheCorrelationStore env = check (ae_CacheError env ''idauth-correlation'')"

definition NewAzugoCacheSessionStore :: "'db app_env \<Rightarrow> go_error + 'db session_store" where
  "NewAzugoCacheSessionStore env =
     and_then (check (ae_CacheError env ''idauth-session'')) (\<lambda>_. ok CacheSessionStore)"

definition NewPostgresSessionStore :: "'db app_env \<Rightarrow> go_error + 'db session_store" where
  "NewPostgresSessionStore env = and_then (ae_PgStore env) (\<lambda>pg. ok (PostgresSessionStore pg))"

lemmas cache_constructors = NewAzugoCacheOOTStore_def NewAzugoCacheCorrelationStore_def
  NewAzugoCacheSessionStore_def NewPostgresSessionStore_def

definition new_session_store :: "'db app_env \<Rightarrow> app_config \<Rightarrow> go_error + 'db session_store" where
  "new_session_store env c =
     (if ap_SessionStoreType c = ''cache''
        then NewAzugoCacheSessionStore env
      else if ap_SessionStoreType c = ''postgres'' then NewPostgresSessionStore env
      else fail (ErrText ''unsupported session store type. valid values are cache, postgres''))"

definition new_cleanup :: "'db app_env \<Rightarrow> app_config \<Rightarrow> go_error + bool" where
  "new_cleanup env c =
     (if ap_EnableSessionStoreCleanup c
      then and_then (check (ae_CronError env (ap_CleanupCronExpression c))) (\<lambda>_. ok True)
      else ok False)"

definition NewRestApiAuthorizer :: "rest_authorizer_config \<Rightarrow> authorizer" where
  "NewRestApiAuthorizer = RestAPIAuthorizer"

definition NewNoopAuthorizer :: authorizer where
  "NewNoopAuthorizer = NoopAuthorizer"

definition new_authorizer :: "app_config \<Rightarrow> go_error + authorizer" where
  "new_authorizer c =
     (if ap_AuthorizerType c = ''rest_api''
        then ok (NewRestApiAuthorizer \<lparr>ra_ApiKey = ap_AuthorizerRestAPIKey c,
                   ra_EndpointUrl = ap_AuthorizerRestAPIURL c\<rparr>)
      else if ap_AuthorizerType c = ''noop'' then ok NewNoopAuthorizer
      else fail (ErrText ''unsupported authorizer type. valid values are rest_api, noop''))"

definition new_audit_provider :: "app_config \<Rightarrow> go_error + audit_provider" where
  "new_audit_provider c =
     (if ap_AuditType c = ''noop'' then ok NoopAuditProvider
      else if ap_AuditType c = ''rest_api''
        then ok (NewRestAPIAuditProvider \<lparr>rc_AuditUrl = ap_AuditRestAPIUrl c,
                   rc_AuditIncludePersonData = ap_AuditIncludePersonData c,
                   rc_AuditRestAPIKey = ap_AuditRestAPIKey c\<rparr>)
      else fail (ErrText ''unsupported audit provider. valid values noop, rest_api''))"

definition assemble ::
  "'db app_env \<Rightarrow> app_config \<Rightarrow> client_source list \<Rightarrow> go_error + 'db app" where
  "assemble env c sources =
     and_then (new_provider_store env c) (\<lambda>providerStore.
     and_then (NewAzugoCacheOOTStore env) (\<lambda>_.
     and_then (NewAzugoCacheCorrelationStore env) (\<lambda>_.
     and_then (new_session_store env c) (\<lambda>sessionStore.
     and_then (new_cleanup env c) (\<lambda>cleanup.
     and_then (new_authorizer c) (\<lambda>authorizer.
     and_then (new_audit_provider c) (\<lambda>audit.
     and_then (check (ae_UseTelemetryError env)) (\<lambda>_.
     and_then (check (ae_AddTaskError env)) (\<lambda>_.
       ok \<lparr>an_Auth = \<lparr>ia_config = ExposedConfig c, ia_clientEnv = ae_ClientEnv env,
             ia_clientSources = sources, ia_tokenEnv = ae_TokenEnv env,
             ia_sessionStore = sessionStore, ia_authorizer = authorizer,
             ia_authorizerEnv = ae_AuthorizerEnv env, ia_auditProvider = audit,
             ia_auditEnv = ae_AuditEnv env, ia_authProviders = Map.empty,
             ia_providerEnv = ae_ProviderEnv env, ia_appName = ''IDAuth''\<rparr>,
           an_AuthProviderStore = providerStore, an_Cleanup = cleanup\<rparr>)))))))))"

definition app_New :: "'db app_env \<Rightarrow> app_config \<Rightarrow> ('db, go_error + 'db app) action" where
  "app_New env c =
     (case ae_ServerError env of
        Some e \<Rightarrow> ret (Inl e)
      | None \<Rightarrow>
          attempt (NewCompositeClientStore (ae_ClientEnv env) \<lparr>cs_ClientPath = ap_ClientStoreFile c,
              cs_APIUrl = ap_ClientStoreAPIURL c, cs_APIKey = ap_ClientStoreAPIKey c\<rparr>)
            (\<lambda>sources. ret (assemble env c sources)))"

text \<open>\<open>runWeb\<close>: \<open>Init\<close> on a nil store is a nil dereference.\<close>

definition runWeb :: "'db app_env \<Rightarrow> app_config \<Rightarrow> ('db, (go_error + 'db idauth) option) action" where
  "runWeb env c = do {
     r \<leftarrow> app_New env c;
     (case r of
        Inl e \<Rightarrow> ret (Some (Inl e))
      | Inr app \<Rightarrow>
          (case an_AuthProviderStore app of
             None \<Rightarrow> nil_dereference ''nil provider store in Init''
           | Some store \<Rightarrow>
               (case Init (ia_providerEnv (an_Auth app)) store of
                  None \<Rightarrow> nil_dereference ''panic in Register''
                | Some (Inl e) \<Rightarrow> ret (Some (Inl e))
                | Some (Inr ps) \<Rightarrow> ret (Some (Inr ((an_Auth app)\<lparr>ia_authProviders := ps\<rparr>))))))
   }"

subsection \<open>Lemmas\<close>

text \<open>
  Every key that can be set in the environment is read by a field. The defaults of the session clean-up
  are the only ones whose key no field reads.
\<close>

lemma cleanup_defaults_unread:
  "filter (\<lambda>k. k \<notin> set config_keys) (map fst (bind_defaults secret)) =
     [''session_store_cleanup_enabled'', ''session_store_cleanup_cron'']"
  "filter (\<lambda>k. k \<notin> set config_keys) (map fst bind_env) = []"
  by (simp_all add: bind_defaults_def bind_env_def config_keys_def)

lemma validate_iam_ok:
  "validate_iam c = Inr () \<longleftrightarrow>
     (ap_UsesIAMGrant c \<longrightarrow> trim_space (ap_IAMIssuer c) \<noteq> [] \<and> trim_space (ap_IAMJWKSURL c) \<noteq> [])"
  by (auto simp: validate_iam_def)

lemma check_ok [simp]: "check e = Inr u \<longleftrightarrow> e = None"
  by (auto simp: check_def split: option.splits)

lemma assemble_ok:
  assumes "assemble env c sources = Inr app"
  shows "ia_config (an_Auth app) = ExposedConfig c"
    and "ia_clientSources (an_Auth app) = sources"
    and "ap_SessionStoreType c = ''cache'' \<and> ia_sessionStore (an_Auth app) = CacheSessionStore \<or>
         ap_SessionStoreType c = ''postgres'' \<and>
           (\<exists>pg. ae_PgStore env = Inr pg \<and> ia_sessionStore (an_Auth app) = PostgresSessionStore pg)"
    and "an_Cleanup app = ap_EnableSessionStoreCleanup c"
    and "ap_AuthorizerType c \<in> {''rest_api'', ''noop''}" and "ap_AuditType c \<in> {''noop'', ''rest_api''}"
  using assms
  by (auto simp: assemble_def new_session_store_def new_cleanup_def new_authorizer_def
      new_audit_provider_def cache_constructors split: if_splits)

end
