(* ===== verification/ServiceProps.thy ===== *)
theory ServiceProps
  imports Examples AppConfig
begin

text \<open>
  Properties of the providers, the authorizer, the audit events and the construction of the service.
\<close>

subsection \<open>The authorizer\<close>

text \<open>
  C30: the error text of the authorization service survives its parsing: a refusal \<open>[code] message\<close>,
  whatever stands before it without a bracket, becomes the authorization error the code maps to, with
  the message.
\<close>

theorem authorizer_error_round_trip:
  assumes "url_parse (trim_right (ra_EndpointUrl cfg) (CHR ''/'')) = Some u"
    and "path = (if u_Path u = [] then ''/api/1.0/authorize'' else u_Path u)"
    and "az_SetRequestURL env (u_Scheme u @ ''://'' @ u_Host u) path = None"
    and "az_Marshal env r = Inr body" and "az_HTTP env (rest_request cfg u path body) = Inr res"
    and "hp_StatusCode res = 422" and "hp_Body res = before @ ''['' @ code @ '']'' @ '' '' @ msg"
    and "CHR ''['' \<notin> set before" and "ErrorMap code = Some c"
    and "msg \<noteq> []" and "CHR 0x0A \<notin> set msg"
  shows "GetUserData env (RestAPIAuthorizer cfg) r = Inl (auth_fail c msg)"
proof -
  have code: "code \<noteq> []" "CHR '']'' \<notin> set code"
    using assms(9) by (auto simp: ErrorMap_def split: if_splits)
  have "parseError (hp_Body res) = Some (code, msg)"
    unfolding assms(7) by (rule parseError_format) (use assms code in simp_all)
  then have "user_data_error (hp_Body res) = auth_fail c msg"
    using assms(9) by (auto simp: user_data_error_def)
  then show ?thesis using assms(1-6) by (simp add: rest_GetUserData_def Let_def)
qed

definition ex_refusing :: authorizer_env where
  "ex_refusing = \<lparr>az_SetRequestURL = (\<lambda>_ _. None), az_Marshal = (\<lambda>_. Inr ''{}''),
     az_HTTP = (\<lambda>_. Inr \<lparr>hp_StatusCode = 422, hp_Body = ''Error: [err:user:blocked] blocked''\<rparr>),
     az_Unmarshal = (\<lambda>_. Inl (ExtError ''no body''))\<rparr>"

theorem authorizer_error_round_trip_witness:
  "\<forall>r. GetUserData ex_refusing (RestAPIAuthorizer \<lparr>ra_ApiKey = [], ra_EndpointUrl = ''https://az.example/''\<rparr>) r =
     Inl (auth_fail AuthErrBlocked ''blocked'')"
proof
  fix r
  let ?cfg = "\<lparr>ra_ApiKey = [], ra_EndpointUrl = ''https://az.example/''\<rparr>"
  obtain u where u: "url_parse (trim_right (ra_EndpointUrl ?cfg) (CHR ''/'')) = Some u"
    by (cases "url_parse (trim_right (ra_EndpointUrl ?cfg) (CHR ''/''))") (simp, code_simp, simp)
  show "GetUserData ex_refusing (RestAPIAuthorizer ?cfg) r = Inl (auth_fail AuthErrBlocked ''blocked'')"
    by (rule authorizer_error_round_trip [OF u refl, where before = "''Error: ''" and code = "''err:user:blocked''"
          and body = "''{}''"
          and res = "\<lparr>hp_StatusCode = 422, hp_Body = ''Error: [err:user:blocked] blocked''\<rparr>"])
       (simp_all add: ex_refusing_def ErrorMap_def)
qed

subsection \<open>Providers\<close>

text \<open>
  C29: \<open>Init\<close> registers all providers exactly when their identifiers differ in more than case, and
  panics otherwise; a provider is then found under its identifier in any case.
\<close>

theorem providers_registered_iff:
  assumes "GetAllProviders store = Inr cfgs" and "new_providers env cfgs = Some ps"
  shows "(if distinct (map (to_lower \<circ> pc_ID) cfgs)
     then \<exists>m. Init env store = Some (Inr m) \<and>
       (\<forall>name. lookup_provider m name = map_of (map (apfst to_lower) ps) (to_lower name))
     else Init env store = None)"
proof -
  have i: "Init env store = map_option Inr (idauth_registry.register_all ps Map.empty)"
    using assms(1) Init_from_register_all [OF assms(2)] by (simp add: Init_def)
  have ids: "map (to_lower \<circ> fst) ps = map (to_lower \<circ> pc_ID) cfgs"
    using new_providers_ids [OF assms(2)] by (metis map_map)
  show ?thesis
  proof (cases "idauth_registry.register_all ps Map.empty")
    case None
    with idauth_registry.register_all_iff [of ps Map.empty] ids i show ?thesis
      by (auto simp: lookup_provider_eq split: if_splits)
  next
    case (Some m)
    with idauth_registry.register_all_iff [of ps Map.empty] ids i
      idauth_registry.register_all_lookup [OF Some] show ?thesis
      by (auto simp: lookup_provider_eq split: option.splits)
  qed
qed

definition ex_second_config :: auth_provider_config where
  "ex_second_config = ex_provider_config\<lparr>pc_ID := ''IdP''\<rparr>"

theorem providers_registered_iff_witness:
  "Init ex_provider_env [(''idp'', ex_provider_config), (''IdP'', ex_second_config)] = None"
proof -
  let ?store = "[(''idp'', ex_provider_config), (''IdP'', ex_second_config)]"
  have g: "GetAllProviders ?store = Inr [ex_provider_config, ex_second_config]"
    by (simp add: GetAllProviders_def)
  obtain ps where ps: "new_providers ex_provider_env [ex_provider_config, ex_second_config] = Some ps"
  proof -
    have "new_providers ex_provider_env [ex_provider_config, ex_second_config] \<noteq> None" by code_simp
    with that show thesis by blast
  qed
  have "\<not> distinct (map (to_lower \<circ> pc_ID) [ex_provider_config, ex_second_config])" by code_simp
  with providers_registered_iff [OF g ps] show ?thesis by (simp del: map_map list.map)
qed

text \<open>
  The logout parameters are a map in the code, and the order of ranging over it is open: every
  order gives the same logout URL.
\<close>

theorem logout_url_order:
  assumes "distinct (map fst (pc_LogoutParams (op_config p)))"
    and "mset (pc_LogoutParams (op_config p)) = mset qs"
    and "p' = p\<lparr>op_config := op_config p\<lparr>pc_LogoutParams := qs\<rparr>\<rparr>"
  shows "LogoutURL p' hint = LogoutURL p hint"
  using fold_value_set_order [OF assms(1,2)]
  by (simp add: assms(3) LogoutURL_def buildEndSessionURL_def end_session_query_def Let_def
      split: option.splits)

theorem logout_url_order_witness:
  "LogoutURL (ex_oidc\<lparr>op_config := ex_provider_config\<lparr>pc_LogoutParams := [(''x'', ''2''), (''force'', ''1'')]\<rparr>\<rparr>) ''t'' =
   LogoutURL (ex_oidc\<lparr>op_config := ex_provider_config\<lparr>pc_LogoutParams := [(''force'', ''1''), (''x'', ''2'')]\<rparr>\<rparr>) ''t''"
  by (rule logout_url_order [where qs = "[(''x'', ''2''), (''force'', ''1'')]"]) simp_all


definition ex_mapped :: oidc_provider where
  "ex_mapped = ex_oidc\<lparr>op_claimMapper := Some \<lparr>cm_filePath = ''m'', cm_script = ''function(x) x''\<rparr>\<rparr>"

definition ex_jwt_request :: request where
  "ex_jwt_request = ex_request\<lparr>rq_Query := (\<lambda>_. Inr ''jwt'')\<rparr>"


text \<open>
  C40: the sign-out URL is one field of a provider shared by all requests. When a second callback comes
  in before the first one has read it, the first user is sent to the URL with the identity token of
  the second.
\<close>

theorem signout_url_of_last_callback:
  assumes "pc_PostCallbackSignout (op_config p)"
    and "run_state (provider_Callback env (OidcAuthProvider p) rq1 sess1) w = (Inr (Some t1), w1)"
    and "run_state (provider_Callback env (OidcAuthProvider p) rq2 sess2) w1 = (Inr (Some t2), w2)"
  shows "fst (run_state (GetSignoutURL (OidcAuthProvider p)) w2) =
     buildEndSessionURL p (ar_Token t2) (rq_BaseURL rq2 @ ''/oidc/logout/callback'')"
proof -
  from assms(3) have run: "run_state (Oidc_Callback env p rq2 sess2) w1 = (Inr t2, w2)"
    by (auto simp: provider_Callback_def split: sum.splits prod.splits)
  then show ?thesis
  proof (rule Oidc_Callback_ok)
    fix code raw idt
    assume c: "rq_Query rq2 ''code'' = Inr code"
      "px_Exchange env p (callback_url rq2 (op_config p)) code = Inr (Some raw)"
      "px_Verify env p raw = Inr idt" "\<forall>n \<in> set_option (c_Nonce sess2). n = it_Nonce idt"
      and r: "oidc_claims_request env p sess2 raw idt = Inr t2"
    from run c assms(1) have "w2 = w1\<lparr>w_signout := (w_signout w1)(signout_key (op_config p) :=
        buildEndSessionURL p raw (rq_BaseURL rq2 @ ''/oidc/logout/callback''))\<rparr>"
      by (auto simp: Oidc_Callback_def set_signout_def split: if_splits)
    then show ?thesis
      using oidc_claims_request_token [OF r] by (simp add: GetSignoutURL_def provider_config_def)
  qed
qed

definition ex_signout_oidc :: oidc_provider where
  "ex_signout_oidc = ex_oidc\<lparr>op_config := ex_provider_config\<lparr>pc_PostCallbackSignout := True\<rparr>\<rparr>"

definition ex_code_callback :: "string \<Rightarrow> request" where
  "ex_code_callback code = ex_request\<lparr>rq_Query := (\<lambda>_. Inr code)\<rparr>"

lemma ex_code_callback_sel [simp]: "rq_BaseURL (ex_code_callback code) = ''https://id.example''"
  by (simp add: ex_code_callback_def ex_request_def)

lemma ex_signout_callback:
  "run_state (provider_Callback ex_provider_env (OidcAuthProvider ex_signout_oidc) (ex_code_callback code) ex_correlation) w =
     (Inr (Some (oidc_auth_request (op_config ex_signout_oidc) code ex_claims)),
      w\<lparr>w_signout := (w_signout w)(signout_key (op_config ex_signout_oidc) :=
        buildEndSessionURL ex_signout_oidc code ''https://id.example/oidc/logout/callback'')\<rparr>)"
  by (simp add: provider_Callback_def Oidc_Callback_def ex_provider_env_def ex_code_callback_def ex_request_def
      ex_signout_oidc_def ex_oidc_def ex_provider_config_def oidc_claims_request_def set_signout_def)

theorem signout_url_of_last_callback_witness:
  "fst (run_state (GetSignoutURL (OidcAuthProvider ex_signout_oidc))
     (exec (provider_Callback ex_provider_env (OidcAuthProvider ex_signout_oidc) (ex_code_callback ''b'') ex_correlation)
       (exec (provider_Callback ex_provider_env (OidcAuthProvider ex_signout_oidc) (ex_code_callback ''a'') ex_correlation)
         ex_world))) =
     buildEndSessionURL ex_signout_oidc ''b'' ''https://id.example/oidc/logout/callback''"
proof -
  have "pc_PostCallbackSignout (op_config ex_signout_oidc)" by (simp add: ex_signout_oidc_def)
  from signout_url_of_last_callback [OF this ex_signout_callback [of "''a''" ex_world]
      ex_signout_callback [of "''b''"]]
  show ?thesis
    by (simp add: exec_def ex_signout_callback oidc_auth_request_def)
qed

subsection \<open>Audit events\<close>

text \<open>
  C31: when the REST provider saves events, one request with all of them goes out. Each event keeps the
  code and the outcome the handler gave it, and the caller's correlation header, cut to 50 characters, is
  its transaction.
\<close>

theorem audit_events_sent:
  assumes "run_state (SaveEvent env (RestAPIAuditProvider cfg cl) rq ev) w = (Some (Inr ()), w')"
    and "av_Session ev = Some s" and "trim_space (rq_Header rq ''X-Correlation-ID'') \<noteq> []"
  shows "\<exists>sent. w_audit w' = w_audit w @ [sent] \<and>
     map ae_EventCode sent = map ae_EventCode (av_Events ev) \<and>
     map ae_EventSuccessful sent = map ae_EventSuccessful (av_Events ev) \<and>
     set (map ae_TransactionId sent) \<subseteq> {Some (take 50 (trim_space (rq_Header rq ''X-Correlation-ID'')))}"
proof -
  let ?sent = "map (enrich_event env rq (w_user w) s) (av_Events ev)"
  have id: "transactionIDFromContext rq = take 50 (trim_space (rq_Header rq ''X-Correlation-ID''))"
    using assms(3) by (simp add: transactionIDFromContext_def Let_def)
  then have "PtrString (transactionIDFromContext rq) = Some (take 50 (trim_space (rq_Header rq ''X-Correlation-ID'')))"
    using assms(3) by (simp add: PtrString_def)
  then have "ae_TransactionId (enrich_event env rq u s x) =
      Some (take 50 (trim_space (rq_Header rq ''X-Correlation-ID'')))" for u x
    by (simp add: enrich_event_def from_user_def Let_def from_organization_keeps)
  moreover have "w_audit w' = w_audit w @ [?sent]"
    using assms(1,2)
    by (auto simp: SaveEvent_def send_events_def client_SaveAuditEvent_def split: sum.splits if_splits prod.splits)
  ultimately show ?thesis by (intro exI [of _ ?sent]) (auto simp: enrich_keeps)
qed

definition ex_saving :: audit_env where
  "ex_saving = ex_audit_env\<lparr>ax_HTTP := (\<lambda>_. Inr \<lparr>hp_StatusCode = 200, hp_Body = []\<rparr>)\<rparr>"

definition ex_saving_config :: rest_audit_config where
  "ex_saving_config = \<lparr>rc_AuditUrl = ''https://audit.example'', rc_AuditIncludePersonData = False,
     rc_AuditRestAPIKey = ''k''\<rparr>"

definition ex_traced_request :: request where
  "ex_traced_request = ex_request\<lparr>rq_Header := (\<lambda>_. ''trace-1'')\<rparr>"

definition ex_logout_audit :: audit_event where
  "ex_logout_audit = \<lparr>av_Session = Some zero_session, av_Events = [logout_event True]\<rparr>"

lemma ex_saving_run:
  "fst (run_state (SaveEvent ex_saving (RestAPIAuditProvider ex_saving_config (audit_NewClient ''https://audit.example''))
     ex_traced_request ex_logout_audit) ex_world) = Some (Inr ())"
proof -
  obtain url where "save_event_url (xc_Server (audit_NewClient ''https://audit.example'')) = Some url"
    by (cases "save_event_url (xc_Server (audit_NewClient ''https://audit.example''))") (code_simp, simp)
  then show ?thesis
    by (simp add: SaveEvent_def ex_logout_audit_def send_events_def client_SaveAuditEvent_def
        NewSaveAuditEventRequest_def ex_saving_def ex_audit_env_def)
qed

theorem audit_events_sent_witness:
  "\<exists>sent. w_audit (exec (SaveEvent ex_saving (RestAPIAuditProvider ex_saving_config (audit_NewClient ''https://audit.example''))
     ex_traced_request ex_logout_audit) ex_world) = [sent] \<and> map ae_EventCode sent = [Some ''logout''] \<and>
     set (map ae_TransactionId sent) \<subseteq> {Some ''trace-1''}"
proof -
  have t: "trim_space (rq_Header ex_traced_request ''X-Correlation-ID'') = ''trace-1''"
    by (simp add: ex_traced_request_def) code_simp
  have e: "run_state (SaveEvent ex_saving (RestAPIAuditProvider ex_saving_config (audit_NewClient ''https://audit.example''))
      ex_traced_request ex_logout_audit) ex_world = (Some (Inr ()),
      exec (SaveEvent ex_saving (RestAPIAuditProvider ex_saving_config (audit_NewClient ''https://audit.example''))
      ex_traced_request ex_logout_audit) ex_world)"
    using ex_saving_run by (simp add: exec_def prod_eq_iff)
  from audit_events_sent [OF e, of zero_session] t show ?thesis
    by (auto simp: ex_logout_audit_def logout_event_def)
qed

subsection \<open>The service\<close>

text \<open>
  C23: the service that \<open>runWeb\<close> puts together from a valid configuration has one of the two session
  stores, the grants of the configuration, an issuer and a key set when the IAM grant is on, and every
  provider under its own identifier in lower case.
\<close>

theorem assembled_service:
  assumes "Validate env c = Inr ()" and "run_state (runWeb env c) w = (Some (Inr a), w')"
  shows "deployed a \<and> ia_config a = ExposedConfig c \<and>
     (if cf_UsesIAMGrant (ia_config a)
      then trim_space (cf_IAMIssuer (ia_config a)) \<noteq> [] \<and> trim_space (cf_IAMJWKSURL (ia_config a)) \<noteq> [] else True) \<and>
     (\<forall>k. case ia_authProviders a k of None \<Rightarrow> True | Some p \<Rightarrow> k = to_lower (pc_ID (provider_config p)))"
proof -
  obtain app w1 where new: "run_state (app_New env c) w = (Inr app, w1)"
    using assms(2) by (auto simp: runWeb_def nil_dereference_def split: sum.splits prod.splits option.splits)
  with assms(2) obtain store ps where init: "Init (ia_providerEnv (an_Auth app)) store = Some (Inr ps)"
    and a: "a = (an_Auth app)\<lparr>ia_authProviders := ps\<rparr>"
    by (auto simp: runWeb_def nil_dereference_def split: sum.splits option.splits)
  from new obtain sources where "assemble env c sources = Inr app"
    by (auto simp: app_New_def split: option.splits sum.splits prod.splits)
  note app = assemble_ok [OF this]
  have "validate_iam c = Inr ()" using assms(1) by (auto simp: Validate_def split: option.splits)
  then have iam: "ap_UsesIAMGrant c \<longrightarrow> trim_space (ap_IAMIssuer c) \<noteq> [] \<and> trim_space (ap_IAMJWKSURL c) \<noteq> []"
    by (simp only: validate_iam_ok)
  have "k = to_lower (pc_ID (provider_config p))" if "ps k = Some p" for k p
    using init that Init_from_wf [of "ia_providerEnv (an_Auth app)" _ Map.empty ps k p]
    by (auto simp: Init_def signout_key_def split: sum.splits)
  then show ?thesis
    using app(1,3) iam by (auto simp: a deployed_def ExposedConfig_def split: option.splits)
qed

definition ex_app_config :: app_config where
  "ex_app_config = \<lparr>ap_SessionStoreType = ''cache'', ap_EnableSessionStoreCleanup = False,
     ap_CleanupCronExpression = [], ap_SessionTimeout = 3600 * 10 ^ 9, ap_SessionCountdown = 300 * 10 ^ 9,
     ap_IntrospectionURL = [], ap_IntrospectionClientID = [], ap_IntrospectionClientSecret = [],
     ap_IAMIssuer = ''https://iam.example'', ap_IAMJWKSURL = ''https://iam.example/jwks'',
     ap_ClientStoreFile = ''clients.yaml'', ap_ClientStoreAPIURL = [], ap_ClientStoreAPIKey = [],
     ap_AuthProviderStoreType = ''file'', ap_AuthProviderStoreFile = ''providers.yaml'',
     ap_AuthorizerType = ''noop'', ap_AuthorizerRestAPIURL = [], ap_AuthorizerRestAPIKey = ''key'',
     ap_AuthorizerRequiresTOS = False, ap_TOSEndpoint = [], ap_AuditType = ''noop'', ap_AuditRestAPIUrl = [],
     ap_AuditIncludePersonData = False, ap_AuditRestAPIKey = [], ap_SessionRequiresRole = False,
     ap_UsesAuthorizationCodeGrant = True, ap_UsesIAMGrant = True, ap_UsesPfasGrant = False\<rparr>"

definition ex_app_env :: "unit app_env" where
  "ex_app_env = \<lparr>ae_TelemetryError = None, ae_PostgresError = None, ae_StructError = (\<lambda>_. None),
     ae_ServerError = None, ae_ClientEnv = ex_client_env,
     ae_ProviderFileEnv = \<lparr>pe_ReadFile = (\<lambda>_. Inr ''yaml''), pe_YAML = (\<lambda>_. Inr [ex_provider_config]),
       pe_Validate = (\<lambda>_. None)\<rparr>,
     ae_CacheError = (\<lambda>_. None), ae_PgStore = Inl (ExtError ''no database''), ae_CronError = (\<lambda>_. None),
     ae_UseTelemetryError = None, ae_AddTaskError = None, ae_TokenEnv = ex_token_env,
     ae_AuthorizerEnv = ex_authorizer_env, ae_AuditEnv = ex_audit_env, ae_ProviderEnv = ex_provider_env\<rparr>"

lemma ex_app_valid: "Validate ex_app_env ex_app_config = Inr ()"
proof -
  have "trim_space ''https://iam.example'' \<noteq> []" "trim_space ''https://iam.example/jwks'' \<noteq> []" by code_simp+
  then show ?thesis by (simp add: Validate_def ex_app_env_def ex_app_config_def validate_iam_def)
qed

lemma ex_new_provider: "\<exists>p. new_provider ex_provider_env ex_provider_config = Inr p"
proof -
  have "to_lower ''OIDC'' = ''oidc''" by code_simp
  then show ?thesis
    by (simp add: new_provider_def NewOidcService_def ex_provider_config_def ex_provider_env_def load_mapper_def)
qed

lemma ex_web_runs: "\<exists>a w'. run_state (runWeb ex_app_env ex_app_config) ex_world = (Some (Inr a), w')"
proof -
  obtain p where "new_provider ex_provider_env ex_provider_config = Inr p" using ex_new_provider by blast
  then show ?thesis
    by (simp add: runWeb_def app_New_def ex_app_env_def ex_app_config_def NewCompositeClientStore_def
        client_sources_def loadClients_def fileSource_LoadClients_def ex_client_env_def assemble_def check_def
        new_provider_store_def NewFileAuthProviderStore_def new_session_store_def new_cleanup_def
        new_authorizer_def new_audit_provider_def cache_constructors NewNoopAuthorizer_def NewRestApiAuthorizer_def Init_def GetAllProviders_def Register_def)
qed

theorem assembled_service_witness:
  "\<exists>a w'. run_state (runWeb ex_app_env ex_app_config) ex_world = (Some (Inr a), w') \<and> deployed a \<and>
     ia_config a = ExposedConfig ex_app_config"
proof -
  obtain a w' where run: "run_state (runWeb ex_app_env ex_app_config) ex_world = (Some (Inr a), w')"
    using ex_web_runs by blast
  from assembled_service [OF ex_app_valid run] run show ?thesis by blast
qed

end
