(* ===== verification/RedirectProps.thy ===== *)
theory RedirectProps
  imports LoginProps
begin

text \<open>
  Properties of the redirects of the browser flow: which redirect URIs are accepted, what an error sends
  to the caller, and what a failed login sends.
\<close>

subsection \<open>Redirect URIs\<close>

lemma contains_prefix: "contains uri (take n uri)"
  unfolding contains_iff by (rule exI [of _ "[]"], rule exI [of _ "drop n uri"]) simp

definition ex_authorize_request :: "string \<Rightarrow> request" where
  "ex_authorize_request uri = ex_request\<lparr>rq_Route := ''/authorize'',
     rq_Query := (\<lambda>k. if k = ''client_id'' then Inr ''app'' else Inr uri),
     rq_QueryOptional := (\<lambda>k. if k = ''acr_values'' then Some ''idp'' else if k = ''state'' then Some ''st'' else None)\<rparr>"

lemma run_Set_new:
  assumes "rq_Cookie rq = None" and "w_faults w (w_tick w) = None"
  shows "run_state (Correlation_Set rq (Some c)) w = (Inr (new_correlation c),
     w\<lparr>w_ulid := Suc (w_ulid w), w_tick := Suc (w_tick w), w_cor := (w_cor w)(w_ulids w (w_ulid w) \<mapsto> new_correlation c),
       w_resp := w_resp w @ [SetCookie (correlation_cookie rq (w_ulids w (w_ulid w)) False)]\<rparr>)"
  using assms
  by (simp add: Correlation_Set_def getFromCookie_def setToCookie_def run_cache_set Let_def)

lemma authorize_client_stores:
  assumes "rq_Cookie rq = None" and "w_faults w (w_tick w) = None"
    and "rq_QueryOptional rq ''acr_values'' = Some pid" and "rq_QueryOptional rq ''state'' = Some st"
    and "GetProvider (ia_authProviders a) pid = Inr p"
  shows "\<exists>cor. w_cor (exec (authorize_client a c k uri rq) w) = (w_cor w)(w_ulids w (w_ulid w) \<mapsto> cor) \<and>
     cor = new_correlation cor \<and> c_ClientID cor = k \<and> c_RedirectURI cor = uri \<and> c_State cor = Some st \<and>
     c_Nonce cor = rq_QueryOptional rq ''nonce'' \<and>
     w_ulid (exec (authorize_client a c k uri rq) w) = Suc (w_ulid w)"
proof -
  define cor where "cor = new_correlation \<lparr>c_ID = [], c_ClientID = k,
                 c_RedirectURI = uri, c_Nonce = CloneStrPtr (rq_QueryOptional rq ''nonce''),
                 c_State = CloneStrPtr (Some st),
                 c_CodeChallenge = CloneStrPtr (rq_QueryOptional rq ''code_challenge''),
                 c_CodeChallengeMethod = CloneStrPtr (rq_QueryOptional rq ''code_challenge_method''),
                 c_ErrorCode = [], c_ManagedByProvider = False, c_SessionCreated = None,
                 c_TOSTargetURI = None\<rparr>"
  define w1 where "w1 = w\<lparr>w_ulid := Suc (w_ulid w), w_tick := Suc (w_tick w),
       w_cor := (w_cor w)(w_ulids w (w_ulid w) \<mapsto> cor),
       w_resp := w_resp w @ [SetCookie (correlation_cookie rq (w_ulids w (w_ulid w)) False)]\<rparr>"
  obtain r w2 where pr: "run_state (provider_Authorize (ia_providerEnv a) p rq cor) w1 = (r, w2)"
    by (rule prod.exhaust)
  have same: "same w_cor (provider_Authorize (ia_providerEnv a) p rq cor)"
    "same w_ulid (provider_Authorize (ia_providerEnv a) p rq cor)" by (intro triples; simp)+
  have w2: "w_cor w2 = (w_cor w)(w_ulids w (w_ulid w) \<mapsto> cor)" "w_ulid w2 = Suc (w_ulid w)"
    using same_run [OF same(1) pr] same_run [OF same(2) pr] by (simp_all add: w1_def)
  have none: "case r of None \<Rightarrow> True | Some (Inl _) \<Rightarrow> False | Some (Inr _) \<Rightarrow> True"
    using provider_Authorize_no_error [OF pr] by (auto split: option.splits sum.splits)
  have "exec (authorize_client a c k uri rq) w = w2"
    using assms none pr [unfolded cor_def w1_def] run_Set_new [OF assms(1,2)]
    by (auto simp: authorize_client_def exec_def split: option.splits sum.splits)
  with w2 show ?thesis by (intro exI [of _ cor]) (simp add: cor_def new_correlation_def)
qed

text \<open>
  C37: \<open>validRedirectURI\<close> looks for the requested URI inside a registered one, so every initial part of
  a registered URI is accepted, and \<open>authorize\<close> stores it as the place the browser is sent back to with
  the code: ''https://app'' for a client registered with ''https://app.example/auth-done''.
\<close>

theorem redirect_prefix_is_accepted:
  assumes "rq_Query rq ''client_id'' = Inr k" and "w_clients w k = Some c" and "uri \<in> set (cl_RedirectURI c)"
    and "rq_Query rq ''redirect_uri'' = Inr (take n uri)"
    and "rq_QueryOptional rq ''acr_values'' = Some pid" and "rq_QueryOptional rq ''state'' = Some st"
    and "GetProvider (ia_authProviders a) pid = Inr p"
    and "rq_Cookie rq = None" and "w_faults w (w_tick w) = None"
  shows "\<exists>cor. w_cor (exec (authorize a rq) w) (w_ulids w (w_ulid w)) = Some cor \<and>
     c_RedirectURI cor = take n uri"
proof -
  have "validRedirectURI c (take n uri)"
    using assms(3) contains_prefix by (auto simp: validRedirectURI_def)
  then have "exec (authorize a rq) w = exec (authorize_client a c k (take n uri) rq) w"
    using assms(1,2,4) by (simp add: authorize_def exec_def GetClient_def)
  with authorize_client_stores [OF assms(8,9,5,6,7)] show ?thesis by (metis fun_upd_same)
qed

theorem redirect_prefix_is_accepted_witness:
  "\<exists>cor. w_cor (exec (authorize ex_idauth (ex_authorize_request ''https://app'')) ex_world) (ex_ulid 0) = Some cor \<and>
     c_RedirectURI cor = ''https://app''"
  using redirect_prefix_is_accepted [of "ex_authorize_request ''https://app''" "''app''" ex_world ex_app
      "''https://app.example/auth-done''" 11 "''idp''" "''st''" ex_idauth "OidcAuthProvider ex_oidc"]
  by (simp add: ex_authorize_request_def ex_request_def ex_app_def ex_get_provider)

subsection \<open>Errors\<close>

text \<open>
  C25: an error of the flow reaches the caller as \<open>error\<close> in the query of the redirect, with the state
  of the request; the query decodes to what was put in, it has no code of this server, and no token is
  made.
\<close>

theorem error_redirect_has_no_code:
  assumes "run_state (RedirectToCaller a rq sess) w = (Inr (), w')" and "c_ErrorCode sess \<noteq> []"
    and "c_State sess = Some st"
  shows "\<exists>u ops q. url_parse (redirect_target sess) = Some u \<and>
     w_resp w' = w_resp w @ ops @ [Redirect (url_string (u\<lparr>u_RawQuery := query_encode q\<rparr>))] \<and>
     query_parse (query_encode q) = q \<and> value_get ''error'' q = c_ErrorCode sess \<and>
     value_get ''state'' q = st \<and> value_get ''code'' q = value_get ''code'' (query_parse (u_RawQuery u)) \<and>
     w_ott w' = w_ott w"
proof -
  obtain u code ops where u: "url_parse (redirect_target sess) = Some u"
    and resp: "w_resp w' = w_resp w @ ops @
      [Redirect (url_string (u\<lparr>u_RawQuery := query_encode (caller_query a sess u code)\<rparr>))]"
    and ott: "w_ott w' = w_ott w"
    using RedirectToCaller_ok [OF assms(1)] assms(2) by metis
  let ?q = "caller_query a sess u code"
  have "query_parse (query_encode ?q) = ?q" by (rule query_parse_encode [OF caller_query_wf])
  moreover have "value_get ''code'' ?q = value_get ''code'' (query_parse (u_RawQuery u))"
    using assms(2) by (simp add: caller_query_def with_state_def with_state_wf Let_def values_wf_set split: option.splits)
  ultimately show ?thesis
    using u resp ott caller_query_get(1) [OF assms(2)] caller_query_get(3) [OF assms(3)] by blast
qed

definition ex_failed_flow :: correlation where
  "ex_failed_flow = ex_correlation\<lparr>c_ErrorCode := AuthErrCanceled\<rparr>"

theorem error_redirect_has_no_code_witness:
  "w_ott (exec (RedirectToCaller ex_idauth ex_request ex_failed_flow) ex_world) = Map.empty"
proof -
  obtain u where u: "url_parse ''https://app.example/auth-done'' = Some u"
    by (cases "url_parse ''https://app.example/auth-done''") (code_simp, simp)
  have r: "redirect_target ex_failed_flow = ''https://app.example/auth-done''"
    and e: "c_ErrorCode ex_failed_flow \<noteq> []" "c_State ex_failed_flow = Some ''st''"
    by (simp_all add: ex_failed_flow_def redirect_target_def)
  obtain x w' where run: "run_state (RedirectToCaller ex_idauth ex_request ex_failed_flow) ex_world = (x, w')"
    by (rule prod.exhaust)
  have "x = Inr ()"
    using run u r e finish_redirect_resp(2) by (fastforce simp: RedirectToCaller_def Let_def)
  with run error_redirect_has_no_code [OF _ e, of ex_idauth ex_request ex_world w'] show ?thesis
    by (auto simp: exec_def)
qed

text \<open>
  C38: a login whose correlation cannot be stored creates no session, but the error is not put on the
  correlation: the browser is sent to the caller with a code, made for the session that does not exist.
\<close>

theorem failed_login_sends_code:
  assumes "\<not> c_ManagedByProvider sess" and "c_ErrorCode sess = []" and "rq_Cookie rq = Some (Inr key)"
    and "w_faults w (w_tick w) = Some e" and "w_faults w (Suc (w_tick w)) = None"
    and "GetUserData (ia_authorizerEnv a) (ia_authorizer a) (user_data_request t) = Inr u"
    and "cf_UsesAuthorizationCodeGrant (ia_config a)" and "url_parse (redirect_target sess) = Some url"
  shows "\<exists>ops cor. let code = w_ulids w (w_ulid w); w' = exec (callback_user_data a rq p pid sess (Some t)) w in
     w_ses w' = w_ses w \<and> w_ott w' = (w_ott w)(code \<mapsto> fresh_token code cor) \<and> c_ID cor = c_ID sess \<and>
     w_resp w' = w_resp w @ ops @
       [Redirect (url_string (url\<lparr>u_RawQuery := query_encode (caller_query a cor url code)\<rparr>))]"
proof -
  let ?cor = "sess\<lparr>c_SessionCreated := CloneTimePtr (Some (rq_Now rq))\<rparr>"
  let ?w = "w\<lparr>w_tick := Suc (w_tick w)\<rparr>"
  have target: "redirect_target ?cor = redirect_target sess" by (simp add: redirect_target_def)
  obtain r w' where run: "run_state (RedirectToCaller a rq ?cor) ?w = (r, w')" by (rule prod.exhaust)
  have "r = Inr ()"
    using run assms(1,2,5,7,8) target finish_redirect_resp(2)
    by (fastforce simp: RedirectToCaller_def run_GenerateToken Let_def)
  with run have "run_state (RedirectToCaller a rq ?cor) ?w = (Inr (), w')" by simp
  note ok = RedirectToCaller_ok [OF this]
  have "exec (callback_user_data a rq p pid sess (Some t)) w = w'"
    using assms(1,3,4,6) run \<open>r = Inr ()\<close>
    by (simp add: callback_user_data_def handleUserData_def login_user_def Correlation_Set_def getFromCookie_def
        run_cache_get redirect_or_error_def exec_def Let_def)
  moreover have "same w_ses (RedirectToCaller a rq ?cor)" by (intro triples; simp)
  from same_run [OF this run] have "w_ses w' = w_ses w" by simp
  moreover obtain u code ops where "url_parse (redirect_target ?cor) = Some u"
    "w_resp w' = w_resp w @ ops @ [Redirect (url_string (u\<lparr>u_RawQuery := query_encode (caller_query a ?cor u code)\<rparr>))]"
    "code = w_ulids w (w_ulid w)" "w_ott w' = (w_ott w)(code \<mapsto> fresh_token code ?cor)"
    by (rule ok) (use assms(1,2,7) in auto)
  ultimately show ?thesis
    using assms(8) target by (intro exI [of _ ops] exI [of _ ?cor]) (simp add: Let_def)
qed

definition ex_faulty_world :: "unit world" where
  "ex_faulty_world = ex_world\<lparr>w_faults := (\<lambda>n. if n = 0 then Some (ErrText ''cache down'') else None)\<rparr>"

theorem failed_login_sends_code_witness:
  "\<exists>cor. w_ott (exec (callback_user_data ex_idauth (ex_cookie_request ''k'') (OidcAuthProvider ex_oidc) ''idp''
       ex_correlation (Some (oidc_auth_request ex_provider_config ''jwt'' ex_claims))) ex_faulty_world) =
     Map.empty(ex_ulid 0 \<mapsto> fresh_token (ex_ulid 0) cor)"
proof -
  obtain url where url: "url_parse ''https://app.example/auth-done'' = Some url"
    by (cases "url_parse ''https://app.example/auth-done''") (code_simp, simp)
  have w: "w_tick ex_faulty_world = 0" "w_faults ex_faulty_world 0 = Some (ErrText ''cache down'')"
    "w_faults ex_faulty_world (Suc 0) = None" "w_ott ex_faulty_world = Map.empty"
    "w_ulids ex_faulty_world = ex_ulid" "w_ulid ex_faulty_world = 0"
    by (simp_all add: ex_faulty_world_def)
  obtain u where u: "GetUserData (ia_authorizerEnv ex_idauth) (ia_authorizer ex_idauth)
      (user_data_request (oidc_auth_request ex_provider_config ''jwt'' ex_claims)) = Inr u"
    by (simp add: noop_GetUserData_def)
  have "redirect_target ex_correlation = ''https://app.example/auth-done''" by (simp add: redirect_target_def)
  with url u w failed_login_sends_code [of ex_correlation "ex_cookie_request ''k''" "''k''" ex_faulty_world
      "ErrText ''cache down''" ex_idauth "oidc_auth_request ex_provider_config ''jwt'' ex_claims" u url]
  show ?thesis by (simp add: Let_def del: fun_upd_apply) blast
qed

end
