(* ===== verification/PanicProps.thy ===== *)
theory PanicProps
  imports SessionProps
begin

text \<open>
  Where a request can panic. \<open>calm b\<close> says that nothing has panicked so far and, for the handlers behind
  \<open>AuthorizeBearer\<close> (\<open>b\<close>), that the request has its session. All handlers but two keep it, for both
  session stores and whatever fails in the caches, the database or the audit service: the other places
  where the code dereferences a pointer without a test cannot be reached with a nil pointer.
\<close>

subsection \<open>Calm programs\<close>

definition calm :: "bool \<Rightarrow> 'db world \<Rightarrow> bool" where
  "calm b w \<longleftrightarrow> (\<forall>p. Panic p \<notin> set (w_resp w)) \<and> (b \<longrightarrow> w_session w \<noteq> None)"

lemma calm_new_context: "calm False (new_context w)"
  by (simp add: calm_def new_context_def)

lemma calm_weaken: "calm b w \<Longrightarrow> calm False w"
  by (simp add: calm_def)

lemma calm_respond: "(\<And>p. op \<noteq> Panic p) \<Longrightarrow> keeps (calm b) (respond op)"
  by (auto simp: keeps_def calm_def exec_def)

lemma calm_same: "same w_resp m \<Longrightarrow> same w_session m \<Longrightarrow> keeps (calm b) m"
  by (simp add: keeps_def calm_def same_def)

lemma calm_set_session: "keeps (calm b) (modify (\<lambda>w. w\<lparr>w_session := Some s\<rparr>))"
  by (simp add: keeps_def calm_def)

lemma calm_read_session:
  "(\<And>s. keeps (calm True) (f (Some s))) \<Longrightarrow> keeps (calm True) (State_Monad.bind (gets w_session) f)"
  by (auto simp: keeps_def calm_def exec_def)

lemma calm_get_session:
  assumes "deployed a" and "\<And>s. keeps (calm True) (f (Inr (Some s)))"
  shows "keeps (calm True) (State_Monad.bind (st_GetSession (ia_sessionStore a)) f)"
  using assms by (auto simp: keeps_def calm_def exec_def deployed_def)

text \<open>The primitives that neither answer nor touch the session of the request.\<close>

lemma calm_quiet:
  "keeps (calm b) new_ulid" "keeps (calm b) (cor_set k c)" "keeps (calm b) (cor_get k)"
  "keeps (calm b) (cor_delete k)" "keeps (calm b) (set_signout cfg url)"
  "keeps (calm b) (GenerateToken cor)" "keeps (calm b) (RedeemToken k)" "keeps (calm b) (pg_exec g)"
  "keeps (calm b) (with_session_id s)" "keeps (calm b) (ses_set k s)" "keeps (calm b) (ses_get k)"
  "keeps (calm b) (ses_delete k)"
  "keeps (calm b) (modify (\<lambda>w. w\<lparr>w_audit := w_audit w @ [e]\<rparr>))"
  "keeps (calm b) (modify (\<lambda>w. w\<lparr>w_user := us\<rparr>))" "keeps (calm b) (modify (\<lambda>w. w\<lparr>w_clients := cs\<rparr>))"
  by (rule calm_same; intro triples; simp)+

lemma calm_stores:
  assumes "deployed a"
  shows "keeps (calm b) (st_Create (ia_sessionStore a) s)" "keeps (calm b) (st_Update (ia_sessionStore a) s)"
    "keeps (calm b) (st_GetSessionByID (ia_sessionStore a) k)"
    "keeps (calm b) (st_Extend (ia_sessionStore a) rq k)" "keeps (calm b) (st_Delete (ia_sessionStore a) k)"
    "keeps (calm b) (st_GetUserSessions (ia_sessionStore a) rq code k)"
    "keeps (calm b) (st_DeleteUserSession (ia_sessionStore a) k)"
    "keeps (calm b) (st_GetSessions (ia_sessionStore a) rq)"
  using assms
  by (auto simp: deployed_def Cache_Create_def Cache_Update_def Cache_GetSessionByID_def Cache_Extend_def
      Cache_Delete_def PostgresSessionStore_def Pg_Create_def Pg_Update_def Pg_GetSessionByID_def
      Pg_Extend_def Pg_Delete_def Pg_GetUserSessions_def Pg_DeleteUserSession_def Pg_GetSessions_def Let_def
      intro!: triples calm_respond calm_quiet)

subsection \<open>Shared pieces\<close>

lemma calm_refuse: "keeps (calm b) (refuse n c m)"
  unfolding refuse_def by (intro triples calm_respond; simp)

lemma calm_json_if_auth_error: "keeps (calm b) (json_if_auth_error e)"
  unfolding json_if_auth_error_def by (cases e; simp only: go_error.case; intro triples calm_respond; simp)

lemma calm_SaveEvent:
  "av_Session ev \<noteq> None \<or> ap = NoopAuditProvider \<Longrightarrow> keeps (calm b) (SaveEvent env ap rq ev)"
  unfolding SaveEvent_def send_events_def client_SaveAuditEvent_def
  by (cases ap; cases "av_Session ev"; cases "av_Events ev"; simp; intro triples calm_respond calm_quiet; simp)

lemma calm_audited:
  assumes "s \<noteq> None \<or> ia_auditProvider a = NoopAuditProvider" and "\<And>e. keeps (calm b) (cont e)"
  shows "keeps (calm b) (audited a rq s event result cont)"
  unfolding audited_def by (intro triples calm_SaveEvent assms(2)) (use assms(1) in auto)

lemma calm_Correlation:
  "keeps (calm b) (Correlation_Set rq c)" "keeps (calm b) (Correlation_Get rq)"
  "keeps (calm b) (Correlation_Delete rq)"
  unfolding Correlation_Set_def Correlation_Get_def Correlation_Delete_def getFromCookie_def
    setToCookie_def deleteFromCookie_def
  by (intro triples calm_respond calm_quiet; simp)+

lemma calm_redirect: "keeps (calm b) (redirect_or_error a rq sess)"
  unfolding redirect_or_error_def RedirectToCaller_def finish_redirect_def Let_def
  by (intro triples calm_respond calm_quiet calm_Correlation; simp)

lemma calm_ignore_result: "keeps (calm b) m \<Longrightarrow> keeps (calm b) (ignore_result m)"
  unfolding ignore_result_def by (intro triples)

lemma calm_ValidateToken: "keeps (calm b) (ValidateToken env v rq)"
  by (cases v; simp only: ValidateToken.simps Basic_ValidateToken_def Pfas_ValidateToken_def
      IAM_ValidateToken_def IAM_validateToken_def Noop_ValidateToken_def)
     (intro triples calm_respond; simp)+

lemmas calm_pieces = calm_quiet calm_refuse calm_json_if_auth_error calm_Correlation calm_redirect
  calm_ignore_result calm_ValidateToken calm_set_session

subsection \<open>Handlers without a session\<close>

lemma calm_token: "deployed a \<Longrightarrow> keeps (calm b) (token a rq)"
  unfolding token_def clientCredentials_def authorizationCode_def redeem_code_def
    validated_client_def issue_client_session_def Let_def
  by (intro triples calm_pieces calm_stores calm_audited calm_respond; simp)

text \<open>The correlation that \<open>authorize\<close> has stored has a state, which \<open>Authorize\<close> dereferences.\<close>

lemma calm_after_Set:
  assumes "c_ID c = []" and "\<And>r. (\<forall>cor. r = Inr cor \<longrightarrow> c_State cor = c_State c) \<Longrightarrow> keeps (calm b) (f r)"
  shows "keeps (calm b) (State_Monad.bind (Correlation_Set rq (Some c)) f)"
  by (rule keeps_bind_result [OF calm_Correlation(1), where P = "\<lambda>r. \<forall>cor. r = Inr cor \<longrightarrow> c_State cor = c_State c"])
     (use assms in \<open>auto dest: Correlation_Set_restart\<close>)

lemma calm_authorize: "keeps (calm b) (authorize a rq)"
proof -
  have "keeps (calm b) (provider_Authorize env p rq cor)" if "c_State cor \<noteq> None" for env p cor
    using that unfolding provider_Authorize_def Oidc_Authorize_def VPM_Authorize_def Let_def
    by (cases p; simp only: auth_provider.case; intro triples calm_respond; simp)
  then show ?thesis
    unfolding authorize_def authorize_client_def
    by (intro calm_after_Set triples calm_pieces calm_respond; auto)
qed

text \<open>
  A provider's \<open>Callback\<close> answers a nil token for a sign-out response only, and \<open>callback\<close> has left
  before for these.
\<close>

lemma provider_Callback_token:
  "run_state (provider_Callback env p rq sess) w = (r, w') \<Longrightarrow> \<not> rq_IsSignoutResponse rq \<Longrightarrow> r \<noteq> Inr None"
  by (auto simp: provider_Callback_def VPM_Callback_def
      split: auth_provider.splits if_splits sum.splits prod.splits)

lemma calm_provider_Callback: "keeps (calm b) (provider_Callback env p rq sess)"
  unfolding provider_Callback_def Oidc_Callback_def VPM_Callback_def
  by (cases p; simp only: auth_provider.case; intro triples calm_quiet calm_respond; simp)

lemma calm_with_token:
  assumes "\<not> rq_IsSignoutResponse rq" and "\<And>r. r \<noteq> Inr None \<Longrightarrow> keeps (calm b) (f r)"
  shows "keeps (calm b) (State_Monad.bind (provider_Callback env p rq sess) f)"
  by (rule keeps_bind_result [OF calm_provider_Callback, where P = "\<lambda>r. r \<noteq> Inr None"])
     (use provider_Callback_token assms in blast)+

lemma signout_response:
  "State_Monad.bind (handleSignoutResponse rq) f =
     (if rq_IsSignoutResponse rq then State_Monad.bind (respond (StatusCode 200)) (\<lambda>_. f True) else f False)"
  by (simp add: handleSignoutResponse_def)

lemma calm_login: "deployed a \<Longrightarrow> keeps (calm b) (handleUserData a rq (Some c) t)"
  unfolding handleUserData_def login_user_def store_tos_target_def finish_login_def Let_def
  by (intro triples calm_pieces calm_stores calm_audited calm_respond; simp)

lemma calm_callback: "deployed a \<Longrightarrow> keeps (calm b) (callback a rq)"
proof -
  assume a: "deployed a"
  have user: "keeps (calm b) (callback_user_data a rq p i sess (Some t))" for p i sess t
    unfolding callback_user_data_def callback_signout_def GetSignoutURL_def
    by (simp only: option.case; intro triples calm_pieces calm_respond calm_login a; simp)
  have "keeps (calm b) (callback_with_provider a rq p i sess)" if "\<not> rq_IsSignoutResponse rq" for p i sess
    unfolding callback_with_provider_def Let_def
    by (intro calm_with_token that triples calm_pieces; use user in auto)
  then show ?thesis
    unfolding callback_def signout_response Let_def
    by (cases "rq_IsSignoutResponse rq"; simp only: if_True if_False simp_thms;
        intro triples calm_pieces calm_respond; simp)
qed

lemma calm_oidcLogoutCallback: "keeps (calm b) (oidcLogoutCallback a rq)"
  unfolding oidcLogoutCallback_def by (intro triples calm_pieces calm_respond; simp)

lemma calm_other:
  "deployed a \<Longrightarrow> keeps (calm b) (getSessions_handler a rq)"
  "deployed a \<Longrightarrow> keeps (calm b) (deleteUsersSession a rq)"
  "keeps (calm b) (clientsReload a rq)" "keeps (calm b) (metadata a rq)"
  "keeps (calm b) (getConfigValues a rq)" "keeps (calm b) (healthz a rq)"
  unfolding getSessions_handler_def deleteUsersSession_def clientsReload_def RefetchClients_def
    loadClients_def metadata_def getConfigValues_def healthz_def Let_def
  by (intro triples calm_pieces calm_stores calm_respond; simp)+

subsection \<open>Handlers with a session\<close>

lemma calm_deleteSession: "deployed a \<Longrightarrow> keeps (calm True) (deleteSession a rq)"
  unfolding deleteSession_def Let_def
  by (rule calm_read_session, simp only: option.case, rule calm_get_session, assumption, simp only: sum.case)
     (intro triples calm_pieces calm_stores calm_audited calm_respond; simp)

lemma calm_json_session: "deployed a \<Longrightarrow> keeps (calm True) (json_session a rq s)"
  unfolding json_session_def sessionToResponse_def Let_def
  by (intro triples calm_pieces calm_deleteSession calm_respond; simp)

lemma calm_setSessionRole:
  assumes "deployed a" and "ia_auditProvider a = NoopAuditProvider"
  shows "keeps (calm True) (setSessionRole a rq)"
  unfolding setSessionRole_def choose_role_def store_role_def Let_def
  by (rule calm_read_session, simp only: option.case)
     (intro triples calm_pieces calm_stores calm_audited calm_json_session calm_respond; simp add: assms)

lemma calm_termsAccept:
  assumes "deployed a"
  shows "keeps (calm True) (termsAccept a rq)"
proof -
  have "keeps (calm True) (update_current_session a rq u)" for u
    unfolding update_current_session_def Let_def
    by (rule calm_get_session [OF assms], simp only: sum.case option.case)
       (intro triples calm_pieces calm_stores assms)
  then have user: "keeps (calm True) (handleUserData a rq None t)" for t
    unfolding handleUserData_def by (intro triples; simp)
  show ?thesis
    unfolding termsAccept_def
  proof (rule calm_get_session [OF assms], simp only: sum.case option.case, intro keeps_bind user)
    fix s r
    show "keeps (calm True) (case r of None \<Rightarrow> skip
      | Some (result, _) \<Rightarrow> do {
          session \<leftarrow> gets w_session;
          ignore_result (audited a rq session terms_event result (\<lambda>err.
            (case err of
               Some e \<Rightarrow> do { respond (Error e); ret (Some ()) }
             | None \<Rightarrow> ret (Some ()))))
        })"
      by (intro keeps_case_option keeps_case_prod keeps_skip calm_read_session)
         (intro triples calm_pieces calm_audited calm_respond; simp)
  qed
qed

lemma calm_session_handlers:
  assumes "deployed a"
  shows "keeps (calm True) (getSession_handler a rq)" "keeps (calm True) (extendSession a rq)"
    "keeps (calm True) (getSessionAvailableRoles a rq)" "keeps (calm True) (getUserSessions a rq)"
    "keeps (calm True) (deleteSession_handler a rq)"
proof -
  show "keeps (calm True) (getSession_handler a rq)"
    unfolding getSession_handler_def
    by (rule calm_get_session [OF assms], simp only: sum.case, rule calm_json_session [OF assms])
  show "keeps (calm True) (deleteSession_handler a rq)"
    unfolding deleteSession_handler_def by (intro calm_ignore_result calm_deleteSession assms)
qed (unfold extendSession_def getSessionAvailableRoles_def getUserSessions_def,
     (rule calm_read_session, simp only: option.case,
      intro triples calm_stores calm_json_session assms calm_respond; simp)+)

text \<open>With the Postgres store the list of sessions is never nil.\<close>

lemma calm_deleteUserSession:
  assumes "ia_sessionStore a = PostgresSessionStore pg"
  shows "keeps (calm True) (deleteUserSession a rq)"
proof -
  have a: "deployed a" using assms by (auto simp: deployed_def)
  have some: "r \<noteq> Inr None" if "run_state (Pg_GetUserSessions pg rq code k) w = (r, w')" for code k w w' r
    using that by (auto simp: Pg_GetUserSessions_def Let_def split: sum.splits option.splits prod.splits)
  have "keeps (calm True) (Pg_GetUserSessions pg rq code k)" for code k
    using calm_stores(6) [OF a, of True rq code k] by (simp add: assms PostgresSessionStore_def)
  note list = keeps_bind_result [OF this, where P = "\<lambda>r. r \<noteq> Inr None", OF some]
  show ?thesis
    unfolding deleteUserSession_def
    by (rule calm_read_session, simp only: option.case assms PostgresSessionStore_def session_store.simps,
        rule list, assumption)
       (intro triples calm_other a calm_respond; simp)
qed

subsection \<open>Middlewares and routes\<close>

lemma calm_NoStore: "(\<And>rq. keeps (calm b) (h rq)) \<Longrightarrow> keeps (calm b) (NoStore h rq)"
  unfolding NoStore_def by (intro triples calm_respond; simp)

lemma calm_RequireAuthorized: "(\<And>rq. keeps (calm b) (h rq)) \<Longrightarrow> keeps (calm b) (RequireAuthorized h rq)"
  unfolding RequireAuthorized_def by (intro triples calm_pieces)

lemma calm_RequireTOSAccepted: "(\<And>rq. keeps (calm b) (h rq)) \<Longrightarrow> keeps (calm b) (RequireTOSAccepted a h rq)"
  unfolding RequireTOSAccepted_def by (intro triples calm_respond; simp)

lemma calm_AuthorizeStaticToken:
  "(\<And>rq. keeps (calm b) (h rq)) \<Longrightarrow> keeps (calm b) (AuthorizeStaticToken a h rq)"
  unfolding AuthorizeStaticToken_def Let_def by (intro triples calm_respond; simp)

text \<open>\<open>AuthorizeBearer\<close> gives the request its session before it calls the handler.\<close>

lemma calm_AuthorizeBearer:
  assumes "deployed a" and "rq_Method rq \<noteq> ''OPTIONS''" and "\<And>rq. keeps (calm True) (h rq)"
  shows "keeps (calm False) (AuthorizeBearer a h rq)"
proof -
  have inside: "keeps (calm False) (do {
      modify (\<lambda>w. w\<lparr>w_session := Some s\<rparr>);
      modify (\<lambda>w. w\<lparr>w_user := Some (ToClaims s)\<rparr>);
      h rq
    })" for s
  proof (rule keepsI)
    fix w :: "'a world"
    assume "calm False w"
    then have "calm True (w\<lparr>w_session := Some s, w_user := Some (ToClaims s)\<rparr>)" by (simp add: calm_def)
    from keepsD [OF assms(3) this] show "calm False (exec (do {
        modify (\<lambda>w. w\<lparr>w_session := Some s\<rparr>);
        modify (\<lambda>w. w\<lparr>w_user := Some (ToClaims s)\<rparr>);
        h rq
      }) w)"
      by (simp add: exec_def calm_def)
  qed
  have refused: "keeps (calm False) (case e of ErrSessionNotFound m \<Rightarrow> refuse n c msg | _ \<Rightarrow> respond (Error e))" for e n c msg
    by (cases e) (auto intro: calm_refuse calm_respond)
  show ?thesis
    unfolding AuthorizeBearer_def Let_def
    by (simp only: assms(2) if_False, intro inside refused keeps_if keeps_bind calm_stores assms(1) keeps_case_sum
        calm_respond; simp)
qed

lemma calm_route:
  assumes "deployed a" and "((rq_Method rq, r), h) \<in> set (routes a)"
    and "(rq_Method rq, r) = (''DELETE'', ''/api/1.0/auth/sessions/{id}'') \<Longrightarrow> \<exists>pg. ia_sessionStore a = PostgresSessionStore pg"
    and "(rq_Method rq, r) = (''PATCH'', ''/api/1.0/session'') \<Longrightarrow> ia_auditProvider a = NoopAuditProvider"
  shows "keeps (calm False) (h rq)"
proof -
  note session = calm_session_handlers [OF assms(1)] calm_termsAccept [OF assms(1)] calm_other(5)
    calm_setSessionRole [OF assms(1)] calm_deleteUserSession
  show ?thesis
    using assms(2-4)
    unfolding routes_def webhook_group_def admin_group_def api_group_def tos_group_def secured_group_def
    by (simp, elim disjE conjE; simp; (elim exE)?; intro calm_AuthorizeBearer calm_NoStore calm_AuthorizeStaticToken
        calm_RequireTOSAccepted calm_RequireAuthorized session calm_token calm_authorize calm_callback
        calm_oidcLogoutCallback calm_other assms(1); simp)
qed

subsection \<open>The property\<close>



end
