(* ===== verification/EndToEnd.thy ===== *)
theory EndToEnd
  imports TokenProps SessionProps RedirectProps
begin

text \<open>
  The login flow from end to end: \<open>authorize\<close>, \<open>callback\<close>, \<open>token\<close> and a request with the token, served one
  after the other. The lemmas follow one run of each handler on its way of success; the property says
  that a user whom provider, authorizer and audit service let through ends with a session.
\<close>

subsection \<open>The requests of a login\<close>

definition authorize_request :: "string \<Rightarrow> string \<Rightarrow> string \<Rightarrow> request \<Rightarrow> bool" where
  "authorize_request clientID uri pid rq \<longleftrightarrow> rq_Method rq = ''GET'' \<and> rq_Route rq = ''/authorize'' \<and>
     rq_Query rq ''client_id'' = Inr clientID \<and> rq_Query rq ''redirect_uri'' = Inr uri \<and>
     rq_QueryOptional rq ''acr_values'' = Some pid \<and> rq_QueryOptional rq ''state'' \<noteq> None \<and> rq_Cookie rq = None"

definition callback_request :: "string \<Rightarrow> string \<Rightarrow> request \<Rightarrow> bool" where
  "callback_request cookie pid rq \<longleftrightarrow> rq_Method rq \<in> {''GET'', ''POST''} \<and> rq_Route rq = ''/callback/{id}'' \<and>
     rq_Param rq ''id'' = pid \<and> pid \<noteq> [] \<and> rq_Cookie rq = Some (Inr cookie) \<and>
     \<not> rq_IsSignoutResponse rq \<and> rq_QueryOptional rq ''error'' = None"

text \<open>What the parties outside the server decide.\<close>

definition audit_accepts :: "'db idauth \<Rightarrow> request \<Rightarrow> bool" where
  "audit_accepts a rq \<longleftrightarrow> (\<forall>s evs w :: 'db world. fst (run_state (SaveEvent (ia_auditEnv a) (ia_auditProvider a) rq
     \<lparr>av_Session = Some s, av_Events = evs\<rparr>) w) = Some (Inr ()))"

definition provider_accepts :: "'db idauth \<Rightarrow> auth_provider \<Rightarrow> request \<Rightarrow> string option \<Rightarrow> auth_request \<Rightarrow> bool" where
  "provider_accepts a p rq nonce t \<longleftrightarrow> (\<forall>cor. \<forall>w :: 'db world. c_Nonce cor = nonce \<longrightarrow>
     fst (run_state (provider_Callback (ia_providerEnv a) p rq cor) w) = Inr (Some t))"

subsection \<open>The way of success through each handler\<close>

text \<open>The parts of the state a later request of the flow depends on.\<close>

definition vitals :: "'db world \<Rightarrow> (string \<Rightarrow> session option) \<times> (string \<Rightarrow> one_time_token option) \<times>
    (nat \<Rightarrow> string) \<times> nat \<times> (nat \<Rightarrow> go_error option)" where
  "vitals w = (w_ses w, w_ott w, w_ulids w, w_ulid w, w_faults w)"

lemma vitals_eq:
  "vitals w' = (ses, ott, ids, n, faults) \<longleftrightarrow>
     w_ses w' = ses \<and> w_ott w' = ott \<and> w_ulids w' = ids \<and> w_ulid w' = n \<and> w_faults w' = faults"
  by (simp add: vitals_def)

lemma audited_accepted:
  fixes cont :: "go_error option \<Rightarrow> ('db, 'b option) action"
  assumes "audit_accepts a rq"
  obtains w1 where "run_state (audited a rq (Some s) event (Inr x) cont) w = run_state (cont None) w1"
    and "vitals w1 = vitals w"
proof -
  let ?save = "SaveEvent (ia_auditEnv a) (ia_auditProvider a) rq \<lparr>av_Session = Some s, av_Events = [event True]\<rparr>"
  obtain r w1 where run: "run_state ?save w = (r, w1)" by (rule prod.exhaust)
  have "r = Some (Inr ())" using assms run unfolding audit_accepts_def by (metis fst_conv)
  with run have "run_state (audited a rq (Some s) event (Inr x) cont) w = run_state (cont None) w1"
    by (simp add: audited_def is_ok_def)
  moreover have "same vitals ?save" by (intro triples; simp add: vitals_def)
  from same_run [OF this run] have "vitals w1 = vitals w" .
  ultimately show thesis by (rule that)
qed

definition logged_in :: "'db idauth \<Rightarrow> user_data \<Rightarrow> bool" where
  "logged_in a u \<longleftrightarrow> (if cf_AuthorizerRequiresTOS (ia_config a) then ud_IsTOSAccepted u else True)"

lemma login_user_completes:
  assumes "ia_sessionStore a = CacheSessionStore" and "audit_accepts a rq" and "logged_in a u"
    and "rq_Cookie rq = Some (Inr k)" and "w_cor w k = Some old" and "c_ClientID sess = c_ClientID old"
    and "\<forall>n. w_faults w n = None" and "c_ID sess \<noteq> []" and "\<not> c_ManagedByProvider sess"
  obtains w' where "run_state (login_user a rq sess t u) w =
      (Some (Inr (), sess\<lparr>c_SessionCreated := Some (rq_Now rq)\<rparr>), w')"
    and "vitals w' = ((w_ses w)(c_ID sess \<mapsto> login_session a rq sess t u), w_ott w, w_ulids w, w_ulid w, w_faults w)"
proof -
  let ?sess = "sess\<lparr>c_SessionCreated := Some (rq_Now rq)\<rparr>"
  let ?s = "login_session a rq sess t u"
  define w1 where "w1 = w\<lparr>w_cor := (w_cor w)(k \<mapsto> merge_correlation old ?sess),
     w_resp := w_resp w @ [SetCookie (correlation_cookie rq k False)], w_tick := Suc (Suc (Suc (w_tick w))), w_ses := (w_ses w)(c_ID sess \<mapsto> ?s)\<rparr>"
  let ?cont = "\<lambda>err. case err of
      Some e \<Rightarrow> do {
        _ \<leftarrow> st_Delete (ia_sessionStore a) (s_ID ?s);
        respond (Error e);
        ret (Some (Inl e, ?sess\<lparr>c_ErrorCode := AuthErrServer\<rparr>))
      }
    | None \<Rightarrow> ret (Some (Inr (), ?sess))"
  have "run_state (login_user a rq sess t u) w = run_state (audited a rq (Some ?s) (login_event ?s) (Inr ?s) ?cont) w1"
    using assms run_Set_known [of rq k w old ?sess]
    by (simp add: login_user_def store_tos_target_def finish_login_def logged_in_def Cache_Create_def
        with_session_id_def run_cache_set w1_def Let_def split: if_splits)
  moreover obtain w2 where "run_state (audited a rq (Some ?s) (login_event ?s) (Inr ?s) ?cont) w1 = run_state (?cont None) w2"
    "vitals w2 = vitals w1" using audited_accepted [OF assms(2)] .
  ultimately show thesis using that [of w2] by (simp add: w1_def vitals_def)
qed

lemma redirect_completes:
  assumes "url_parse (redirect_target sess) = Some u" and "c_ErrorCode sess = []" and "\<not> c_ManagedByProvider sess"
    and "cf_UsesAuthorizationCodeGrant (ia_config a)" and "\<forall>n. w_faults w n = None"
  defines "code \<equiv> w_ulids w (w_ulid w)"
  shows "vitals (exec (redirect_or_error a rq sess) w) =
      (w_ses w, (w_ott w)(code \<mapsto> fresh_token code sess), w_ulids w, Suc (w_ulid w), w_faults w)"
    and "\<exists>ops. w_resp (exec (redirect_or_error a rq sess) w) = w_resp w @ ops @
      [Redirect (url_string (u\<lparr>u_RawQuery := query_encode (caller_query a sess u code)\<rparr>))]"
proof -
  let ?q = "caller_query a sess u code"
  define w1 where "w1 = w\<lparr>w_ulid := Suc (w_ulid w), w_tick := Suc (w_tick w),
     w_ott := (w_ott w)(code \<mapsto> fresh_token code sess)\<rparr>"
  obtain r w2 where fin: "run_state (finish_redirect rq u ?q) w1 = (r, w2)" by (rule prod.exhaust)
  have e: "exec (redirect_or_error a rq sess) w = w2"
    using assms(1-5) fin finish_redirect_resp(2) [OF fin]
    by (simp add: redirect_or_error_def RedirectToCaller_def run_GenerateToken caller_query_def w1_def code_def
        exec_def Let_def)
  have "same vitals (finish_redirect rq u ?q)"
    unfolding finish_redirect_def by (intro triples; simp add: vitals_def)
  from same_run [OF this fin] show "vitals (exec (redirect_or_error a rq sess) w) =
      (w_ses w, (w_ott w)(code \<mapsto> fresh_token code sess), w_ulids w, Suc (w_ulid w), w_faults w)"
    unfolding e by (simp add: w1_def vitals_def)
  show "\<exists>ops. w_resp (exec (redirect_or_error a rq sess) w) = w_resp w @ ops @
      [Redirect (url_string (u\<lparr>u_RawQuery := query_encode ?q\<rparr>))]"
    unfolding e using finish_redirect_resp(1) [OF fin] by (simp add: w1_def)
qed

lemma callback_with_provider_completes:
  assumes "ia_sessionStore a = CacheSessionStore" and "\<forall>n. w_faults w n = None" and "w_ulids w (w_ulid w) \<noteq> []"
    and "cf_UsesAuthorizationCodeGrant (ia_config a)" and "audit_accepts a rq" and "logged_in a u"
    and "provider_accepts a p rq (c_Nonce cor) t" and "\<not> RequiresSignoutCallback p"
    and "GetUserData (ia_authorizerEnv a) (ia_authorizer a) (user_data_request t) = Inr u"
    and "rq_QueryOptional rq ''error'' = None" and "rq_Cookie rq = Some (Inr k)" and "w_cor w k = Some cor"
    and "cor = new_correlation cor" and "url_parse (c_RedirectURI cor) = Some url"
  defines "sid \<equiv> w_ulids w (w_ulid w)" and "code \<equiv> w_ulids w (Suc (w_ulid w))"
  defines "sess \<equiv> cor\<lparr>c_ID := sid, c_SessionCreated := Some (rq_Now rq)\<rparr>"
  shows "vitals (exec (callback_with_provider a rq p pid cor) w) =
      ((w_ses w)(sid \<mapsto> login_session a rq sess t u), (w_ott w)(code \<mapsto> fresh_token code sess),
       w_ulids w, Suc (Suc (w_ulid w)), w_faults w)"
    and "\<exists>ops. w_resp (exec (callback_with_provider a rq p pid cor) w) = ops @
      [Redirect (url_string (url\<lparr>u_RawQuery := query_encode (caller_query a sess url code)\<rparr>))]"
proof -
  let ?w1 = "w\<lparr>w_ulid := Suc (w_ulid w)\<rparr>" and ?sess = "cor\<lparr>c_ID := sid\<rparr>"
  have cor: "\<not> c_ManagedByProvider cor" "c_ErrorCode cor = []" "c_TOSTargetURI cor = None"
    using assms(13) by (metis new_correlation_sel)+
  obtain r w2 where cb: "run_state (provider_Callback (ia_providerEnv a) p rq ?sess) ?w1 = (r, w2)"
    by (rule prod.exhaust)
  have r: "r = Inr (Some t)"
    using assms(7) cb unfolding provider_accepts_def by (metis correlation.select_convs(4) correlation.surjective
        correlation.update_convs(1) fst_conv)
  have same: "same vitals (provider_Callback (ia_providerEnv a) p rq ?sess)"
    "same w_cor (provider_Callback (ia_providerEnv a) p rq ?sess)" by (intro triples; simp add: vitals_def)+
  have w2: "vitals w2 = (w_ses w, w_ott w, w_ulids w, Suc (w_ulid w), w_faults w)" "w_cor w2 = w_cor w"
    using same_run [OF same(1) cb] same_run [OF same(2) cb] by (simp_all add: vitals_def)
  have w2k: "w_cor w2 k = Some cor" "\<forall>n. w_faults w2 n = None" using w2 assms(2,12) by (simp_all add: vitals_eq)
  obtain w3 where login: "run_state (login_user a rq ?sess t u) w2 = (Some (Inr (), sess), w3)"
    and w3: "vitals w3 = ((w_ses w2)(sid \<mapsto> login_session a rq ?sess t u), w_ott w2, w_ulids w2, w_ulid w2, w_faults w2)"
    using login_user_completes [OF assms(1,5,6,11) w2k(1) _ w2k(2), of ?sess t] assms(3) cor(1)
    by (auto simp: sess_def sid_def)
  have e: "exec (callback_with_provider a rq p pid cor) w = exec (redirect_or_error a rq sess) w3"
    using assms(8-10) cb r login cor(1)
    by (simp add: callback_with_provider_def callback_user_data_def handleUserData_def callback_signout_def
        exec_def sid_def Let_def)
  have ready: "url_parse (redirect_target sess) = Some url" "c_ErrorCode sess = []" "\<not> c_ManagedByProvider sess"
    "\<forall>n. w_faults w3 n = None"
    using assms(2,14) cor w2 w3 by (simp_all add: sess_def redirect_target_def vitals_eq)
  have code: "w_ulids w3 (w_ulid w3) = code" using w2 w3 by (simp add: vitals_eq code_def)
  show "vitals (exec (callback_with_provider a rq p pid cor) w) =
      ((w_ses w)(sid \<mapsto> login_session a rq sess t u), (w_ott w)(code \<mapsto> fresh_token code sess),
       w_ulids w, Suc (Suc (w_ulid w)), w_faults w)"
    unfolding e redirect_completes(1) [OF ready(1-3) assms(4) ready(4)] code
    using w2 w3 by (simp add: vitals_eq sess_def)
  show "\<exists>ops. w_resp (exec (callback_with_provider a rq p pid cor) w) = ops @
      [Redirect (url_string (url\<lparr>u_RawQuery := query_encode (caller_query a sess url code)\<rparr>))]"
    using redirect_completes(2) [OF ready(1-3) assms(4) ready(4), of rq] unfolding e code by (metis append_assoc)
qed

subsection \<open>The requests, served\<close>

lemma serve_authorize:
  assumes "authorize_request k uri pid rq" and "w_clients w k = Some c" and "uri \<in> set (cl_RedirectURI c)"
    and "GetProvider (ia_authProviders a) pid = Inr p" and "\<forall>n. w_faults w n = None"
  obtains cor where "w_cor (serve a rq w) (w_ulids w (w_ulid w)) = Some cor" and "cor = new_correlation cor"
    and "c_RedirectURI cor = uri" and "c_State cor = rq_QueryOptional rq ''state''"
    and "c_Nonce cor = rq_QueryOptional rq ''nonce''"
    and "w_ulid (serve a rq w) = Suc (w_ulid w)" and "w_ulids (serve a rq w) = w_ulids w"
    and "w_faults (serve a rq w) = w_faults w"
proof -
  let ?w = "new_context w"
  obtain st where st: "rq_QueryOptional rq ''state'' = Some st" using assms(1) by (auto simp: authorize_request_def)
  have "validRedirectURI c uri" unfolding validRedirectURI_def by (rule bexI [OF contains_self assms(3)])
  then have e: "serve a rq w = exec (authorize_client a c k uri rq) ?w"
    using assms(1,2) by (simp add: authorize_request_def serve_def routes_def authorize_def exec_def GetClient_def)
  have same: "same w_ulids (authorize_client a c k uri rq)" "same w_faults (authorize_client a c k uri rq)"
    unfolding authorize_client_def by (intro triples; simp)+
  have w: "w_ulid ?w = w_ulid w" "w_ulids ?w = w_ulids w" by (simp_all add: new_context_def)
  have req: "rq_Cookie rq = None" "rq_QueryOptional rq ''acr_values'' = Some pid"
    using assms(1) by (simp_all add: authorize_request_def)
  have "w_faults ?w (w_tick ?w) = None" using assms(5) by simp
  from authorize_client_stores [OF req(1) this req(2) st assms(4), of c k uri]
  obtain cor where cor: "w_cor (serve a rq w) = (w_cor w)(w_ulids w (w_ulid w) \<mapsto> cor)" "c_RedirectURI cor = uri"
    "c_State cor = Some st" "c_Nonce cor = rq_QueryOptional rq ''nonce''" "w_ulid (serve a rq w) = Suc (w_ulid w)"
    and new: "cor = new_correlation cor"
    unfolding e w new_context_sel by blast
  show thesis
    by (rule that [OF _ new]) (use sameD [OF same(1), of ?w] sameD [OF same(2), of ?w] in \<open>simp_all add: cor e [symmetric] st w\<close>)
qed

lemma serve_callback:
  assumes "callback_request k pid rq" and "w_cor w k = Some cor" and "cor = new_correlation cor"
    and "GetProvider (ia_authProviders a) pid = Inr p" and "\<forall>n. w_faults w n = None"
  shows "serve a rq w = exec (callback_with_provider a rq p pid cor) ((new_context w)\<lparr>w_tick := Suc (w_tick w)\<rparr>)"
proof -
  have "c_ID cor = []" using assms(3) by (metis new_correlation_sel(1))
  with assms show ?thesis
    by (auto simp: callback_request_def serve_def routes_def callback_def handleSignoutResponse_def exec_def
        Correlation_Get_def getFromCookie_def run_cache_get Let_def)
qed

lemma serve_code:
  assumes "code_request uri code rq" and "cf_UsesAuthorizationCodeGrant (ia_config a)"
    and "\<forall>n. w_faults w n = None" and "w_ott w code = Some ott" and "valid_ott_redirect ott uri"
  shows "issues (access_token a rq (o_SessionToken ott) (o_SessionCreated ott)) (w_resp (serve a rq w))"
    and "w_ses (serve a rq w) = w_ses w"
proof -
  have "same w_ses (authorizationCode a rq)"
    unfolding authorizationCode_def redeem_code_def by (intro triples; simp)
  from sameD [OF this, of "token_context w"] show "w_ses (serve a rq w) = w_ses w"
    by (simp add: serve_code_request [OF assms(1)] token_context_def)
  have req: "rq_Form rq ''redirect_uri'' = Inr uri" "rq_Form rq ''code'' = Inr code"
    using assms(1) by (simp_all add: code_request_def)
  show "issues (access_token a rq (o_SessionToken ott) (o_SessionCreated ott)) (w_resp (serve a rq w))"
    using assms(3-5)
    by (simp add: serve_code_request [OF assms(1)] authorizationCode_run [OF req assms(2)] redeem_code_def
        run_RedeemToken exec_def issues_def Let_def)
qed

text \<open>
  C2: a login comes to its end. When a registered client sends the browser to \<open>/authorize\<close>, the browser
  comes back from a provider that accepts the user, and authorizer and audit service answer, then the
  browser is redirected to the client with a code and the state of the client's request; that code
  gives an access token; and the token names a stored session of that user with the user's roles.
\<close>

theorem login_completes:
  fixes a :: "'db idauth"
  assumes "ia_sessionStore a = CacheSessionStore" and "cf_UsesAuthorizationCodeGrant (ia_config a)"
    and "\<forall>n. w_faults w n = None" and "\<forall>n. w_ulids w n \<noteq> []"
    and "authorize_request k uri pid rq1" and "w_clients w k = Some c" and "uri \<in> set (cl_RedirectURI c)"
    and "url_parse uri = Some url" and "GetProvider (ia_authProviders a) pid = Inr p"
    and "callback_request (w_ulids w (w_ulid w)) pid rq2" and "\<not> RequiresSignoutCallback p"
    and "provider_accepts a p rq2 (rq_QueryOptional rq1 ''nonce'') t" and "audit_accepts a rq2"
    and "GetUserData (ia_authorizerEnv a) (ia_authorizer a) (user_data_request t) = Inr u" and "logged_in a u"
    and "code_request uri (w_ulids w (Suc (Suc (w_ulid w)))) rq3"
    and "bearer_token rq4 = Some (w_ulids w (Suc (w_ulid w)))"
  shows "let w1 = serve a rq1 w; w2 = serve a rq2 w1; w3 = serve a rq3 w2 in
     (\<exists>q. last (w_resp w2) = Redirect (url_string (url\<lparr>u_RawQuery := query_encode q\<rparr>)) \<and>
        value_get ''code'' (query_parse (query_encode q)) = w_ulids w (Suc (Suc (w_ulid w))) \<and>
        Some (value_get ''state'' (query_parse (query_encode q))) = rq_QueryOptional rq1 ''state'') \<and>
     issues (access_token a rq3 (w_ulids w (Suc (w_ulid w))) (Some (rq_Now rq2))) (w_resp w3) \<and>
     (\<exists>s. session_of_request rq4 w3 = Some s \<and> s_Subject s = ud_UserID u \<and> s_Roles s = ud_Roles u)"
proof -
  let ?w1 = "serve a rq1 w" and ?w2 = "serve a rq2 (serve a rq1 w)"
  let ?sid = "w_ulids w (Suc (w_ulid w))" and ?code = "w_ulids w (Suc (Suc (w_ulid w)))"
  obtain cor where cor: "w_cor ?w1 (w_ulids w (w_ulid w)) = Some cor" "cor = new_correlation cor"
    "c_RedirectURI cor = uri" "c_State cor = rq_QueryOptional rq1 ''state''"
    "c_Nonce cor = rq_QueryOptional rq1 ''nonce''"
    and w1: "w_ulid ?w1 = Suc (w_ulid w)" "w_ulids ?w1 = w_ulids w" "w_faults ?w1 = w_faults w"
    using serve_authorize [OF assms(5-7,9,3)] .
  define sess where "sess = cor\<lparr>c_ID := ?sid, c_SessionCreated := Some (rq_Now rq2)\<rparr>"
  define v where "v = (new_context ?w1)\<lparr>w_tick := Suc (w_tick ?w1)\<rparr>"
  have v: "w_ulids v = w_ulids w" "w_ulid v = Suc (w_ulid w)" "w_cor v = w_cor ?w1" "w_faults v = w_faults w"
    using w1 by (simp_all add: v_def new_context_def)
  have e: "?w2 = exec (callback_with_provider a rq2 p pid cor) v"
    unfolding v_def by (rule serve_callback [OF assms(10) cor(1,2) assms(9)]) (simp add: w1 assms(3))
  have pre: "\<forall>n. w_faults v n = None" "w_ulids v (w_ulid v) \<noteq> []" "rq_QueryOptional rq2 ''error'' = None"
    "rq_Cookie rq2 = Some (Inr (w_ulids w (w_ulid w)))" "w_cor v (w_ulids w (w_ulid w)) = Some cor"
    "url_parse (c_RedirectURI cor) = Some url" "provider_accepts a p rq2 (c_Nonce cor) t"
    using assms(3,4,8,10,12) cor v by (simp_all add: callback_request_def)
  note fin = callback_with_provider_completes [OF assms(1) pre(1,2) assms(2,13,15) pre(7) assms(11,14) pre(3-5)
      cor(2) pre(6), of pid, unfolded v, folded e sess_def]
  have w2: "w_ses ?w2 ?sid = Some (login_session a rq2 sess t u)" "w_ott ?w2 ?code = Some (fresh_token ?code sess)"
    "\<forall>n. w_faults ?w2 n = None"
    using fin(1) assms(3) by (simp_all add: vitals_eq)
  have sess: "c_RedirectURI sess = uri" "c_ID sess = ?sid" "c_SessionCreated sess = Some (rq_Now rq2)"
    "c_State sess = rq_QueryOptional rq1 ''state''" "c_ErrorCode sess = []" "c_State sess \<noteq> None"
    using cor assms(5) by (simp_all add: sess_def authorize_request_def) (metis new_correlation_sel(2))
  have "valid_ott_redirect (fresh_token ?code sess) uri" by (simp add: valid_ott_redirect_def sess)
  note code = serve_code [where w = ?w2, OF assms(16,2) w2(3,2) this]
  let ?q = "caller_query a sess url ?code"
  have "last (w_resp ?w2) = Redirect (url_string (url\<lparr>u_RawQuery := query_encode ?q\<rparr>))"
    using fin(2) by auto
  moreover have "value_get ''code'' (query_parse (query_encode ?q)) = ?code"
    using sess(5) by (simp add: query_parse_encode caller_query_wf caller_query_get(2))
  moreover have "Some (value_get ''state'' (query_parse (query_encode ?q))) = rq_QueryOptional rq1 ''state''"
    using sess(4,6) by (auto simp: query_parse_encode caller_query_wf dest: caller_query_get(3))
  moreover have "issues (access_token a rq3 ?sid (Some (rq_Now rq2))) (w_resp (serve a rq3 ?w2))"
    using code(1) by (simp add: sess)
  moreover have "session_of_request rq4 (serve a rq3 ?w2) = Some (login_session a rq2 sess t u)"
    using assms(17) code(2) w2(1) by (simp add: session_of_request_def)
  moreover have "s_Subject (login_session a rq2 sess t u) = ud_UserID u"
    "s_Roles (login_session a rq2 sess t u) = ud_Roles u"
    by (simp_all add: login_session_def createSessionFromUserData_def)
  ultimately show ?thesis unfolding Let_def by blast
qed

definition ex_login_callback :: request where
  "ex_login_callback = ex_callback_request\<lparr>rq_Cookie := Some (Inr (ex_ulid 0))\<rparr>"

definition ex_login_user :: auth_request where
  "ex_login_user = oidc_auth_request ex_provider_config ''jwt'' ex_claims"

lemma ex_accepted:
  "provider_accepts ex_idauth (OidcAuthProvider ex_oidc) ex_login_callback None ex_login_user"
  "audit_accepts ex_idauth rq"
  by (simp_all add: provider_accepts_def audit_accepts_def provider_Callback_def Oidc_Callback_def ex_provider_env_def
      ex_oidc_def ex_provider_config_def oidc_claims_request_def ex_login_user_def ex_login_callback_def)

lemma ex_bearer_ulid: "bearer_token (ex_bearer_api m r (ex_ulid 1)) = Some (ex_ulid 1)"
  by (simp add: bearer_token_def) code_simp

theorem login_completes_witness:
  "let w1 = serve ex_idauth (ex_authorize_request ''https://app.example/auth-done'') ex_world;
       w2 = serve ex_idauth ex_login_callback w1;
       w3 = serve ex_idauth (ex_code_request ''https://app.example/auth-done'' (ex_ulid 2)) w2 in
     \<exists>s. session_of_request (ex_bearer_api ''GET'' ''/api/1.0/session'' (ex_ulid 1)) w3 = Some s"
proof -
  obtain url where url: "url_parse ''https://app.example/auth-done'' = Some url"
    using ex_url_parses by blast
  obtain u where u: "GetUserData (ia_authorizerEnv ex_idauth) (ia_authorizer ex_idauth) (user_data_request ex_login_user) = Inr u"
    by (simp add: noop_GetUserData_def)
  have "authorize_request ''app'' ''https://app.example/auth-done'' ''idp''
      (ex_authorize_request ''https://app.example/auth-done'')"
    "rq_QueryOptional (ex_authorize_request ''https://app.example/auth-done'') ''nonce'' = None"
    by (simp_all add: authorize_request_def ex_authorize_request_def ex_request_def)
  moreover have "callback_request (ex_ulid 0) ''idp'' ex_login_callback"
    by (simp add: callback_request_def ex_login_callback_def) (simp add: ex_callback_request_def)
  moreover have "\<not> RequiresSignoutCallback (OidcAuthProvider ex_oidc)"
    by (simp add: RequiresSignoutCallback_def provider_config_def ex_oidc_def ex_provider_config_def)
  ultimately show ?thesis
    using login_completes [where a = ex_idauth and w = ex_world and k = "''app''" and pid = "''idp''"
        and uri = "''https://app.example/auth-done''" and url = url and c = ex_app and p = "OidcAuthProvider ex_oidc"
        and t = ex_login_user and u = u and ?rq1.0 = "ex_authorize_request ''https://app.example/auth-done''"
        and ?rq2.0 = ex_login_callback and ?rq3.0 = "ex_code_request ''https://app.example/auth-done'' (ex_ulid 2)"
        and ?rq4.0 = "ex_bearer_api ''GET'' ''/api/1.0/session'' (ex_ulid 1)"]
      ex_accepted url u ex_get_provider ex_bearer_ulid
    by (simp add: logged_in_def ex_app_def numeral_2_eq_2 Let_def) blast
qed

end
