(* ===== verification/AppLife.thy ===== *)
theory AppLife
  imports AppConfig
begin

text \<open>
  The life of the process: \<open>Config\<close>, \<open>Start\<close> and \<open>Stop\<close> of \<open>app/app.go\<close>, the scheduled clean-up, and the
  command \<open>health\<close> of \<open>cmd/server/health.go\<close>. The web framework's own start and the HTTP client of the
  probe are parameters.
\<close>

subsection \<open>\<open>app/app.go\<close>\<close>

text \<open>None is the panic on a configuration that is not loaded.\<close>

definition app_Config :: "bool \<Rightarrow> app_config option \<Rightarrow> app_config option" where
  "app_Config ready config = (if config = None \<or> \<not> ready then None else config)"

definition app_Start :: "go_error option \<Rightarrow> 'db app \<Rightarrow> ('db, go_error + unit) action" where
  "app_Start framework app =
     attempt (st_StoreStart (ia_sessionStore (an_Auth app))) (\<lambda>_. ret (check framework))"

definition app_Stop :: "'db app \<Rightarrow> ('db, unit) action" where
  "app_Stop app = st_StoreStop (ia_sessionStore (an_Auth app))"

text \<open>The function of the cron job; it logs an error and goes on.\<close>

definition cleanup_job :: "app_config \<Rightarrow> 'db app \<Rightarrow> ('db, unit) action" where
  "cleanup_job c app = do {
     _ \<leftarrow> st_DeleteExpiredSessions (ia_sessionStore (an_Auth app)) (ap_SessionTimeout c);
     skip
   }"

subsection \<open>\<open>cmd/server/health.go\<close>\<close>

datatype exit = ExitOk | ExitCode nat | ExitPanic string

fun decimal :: "nat \<Rightarrow> string" where
  "decimal n = (if n < 10 then [char_of (n + 48)] else decimal (n div 10) @ [char_of (n mod 10 + 48)])"

declare decimal.simps [simp del]

definition health_url :: "nat \<Rightarrow> string \<Rightarrow> string" where
  "health_url port basePath = ''http://localhost:'' @ decimal port @ basePath @ ''/healthz''"

text \<open>
  \<open>app.New\<close> answers a nil application with its error, and \<open>a.Log()\<close> dereferences it before \<open>os.Exit(1)\<close>
  can be reached.
\<close>

definition runHealth ::
  "'db app_env \<Rightarrow> http_do \<Rightarrow> bool \<Rightarrow> nat \<Rightarrow> string \<Rightarrow> app_config \<Rightarrow> ('db, exit) action" where
  "runHealth env http ready port basePath c = do {
     r \<leftarrow> app_New env c;
     (case r of
        Inl _ \<Rightarrow> ret (ExitPanic ''nil application in runHealth'')
      | Inr app \<Rightarrow>
          (case app_Config ready (Some c) of
             None \<Rightarrow> ret (ExitPanic ''configuration is not loaded'')
           | Some _ \<Rightarrow>
               (case http \<lparr>hr_Method = ''GET'', hr_BaseURL = health_url port basePath, hr_Path = [],
                           hr_Headers = [], hr_Body = []\<rparr> of
                  Inl _ \<Rightarrow> ret (ExitCode 1)
                | Inr resp \<Rightarrow> if hp_StatusCode resp \<noteq> 200 then ret (ExitCode 1) else ret ExitOk)))
   }"

subsection \<open>Lemmas\<close>

lemma cleanup_job_cache:
  "ia_sessionStore (an_Auth app) = CacheSessionStore \<Longrightarrow> exec (cleanup_job c app) w = w"
  by (simp add: cleanup_job_def exec_def CacheSessionStore_def)

lemma start_stop_cache:
  assumes "ia_sessionStore (an_Auth app) = CacheSessionStore"
  shows "run_state (app_Start framework app) w = (check framework, w)" and "exec (app_Stop app) w = w"
  using assms by (simp_all add: app_Start_def app_Stop_def exec_def CacheSessionStore_def)

text \<open>A database that cannot be started keeps the server from starting.\<close>

lemma start_postgres_fails:
  assumes "ia_sessionStore (an_Auth app) = PostgresSessionStore pg" and "pg_Start pg (w_db w) = (Inl e, d)"
  shows "run_state (app_Start framework app) w = (Inl e, w\<lparr>w_db := d\<rparr>)"
  using assms by (simp add: app_Start_def PostgresSessionStore_def)

lemma health_ok_iff:
  "fst (run_state (runHealth env http ready port basePath c) w) = ExitOk \<longleftrightarrow>
     (\<exists>app. fst (run_state (app_New env c) w) = Inr app) \<and> ready \<and>
     (\<exists>resp. http \<lparr>hr_Method = ''GET'', hr_BaseURL = health_url port basePath, hr_Path = [],
        hr_Headers = [], hr_Body = []\<rparr> = Inr resp \<and> hp_StatusCode resp = 200)"
  by (cases "run_state (app_New env c) w")
     (auto simp: runHealth_def app_Config_def split: sum.splits option.splits)

lemma health_panics_on_bad_configuration:
  "fst (run_state (app_New env c) w) = Inl e \<Longrightarrow>
   fst (run_state (runHealth env http ready port basePath c) w) = ExitPanic ''nil application in runHealth''"
  by (cases "run_state (app_New env c) w") (simp add: runHealth_def)

end
