(* ===== verification/AuditClient.thy ===== *)
theory AuditClient
  imports AuditProvider
begin

text \<open>
  The generated client \<open>audit/audit.gen.go\<close> of the audit service as a whole: the options, the builder of
  every request, the operations, which run the request editors and send, and the readers of the
  responses. The program itself uses \<open>NewClient\<close> and \<open>SaveAuditEvent\<close> (theory AuditProvider). The
  JSON coding of bodies, the parameter styling of the client's runtime, \<open>http.NewRequest\<close> and the HTTP
  exchange are parameters. An editor changes the request through a pointer: here it returns the
  changed request.
\<close>

subsection \<open>Data\<close>

record get_audit_event_list_request =
  le_EventCode :: "string option"
  le_EventTimestampFrom :: "string option"
  le_EventTimestampTo :: "string option"
  le_EventType :: "string option"
  le_Justification :: "string option"
  le_Page :: "int option"
  le_PerPage :: "int option"
  le_RequestUrl :: "string option"
  le_ServerIdentifier :: "string option"
  le_UserCode :: "string option"
  le_UserId :: "string option"
  le_UserIp :: "string option"
  le_UserOrganizationName :: "string option"

record get_audit_items_export_request =
  xe_EventCode :: "string option"
  xe_EventTimestampFrom :: "string option"
  xe_EventTimestampTo :: "string option"
  xe_EventType :: "string option"
  xe_Justification :: "string option"
  xe_RequestUrl :: "string option"
  xe_ServerIdentifier :: "string option"
  xe_UserCode :: "string option"
  xe_UserId :: "string option"
  xe_UserIp :: "string option"
  xe_UserOrganizationId :: "string option"

record get_person_audit_event_list_request =
  lp_EventCode :: "string option"
  lp_EventTimestampFrom :: "string option"
  lp_EventTimestampTo :: "string option"
  lp_EventType :: "string option"
  lp_Justification :: "string option"
  lp_Page :: "int option"
  lp_PerPage :: "int option"
  lp_PersonCode :: "string option"
  lp_RequestUrl :: "string option"
  lp_ServerIdentifier :: "string option"
  lp_UserCode :: "string option"
  lp_UserId :: "string option"
  lp_UserIp :: "string option"
  lp_UserOrganizationName :: "string option"

record get_person_audit_item_request =
  ip_Justification :: "string option"

record get_person_audit_items_export_request =
  xp_EventCode :: "string option"
  xp_EventTimestampFrom :: "string option"
  xp_EventTimestampTo :: "string option"
  xp_EventType :: "string option"
  xp_Justification :: "string option"
  xp_PersonCode :: "string option"
  xp_RequestUrl :: "string option"
  xp_ServerIdentifier :: "string option"
  xp_UserCode :: "string option"
  xp_UserId :: "string option"
  xp_UserIp :: "string option"
  xp_UserOrganizationId :: "string option"

record save_audit_event_params =
  sp_XAPIKEY :: string

record delete_audit_events_params =
  dp_Type :: "32 word"
  dp_Months :: "32 word"

datatype audit_body =
    SaveBody "audit_item list"
  | EventListBody get_audit_event_list_request
  | ItemsExportBody get_audit_items_export_request
  | PersonEventListBody get_person_audit_event_list_request
  | PersonItemsExportBody get_person_audit_items_export_request
  | PersonItemBody get_person_audit_item_request

datatype param_location = LocationPath | LocationQuery | LocationHeader

datatype param_value = Int32Param "32 word" | StringParam string

record gen_env =
  ge_Marshal :: "audit_body \<Rightarrow> go_error + string"
  ge_StyleParam :: "param_location \<Rightarrow> string \<Rightarrow> param_value \<Rightarrow> go_error + string"
  ge_NewRequest :: "string \<Rightarrow> string \<Rightarrow> go_error option"
  ge_Unmarshal :: "string \<Rightarrow> go_error + json"

record gen_response =
  gr_Status :: string
  gr_StatusCode :: nat
  gr_ContentType :: string
  gr_Body :: "go_error + string"

type_synonym request_editor = "http_request \<Rightarrow> go_error + http_request"

record gen_client =
  gc_Server :: string
  gc_Client :: "(http_request \<Rightarrow> go_error + gen_response) option"
  gc_RequestEditors :: "request_editor list"

type_synonym client_option = "gen_client \<Rightarrow> go_error + gen_client"

subsection \<open>Construction\<close>

fun each_or_fail :: "('a \<Rightarrow> 'e + 'a) list \<Rightarrow> 'a \<Rightarrow> 'e + 'a" where
  "each_or_fail [] x = Inr x"
| "each_or_fail (f # fs) x = and_then (f x) (each_or_fail fs)"

text \<open>\<open>fallback\<close> is the \<open>http.Client\<close> that \<open>NewClient\<close> falls back on.\<close>

definition NewClient ::
  "(http_request \<Rightarrow> go_error + gen_response) \<Rightarrow> string \<Rightarrow> client_option list \<Rightarrow> go_error + gen_client" where
  "NewClient fallback server opts =
     and_then (each_or_fail opts \<lparr>gc_Server = server, gc_Client = None, gc_RequestEditors = []\<rparr>) (\<lambda>c.
       ok (c\<lparr>gc_Server := (if has_suffix (gc_Server c) ''/'' then gc_Server c else gc_Server c @ ''/''),
             gc_Client := (case gc_Client c of None \<Rightarrow> Some fallback | Some d \<Rightarrow> Some d)\<rparr>))"

definition NewClientWithResponses ::
  "(http_request \<Rightarrow> go_error + gen_response) \<Rightarrow> string \<Rightarrow> client_option list \<Rightarrow> go_error + gen_client" where
  "NewClientWithResponses fallback server opts = and_then (NewClient fallback server opts) ok"

definition WithHTTPClient :: "(http_request \<Rightarrow> go_error + gen_response) option \<Rightarrow> client_option" where
  "WithHTTPClient doer c = ok (c\<lparr>gc_Client := doer\<rparr>)"

definition WithRequestEditorFn :: "request_editor \<Rightarrow> client_option" where
  "WithRequestEditorFn fn c = ok (c\<lparr>gc_RequestEditors := gc_RequestEditors c @ [fn]\<rparr>)"

definition WithBaseURL :: "string \<Rightarrow> client_option" where
  "WithBaseURL baseURL c = (case url_parse baseURL of
       None \<Rightarrow> fail (ErrText ''parse'') | Some u \<Rightarrow> ok (c\<lparr>gc_Server := url_string u\<rparr>))"

definition applyEditors :: "gen_client \<Rightarrow> http_request \<Rightarrow> request_editor list \<Rightarrow> go_error + http_request" where
  "applyEditors c req additionalEditors =
     and_then (each_or_fail (gc_RequestEditors c) req) (each_or_fail additionalEditors)"

text \<open>What every operation does with its request; a client without a doer is a nil dereference.\<close>

definition send ::
  "gen_client \<Rightarrow> request_editor list \<Rightarrow> go_error + http_request \<Rightarrow> (go_error + gen_response) option" where
  "send c reqEditors built =
     (case and_then built (\<lambda>req. applyEditors c req reqEditors) of
        Inl e \<Rightarrow> Some (fail e)
      | Inr req \<Rightarrow> map_option (\<lambda>doer. doer req) (gc_Client c))"

subsection \<open>Requests\<close>

definition operation_request ::
  "gen_env \<Rightarrow> string \<Rightarrow> (string \<times> string) list \<Rightarrow> string \<Rightarrow> url \<Rightarrow> go_error + http_request" where
  "operation_request env verb headers body u =
     (case ge_NewRequest env verb (url_string u) of
        Some e \<Rightarrow> fail e
      | None \<Rightarrow> ok \<lparr>hr_Method = verb, hr_BaseURL = url_string u, hr_Path = [], hr_Headers = headers, hr_Body = body\<rparr>)"

text \<open>\<open>url.ParseQuery\<close> with its error.\<close>

definition ParseQuery :: "string \<Rightarrow> go_error + url_values" where
  "ParseQuery q =
     (if \<forall>p \<in> set (split_on (CHR ''&'') q). p = [] \<or> CHR '';'' \<notin> set p \<and>
           (case cut (CHR ''='') p of (k, x, _) \<Rightarrow> unescape EncQuery k \<noteq> None \<and> unescape EncQuery x \<noteq> None)
      then ok (query_parse q) else fail (ErrText ''invalid query''))"

definition add_query_param ::
  "gen_env \<Rightarrow> string \<Rightarrow> 32 word \<Rightarrow> url_values \<Rightarrow> go_error + url_values" where
  "add_query_param env name value q =
     and_then (ge_StyleParam env LocationQuery name (Int32Param value)) (\<lambda>frag.
     and_then (ParseQuery frag) (\<lambda>parsed.
       ok (fold (\<lambda>(k, vs). fold (value_add k) vs) parsed q)))"

definition NewDeleteAuditEventsRequest :: "gen_env \<Rightarrow> string \<Rightarrow> delete_audit_events_params option \<Rightarrow> go_error + http_request" where
  "NewDeleteAuditEventsRequest env server params =
     and_then (operation_url server ''/api/1.0/delete'') (\<lambda>u.
     and_then
       (case params of
          None \<Rightarrow> ok u
        | Some p \<Rightarrow>
            and_then (add_query_param env ''type'' (dp_Type p) (query_parse (u_RawQuery u))) (\<lambda>q.
            and_then (add_query_param env ''months'' (dp_Months p) q) (\<lambda>q2.
              ok (u\<lparr>u_RawQuery := query_encode q2\<rparr>))))
       (operation_request env ''DELETE'' [] []))"

definition NewSaveAuditEventRequestWithBody ::
  "gen_env \<Rightarrow> string \<Rightarrow> save_audit_event_params option \<Rightarrow> string \<Rightarrow> string \<Rightarrow> go_error + http_request" where
  "NewSaveAuditEventRequestWithBody env server params contentType body =
     and_then (operation_url server ''/api/1.0/event'') (\<lambda>u.
     and_then (operation_request env ''POST'' [(''Content-Type'', contentType)] body u) (\<lambda>req.
       (case params of
          None \<Rightarrow> ok req
        | Some p \<Rightarrow> and_then (ge_StyleParam env LocationHeader ''X-API-KEY'' (StringParam (sp_XAPIKEY p))) (\<lambda>h.
            ok (req\<lparr>hr_Headers := hr_Headers req @ [(''X-API-KEY'', h)]\<rparr>)))))"

text \<open>The builder with any parameters; the one the program uses is in theory AuditProvider.\<close>

definition gen_NewSaveAuditEventRequest ::
  "gen_env \<Rightarrow> string \<Rightarrow> save_audit_event_params option \<Rightarrow> audit_item list \<Rightarrow> go_error + http_request" where
  "gen_NewSaveAuditEventRequest env server params body =
     and_then (ge_Marshal env (SaveBody body)) (NewSaveAuditEventRequestWithBody env server params ''application/json'')"

definition NewGetAuditEventListRequestWithBody :: "gen_env \<Rightarrow> string \<Rightarrow> string \<Rightarrow> string \<Rightarrow> go_error + http_request" where
  "NewGetAuditEventListRequestWithBody env server contentType body =
     and_then (operation_url server ''/api/1.0/list'') (operation_request env ''POST'' [(''Content-Type'', contentType)] body)"

definition NewGetAuditEventListRequest :: "gen_env \<Rightarrow> string \<Rightarrow> get_audit_event_list_request \<Rightarrow> go_error + http_request" where
  "NewGetAuditEventListRequest env server body =
     and_then (ge_Marshal env (EventListBody body)) (NewGetAuditEventListRequestWithBody env server ''application/json'')"

definition NewPostApi10ListExportRequestWithBody :: "gen_env \<Rightarrow> string \<Rightarrow> string \<Rightarrow> string \<Rightarrow> go_error + http_request" where
  "NewPostApi10ListExportRequestWithBody env server contentType body =
     and_then (operation_url server ''/api/1.0/list/export'') (operation_request env ''POST'' [(''Content-Type'', contentType)] body)"

definition NewPostApi10ListExportRequest :: "gen_env \<Rightarrow> string \<Rightarrow> get_audit_items_export_request \<Rightarrow> go_error + http_request" where
  "NewPostApi10ListExportRequest env server body =
     and_then (ge_Marshal env (ItemsExportBody body)) (NewPostApi10ListExportRequestWithBody env server ''application/json'')"

definition NewGetAuditItemRequest :: "gen_env \<Rightarrow> string \<Rightarrow> 32 word \<Rightarrow> go_error + http_request" where
  "NewGetAuditItemRequest env server i =
     and_then (ge_StyleParam env LocationPath ''id'' (Int32Param i)) (\<lambda>p.
     and_then (operation_url server (''/api/1.0/list/'' @ p)) (operation_request env ''GET'' [] []))"

definition NewGetPersonAuditEventListRequestWithBody :: "gen_env \<Rightarrow> string \<Rightarrow> string \<Rightarrow> string \<Rightarrow> go_error + http_request" where
  "NewGetPersonAuditEventListRequestWithBody env server contentType body =
     and_then (operation_url server ''/api/1.0/person-list'') (operation_request env ''POST'' [(''Content-Type'', contentType)] body)"

definition NewGetPersonAuditEventListRequest :: "gen_env \<Rightarrow> string \<Rightarrow> get_person_audit_event_list_request \<Rightarrow> go_error + http_request" where
  "NewGetPersonAuditEventListRequest env server body =
     and_then (ge_Marshal env (PersonEventListBody body)) (NewGetPersonAuditEventListRequestWithBody env server ''application/json'')"

definition NewPostApi10PersonListExportRequestWithBody :: "gen_env \<Rightarrow> string \<Rightarrow> string \<Rightarrow> string \<Rightarrow> go_error + http_request" where
  "NewPostApi10PersonListExportRequestWithBody env server contentType body =
     and_then (operation_url server ''/api/1.0/person-list/export'') (operation_request env ''POST'' [(''Content-Type'', contentType)] body)"

definition NewPostApi10PersonListExportRequest :: "gen_env \<Rightarrow> string \<Rightarrow> get_person_audit_items_export_request \<Rightarrow> go_error + http_request" where
  "NewPostApi10PersonListExportRequest env server body =
     and_then (ge_Marshal env (PersonItemsExportBody body)) (NewPostApi10PersonListExportRequestWithBody env server ''application/json'')"

definition NewGetPersonAuditItemRequest :: "gen_env \<Rightarrow> string \<Rightarrow> 32 word \<Rightarrow> go_error + http_request" where
  "NewGetPersonAuditItemRequest env server i =
     and_then (ge_StyleParam env LocationPath ''id'' (Int32Param i)) (\<lambda>p.
     and_then (operation_url server (''/api/1.0/person-list/'' @ p)) (operation_request env ''GET'' [] []))"

definition NewGetPersonAuditItemWithBodyRequestWithBody :: "gen_env \<Rightarrow> string \<Rightarrow> 32 word \<Rightarrow> string \<Rightarrow> string \<Rightarrow> go_error + http_request" where
  "NewGetPersonAuditItemWithBodyRequestWithBody env server i contentType body =
     and_then (ge_StyleParam env LocationPath ''id'' (Int32Param i)) (\<lambda>p.
     and_then (operation_url server (''/api/1.0/person-list/'' @ p))
       (operation_request env ''POST'' [(''Content-Type'', contentType)] body))"

definition NewGetPersonAuditItemWithBodyRequest :: "gen_env \<Rightarrow> string \<Rightarrow> 32 word \<Rightarrow> get_person_audit_item_request \<Rightarrow> go_error + http_request" where
  "NewGetPersonAuditItemWithBodyRequest env server i body =
     and_then (ge_Marshal env (PersonItemBody body))
       (NewGetPersonAuditItemWithBodyRequestWithBody env server i ''application/json'')"

subsection \<open>Operations\<close>

definition Client_DeleteAuditEvents ::
  "gen_env \<Rightarrow> gen_client \<Rightarrow> delete_audit_events_params option \<Rightarrow> request_editor list \<Rightarrow> (go_error + gen_response) option" where
  "Client_DeleteAuditEvents env c params reqEditors = send c reqEditors (NewDeleteAuditEventsRequest env (gc_Server c) params)"

definition Client_SaveAuditEventWithBody ::
  "gen_env \<Rightarrow> gen_client \<Rightarrow> save_audit_event_params option \<Rightarrow> string \<Rightarrow> string \<Rightarrow> request_editor list \<Rightarrow> (go_error + gen_response) option" where
  "Client_SaveAuditEventWithBody env c params contentType body reqEditors = send c reqEditors (NewSaveAuditEventRequestWithBody env (gc_Server c) params contentType body)"

definition Client_SaveAuditEvent ::
  "gen_env \<Rightarrow> gen_client \<Rightarrow> save_audit_event_params option \<Rightarrow> audit_item list \<Rightarrow> request_editor list \<Rightarrow> (go_error + gen_response) option" where
  "Client_SaveAuditEvent env c params body reqEditors = send c reqEditors (gen_NewSaveAuditEventRequest env (gc_Server c) params body)"

definition Client_GetAuditEventListWithBody ::
  "gen_env \<Rightarrow> gen_client \<Rightarrow> string \<Rightarrow> string \<Rightarrow> request_editor list \<Rightarrow> (go_error + gen_response) option" where
  "Client_GetAuditEventListWithBody env c contentType body reqEditors = send c reqEditors (NewGetAuditEventListRequestWithBody env (gc_Server c) contentType body)"

definition Client_GetAuditEventList ::
  "gen_env \<Rightarrow> gen_client \<Rightarrow> get_audit_event_list_request \<Rightarrow> request_editor list \<Rightarrow> (go_error + gen_response) option" where
  "Client_GetAuditEventList env c body reqEditors = send c reqEditors (NewGetAuditEventListRequest env (gc_Server c) body)"

definition Client_PostApi10ListExportWithBody ::
  "gen_env \<Rightarrow> gen_client \<Rightarrow> string \<Rightarrow> string \<Rightarrow> request_editor list \<Rightarrow> (go_error + gen_response) option" where
  "Client_PostApi10ListExportWithBody env c contentType body reqEditors = send c reqEditors (NewPostApi10ListExportRequestWithBody env (gc_Server c) contentType body)"

definition Client_PostApi10ListExport ::
  "gen_env \<Rightarrow> gen_client \<Rightarrow> get_audit_items_export_request \<Rightarrow> request_editor list \<Rightarrow> (go_error + gen_response) option" where
  "Client_PostApi10ListExport env c body reqEditors = send c reqEditors (NewPostApi10ListExportRequest env (gc_Server c) body)"

definition Client_GetAuditItem ::
  "gen_env \<Rightarrow> gen_client \<Rightarrow> 32 word \<Rightarrow> request_editor list \<Rightarrow> (go_error + gen_response) option" where
  "Client_GetAuditItem env c i reqEditors = send c reqEditors (NewGetAuditItemRequest env (gc_Server c) i)"

definition Client_GetPersonAuditEventListWithBody ::
  "gen_env \<Rightarrow> gen_client \<Rightarrow> string \<Rightarrow> string \<Rightarrow> request_editor list \<Rightarrow> (go_error + gen_response) option" where
  "Client_GetPersonAuditEventListWithBody env c contentType body reqEditors = send c reqEditors (NewGetPersonAuditEventListRequestWithBody env (gc_Server c) contentType body)"

definition Client_GetPersonAuditEventList ::
  "gen_env \<Rightarrow> gen_client \<Rightarrow> get_person_audit_event_list_request \<Rightarrow> request_editor list \<Rightarrow> (go_error + gen_response) option" where
  "Client_GetPersonAuditEventList env c body reqEditors = send c reqEditors (NewGetPersonAuditEventListRequest env (gc_Server c) body)"

definition Client_PostApi10PersonListExportWithBody ::
  "gen_env \<Rightarrow> gen_client \<Rightarrow> string \<Rightarrow> string \<Rightarrow> request_editor list \<Rightarrow> (go_error + gen_response) option" where
  "Client_PostApi10PersonListExportWithBody env c contentType body reqEditors = send c reqEditors (NewPostApi10PersonListExportRequestWithBody env (gc_Server c) contentType body)"

definition Client_PostApi10PersonListExport ::
  "gen_env \<Rightarrow> gen_client \<Rightarrow> get_person_audit_items_export_request \<Rightarrow> request_editor list \<Rightarrow> (go_error + gen_response) option" where
  "Client_PostApi10PersonListExport env c body reqEditors = send c reqEditors (NewPostApi10PersonListExportRequest env (gc_Server c) body)"

definition Client_GetPersonAuditItem ::
  "gen_env \<Rightarrow> gen_client \<Rightarrow> 32 word \<Rightarrow> request_editor list \<Rightarrow> (go_error + gen_response) option" where
  "Client_GetPersonAuditItem env c i reqEditors = send c reqEditors (NewGetPersonAuditItemRequest env (gc_Server c) i)"

definition Client_GetPersonAuditItemWithBodyWithBody ::
  "gen_env \<Rightarrow> gen_client \<Rightarrow> 32 word \<Rightarrow> string \<Rightarrow> string \<Rightarrow> request_editor list \<Rightarrow> (go_error + gen_response) option" where
  "Client_GetPersonAuditItemWithBodyWithBody env c i contentType body reqEditors = send c reqEditors (NewGetPersonAuditItemWithBodyRequestWithBody env (gc_Server c) i contentType body)"

definition Client_GetPersonAuditItemWithBody ::
  "gen_env \<Rightarrow> gen_client \<Rightarrow> 32 word \<Rightarrow> get_person_audit_item_request \<Rightarrow> request_editor list \<Rightarrow> (go_error + gen_response) option" where
  "Client_GetPersonAuditItemWithBody env c i body reqEditors = send c reqEditors (NewGetPersonAuditItemWithBodyRequest env (gc_Server c) i body)"

subsection \<open>Responses\<close>

record json_response =
  jr_Body :: string
  jr_HTTPResponse :: "gen_response option"
  jr_JSON200 :: "json option"

record plain_response =
  lr_Body :: string
  lr_HTTPResponse :: "gen_response option"

text \<open>\<open>Status\<close> and \<open>StatusCode\<close>, the same for every response type; \<open>http.StatusText(0)\<close> is empty.\<close>

definition response_Status :: "gen_response option \<Rightarrow> string" where
  "response_Status r = (case r of None \<Rightarrow> [] | Some h \<Rightarrow> gr_Status h)"

definition response_StatusCode :: "gen_response option \<Rightarrow> nat" where
  "response_StatusCode r = (case r of None \<Rightarrow> 0 | Some h \<Rightarrow> gr_StatusCode h)"

definition parse_json_response :: "gen_env \<Rightarrow> gen_response \<Rightarrow> go_error + json_response" where
  "parse_json_response env rsp =
     and_then (gr_Body rsp) (\<lambda>bytes.
       let response = \<lparr>jr_Body = bytes, jr_HTTPResponse = Some rsp, jr_JSON200 = None\<rparr> in
       if contains (gr_ContentType rsp) ''json'' \<and> gr_StatusCode rsp = 200
       then and_then (ge_Unmarshal env bytes) (\<lambda>dest. ok (response\<lparr>jr_JSON200 := Some dest\<rparr>))
       else ok response)"

definition parse_plain_response :: "gen_response \<Rightarrow> go_error + plain_response" where
  "parse_plain_response rsp =
     and_then (gr_Body rsp) (\<lambda>bytes. ok \<lparr>lr_Body = bytes, lr_HTTPResponse = Some rsp\<rparr>)"

definition ParseDeleteAuditEventsResponse :: "gen_env \<Rightarrow> gen_response \<Rightarrow> go_error + json_response" where
  "ParseDeleteAuditEventsResponse = parse_json_response"

definition ParseSaveAuditEventResponse :: "gen_env \<Rightarrow> gen_response \<Rightarrow> go_error + json_response" where
  "ParseSaveAuditEventResponse = parse_json_response"

definition ParseGetAuditEventListResponse :: "gen_env \<Rightarrow> gen_response \<Rightarrow> go_error + json_response" where
  "ParseGetAuditEventListResponse = parse_json_response"

definition ParsePostApi10ListExportResponse :: "gen_env \<Rightarrow> gen_response \<Rightarrow> go_error + plain_response" where
  "ParsePostApi10ListExportResponse env = parse_plain_response"

definition ParseGetAuditItemResponse :: "gen_env \<Rightarrow> gen_response \<Rightarrow> go_error + json_response" where
  "ParseGetAuditItemResponse = parse_json_response"

definition ParseGetPersonAuditEventListResponse :: "gen_env \<Rightarrow> gen_response \<Rightarrow> go_error + json_response" where
  "ParseGetPersonAuditEventListResponse = parse_json_response"

definition ParsePostApi10PersonListExportResponse :: "gen_env \<Rightarrow> gen_response \<Rightarrow> go_error + plain_response" where
  "ParsePostApi10PersonListExportResponse env = parse_plain_response"

definition ParseGetPersonAuditItemResponse :: "gen_env \<Rightarrow> gen_response \<Rightarrow> go_error + json_response" where
  "ParseGetPersonAuditItemResponse = parse_json_response"

definition ParseGetPersonAuditItemWithBodyResponse :: "gen_env \<Rightarrow> gen_response \<Rightarrow> go_error + json_response" where
  "ParseGetPersonAuditItemWithBodyResponse = parse_json_response"

text \<open>The operations of \<open>ClientWithResponses\<close>.\<close>

definition with_response ::
  "(gen_env \<Rightarrow> gen_response \<Rightarrow> go_error + 'r) \<Rightarrow> gen_env \<Rightarrow> (go_error + gen_response) option \<Rightarrow> (go_error + 'r) option" where
  "with_response reader env sent = map_option (\<lambda>r. and_then r (reader env)) sent"

definition DeleteAuditEventsWithResponse ::
  "gen_env \<Rightarrow> gen_client \<Rightarrow> delete_audit_events_params option \<Rightarrow> request_editor list \<Rightarrow> (go_error + json_response) option" where
  "DeleteAuditEventsWithResponse env c params reqEditors =
     with_response ParseDeleteAuditEventsResponse env (Client_DeleteAuditEvents env c params reqEditors)"

definition SaveAuditEventWithBodyWithResponse ::
  "gen_env \<Rightarrow> gen_client \<Rightarrow> save_audit_event_params option \<Rightarrow> string \<Rightarrow> string \<Rightarrow> request_editor list \<Rightarrow> (go_error + json_response) option" where
  "SaveAuditEventWithBodyWithResponse env c params contentType body reqEditors =
     with_response ParseSaveAuditEventResponse env (Client_SaveAuditEventWithBody env c params contentType body reqEditors)"

definition SaveAuditEventWithResponse ::
  "gen_env \<Rightarrow> gen_client \<Rightarrow> save_audit_event_params option \<Rightarrow> audit_item list \<Rightarrow> request_editor list \<Rightarrow> (go_error + json_response) option" where
  "SaveAuditEventWithResponse env c params body reqEditors =
     with_response ParseSaveAuditEventResponse env (Client_SaveAuditEvent env c params body reqEditors)"

definition GetAuditEventListWithBodyWithResponse ::
  "gen_env \<Rightarrow> gen_client \<Rightarrow> string \<Rightarrow> string \<Rightarrow> request_editor list \<Rightarrow> (go_error + json_response) option" where
  "GetAuditEventListWithBodyWithResponse env c contentType body reqEditors =
     with_response ParseGetAuditEventListResponse env (Client_GetAuditEventListWithBody env c contentType body reqEditors)"

definition GetAuditEventListWithResponse ::
  "gen_env \<Rightarrow> gen_client \<Rightarrow> get_audit_event_list_request \<Rightarrow> request_editor list \<Rightarrow> (go_error + json_response) option" where
  "GetAuditEventListWithResponse env c body reqEditors =
     with_response ParseGetAuditEventListResponse env (Client_GetAuditEventList env c body reqEditors)"

definition PostApi10ListExportWithBodyWithResponse ::
  "gen_env \<Rightarrow> gen_client \<Rightarrow> string \<Rightarrow> string \<Rightarrow> request_editor list \<Rightarrow> (go_error + plain_response) option" where
  "PostApi10ListExportWithBodyWithResponse env c contentType body reqEditors =
     with_response ParsePostApi10ListExportResponse env (Client_PostApi10ListExportWithBody env c contentType body reqEditors)"

definition PostApi10ListExportWithResponse ::
  "gen_env \<Rightarrow> gen_client \<Rightarrow> get_audit_items_export_request \<Rightarrow> request_editor list \<Rightarrow> (go_error + plain_response) option" where
  "PostApi10ListExportWithResponse env c body reqEditors =
     with_response ParsePostApi10ListExportResponse env (Client_PostApi10ListExport env c body reqEditors)"

definition GetAuditItemWithResponse ::
  "gen_env \<Rightarrow> gen_client \<Rightarrow> 32 word \<Rightarrow> request_editor list \<Rightarrow> (go_error + json_response) option" where
  "GetAuditItemWithResponse env c i reqEditors =
     with_response ParseGetAuditItemResponse env (Client_GetAuditItem env c i reqEditors)"

definition GetPersonAuditEventListWithBodyWithResponse ::
  "gen_env \<Rightarrow> gen_client \<Rightarrow> string \<Rightarrow> string \<Rightarrow> request_editor list \<Rightarrow> (go_error + json_response) option" where
  "GetPersonAuditEventListWithBodyWithResponse env c contentType body reqEditors =
     with_response ParseGetPersonAuditEventListResponse env (Client_GetPersonAuditEventListWithBody env c contentType body reqEditors)"

definition GetPersonAuditEventListWithResponse ::
  "gen_env \<Rightarrow> gen_client \<Rightarrow> get_person_audit_event_list_request \<Rightarrow> request_editor list \<Rightarrow> (go_error + json_response) option" where
  "GetPersonAuditEventListWithResponse env c body reqEditors =
     with_response ParseGetPersonAuditEventListResponse env (Client_GetPersonAuditEventList env c body reqEditors)"

definition PostApi10PersonListExportWithBodyWithResponse ::
  "gen_env \<Rightarrow> gen_client \<Rightarrow> string \<Rightarrow> string \<Rightarrow> request_editor list \<Rightarrow> (go_error + plain_response) option" where
  "PostApi10PersonListExportWithBodyWithResponse env c contentType body reqEditors =
     with_response ParsePostApi10PersonListExportResponse env (Client_PostApi10PersonListExportWithBody env c contentType body reqEditors)"

definition PostApi10PersonListExportWithResponse ::
  "gen_env \<Rightarrow> gen_client \<Rightarrow> get_person_audit_items_export_request \<Rightarrow> request_editor list \<Rightarrow> (go_error + plain_response) option" where
  "PostApi10PersonListExportWithResponse env c body reqEditors =
     with_response ParsePostApi10PersonListExportResponse env (Client_PostApi10PersonListExport env c body reqEditors)"

definition GetPersonAuditItemWithResponse ::
  "gen_env \<Rightarrow> gen_client \<Rightarrow> 32 word \<Rightarrow> request_editor list \<Rightarrow> (go_error + json_response) option" where
  "GetPersonAuditItemWithResponse env c i reqEditors =
     with_response ParseGetPersonAuditItemResponse env (Client_GetPersonAuditItem env c i reqEditors)"

definition GetPersonAuditItemWithBodyWithBodyWithResponse ::
  "gen_env \<Rightarrow> gen_client \<Rightarrow> 32 word \<Rightarrow> string \<Rightarrow> string \<Rightarrow> request_editor list \<Rightarrow> (go_error + json_response) option" where
  "GetPersonAuditItemWithBodyWithBodyWithResponse env c i contentType body reqEditors =
     with_response ParseGetPersonAuditItemWithBodyResponse env (Client_GetPersonAuditItemWithBodyWithBody env c i contentType body reqEditors)"

definition GetPersonAuditItemWithBodyWithResponse ::
  "gen_env \<Rightarrow> gen_client \<Rightarrow> 32 word \<Rightarrow> get_person_audit_item_request \<Rightarrow> request_editor list \<Rightarrow> (go_error + json_response) option" where
  "GetPersonAuditItemWithBodyWithResponse env c i body reqEditors =
     with_response ParseGetPersonAuditItemWithBodyResponse env (Client_GetPersonAuditItemWithBody env c i body reqEditors)"

end
