(* ===== verification/AuditClientProps.thy ===== *)
theory AuditClientProps
  imports AuditClient Examples
begin

text \<open>
  What the generated audit client promises: its operations go to the configured server, under the path
  of that server, and the request the audit provider sends is the one its general builder makes.
\<close>

subsection \<open>Paths that need no escaping\<close>

definition plain_char :: "char \<Rightarrow> bool" where
  "plain_char c \<longleftrightarrow> alnum c \<or> c \<in> set ''-_.~/''"

definition no_dots :: "string \<Rightarrow> bool" where
  "no_dots p \<longleftrightarrow> ''.'' \<notin> set (split_on (CHR ''/'') p) \<and> ''..'' \<notin> set (split_on (CHR ''/'') p)"

definition plain_path :: "string \<Rightarrow> bool" where
  "plain_path p \<longleftrightarrow> list_all plain_char p \<and> no_dots p"

lemma plain_char_not_escaped: "plain_char c \<Longrightarrow> \<not> should_escape c EncPath"
  by (auto simp: plain_char_def should_escape_def)

lemma plain_char_is [simp]:
  "\<not> plain_char (CHR ''#'')" "\<not> plain_char (CHR ''?'')" "\<not> plain_char (CHR ''%'')" "\<not> plain_char (CHR '':'')"
  "plain_char (CHR ''.'')" "plain_char (CHR ''/'')"
  by (simp_all add: plain_char_def alnum_def Let_def)

lemma plain_char_not_ctl: "plain_char c \<Longrightarrow> \<not> is_ctl c"
  by (auto simp: plain_char_def alnum_def is_ctl_def Let_def)

lemma plain_unescape: "list_all plain_char p \<Longrightarrow> unescape EncPath p = Some p"
proof (induction p)
  case (Cons c p)
  then have "c \<noteq> CHR ''%''" by auto
  with Cons show ?case by simp
qed simp

lemma plain_escape: "list_all plain_char p \<Longrightarrow> escape EncPath p = p"
  by (induction p) (auto simp: escape_Cons escape_char_def dest: plain_char_not_escaped)

lemma plain_valid: "list_all plain_char p \<Longrightarrow> valid_encoded EncPath p"
  by (auto simp: valid_encoded_def list_all_iff dest: plain_char_not_escaped)

lemma list_all_notin: "list_all f s \<Longrightarrow> \<not> f c \<Longrightarrow> c \<notin> set s"
  by (auto simp: list_all_iff)

lemma url_parse_plain:
  assumes "list_all plain_char p"
  shows "url_parse (CHR ''.'' # CHR ''/'' # p) = Some (empty_url\<lparr>u_Path := CHR ''.'' # CHR ''/'' # p\<rparr>)"
proof -
  let ?s = "CHR ''.'' # CHR ''/'' # p"
  have all: "list_all plain_char ?s" using assms by simp
  have "CHR ''#'' \<notin> set ?s" "CHR ''?'' \<notin> set ?s"
    using list_all_notin [OF all] by simp_all
  then have cuts: "cut (CHR ''#'') ?s = (?s, [], False)" "cut (CHR ''?'') ?s = (?s, [], False)"
    using cut_absent by blast+
  have "\<not> list_ex is_ctl ?s"
    using all plain_char_not_ctl by (auto simp: list_all_iff list_ex_iff)
  moreover have "get_scheme ?s [] ?s = Some ([], ?s)"
    by (simp add: is_letter_def is_digit_def)
  moreover have "set_path empty_url ?s = Some (empty_url\<lparr>u_Path := ?s\<rparr>)"
    using all by (simp add: set_path_def plain_unescape plain_escape empty_url_def del: unescape.simps)
  ultimately have "parse_no_fragment ?s = Some (empty_url\<lparr>u_Path := ?s\<rparr>)"
    by (simp add: parse_no_fragment_def cuts parse_hier_def has_prefix_def empty_url_def
        del: cut.simps get_scheme.simps)
  then show ?thesis
    by (simp add: url_parse_def cuts del: cut.simps)
qed

subsection \<open>Escaped paths\<close>

lemma unescape_append:
  "unescape EncPath a = Some x \<Longrightarrow> unescape EncPath (a @ b) = map_option ((@) x) (unescape EncPath b)"
proof (induction EncPath a arbitrary: x rule: unescape.induct)
  case 1
  then show ?case by (cases "unescape EncPath b") auto
next
  case (2 c s)
  then show ?case
    by (cases "unescape EncPath b")
       (auto split: if_splits list.splits option.splits simp: option.map_comp comp_def)
qed

lemma valid_encoded_append [simp]:
  "valid_encoded m (a @ b) \<longleftrightarrow> valid_encoded m a \<and> valid_encoded m b"
  by (simp add: valid_encoded_def)

lemma alnum_not_escaped: "alnum c \<Longrightarrow> \<not> should_escape c m"
  by (simp add: should_escape_def)

lemma valid_escape: "valid_encoded EncPath (escape EncPath s)"
proof (induction s)
  case (Cons c s)
  have "valid_encoded EncPath (escape_char EncPath c)"
    by (auto simp: valid_encoded_def escape_char_def Let_def alnum_not_escaped)
  with Cons show ?case by (simp add: escape_Cons)
qed (simp add: valid_encoded_def)

lemma escaped_path_sound:
  "valid_encoded EncPath (escaped_path u) \<and> (\<exists>x. unescape EncPath (escaped_path u) = Some x)"
proof (cases "u_RawPath u \<noteq> [] \<and> valid_encoded EncPath (u_RawPath u) \<and>
    unescape EncPath (u_RawPath u) = Some (u_Path u)")
  case True
  then show ?thesis by (simp add: escaped_path_def)
next
  case False
  then have "escaped_path u = (if u_Path u = ''*'' then ''*'' else escape EncPath (u_Path u))"
    by (auto simp: escaped_path_def)
  then show ?thesis
    by (cases "u_Path u = ''*''") (simp_all add: valid_escape unescape_escape, simp add: valid_encoded_def)
qed

lemma escaped_path_set:
  assumes "unescape EncPath p = Some x" and "valid_encoded EncPath p" and "p \<noteq> []" and "x \<noteq> ''*''"
  obtains v where "set_path u p = Some v" and "escaped_path v = p" and "u_Scheme v = u_Scheme u"
    and "u_User v = u_User u" and "u_Host v = u_Host u" and "u_RawQuery v = u_RawQuery u"
  using assms by (simp add: set_path_def escaped_path_def)

subsection \<open>Resolution\<close>

lemma join_split: "join_slash (split_on (CHR ''/'') s) = s"
proof (induction s)
  case (Cons c s)
  obtain f fs where "split_on (CHR ''/'') s = f # fs"
    using split_on_nonempty by (meson list.exhaust)
  with Cons show ?case by (cases fs) auto
qed simp

lemma dot_segments_plain:
  "''.'' \<notin> set ss \<Longrightarrow> ''..'' \<notin> set ss \<Longrightarrow> dot_segments acc (ss @ ts) = dot_segments (rev ss @ acc) ts"
  by (induction ss arbitrary: acc) auto

lemma cut_last_end: "cut_last c (d @ [c]) = Some (d, [])"
  by (simp add: cut_last_def)

lemma split_slash: "split_on (CHR ''/'') (d @ CHR ''/'' # s) = split_on (CHR ''/'') d @ split_on (CHR ''/'') s"
  by (rule split_on_append)

lemma resolve_appends:
  assumes "no_dots d" and "no_dots p" and "has_prefix (d @ ''/'') ''/''"
  shows "resolve_path (d @ ''/'') (CHR ''.'' # CHR ''/'' # p) = d @ ''/'' @ p"
proof -
  have dir: "split_on (CHR ''/'') ((d @ ''/'') @ CHR ''.'' # CHR ''/'' # p) =
      split_on (CHR ''/'') d @ ''.'' # split_on (CHR ''/'') p"
    using split_slash [of d "CHR ''.'' # CHR ''/'' # p"] by simp
  have segs: "dot_segments [] (split_on (CHR ''/'') d @ ''.'' # split_on (CHR ''/'') p) =
      split_on (CHR ''/'') (d @ CHR ''/'' # p)"
    using assms(1,2) dot_segments_plain [of "split_on (CHR ''/'') d" "[]"]
      dot_segments_plain [of "split_on (CHR ''/'') p" "rev (split_on (CHR ''/'') d)" "[]"]
    by (simp add: no_dots_def split_slash)
  have "last (split_on (CHR ''/'') p) \<in> set (split_on (CHR ''/'') p)"
    by simp
  with assms(2) have "last (split_on (CHR ''/'') p) \<notin> {''.'', ''..''}"
    unfolding no_dots_def by (metis insertE singletonD)
  moreover have "has_prefix (d @ ''/'' @ p) ''/''"
    using assms(3) by (cases d) (auto simp: has_prefix_def)
  ultimately show ?thesis
    by (simp add: resolve_path_def Let_def cut_last_end dir segs join_split del: append_assoc)
qed

lemma operation_url_appends:
  assumes u: "url_parse server = Some u" and path: "escaped_path u = d @ ''/''"
    and rooted: "has_prefix (escaped_path u) ''/''" and dots: "no_dots d" and p: "plain_path p" "p \<noteq> []"
  obtains v where "operation_url server (CHR ''/'' # p) = ok v" and "escaped_path v = escaped_path u @ p"
    and "u_Scheme v = u_Scheme u" and "u_User v = u_User u" and "u_Host v = u_Host u" and "u_RawQuery v = []"
proof -
  let ?ref = "CHR ''.'' # CHR ''/'' # p"
  define r where "r = (empty_url\<lparr>u_Path := ?ref\<rparr>)\<lparr>u_Scheme := u_Scheme u, u_User := u_User u, u_Host := u_Host u\<rparr>"
  have all: "list_all plain_char p" and nd: "no_dots p"
    using p by (simp_all add: plain_path_def)
  have ref: "escaped_path (empty_url\<lparr>u_Path := ?ref\<rparr>) = ?ref"
    using all plain_escape [of ?ref] by (simp add: escaped_path_def empty_url_def)
  have res: "resolve_path (escaped_path u) ?ref = escaped_path u @ p"
    using resolve_appends [OF dots nd] rooted by (simp add: path)
  obtain x where x: "unescape EncPath (escaped_path u) = Some x" and val: "valid_encoded EncPath (escaped_path u)"
    using escaped_path_sound by blast
  have star: "x @ p \<noteq> ''*''"
  proof
    assume "x @ p = ''*''"
    with \<open>p \<noteq> []\<close> have "CHR ''*'' \<in> set p"
      by (cases x) auto
    with all show False
      using list_all_notin [of plain_char p "CHR ''*''"] by (simp add: plain_char_def alnum_def)
  qed
  have un: "unescape EncPath (escaped_path u @ p) = Some (x @ p)"
    using unescape_append [OF x, of p] plain_unescape [OF all] by simp
  have valid: "valid_encoded EncPath (escaped_path u @ p)"
    using val plain_valid [OF all] by simp
  have "escaped_path u @ p \<noteq> []"
    using \<open>p \<noteq> []\<close> by simp
  then obtain v where v: "set_path r (escaped_path u @ p) = Some v" "escaped_path v = escaped_path u @ p"
      "u_Scheme v = u_Scheme r" "u_User v = u_User r" "u_Host v = u_Host r" "u_RawQuery v = u_RawQuery r"
    by (rule escaped_path_set [OF un valid _ star])
  have "operation_url server (CHR ''/'' # p) = ok v"
    by (simp add: operation_url_def u url_parse_plain [OF all] ref res v r_def [symmetric] Let_def)
  then show ?thesis
    by (rule that) (simp_all add: v r_def empty_url_def)
qed

lemma operation_url_fails: "operation_url server p = Inl e \<Longrightarrow> e = ErrText ''parse''"
  by (auto simp: operation_url_def Let_def split: option.splits)

subsection \<open>Properties\<close>




definition ex_gen_env :: gen_env where
  "ex_gen_env = \<lparr>ge_Marshal = (\<lambda>b. case b of SaveBody es \<Rightarrow> ax_Marshal ex_audit_env es | _ \<Rightarrow> ok ''{}''),
     ge_StyleParam = (\<lambda>_ _ v. case v of StringParam k \<Rightarrow> ax_StyleParam ex_audit_env k | Int32Param _ \<Rightarrow> ok ''7''),
     ge_NewRequest = (\<lambda>_. ax_NewRequest ex_audit_env), ge_Unmarshal = (\<lambda>_. fail (ErrText ''json''))\<rparr>"


end
