(* ===== verification/Spec2Isabelle.thy ===== *)
theory Spec2Isabelle
  imports TokenProps SessionProps StoreProps ServiceProps RedirectProps PanicProps EndToEnd AppLife AuditClientProps
begin

text \<open>
  A verification development for lx-idauth, an identity and session server in Go. The server stands
  between web applications (its OAuth 2 clients) and the identity providers of the users: it sends a
  browser to a provider, turns the provider's answer into a session with a role, hands the
  application a one-time code, redeems the code for an access token, and answers questions about the
  session for whoever holds that token. Paths below are relative to \<open>src/\<close>.

  \<^bold>\<open>How the parts interact.\<close> \<open>authorize\<close> (\<open>routes.go\<close>) checks the client and the redirect URI against
  the client store (\<open>core/client_composite.go\<close>), stores a correlation (\<open>app/correlation.go\<close>) and
  starts the provider (\<open>oidc.go\<close>, \<open>vpm.go\<close>). \<open>callback\<close> finds the correlation again by its cookie,
  lets the provider verify the answer, maps the claims (\<open>claim_mapper.go\<close>), asks the authorizer
  (\<open>core/authorizer.go\<close>) for the user's roles, creates a session (\<open>session.go\<close>), and redirects to the
  application with a one-time token (\<open>app/oot.go\<close>), or with an error. \<open>token\<close> authenticates the
  client (\<open>core/token_validator.go\<close>) or redeems the code. The session endpoints run behind the
  middlewares of \<open>idauth.go\<close>. Every change of a session is reported to the audit service
  (\<open>core/audit.go\<close>). \<open>app/app.go\<close> builds the service from the configuration.

  \<^bold>\<open>State and effects.\<close> The state of the server is the record \<open>world\<close> of theory Context: the caches of
  sessions, correlations and codes, the clients in force, the clock, the supply of identifiers, the
  state of the database, the events sent to the audit service, and the response written so far as a
  trace of framework calls. A handler is a \<open>State_Monad\<close> program over it. An error of Go is a left
  value of a sum; a nil pointer is None; a nil dereference ends the handler with the trace entry
  \<open>Panic\<close>. The record \<open>idauth\<close> of theory IDAuth is the service object; it carries the configuration
  and the parameters.

  \<^bold>\<open>Theories, in the order of imports.\<close>

  \<^item> Prelude: the named collections \<open>triples\<close> (rules of a small calculus of triples, \<open>valid\<close>, \<open>keeps\<close>,
    \<open>same\<close>, one rule per way of building a program) and \<open>frames\<close> (what an operation leaves unchanged).
  \<^item> GoStrings, GoEncoding, GoUrl, GoUrlParse: what the program uses of Go's library: \<open>strings\<close>,
    \<open>encoding/base64\<close>, \<open>encoding/hex\<close>, \<open>crypto/sha512\<close>, and of \<open>net/url\<close> the escaping, \<open>Values\<close>,
    \<open>ParseQuery\<close>, \<open>Encode\<close>, \<open>Parse\<close>, \<open>String\<close> and \<open>JoinPath\<close>. Their lemmas: decoding inverts base64 and
    query encoding, a hashed secret has 128 hexadecimal digits, and replacing the query of a parsed
    URL keeps everything in front of it.
  \<^item> Errors (\<open>core/auth/error.go\<close>), Types (\<open>core/session.go\<close>, \<open>core/correlation.go\<close>, \<open>core/client.go\<close>,
    \<open>core/auth.go\<close>, \<open>core/util/util.go\<close>): the codes and the data, field by field, and the methods of
    \<open>Session\<close>.
  \<^item> Context: request, response trace, world, and the primitives on them.
  \<^item> ClientStore (\<open>core/client_composite.go\<close>): loading and merging of clients, \<open>GetClient\<close>,
    \<open>ValidateCredentials\<close>; the locale \<open>client_store\<close> states what a decision on credentials promises.
  \<^item> TokenValidator (\<open>core/token_validator.go\<close>): the Authorization header and the validators for Basic,
    PFAS, IAM and no credentials.
  \<^item> Correlation (\<open>app/correlation.go\<close>), OneTimeToken (\<open>app/oot.go\<close>), SessionStores (\<open>session.go\<close>): the
    stores. The locales \<open>one_time_store\<close> and \<open>session_store_laws\<close> are the contracts their clients rely
    on, interpreted on the cache implementations.
  \<^item> AuthorizerImpl (\<open>core/authorizer.go\<close>), AuditProvider (\<open>core/audit.go\<close> and the one request of
    \<open>audit/audit.gen.go\<close> it makes), AuditClient (the rest of that generated client: options, request
    builders, operations, readers of the responses), ClaimMapper (\<open>claim_mapper.go\<close>), Providers (\<open>oidc.go\<close>, \<open>vpm.go\<close>,
    \<open>providers.go\<close>, \<open>core/auth_file.go\<close>, \<open>Init\<close> of \<open>idauth.go\<close>); the locale \<open>registry\<close> is the table of
    named providers.
  \<^item> IDAuth (\<open>idauth.go\<close> and helpers shared by its handlers), TokenEndpoint, Login, SessionApi
    (\<open>routes.go\<close>, \<open>user_sessions.go\<close>, \<open>webhooks.go\<close>, \<open>metadata.go\<close>, \<open>app/healthz.go\<close>): all handlers.
  \<^item> Middleware: the middlewares, the route table, and \<open>serve\<close>, which runs one request through them.
  \<^item> ServerInvariants: the locale \<open>server_invariant\<close>. From what the few primitives that write the world
    must keep, it derives that serving any request on any route keeps the invariant.
  \<^item> Flow: the transition system \<open>server_step\<close> (a request is served, a cache entry expires, the
    clean-up job runs), interpretations of \<open>server_invariant\<close> on both session stores, and
    \<open>redeem_step\<close>, the interleaving of the cache calls of two redemptions.
  \<^item> AppConfig (\<open>app/config.go\<close>, \<open>app/app.go\<close>, \<open>app/routes.go\<close>, \<open>cmd/server/web.go\<close>): the configuration and
    the construction of the service. AppLife (\<open>app/app.go\<close>, \<open>cmd/server/health.go\<close>): starting and stopping,
    the scheduled clean-up, the command \<open>health\<close>.
  \<^item> Examples: a concrete deployment on which the witnesses evaluate.
  \<^item> TokenProps, LoginProps, SessionProps, StoreProps, ServiceProps, RedirectProps, PanicProps, EndToEnd,
    AuditClientProps: the properties. PanicProps has the invariant that no trace entry is a panic,
    EndToEnd follows one login from \<open>/authorize\<close> to the access token.

  \<^bold>\<open>What the properties show.\<close> Codes: a code is good for one access token only, in every state the
  server can reach, and it gives the token of the session it was made for. Clients: a client
  token needs the identifier and a secret of a registered client; the IAM and PFAS validators check
  signature or introspection and the times. Login: when every service answers, the
  flow from \<open>/authorize\<close> over the callback to the token endpoint ends with a token that names a stored
  session of the user; a session is stored only for a user whom the
  provider accepted and the authorizer answered for; its state and role are the stated function of
  the user's data; an abandoned flow leaves nothing to the next. Session API: without a live
  session there is only status 401; a deleted session stays deleted; a role is chosen only when it is
  the user's and not blocked, and no reachable session acts in a blocked role, and every
  stored session is in one of the three states of a live session. Stores: the cache
  session store is a map, as a simulation over sequences of calls, and the Postgres store cannot be told
  from it, given procedures that store, find and remove; no request panics but for the two named
  dereferences; credential checking agrees with a
  declarative predicate; a reload keeps the first client of every identifier or changes nothing.
  Service: registered providers, error translation, audit events and where the audit client sends
  them, construction from a valid configuration. Some properties state what the code does where that is not what it is meant
  to do: a disabled grant still issues a token; the terms give a blocked user an authorized session;
  a prefix of a registered redirect URI is accepted; an overlapping redemption succeeds twice; the
  sign-out URL of another user is used; a failed login sends a code; deleting one's own session
  dereferences nil. Further facts of this kind are plain lemmas: a failed role change dereferences nil,
  a failed reload answers 200, some configuration defaults are read by no field, the command \<open>health\<close> ends in a nil
  dereference on a bad configuration.

  \<^bold>\<open>Bounds.\<close> No definition uses fuel: loops are folds or structural recursion, and functions with other
  recursion have termination proofs. \<open>GetSecondsToLive\<close> goes through a 64-bit float in Go; the model
  computes with whole nanoseconds, which agrees for durations below 48 days (2 to the 22nd seconds).
  The difference of two times saturates and its subtraction from the timeout wraps at 64 bits, as in Go.
  The transaction identifier of an audit event is cut at 50 characters, as in the code. Parameters of
  the audit client are 32-bit words; other lengths and times are unbounded integers, on which the code
  does no arithmetic that could wrap.
  Case mapping and white space are the ASCII part of Go's.

  \<^bold>\<open>Parameters.\<close> What is not in the repository is a field of an environment record: HTTP exchanges, JSON,
  YAML and Jsonnet, the OIDC, OAuth 2, JWT and WS-Federation libraries, the stored procedures of the
  database, the struct validator, cron, telemetry, the construction of caches. Nothing is assumed of
  them except where a property states it as a premise.

  \<^bold>\<open>Not modelled.\<close> The command line \<open>cmd/server/main.go\<close> (declarations for a flag parser); the setters
  \<open>With...\<close> of \<open>idauth.go\<close>, which fill the fields of the service object that \<open>assemble\<close> builds at once; the
  pointer helpers for int and bool of \<open>core/util/util.go\<close>, which the modelled code does not use; logging
  and tracing. How the framework merges the calls of a handler into one response is left open: the trace
  keeps them all, in order. The time to live of a cache entry is a step of the environment that may
  drop any entry at any time. Requests are atomic except in \<open>redeem_step\<close> and in the property about two
  callbacks, where the interleaving is explicit.
\<close>

end
